(* ===== verification/Prelude.thy ===== *)
theory Prelude
  imports Main
begin

text \<open>
  Shared vocabulary of the development: the results of Go calls (a value, an
  \<open>error\<close>, a panic), effectful calls as functions of the world they act on, the
  combinators that transcribe \<open>if err != nil { return err }\<close>, the invariant
  calculus \<open>keeps\<close> used for every "whatever the API server answers" statement,
  and list and map lemmas that several components share.
\<close>

section \<open>Collections of rules\<close>

named_theorems act_simps \<open>unfolding the call combinators\<close>
named_theorems keeps_intros \<open>introduction rules for preserved invariants\<close>

section \<open>Errors and results\<close>

text \<open>
  A Go \<open>error\<close> made by library code is opaque: a tag that classification functions
  (parameters of the model) may inspect, and its text. The code itself makes errors with
  \<open>fmt.Errorf\<close>, plain or wrapping another error with \<open>%w\<close> after a colon.
\<close>

datatype go_error =
    LibError nat string
  | Errorf string
  | WrapError string go_error

fun Error :: "go_error \<Rightarrow> string" where
  "Error (LibError _ txt) = txt"
| "Error (Errorf msg) = msg"
| "Error (WrapError msg e) = msg @ '': '' @ Error e"

text \<open>
  The outcome of a Go call of type \<open>(T, error)\<close>: a value and a nil error, a non-nil
  error, or a panic that unwinds the stack.
\<close>

datatype 'a res = Ok 'a | Err go_error | Panic string

fun map_res :: "('a \<Rightarrow> 'b) \<Rightarrow> 'a res \<Rightarrow> 'b res" where
  "map_res f (Ok a) = Ok (f a)"
| "map_res f (Err e) = Err e"
| "map_res f (Panic p) = Panic p"

text \<open>A bare \<open>error\<close> result as an outcome: nil is success.\<close>

fun of_error :: "go_error option \<Rightarrow> unit res" where
  "of_error None = Ok ()"
| "of_error (Some e) = Err e"

lemma map_res_eq_Ok_iff [simp]: "map_res f r = Ok b \<longleftrightarrow> (\<exists>a. r = Ok a \<and> b = f a)"
  by (cases r) auto

lemma of_error_eq_Ok_iff [simp]: "of_error e = Ok u \<longleftrightarrow> e = None"
  by (cases e) auto

section \<open>Effectful calls\<close>

text \<open>
  A call reads and changes the world \<open>'w\<close> (cluster, clock, entropy, network), a type the
  model leaves open.
\<close>

type_synonym ('w, 'a) act = "'w \<Rightarrow> 'a res \<times> 'w"

definition ret :: "'a \<Rightarrow> ('w, 'a) act" where
  "ret a = (\<lambda>w. (Ok a, w))"

definition raise :: "go_error \<Rightarrow> ('w, 'a) act" where
  "raise e = (\<lambda>w. (Err e, w))"

definition panic :: "string \<Rightarrow> ('w, 'a) act" where
  "panic p = (\<lambda>w. (Panic p, w))"

definition lift_res :: "'a res \<Rightarrow> ('w, 'a) act" where
  "lift_res r = (\<lambda>w. (r, w))"

text \<open>\<open>x, err := m(); if err != nil { h(err) } else { k(x) }\<close>; a panic unwinds.\<close>

definition on_result ::
  "('w, 'a) act \<Rightarrow> ('a \<Rightarrow> ('w, 'b) act) \<Rightarrow> (go_error \<Rightarrow> ('w, 'b) act) \<Rightarrow> ('w, 'b) act" where
  "on_result m k h = (\<lambda>w. case m w of
      (Ok a, w') \<Rightarrow> k a w'
    | (Err e, w') \<Rightarrow> h e w'
    | (Panic p, w') \<Rightarrow> (Panic p, w'))"

text \<open>\<open>if err := m(); err != nil { return err }; k()\<close>.\<close>

definition and_then :: "('w, 'a) act \<Rightarrow> ('a \<Rightarrow> ('w, 'b) act) \<Rightarrow> ('w, 'b) act" where
  "and_then m k = on_result m k raise"

text \<open>\<open>if err := m(); err != nil { return fmt.Errorf("msg: %w", err) }\<close>.\<close>

definition wrap_error :: "string \<Rightarrow> ('w, 'a) act \<Rightarrow> ('w, 'a) act" where
  "wrap_error msg m = on_result m ret (\<lambda>e. raise (WrapError msg e))"

lemmas act_defs = ret_def raise_def panic_def lift_res_def on_result_def and_then_def
  wrap_error_def

lemma ret_apply [simp]: "ret a w = (Ok a, w)"
  by (simp add: ret_def)

lemma raise_apply [simp]: "raise e w = (Err e, w)"
  by (simp add: raise_def)

lemma panic_apply [simp]: "panic p w = (Panic p, w)"
  by (simp add: panic_def)

lemma lift_res_apply [simp]: "lift_res r w = (r, w)"
  by (simp add: lift_res_def)

lemma lift_res_inject [simp]: "lift_res r = lift_res r' \<longleftrightarrow> r = r'"
  by (simp add: lift_res_def fun_eq_iff)

lemma on_result_Ok [act_simps]: "m w = (Ok a, w') \<Longrightarrow> on_result m k h w = k a w'"
  by (simp add: on_result_def)

lemma on_result_Err [act_simps]: "m w = (Err e, w') \<Longrightarrow> on_result m k h w = h e w'"
  by (simp add: on_result_def)

lemma on_result_Panic [act_simps]: "m w = (Panic p, w') \<Longrightarrow> on_result m k h w = (Panic p, w')"
  by (simp add: on_result_def)

lemma and_then_Ok [act_simps]: "m w = (Ok a, w') \<Longrightarrow> and_then m k w = k a w'"
  by (simp add: and_then_def act_simps)

lemma and_then_Err [act_simps]: "m w = (Err e, w') \<Longrightarrow> and_then m k w = (Err e, w')"
  by (simp add: and_then_def act_simps)

lemma and_then_Panic [act_simps]: "m w = (Panic p, w') \<Longrightarrow> and_then m k w = (Panic p, w')"
  by (simp add: and_then_def act_simps)

lemma and_then_lift_Ok [simp]: "and_then (lift_res (Ok a)) k = k a"
  by (rule ext) (simp add: act_simps)

lemma and_then_lift_Err [simp]: "and_then (lift_res (Err e)) k = raise e"
  by (rule ext) (simp add: act_simps)

lemma and_then_eq_Ok_iff:
  "and_then m k w = (Ok b, w'') \<longleftrightarrow> (\<exists>a w'. m w = (Ok a, w') \<and> k a w' = (Ok b, w''))"
  by (auto simp: and_then_def on_result_def raise_def split: prod.splits res.splits)

lemma and_then_eq_Err_iff:
  "and_then m k w = (Err e, w'') \<longleftrightarrow>
     m w = (Err e, w'') \<or> (\<exists>a w'. m w = (Ok a, w') \<and> k a w' = (Err e, w''))"
  by (auto simp: and_then_def on_result_def raise_def split: prod.splits res.splits)

lemma and_then_assoc: "and_then (and_then m k) l = and_then m (\<lambda>a. and_then (k a) l)"
  by (rule ext) (auto simp: and_then_def on_result_def raise_def split: prod.splits res.splits)

lemma and_then_ret [simp]: "and_then (ret a) k = k a"
  by (rule ext) (simp add: act_simps)

lemma on_result_cong:
  "m w = m' w \<Longrightarrow> on_result m k h w = on_result m' k h w"
  by (simp add: on_result_def)

lemma wrap_error_Ok [act_simps]: "m w = (Ok a, w') \<Longrightarrow> wrap_error msg m w = (Ok a, w')"
  by (simp add: wrap_error_def act_simps)

lemma wrap_error_Err [act_simps]:
  "m w = (Err e, w') \<Longrightarrow> wrap_error msg m w = (Err (WrapError msg e), w')"
  by (simp add: wrap_error_def act_simps)

lemma wrap_error_eq_Ok_iff: "wrap_error msg m w = (Ok a, w') \<longleftrightarrow> m w = (Ok a, w')"
  by (auto simp: wrap_error_def on_result_def ret_def raise_def split: prod.splits res.splits)

lemma wrap_error_eq_Err_iff:
  "wrap_error msg m w = (Err e, w') \<longleftrightarrow> (\<exists>e'. m w = (Err e', w') \<and> e = WrapError msg e')"
  by (auto simp: wrap_error_def on_result_def ret_def raise_def split: prod.splits res.splits)

section \<open>Invariants a call keeps\<close>

text \<open>
  \<open>keeps I m\<close>: whatever \<open>m\<close> answers, it leads from worlds with \<open>I\<close> to worlds with
  \<open>I\<close>. Every statement of the form "for any behaviour of the API server, the operator does
  nothing but ..." is a \<open>keeps\<close> statement with hypotheses about single API calls.
\<close>

definition keeps :: "('w \<Rightarrow> bool) \<Rightarrow> ('w \<Rightarrow> 'a \<times> 'w) \<Rightarrow> bool" where
  "keeps I m \<longleftrightarrow> (\<forall>w. I w \<longrightarrow> I (snd (m w)))"

lemma keepsI: "(\<And>w. I w \<Longrightarrow> I (snd (m w))) \<Longrightarrow> keeps I m"
  by (simp add: keeps_def)

lemma keepsD: "keeps I m \<Longrightarrow> I w \<Longrightarrow> I (snd (m w))"
  by (simp add: keeps_def)

lemma keeps_ret [keeps_intros, simp]: "keeps I (ret a)"
  by (simp add: keeps_def)

lemma keeps_raise [keeps_intros, simp]: "keeps I (raise e)"
  by (simp add: keeps_def)

lemma keeps_panic [keeps_intros, simp]: "keeps I (panic p)"
  by (simp add: keeps_def)

lemma keeps_lift_res [keeps_intros, simp]: "keeps I (lift_res r)"
  by (simp add: keeps_def)

lemma keeps_on_result [keeps_intros]:
  assumes "keeps I m" and "\<And>a. keeps I (k a)" and "\<And>e. keeps I (h e)"
  shows "keeps I (on_result m k h)"
proof (rule keepsI)
  fix w assume "I w"
  with assms(1) have "I (snd (m w))" by (rule keepsD)
  then show "I (snd (on_result m k h w))"
    using assms(2,3) by (auto simp: keeps_def on_result_def split: prod.splits res.splits)
qed

lemma keeps_and_then [keeps_intros]:
  "keeps I m \<Longrightarrow> (\<And>a. keeps I (k a)) \<Longrightarrow> keeps I (and_then m k)"
  by (simp add: and_then_def keeps_on_result)

lemma keeps_wrap_error [keeps_intros]: "keeps I m \<Longrightarrow> keeps I (wrap_error msg m)"
  by (simp add: wrap_error_def keeps_on_result)

section \<open>Lists\<close>

text \<open>Parts that do not contain the separator are told apart by it.\<close>

lemma append_separator_inject:
  assumes "x \<notin> set as" and "x \<notin> set bs"
  shows "as @ x # as' = bs @ x # bs' \<longleftrightarrow> as = bs \<and> as' = bs'"
proof
  assume eq: "as @ x # as' = bs @ x # bs'"
  have "takeWhile (\<lambda>y. y \<noteq> x) (zs @ x # zs') = zs" if "x \<notin> set zs" for zs zs'
    using that by (induction zs) auto
  with assms eq have "as = bs" by metis
  with eq show "as = bs \<and> as' = bs'" by simp
qed simp

section \<open>Text of several lines\<close>

definition lines :: "string list \<Rightarrow> string" where
  "lines ls = concat (map (\<lambda>l. l @ ''\<newline>'') ls)"

lemma lines_Nil [simp]: "lines [] = []"
  by (simp add: lines_def)

lemma lines_Cons [simp]: "lines (l # ls) = l @ CHR 0x0A # lines ls"
  by (simp add: lines_def)

lemma lines_append [simp]: "lines (ls @ ms) = lines ls @ lines ms"
  by (simp add: lines_def)

abbreviation backslash :: string where
  "backslash \<equiv> [CHR 0x5C]"

abbreviation tab :: string where
  "tab \<equiv> [CHR 0x09]"

end
