(* ===== verification/GoStd.thy ===== *)
theory GoStd
  imports Prelude "HOL-Library.Word" "HOL-Library.Sublist"
begin

text \<open>
  The part of Go's standard library the operator computes with: \<open>strconv.FormatBool\<close>,
  decimal rendering (\<open>%d\<close>), \<open>fmt\<close>'s rendering of a string slice (\<open>%v\<close>),
  \<open>strings.Contains\<close>, \<open>hex.EncodeToString\<close> and \<open>base64.StdEncoding.EncodeToString\<close>.
  A Go \<open>string\<close> or \<open>[]byte\<close> read as text is a HOL \<open>string\<close>, one \<open>char\<close> per byte.
\<close>

type_synonym byte = "8 word"
type_synonym int32 = "32 word"
type_synonym int64 = "64 word"

lemma byte_lt: "unat (a :: byte) < 256"
  using unsigned_less [of a] by simp

section \<open>Rendering values\<close>

definition FormatBool :: "bool \<Rightarrow> string" where
  "FormatBool b = (if b then ''true'' else ''false'')"

definition digit_char :: "nat \<Rightarrow> char" where
  "digit_char d = char_of (48 + d)"

fun show_nat :: "nat \<Rightarrow> string" where
  "show_nat n = (if n < 10 then [digit_char n] else show_nat (n div 10) @ [digit_char (n mod 10)])"

declare show_nat.simps [simp del]

text \<open>\<open>fmt.Sprintf("%v", xs)\<close> of a \<open>[]string\<close>: the elements between brackets.\<close>

fun join_space :: "string list \<Rightarrow> string" where
  "join_space [] = ''''"
| "join_space [x] = x"
| "join_space (x # xs) = x @ '' '' @ join_space xs"

definition show_strings :: "string list \<Rightarrow> string" where
  "show_strings xs = ''['' @ join_space xs @ '']''"

section \<open>Substrings\<close>

fun Contains :: "string \<Rightarrow> string \<Rightarrow> bool" where
  "Contains [] sub = (sub = [])"
| "Contains (c # s) sub = (prefix sub (c # s) \<or> Contains s sub)"

text \<open>The number of positions at which a non-empty string occurs.\<close>

fun occurs :: "string \<Rightarrow> string \<Rightarrow> nat" where
  "occurs sub [] = 0"
| "occurs sub (c # s) = (if prefix sub (c # s) then 1 else 0) + occurs sub s"

lemma Contains_iff_sublist: "Contains s sub \<longleftrightarrow> sublist sub s"
  by (induction s) (auto simp: sublist_Cons_right)

lemma occurs_eq_0_iff: "sub \<noteq> [] \<Longrightarrow> occurs sub s = 0 \<longleftrightarrow> \<not> Contains s sub"
  by (induction s) auto

lemma prefix_separator:
  assumes "c \<notin> set sub"
  shows "prefix sub (xs @ c # ys) \<longleftrightarrow> prefix sub xs"
proof
  assume "prefix sub (xs @ c # ys)"
  then show "prefix sub xs"
    using assms by (auto simp: prefix_append prefix_Cons)
next
  assume "prefix sub xs"
  then show "prefix sub (xs @ c # ys)" by (rule prefix_prefix)
qed

text \<open>A character that is not in the pattern separates its occurrences.\<close>

lemma occurs_separator:
  assumes "c \<notin> set sub" and "sub \<noteq> []"
  shows "occurs sub (xs @ c # ys) = occurs sub xs + occurs sub ys"
proof (induction xs)
  case Nil
  then show ?case using assms by (cases sub) auto
next
  case (Cons x xs)
  have "prefix sub ((x # xs) @ c # ys) \<longleftrightarrow> prefix sub (x # xs)"
    by (rule prefix_separator [OF assms(1)])
  with Cons show ?case by simp
qed

lemma Contains_separator:
  assumes "c \<notin> set sub" and "sub \<noteq> []"
  shows "Contains (xs @ c # ys) sub \<longleftrightarrow> Contains xs sub \<or> Contains ys sub"
proof -
  have "occurs sub (xs @ c # ys) = 0 \<longleftrightarrow> occurs sub xs = 0 \<and> occurs sub ys = 0"
    by (simp add: occurs_separator [OF assms])
  then show ?thesis
    unfolding occurs_eq_0_iff [OF assms(2)] by blast
qed

section \<open>Hexadecimal\<close>

definition hex_digit :: "nat \<Rightarrow> char" where
  "hex_digit n = ''0123456789abcdef'' ! n"

definition hex_byte :: "byte \<Rightarrow> string" where
  "hex_byte b = [hex_digit (unat b div 16), hex_digit (unat b mod 16)]"

definition hex_EncodeToString :: "byte list \<Rightarrow> string" where
  "hex_EncodeToString bs = concat (map hex_byte bs)"

lemma hex_digit_inject:
  assumes "m < 16" and "n < 16" and "hex_digit m = hex_digit n"
  shows "m = n"
proof -
  have "distinct ''0123456789abcdef''" by simp
  from nth_eq_iff_index_eq [OF this, of m n] assms show ?thesis
    by (simp add: hex_digit_def)
qed

lemma hex_byte_inject: "hex_byte a = hex_byte b \<Longrightarrow> a = b"
proof -
  assume eq: "hex_byte a = hex_byte b"
  have lt: "unat a < 256" "unat b < 256" by (rule byte_lt)+
  have "unat a div 16 = unat b div 16"
    using eq lt by (intro hex_digit_inject) (auto simp: hex_byte_def)
  moreover have "unat a mod 16 = unat b mod 16"
    using eq by (intro hex_digit_inject) (auto simp: hex_byte_def)
  ultimately have "unat a = unat b"
    by (metis div_mult_mod_eq)
  then show "a = b" by (simp add: word_eq_iff_unsigned [where ?'a = nat])
qed

lemma length_hex_EncodeToString [simp]: "length (hex_EncodeToString bs) = 2 * length bs"
  by (induction bs) (auto simp: hex_EncodeToString_def hex_byte_def)

lemma hex_EncodeToString_inject:
  "hex_EncodeToString as = hex_EncodeToString bs \<longleftrightarrow> as = bs"
proof
  show "hex_EncodeToString as = hex_EncodeToString bs \<Longrightarrow> as = bs"
  proof (induction as arbitrary: bs)
    case Nil
    then show ?case by (cases bs) (auto simp: hex_EncodeToString_def hex_byte_def)
  next
    case (Cons a as)
    then obtain b bs' where bs: "bs = b # bs'"
      by (cases bs) (auto simp: hex_EncodeToString_def hex_byte_def)
    with Cons.prems have "hex_byte a = hex_byte b"
      and "hex_EncodeToString as = hex_EncodeToString bs'"
      by (auto simp: hex_EncodeToString_def hex_byte_def)
    with bs Cons.IH show ?case by (auto dest: hex_byte_inject)
  qed
qed simp

section \<open>Base 64\<close>

definition base64_alphabet :: string where
  "base64_alphabet = ''ABCDEFGHIJKLMNOPQRSTUVWXYZabcdefghijklmnopqrstuvwxyz0123456789+/''"

definition base64_char :: "nat \<Rightarrow> char" where
  "base64_char n = base64_alphabet ! n"

text \<open>
  \<open>base64.StdEncoding.EncodeToString\<close>: three bytes make a 24-bit group rendered as four
  sextets, most significant first; a final group of one or two bytes is padded with \<open>=\<close>.
\<close>

definition sextets :: "nat \<Rightarrow> string" where
  "sextets v = [base64_char (v div 2 ^ 18), base64_char (v div 2 ^ 12 mod 64),
                base64_char (v div 2 ^ 6 mod 64), base64_char (v mod 64)]"

fun base64_EncodeToString :: "byte list \<Rightarrow> string" where
  "base64_EncodeToString [] = []"
| "base64_EncodeToString [a] = take 2 (sextets (unat a * 2 ^ 16)) @ ''==''"
| "base64_EncodeToString [a, b] = take 3 (sextets (unat a * 2 ^ 16 + unat b * 2 ^ 8)) @ ''=''"
| "base64_EncodeToString (a # b # c # bs) =
     sextets (unat a * 2 ^ 16 + unat b * 2 ^ 8 + unat c) @ base64_EncodeToString bs"

lemma length_sextets [simp]: "length (sextets v) = 4"
  by (simp add: sextets_def)

lemma length_base64_EncodeToString:
  "length (base64_EncodeToString bs) = 4 * ((length bs + 2) div 3)"
proof (induction bs rule: base64_EncodeToString.induct)
  case (4 a b c bs)
  have "(length (a # b # c # bs) + 2) div 3 = Suc ((length bs + 2) div 3)"
    by simp
  with "4.IH" show ?case by simp
qed auto

lemma base64_char_inject:
  assumes "m < 64" and "n < 64" and "base64_char m = base64_char n"
  shows "m = n"
proof -
  have "distinct base64_alphabet" and "length base64_alphabet = 64"
    by (simp_all add: base64_alphabet_def)
  with assms nth_eq_iff_index_eq [of base64_alphabet m n] show ?thesis
    by (simp add: base64_char_def)
qed

lemma sextets_value:
  "v = (((v div 2 ^ 18) * 64 + v div 2 ^ 12 mod 64) * 64 + v div 2 ^ 6 mod 64) * 64 + v mod (64 :: nat)"
proof -
  have "v div 2 ^ 18 = v div 2 ^ 12 div 64" and "v div 2 ^ 12 = v div 2 ^ 6 div 64"
    and "v div 2 ^ 6 = v div 64"
    by (simp_all flip: div_mult2_eq)
  then show ?thesis by (metis div_mult_mod_eq)
qed

lemma sextets_inject:
  assumes "u < 2 ^ 24" and "v < 2 ^ 24" and eq: "sextets u = sextets v"
  shows "u = v"
proof -
  have "u div 2 ^ 18 = v div 2 ^ 18"
    using assms by (intro base64_char_inject) (auto simp: sextets_def)
  moreover have "u div 2 ^ 12 mod 64 = v div 2 ^ 12 mod 64"
    using eq by (intro base64_char_inject) (auto simp: sextets_def)
  moreover have "u div 2 ^ 6 mod 64 = v div 2 ^ 6 mod 64"
    using eq by (intro base64_char_inject) (auto simp: sextets_def)
  moreover have "u mod 64 = v mod 64"
    using eq by (intro base64_char_inject) (auto simp: sextets_def)
  ultimately show "u = v"
    using sextets_value [of u] sextets_value [of v] by simp
qed

lemma base256_inject:
  fixes x x' :: nat
  assumes eq: "x * 256 + c = x' * 256 + c'" and "c < 256" "c' < 256"
  shows "x = x' \<and> c = c'"
proof -
  have "c = (x * 256 + c) mod 256" using \<open>c < 256\<close> by simp
  also have "\<dots> = (x' * 256 + c') mod 256" by (simp only: eq)
  also have "\<dots> = c'" using \<open>c' < 256\<close> by simp
  finally have "c = c'" .
  with eq show ?thesis by simp
qed

lemma group_inject:
  fixes a b c a' b' c' :: byte
  assumes "unat a * 2 ^ 16 + unat b * 2 ^ 8 + unat c
    = unat a' * 2 ^ 16 + unat b' * 2 ^ 8 + unat c'"
  shows "a = a' \<and> b = b' \<and> c = c'"
proof -
  have "(unat a * 256 + unat b) * 256 + unat c = (unat a' * 256 + unat b') * 256 + unat c'"
    using assms by simp
  from base256_inject [OF this byte_lt byte_lt]
  have c: "unat c = unat c'" and "unat a * 256 + unat b = unat a' * 256 + unat b'"
    by simp_all
  from base256_inject [OF this(2) byte_lt byte_lt] c show ?thesis
    by (simp add: word_eq_iff_unsigned [where ?'a = nat])
qed

text \<open>The two or one missing bytes of a final group count as zero bytes.\<close>

lemma take_sextets_inject:
  assumes "u < 2 ^ 24" and "v < 2 ^ 24" and "take k (sextets u) = take k (sextets v)"
    and "k = 3 \<and> 64 dvd u \<and> 64 dvd v \<or> k = 2 \<and> 64 * 64 dvd u \<and> 64 * 64 dvd v"
  shows "u = v"
proof -
  have *: "x mod 64 = 0 \<and> x div 64 mod 64 = 0" if "64 * 64 dvd x" for x :: nat
  proof -
    from that obtain k where "x = 64 * (64 * k)" by (auto simp only: dvd_def mult.assoc)
    then show ?thesis by simp
  qed
  have "sextets u = sextets v"
    using assms(3,4) * [of u] * [of v] by (auto simp: sextets_def)
  with assms(1,2) show ?thesis by (rule sextets_inject)
qed

text \<open>Encodings of equally long byte strings are equal only for equal byte strings.\<close>

lemma one_byte_inject:
  assumes "take 2 (sextets (unat a * 2 ^ 16)) = take 2 (sextets (unat b * 2 ^ 16))"
  shows "a = (b :: byte)"
proof -
  have "64 * 64 dvd x * 2 ^ 16" for x :: nat by (rule dvd_mult) simp
  then have "unat a * 2 ^ 16 = unat b * 2 ^ 16"
    using byte_lt [of a] byte_lt [of b] assms
    by (intro take_sextets_inject [where k = 2]) simp_all
  then show ?thesis by (simp add: word_eq_iff_unsigned [where ?'a = nat])
qed

lemma two_bytes_inject:
  fixes a b a' b' :: byte
  assumes "take 3 (sextets (unat a * 2 ^ 16 + unat b * 2 ^ 8))
      = take 3 (sextets (unat a' * 2 ^ 16 + unat b' * 2 ^ 8))"
  shows "a = a' \<and> b = b'"
proof -
  have "64 dvd x * 2 ^ 16 + y * 2 ^ 8" for x y :: nat
    by (intro dvd_add dvd_mult) simp_all
  then have "unat a * 2 ^ 16 + unat b * 2 ^ 8 = unat a' * 2 ^ 16 + unat b' * 2 ^ 8"
    using byte_lt [of a] byte_lt [of a'] byte_lt [of b] byte_lt [of b'] assms
    by (intro take_sextets_inject [where k = 3]) simp_all
  with group_inject [of a b 0 a' b' 0] show ?thesis by simp
qed

lemma three_bytes_inject:
  fixes a b c a' b' c' :: byte
  assumes "sextets (unat a * 2 ^ 16 + unat b * 2 ^ 8 + unat c)
      = sextets (unat a' * 2 ^ 16 + unat b' * 2 ^ 8 + unat c')"
  shows "a = a' \<and> b = b' \<and> c = c'"
proof -
  have "unat a * 2 ^ 16 + unat b * 2 ^ 8 + unat c = unat a' * 2 ^ 16 + unat b' * 2 ^ 8 + unat c'"
    using byte_lt [of a] byte_lt [of b] byte_lt [of c]
      byte_lt [of a'] byte_lt [of b'] byte_lt [of c'] assms
    by (intro sextets_inject) auto
  with group_inject show ?thesis by blast
qed

lemma base64_EncodeToString_inject:
  assumes "length as = length bs" and "base64_EncodeToString as = base64_EncodeToString bs"
  shows "as = bs"
  using assms
proof (induction as arbitrary: bs rule: base64_EncodeToString.induct)
  case 1
  then show ?case by simp
next
  case (2 a)
  then obtain a' where "bs = [a']" by (cases bs) auto
  with "2.prems"(2) one_byte_inject [of a a'] show ?case by simp
next
  case (3 a b)
  then obtain a' b' where "bs = [a', b']"
    by (cases bs; cases "tl bs") auto
  with "3.prems"(2) two_bytes_inject [of a b a' b'] show ?case by simp
next
  case (4 a b c as)
  then obtain a' b' c' bs' where bs: "bs = a' # b' # c' # bs'" and len: "length as = length bs'"
    by (cases bs; cases "tl bs"; cases "tl (tl bs)") auto
  from "4.prems"(2) bs have "sextets (unat a * 2 ^ 16 + unat b * 2 ^ 8 + unat c)
      = sextets (unat a' * 2 ^ 16 + unat b' * 2 ^ 8 + unat c')"
    and rest: "base64_EncodeToString as = base64_EncodeToString bs'"
    by (simp_all add: sextets_def)
  from three_bytes_inject [OF this(1)] "4.IH" [OF len rest] bs show ?case by simp
qed

end
