(* ===== verification/KubeTypes.thy ===== *)
theory KubeTypes
  imports GoStd
begin

text \<open>
  The Kubernetes and mariadb-operator API objects the operator reads and writes, as records
  of exactly the fields its code touches. The declarations of these types are third-party
  (\<open>k8s.io/api\<close>, \<open>apimachinery\<close>, \<open>mariadb-operator\<close>); the fields are the ones named in
  the composite literals, assignments and reads of \<open>internal/controller\<close>. A Go pointer is
  an \<open>option\<close>, a slice a list (nil and empty agree wherever the code looks), a map a
  partial function, and an \<open>option\<close> of one where the code tests the map for nil.
\<close>

section \<open>Metadata\<close>

record OwnerReference =
  or_UID :: string
  or_Controller :: bool

text \<open>
  \<open>om_CreationTimestamp = None\<close> is the zero time (\<open>CreationTimestamp.IsZero()\<close>), the value of
  an object that was never stored. The deletion timestamp is set by the API server when a
  deletion waits for finalizers; the operator does not read it.
\<close>

record ObjectMeta =
  om_Name :: string
  om_Namespace :: string
  om_UID :: string
  om_Generation :: int64
  om_CreationTimestamp :: "nat option"
  om_DeletionTimestamp :: "nat option"
  om_Labels :: "string \<rightharpoonup> string"
  om_Annotations :: "string \<rightharpoonup> string"
  om_OwnerReferences :: "OwnerReference list"

type_synonym object_key = "string \<times> string"

definition object_key :: "ObjectMeta \<Rightarrow> object_key" where
  "object_key m = (om_Namespace m, om_Name m)"

text \<open>The literal \<open>metav1.ObjectMeta{Name: n, Namespace: ns}\<close>.\<close>

definition new_meta :: "string \<Rightarrow> string \<Rightarrow> ObjectMeta" where
  "new_meta ns n =
     \<lparr>om_Name = n, om_Namespace = ns, om_UID = [], om_Generation = 0,
      om_CreationTimestamp = None, om_DeletionTimestamp = None,
      om_Labels = Map.empty, om_Annotations = Map.empty, om_OwnerReferences = []\<rparr>"

lemma new_meta_simps [simp]:
  "om_Name (new_meta ns n) = n" "om_Namespace (new_meta ns n) = ns"
  "om_CreationTimestamp (new_meta ns n) = None" "om_OwnerReferences (new_meta ns n) = []"
  "object_key (new_meta ns n) = (ns, n)"
  by (simp_all add: new_meta_def object_key_def)

text \<open>Writing a field's own value back changes nothing.\<close>

lemma labels_same: "om_Labels m = l \<Longrightarrow> m\<lparr>om_Labels := l\<rparr> = m"
  by (cases m) simp

lemma annotations_same: "om_Annotations m = a \<Longrightarrow> m\<lparr>om_Annotations := a\<rparr> = m"
  by (cases m) simp

section \<open>Core objects\<close>

record SecretKeySelector =
  sks_Name :: string
  sks_Key :: string

record EnvVar =
  ev_Name :: string
  ev_Value :: string
  ev_SecretKeyRef :: "SecretKeySelector option"

record Secret =
  sec_Meta :: ObjectMeta
  sec_Data :: "(string \<rightharpoonup> string) option"

record ConfigMap =
  cm_Meta :: ObjectMeta
  cm_Data :: "string \<rightharpoonup> string"

record ServicePort =
  sp_Name :: string
  sp_Port :: int32
  sp_TargetPort :: int32

record Service =
  svc_Meta :: ObjectMeta
  svc_Selector :: "string \<rightharpoonup> string"
  svc_Ports :: "ServicePort list"

text \<open>A parsed \<open>resource.Quantity\<close>, opaque to the operator.\<close>

datatype Quantity = Quantity string

record PersistentVolumeClaim =
  pvc_Meta :: ObjectMeta
  pvc_AccessModes :: "string list"
  pvc_Requests :: "(string \<rightharpoonup> Quantity) option"
  pvc_StorageClassName :: "string option"

section \<open>Ingress\<close>

record HTTPIngressPath =
  path_Path :: string
  path_PathType :: "string option"
  path_BackendService :: string
  path_BackendPort :: int32

record IngressRule =
  rule_Host :: string
  rule_Paths :: "HTTPIngressPath list"

record IngressTLS =
  tls_Hosts :: "string list"
  tls_SecretName :: string

record Ingress =
  ingr_Meta :: ObjectMeta
  ingr_IngressClassName :: "string option"
  ingr_Rules :: "IngressRule list"
  ingr_TLS :: "IngressTLS list"

section \<open>Pods and deployments\<close>

datatype VolumeSource =
    EmptyDir
  | ConfigMapVolume string
  | PersistentVolumeClaimVolume string

record Volume =
  vol_Name :: string
  vol_Source :: VolumeSource

record VolumeMount =
  vm_Name :: string
  vm_MountPath :: string
  vm_SubPath :: string

record SecurityContext =
  sc_RunAsUser :: "int64 option"
  sc_RunAsGroup :: "int64 option"

record Probe =
  probe_TCPSocketPort :: int32
  probe_InitialDelaySeconds :: int32
  probe_PeriodSeconds :: int32

record Container =
  ct_Name :: string
  ct_Image :: string
  ct_Command :: "string list"
  ct_Args :: "string list"
  ct_Ports :: "int32 list"
  ct_Env :: "EnvVar list"
  ct_SecurityContext :: "SecurityContext option"
  ct_ReadinessProbe :: "Probe option"
  ct_VolumeMounts :: "VolumeMount list"

record PodSpec =
  pod_NodeSelector :: "string \<rightharpoonup> string"
  pod_Volumes :: "Volume list"
  pod_InitContainers :: "Container list"
  pod_Containers :: "Container list"

record PodTemplateSpec =
  pt_Labels :: "string \<rightharpoonup> string"
  pt_Annotations :: "string \<rightharpoonup> string"
  pt_Spec :: PodSpec

text \<open>\<open>ds_Selector = None\<close> is a nil \<open>*metav1.LabelSelector\<close>.\<close>

record DeploymentSpec =
  ds_Replicas :: "int32 option"
  ds_StrategyType :: string
  ds_Selector :: "(string \<rightharpoonup> string) option"
  ds_Template :: PodTemplateSpec

record DeploymentCondition =
  dc_Type :: string
  dc_Status :: string
  dc_Reason :: string
  dc_Message :: string

record DeploymentStatus =
  dst_ObservedGeneration :: int64
  dst_Replicas :: int32
  dst_UpdatedReplicas :: int32
  dst_AvailableReplicas :: int32
  dst_Conditions :: "DeploymentCondition list"

record Deployment =
  dep_Meta :: ObjectMeta
  dep_Spec :: DeploymentSpec
  dep_Status :: DeploymentStatus

text \<open>The zero value of \<open>appsv1.Deployment\<close> with the given metadata.\<close>

definition new_deployment :: "ObjectMeta \<Rightarrow> Deployment" where
  "new_deployment m =
     \<lparr>dep_Meta = m,
      dep_Spec = \<lparr>ds_Replicas = None, ds_StrategyType = [], ds_Selector = None,
        ds_Template = \<lparr>pt_Labels = Map.empty, pt_Annotations = Map.empty,
          pt_Spec = \<lparr>pod_NodeSelector = Map.empty, pod_Volumes = [],
            pod_InitContainers = [], pod_Containers = []\<rparr>\<rparr>\<rparr>,
      dep_Status = \<lparr>dst_ObservedGeneration = 0, dst_Replicas = 0, dst_UpdatedReplicas = 0,
        dst_AvailableReplicas = 0, dst_Conditions = []\<rparr>\<rparr>"

lemma new_deployment_simps [simp]: "dep_Meta (new_deployment m) = m"
  by (simp add: new_deployment_def)

section \<open>Conditions\<close>

datatype ConditionStatus = ConditionTrue | ConditionFalse | ConditionUnknown

record Condition =
  cond_Type :: string
  cond_Status :: ConditionStatus
  cond_ObservedGeneration :: int64
  cond_LastTransitionTime :: "nat option"
  cond_Reason :: string
  cond_Message :: string

section \<open>mariadb-operator objects\<close>

record MariaDBRef =
  mref_Name :: string
  mref_Namespace :: string
  mref_WaitForIt :: bool

definition zero_MariaDBRef :: MariaDBRef where
  "zero_MariaDBRef = \<lparr>mref_Name = [], mref_Namespace = [], mref_WaitForIt = False\<rparr>"

record Database =
  db_Meta :: ObjectMeta
  db_MariaDBRef :: MariaDBRef
  db_Name :: string

record User =
  usr_Meta :: ObjectMeta
  usr_MariaDBRef :: MariaDBRef
  usr_Name :: string
  usr_PasswordSecretKeyRef :: "SecretKeySelector option"

record Grant =
  gr_Meta :: ObjectMeta
  gr_MariaDBRef :: MariaDBRef
  gr_Privileges :: "string list"
  gr_Database :: string
  gr_Table :: string
  gr_Username :: string

end
