(* ===== verification/SiteTypes.thy ===== *)
theory SiteTypes
  imports KubeTypes
begin

text \<open>
  The \<open>Site\<close> custom resource (\<open>api/v1alpha1/site_types.go\<close>): one record per Go struct, one
  field per struct field, and the CEL rule of the \<open>XValidation\<close> marker that the API
  server checks before a \<open>Site\<close> is stored.
\<close>

section \<open>The specification\<close>

record SecretKeyRef =
  skr_Name :: string
  skr_Key :: string

record PhpSpec =
  php_Image :: string
  php_Config :: string

record NginxSpec =
  nginx_Image :: string
  nginx_Config :: string

record MariaDBClusterRef =
  mcr_Name :: string
  mcr_Namespace :: string

record DatabaseProvisionSpec =
  dps_Enabled :: bool
  dps_MariaDBRef :: "MariaDBClusterRef option"

record ProvisionSpec =
  prov_Database :: "DatabaseProvisionSpec option"

record FileBrowserSpec =
  fb_Enabled :: bool
  fb_Image :: string

record InstallSpec =
  inst_AdminUser :: string
  inst_AdminEmail :: string
  inst_Title :: string
  inst_AdminPasswordSecret :: "SecretKeyRef option"
  inst_AdminPassword :: "string option"

record DebugSpec =
  dbg_Enabled :: bool
  dbg_Log :: bool
  dbg_Display :: bool

record WordpressSpec =
  wp_Debug :: "DebugSpec option"
  wp_Install :: "InstallSpec option"
  wp_Version :: string

record DatabaseSpec =
  dbs_Host :: string
  dbs_Name :: string
  dbs_UserSecret :: "SecretKeyRef option"
  dbs_PasswordSecret :: "SecretKeyRef option"
  dbs_User :: "string option"
  dbs_Password :: "string option"

record IngressSpec =
  isp_Enabled :: bool
  isp_Path :: string
  isp_TLS :: "bool option"
  isp_Annotations :: "string \<rightharpoonup> string"
  isp_IngressClassName :: string

record PersistenceSpec =
  per_Enabled :: bool
  per_ExistingClaim :: string
  per_Size :: string
  per_StorageClassName :: "string option"

record SiteSpec =
  spec_Foo :: "string option"
  spec_Domain :: string
  spec_Ingress :: "IngressSpec option"
  spec_Wordpress :: "WordpressSpec option"
  spec_Database :: DatabaseSpec
  spec_Persistence :: "PersistenceSpec option"
  spec_NodeSelector :: "string \<rightharpoonup> string"
  spec_FileBrowser :: "FileBrowserSpec option"
  spec_Provision :: "ProvisionSpec option"
  spec_UpdateStrategy :: string
  spec_Nginx :: "NginxSpec option"
  spec_Php :: "PhpSpec option"

record SiteStatus =
  st_Conditions :: "Condition list"

record Site =
  site_Meta :: ObjectMeta
  site_Spec :: SiteSpec
  site_Status :: SiteStatus

abbreviation site_Name :: "Site \<Rightarrow> string" where
  "site_Name site \<equiv> om_Name (site_Meta site)"

abbreviation site_Namespace :: "Site \<Rightarrow> string" where
  "site_Namespace site \<equiv> om_Namespace (site_Meta site)"

section \<open>The validation rule of the CRD\<close>

text \<open>
  The CEL expression of the marker, clause by clause; \<open>has(x)\<close> on an optional field is
  that the field is set.
\<close>

definition has :: "'a option \<Rightarrow> bool" where
  "has x = (x \<noteq> None)"

definition spec_valid :: "SiteSpec \<Rightarrow> bool" where
  "spec_valid s =
    (let db = spec_Database s in
     if has (spec_Provision s) \<and> has (prov_Database (the (spec_Provision s)))
        \<and> dps_Enabled (the (prov_Database (the (spec_Provision s))))
     then \<not> has (dbs_UserSecret db) \<and> \<not> has (dbs_User db)
        \<and> \<not> has (dbs_PasswordSecret db) \<and> \<not> has (dbs_Password db)
     else ((has (dbs_UserSecret db) \<and> \<not> has (dbs_User db))
           \<or> (\<not> has (dbs_UserSecret db) \<and> has (dbs_User db)))
        \<and> ((has (dbs_PasswordSecret db) \<and> \<not> has (dbs_Password db))
           \<or> (\<not> has (dbs_PasswordSecret db) \<and> has (dbs_Password db))))"

section \<open>A minimal specification, for concrete inputs\<close>

definition example_spec :: SiteSpec where
  "example_spec =
     \<lparr>spec_Foo = None, spec_Domain = ''example.com'', spec_Ingress = None,
      spec_Wordpress = None,
      spec_Database = \<lparr>dbs_Host = ''localhost'', dbs_Name = ''test'', dbs_UserSecret = None,
        dbs_PasswordSecret = None, dbs_User = Some ''u'', dbs_Password = Some ''p''\<rparr>,
      spec_Persistence = None, spec_NodeSelector = Map.empty, spec_FileBrowser = None,
      spec_Provision = None, spec_UpdateStrategy = ''RollingUpdate'', spec_Nginx = None,
      spec_Php = None\<rparr>"

definition example_site :: Site where
  "example_site =
     \<lparr>site_Meta = (new_meta ''default'' ''blog'')\<lparr>om_UID := ''uid-1''\<rparr>,
      site_Spec = example_spec, site_Status = \<lparr>st_Conditions = []\<rparr>\<rparr>"

text \<open>One with every optional part switched on.\<close>

definition full_spec :: SiteSpec where
  "full_spec =
     \<lparr>spec_Foo = None, spec_Domain = ''example.com'',
      spec_Ingress = Some \<lparr>isp_Enabled = True, isp_Path = ''/'', isp_TLS = Some True,
        isp_Annotations = Map.empty, isp_IngressClassName = ''nginx''\<rparr>,
      spec_Wordpress = Some \<lparr>
        wp_Debug = Some \<lparr>dbg_Enabled = True, dbg_Log = True, dbg_Display = False\<rparr>,
        wp_Install = Some \<lparr>inst_AdminUser = ''root'', inst_AdminEmail = ''root@example.com'',
          inst_Title = ''Blog'', inst_AdminPasswordSecret = None, inst_AdminPassword = None\<rparr>,
        wp_Version = ''6.8''\<rparr>,
      spec_Database = \<lparr>dbs_Host = ''mariadb'', dbs_Name = ''blog'', dbs_UserSecret = None,
        dbs_PasswordSecret = None, dbs_User = None, dbs_Password = None\<rparr>,
      spec_Persistence = Some \<lparr>per_Enabled = True, per_ExistingClaim = [], per_Size = ''5Gi'',
        per_StorageClassName = None\<rparr>,
      spec_NodeSelector = Map.empty,
      spec_FileBrowser = Some \<lparr>fb_Enabled = True, fb_Image = []\<rparr>,
      spec_Provision = Some \<lparr>prov_Database =
        Some \<lparr>dps_Enabled = True,
          dps_MariaDBRef = Some \<lparr>mcr_Name = ''mariadb'', mcr_Namespace = ''db''\<rparr>\<rparr>\<rparr>,
      spec_UpdateStrategy = ''RollingUpdate'', spec_Nginx = None, spec_Php = None\<rparr>"

definition full_site :: Site where
  "full_site =
     \<lparr>site_Meta = (new_meta ''default'' ''blog'')\<lparr>om_UID := ''uid-1''\<rparr>,
      site_Spec = full_spec, site_Status = \<lparr>st_Conditions = []\<rparr>\<rparr>"

lemma full_site_simps [simp]:
  "site_Name full_site = ''blog''" "site_Namespace full_site = ''default''"
  "om_UID (site_Meta full_site) = ''uid-1''" "site_Spec full_site = full_spec"
  by (simp_all add: full_site_def new_meta_def)

lemma example_site_simps [simp]:
  "site_Name example_site = ''blog''" "site_Namespace example_site = ''default''"
  "om_UID (site_Meta example_site) = ''uid-1''" "site_Spec example_site = example_spec"
  by (simp_all add: example_site_def new_meta_def)

end
