(* ===== verification/KubeClient.thy ===== *)
theory KubeClient
  imports SiteTypes
begin

text \<open>
  Everything the operator calls that is not its own code, as parameters: the API client and
  \<open>controllerutil.CreateOrUpdate\<close> per object kind, \<open>retry.RetryOnConflict\<close>,
  \<open>controllerutil.SetControllerReference\<close>, \<open>metav1.IsControlledBy\<close>,
  \<open>client.IgnoreNotFound\<close>, \<open>apimeta.SetStatusCondition\<close>, \<open>resource.MustParse\<close> and the
  entropy source. A definition that uses one takes the record \<open>K\<close> of them; the documented
  behaviour a theorem relies on is a locale below and a hypothesis of the theorem.
\<close>

section \<open>The parameters\<close>

text \<open>
  The generic \<open>client.Client\<close> at one object type. \<open>tc_Get\<close> takes namespace and name;
  \<open>tc_CreateOrUpdate\<close> takes the object holding the key and the mutate callback, itself an
  effectful call that returns the mutated object.
\<close>

record ('w, 'o) typed_client =
  tc_Get :: "string \<Rightarrow> string \<Rightarrow> ('w, 'o) act"
  tc_CreateOrUpdate :: "'o \<Rightarrow> ('o \<Rightarrow> ('w, 'o) act) \<Rightarrow> ('w, unit) act"
  tc_Delete :: "'o \<Rightarrow> ('w, unit) act"

record 'w kube =
  k_Sites :: "('w, Site) typed_client"
  k_UpdateSiteStatus :: "Site \<Rightarrow> ('w, unit) act"
  k_Secrets :: "('w, Secret) typed_client"
  k_ConfigMaps :: "('w, ConfigMap) typed_client"
  k_Deployments :: "('w, Deployment) typed_client"
  k_Services :: "('w, Service) typed_client"
  k_Ingresses :: "('w, Ingress) typed_client"
  k_PVCs :: "('w, PersistentVolumeClaim) typed_client"
  k_Databases :: "('w, Database) typed_client"
  k_Users :: "('w, User) typed_client"
  k_Grants :: "('w, Grant) typed_client"
  k_RetryOnConflict :: "('w, unit) act \<Rightarrow> ('w, unit) act"
  k_SetControllerReference :: "ObjectMeta \<Rightarrow> ObjectMeta \<Rightarrow> ObjectMeta res"
  k_IsControlledBy :: "ObjectMeta \<Rightarrow> ObjectMeta \<Rightarrow> bool"
  k_IgnoreNotFound :: "go_error \<Rightarrow> go_error option"
  k_SetStatusCondition :: "Condition list \<Rightarrow> Condition \<Rightarrow> 'w \<Rightarrow> Condition list \<times> 'w"
  k_MustParse :: "string \<Rightarrow> Quantity res"
  k_RandRead :: "nat \<Rightarrow> 'w \<Rightarrow> byte list option \<times> 'w"

text \<open>\<open>return client.IgnoreNotFound(err)\<close> of a call's outcome.\<close>

definition ignore_not_found :: "'w kube \<Rightarrow> ('w, unit) act \<Rightarrow> ('w, unit) act" where
  "ignore_not_found K m =
     on_result m ret (\<lambda>e. lift_res (of_error (k_IgnoreNotFound K e)))"

text \<open>
  \<open>return controllerutil.SetControllerReference(owner, obj, scheme)\<close>, the last statement of
  every mutate callback: \<open>owner\<close> and \<open>get\<close>/\<open>put\<close> of the object's metadata.
\<close>

definition set_controller_reference ::
  "'w kube \<Rightarrow> ObjectMeta \<Rightarrow> ('o \<Rightarrow> ObjectMeta) \<Rightarrow> (ObjectMeta \<Rightarrow> 'o \<Rightarrow> 'o) \<Rightarrow> 'o \<Rightarrow> 'o res" where
  "set_controller_reference K owner get put obj =
     map_res (\<lambda>m. put m obj) (k_SetControllerReference K owner (get obj))"

section \<open>The cluster a client shows\<close>

text \<open>
  The contents of the API server as a record of maps, the abstract state of the
  specifications: what is stored under each kind and key.
\<close>

record cluster =
  cl_Sites :: "object_key \<rightharpoonup> Site"
  cl_Secrets :: "object_key \<rightharpoonup> Secret"
  cl_ConfigMaps :: "object_key \<rightharpoonup> ConfigMap"
  cl_Deployments :: "object_key \<rightharpoonup> Deployment"
  cl_Services :: "object_key \<rightharpoonup> Service"
  cl_Ingresses :: "object_key \<rightharpoonup> Ingress"
  cl_PVCs :: "object_key \<rightharpoonup> PersistentVolumeClaim"
  cl_Databases :: "object_key \<rightharpoonup> Database"
  cl_Users :: "object_key \<rightharpoonup> User"
  cl_Grants :: "object_key \<rightharpoonup> Grant"

text \<open>
  What the API server adds when it stores an object: uid, generation, timestamps. Two
  metadata values that differ only there have the same content.
\<close>

definition same_meta :: "ObjectMeta \<Rightarrow> ObjectMeta \<Rightarrow> bool" where
  "same_meta m m' \<longleftrightarrow>
     om_Name m = om_Name m' \<and> om_Namespace m = om_Namespace m' \<and> om_Labels m = om_Labels m'
     \<and> om_Annotations m = om_Annotations m' \<and> om_OwnerReferences m = om_OwnerReferences m'"

lemma same_meta_refl [simp]: "same_meta m m"
  by (simp add: same_meta_def)

lemma same_meta_key: "same_meta m m' \<Longrightarrow> object_key m = object_key m'"
  by (simp add: same_meta_def object_key_def)

section \<open>Documented behaviour, as locales\<close>

subsection \<open>SetControllerReference and IsControlledBy\<close>

text \<open>
  \<open>SetControllerReference\<close> changes owner references only, makes the owner the controller, and
  has nothing left to do on an object its owner controls already. \<open>IsControlledBy\<close>
  reads owner references only.
\<close>

locale owner_references =
  fixes set_ref :: "ObjectMeta \<Rightarrow> ObjectMeta \<Rightarrow> ObjectMeta res"
    and controlled :: "ObjectMeta \<Rightarrow> ObjectMeta \<Rightarrow> bool"
  assumes set_ref_frame:
      "set_ref owner m = Ok m' \<Longrightarrow> \<exists>refs. m' = m\<lparr>om_OwnerReferences := refs\<rparr>"
    and set_ref_controls: "set_ref owner m = Ok m' \<Longrightarrow> controlled m' owner"
    and set_ref_idem:
      "set_ref owner m = Ok m' \<Longrightarrow> om_OwnerReferences m'' = om_OwnerReferences m' \<Longrightarrow>
       set_ref owner m'' = Ok m''"
    and controlled_refs:
      "om_OwnerReferences m = om_OwnerReferences m' \<Longrightarrow> controlled m owner = controlled m' owner"
begin

lemma set_ref_name: "set_ref owner m = Ok m' \<Longrightarrow> om_Name m' = om_Name m"
  by (auto dest: set_ref_frame)

lemma set_ref_namespace: "set_ref owner m = Ok m' \<Longrightarrow> om_Namespace m' = om_Namespace m"
  by (auto dest: set_ref_frame)

lemma set_ref_key: "set_ref owner m = Ok m' \<Longrightarrow> object_key m' = object_key m"
  by (simp add: object_key_def set_ref_name set_ref_namespace)

lemma set_ref_labels: "set_ref owner m = Ok m' \<Longrightarrow> om_Labels m' = om_Labels m"
  by (auto dest: set_ref_frame)

lemma set_ref_annotations: "set_ref owner m = Ok m' \<Longrightarrow> om_Annotations m' = om_Annotations m"
  by (auto dest: set_ref_frame)

lemma set_ref_creation:
  "set_ref owner m = Ok m' \<Longrightarrow> om_CreationTimestamp m' = om_CreationTimestamp m"
  by (auto dest: set_ref_frame)

lemmas set_ref_fields = set_ref_name set_ref_namespace set_ref_key set_ref_labels
  set_ref_annotations set_ref_creation

text \<open>A second call on what the server stored changes nothing.\<close>

lemma set_ref_again:
  assumes "set_ref owner m = Ok m'" and "same_meta m' m''"
  shows "set_ref owner m'' = Ok m''"
  using assms(2) by (intro set_ref_idem [OF assms(1)]) (simp add: same_meta_def)

lemma controlled_same_meta: "same_meta m m' \<Longrightarrow> controlled m owner = controlled m' owner"
  by (rule controlled_refs) (simp add: same_meta_def)

end

subsection \<open>One kind of object on a quiescent API server\<close>

text \<open>
  \<open>view\<close> is the cluster a world shows. While nobody else writes, a \<open>Get\<close> returns what
  is stored and writes nothing.
\<close>

locale object_reader =
  fixes view :: "'w \<Rightarrow> cluster"
    and tc :: "('w, 'o) typed_client"
    and get :: "cluster \<Rightarrow> (object_key \<rightharpoonup> 'o)"
  assumes get_stored: "tc_Get tc ns n w = (Ok x, w') \<Longrightarrow> get (view w) (ns, n) = Some x"
    and get_keeps: "view (snd (tc_Get tc ns n w)) = view w"

text \<open>
  A successful \<open>CreateOrUpdate\<close> has run the callback on the stored object, or on the given
  one if there is none, and has stored the result, up to what \<open>stored_as\<close> leaves to the
  server; one refused with a conflict has stored nothing, and one whose callback leaves the
  stored object as it is has nothing to store. A successful \<open>Delete\<close> has
  removed the object or marked it for removal.
\<close>

locale object_store = object_reader +
  fixes put :: "(object_key \<rightharpoonup> 'o) \<Rightarrow> cluster \<Rightarrow> cluster"
    and meta :: "'o \<Rightarrow> ObjectMeta"
    and stored_as :: "'o \<Rightarrow> 'o \<Rightarrow> bool"
    and conflict :: "go_error \<Rightarrow> bool"
  assumes create_or_update_stores:
      "tc_CreateOrUpdate tc obj f w = (Ok (), w') \<Longrightarrow>
       (\<And>x v. view (snd (f x v)) = view v) \<Longrightarrow>
       \<exists>x w0 y w1 z. view w0 = view w
         \<and> x = (case get (view w) (object_key (meta obj)) of None \<Rightarrow> obj | Some s \<Rightarrow> s)
         \<and> f x w0 = (Ok y, w1) \<and> stored_as y z
         \<and> view w' = put ((get (view w))(object_key (meta obj) \<mapsto> z)) (view w)"
    and conflict_stores_nothing:
      "tc_CreateOrUpdate tc obj f w = (Err e, w') \<Longrightarrow> conflict e \<Longrightarrow>
       (\<And>x v. view (snd (f x v)) = view v) \<Longrightarrow> view w' = view w"
    and unchanged_kept:
      "get (view w) (object_key (meta obj)) = Some s \<Longrightarrow> (\<And>v. f s v = (Ok s, v)) \<Longrightarrow>
       view (snd (tc_CreateOrUpdate tc obj f w)) = view w"
    and delete_removes:
      "tc_Delete tc x w = (Ok (), w') \<Longrightarrow>
       \<exists>d. view w' = put ((get (view w))(object_key (meta x) := d)) (view w)
         \<and> (\<forall>x'. d = Some x' \<longrightarrow> om_DeletionTimestamp (meta x') \<noteq> None)"
    and get_put: "get (put m c) = m"
    and put_get: "put (get c) c = c"

text \<open>"Not found" is the truth, of \<open>Get\<close> and of \<open>Delete\<close>; what is found has the name asked for.\<close>

locale object_lookup = object_reader +
  fixes not_found :: "go_error \<Rightarrow> bool"
  assumes get_missing:
      "tc_Get tc ns n w = (Err e, w') \<Longrightarrow> not_found e \<Longrightarrow> get (view w) (ns, n) = None"

locale object_removal =
  object_store view tc get put meta stored_as conflict + object_lookup view tc get not_found
  for view :: "'w \<Rightarrow> cluster" and tc :: "('w, 'o) typed_client" and get and put and meta
    and stored_as and conflict and not_found +
  assumes get_key: "tc_Get tc ns n w = (Ok x, w') \<Longrightarrow> object_key (meta x) = (ns, n)"
    and delete_missing:
      "tc_Delete tc x w = (Err e, w') \<Longrightarrow> not_found e \<Longrightarrow>
       view w' = view w \<and> get (view w) (object_key (meta x)) = None"

text \<open>
  \<open>RetryOnConflict\<close> returns nil only when its function did; the attempts before that one
  ended in conflicts. It does nothing to the cluster but run its function.
\<close>

locale conflict_retry =
  fixes retry :: "('w, unit) act \<Rightarrow> ('w, unit) act"
    and view :: "'w \<Rightarrow> cluster"
    and conflict :: "go_error \<Rightarrow> bool"
  assumes retry_succeeds:
      "retry f w = (Ok (), w') \<Longrightarrow>
       (\<And>v e v'. f v = (Err e, v') \<Longrightarrow> conflict e \<Longrightarrow> view v' = view v) \<Longrightarrow>
       \<exists>w0. view w0 = view w \<and> f w0 = (Ok (), w')"
    and retry_view:
      "(\<And>v. P (view v) \<Longrightarrow> P (view (snd (f v)))) \<Longrightarrow> P (view w) \<Longrightarrow> P (view (snd (retry f w)))"

subsection \<open>What the server may change in what it stores\<close>

definition secret_stored_as :: "Secret \<Rightarrow> Secret \<Rightarrow> bool" where
  "secret_stored_as y z \<longleftrightarrow> same_meta (sec_Meta y) (sec_Meta z) \<and> sec_Data z = sec_Data y"

definition configmap_stored_as :: "ConfigMap \<Rightarrow> ConfigMap \<Rightarrow> bool" where
  "configmap_stored_as y z \<longleftrightarrow> same_meta (cm_Meta y) (cm_Meta z) \<and> cm_Data z = cm_Data y"

definition deployment_stored_as :: "Deployment \<Rightarrow> Deployment \<Rightarrow> bool" where
  "deployment_stored_as y z \<longleftrightarrow> same_meta (dep_Meta y) (dep_Meta z) \<and> dep_Spec z = dep_Spec y"

definition service_stored_as :: "Service \<Rightarrow> Service \<Rightarrow> bool" where
  "service_stored_as y z \<longleftrightarrow> same_meta (svc_Meta y) (svc_Meta z)
     \<and> svc_Selector z = svc_Selector y \<and> svc_Ports z = svc_Ports y"

text \<open>An ingress class may be defaulted when none is set.\<close>

definition ingress_stored_as :: "Ingress \<Rightarrow> Ingress \<Rightarrow> bool" where
  "ingress_stored_as y z \<longleftrightarrow> same_meta (ingr_Meta y) (ingr_Meta z)
     \<and> (ingr_IngressClassName y \<noteq> None \<longrightarrow> ingr_IngressClassName z = ingr_IngressClassName y)
     \<and> ingr_Rules z = ingr_Rules y \<and> ingr_TLS z = ingr_TLS y"

text \<open>So may the storage class of a claim. The server never takes a creation time away.\<close>

definition pvc_stored_as :: "PersistentVolumeClaim \<Rightarrow> PersistentVolumeClaim \<Rightarrow> bool" where
  "pvc_stored_as y z \<longleftrightarrow> same_meta (pvc_Meta y) (pvc_Meta z)
     \<and> (om_CreationTimestamp (pvc_Meta y) \<noteq> None \<longrightarrow> om_CreationTimestamp (pvc_Meta z) \<noteq> None)
     \<and> pvc_AccessModes z = pvc_AccessModes y \<and> pvc_Requests z = pvc_Requests y
     \<and> (pvc_StorageClassName y \<noteq> None \<longrightarrow> pvc_StorageClassName z = pvc_StorageClassName y)"

definition database_stored_as :: "Database \<Rightarrow> Database \<Rightarrow> bool" where
  "database_stored_as y z \<longleftrightarrow> same_meta (db_Meta y) (db_Meta z)
     \<and> db_MariaDBRef z = db_MariaDBRef y \<and> db_Name z = db_Name y"

definition user_stored_as :: "User \<Rightarrow> User \<Rightarrow> bool" where
  "user_stored_as y z \<longleftrightarrow> same_meta (usr_Meta y) (usr_Meta z)
     \<and> usr_MariaDBRef z = usr_MariaDBRef y \<and> usr_Name z = usr_Name y
     \<and> usr_PasswordSecretKeyRef z = usr_PasswordSecretKeyRef y"

definition grant_stored_as :: "Grant \<Rightarrow> Grant \<Rightarrow> bool" where
  "grant_stored_as y z \<longleftrightarrow> same_meta (gr_Meta y) (gr_Meta z)
     \<and> gr_MariaDBRef z = gr_MariaDBRef y \<and> gr_Privileges z = gr_Privileges y
     \<and> gr_Database z = gr_Database y \<and> gr_Table z = gr_Table y \<and> gr_Username z = gr_Username y"

lemmas stored_as_defs = secret_stored_as_def configmap_stored_as_def deployment_stored_as_def
  service_stored_as_def ingress_stored_as_def pvc_stored_as_def database_stored_as_def
  user_stored_as_def grant_stored_as_def

subsection \<open>The contract of a mutate callback\<close>

text \<open>
  Every object the operator maintains is written by one call of \<open>CreateOrUpdate\<close> with a
  callback. What the callers rely on: the callback keeps the object's key, reads and
  writes nothing but its object and entropy, its result \<open>conforms\<close> to what the Site asks
  of the object, so does what the server makes of the result, and running it again on that
  changes nothing (so that a reconciled Site is at rest). The objects have the fields the
  code writes; that the server fills in other fields, and whether an update of those is
  sent again, is not visible in them.
\<close>

locale mutate_callback =
  fixes view :: "'w \<Rightarrow> cluster"
    and stored_as :: "'o \<Rightarrow> 'o \<Rightarrow> bool"
    and mutate :: "'o \<Rightarrow> ('w, 'o) act"
    and conforms :: "'o \<Rightarrow> bool"
  assumes mutate_view: "view (snd (mutate x w)) = view w"
    and mutate_conforms: "mutate x w = (Ok y, w') \<Longrightarrow> stored_as y z \<Longrightarrow> conforms z"
    and mutate_settles: "mutate x w = (Ok y, w') \<Longrightarrow> stored_as y z \<Longrightarrow> mutate z v = (Ok z, v)"

text \<open>
  A stored object with which a callback is done: it conforms, and running the callback on it
  again gives it back.
\<close>

definition settled :: "('o \<Rightarrow> ('w, 'o) act) \<Rightarrow> ('o \<Rightarrow> bool) \<Rightarrow> 'o \<Rightarrow> bool" where
  "settled mutate conforms z \<longleftrightarrow> conforms z \<and> (\<forall>v. mutate z v = (Ok z, v))"

locale managed_object =
  object_store view tc get put meta stored_as conflict +
  mutate_callback view stored_as mutate conforms +
  conflict_retry retry view conflict
  for view :: "'w \<Rightarrow> cluster" and tc :: "('w, 'o) typed_client" and get and put and meta
    and stored_as and conflict and mutate and conforms and retry
begin

text \<open>
  After a successful call the stored object conforms, a further run of the callback leaves
  it as it is, and nothing else has changed.
\<close>

lemma create_or_update_settles:
  assumes "tc_CreateOrUpdate tc obj mutate w = (Ok (), w')"
  shows "\<exists>z. settled mutate conforms z \<and> view w' = put ((get (view w))(object_key (meta obj) \<mapsto> z)) (view w)"
proof -
  from create_or_update_stores [OF assms mutate_view] obtain x w0 y w1 z
    where "mutate x w0 = (Ok y, w1)" and "stored_as y z"
      and v: "view w' = put ((get (view w))(object_key (meta obj) \<mapsto> z)) (view w)"
    by blast
  then have "settled mutate conforms z"
    by (auto simp: settled_def intro: mutate_conforms mutate_settles)
  with v show ?thesis by blast
qed

lemma retried_create_or_update_settles:
  assumes "retry (tc_CreateOrUpdate tc obj mutate) w = (Ok (), w')"
  shows "\<exists>z. settled mutate conforms z \<and> view w' = put ((get (view w))(object_key (meta obj) \<mapsto> z)) (view w)"
proof -
  have refused: "view v' = view v"
    if "tc_CreateOrUpdate tc obj mutate v = (Err e, v')" and "conflict e" for v e v'
    using that mutate_view by (rule conflict_stores_nothing)
  have "\<exists>w0. view w0 = view w \<and> tc_CreateOrUpdate tc obj mutate w0 = (Ok (), w')"
    using assms by (rule retry_succeeds) (rule refused)
  then obtain w0 where "view w0 = view w" and "tc_CreateOrUpdate tc obj mutate w0 = (Ok (), w')"
    by blast
  with create_or_update_settles show ?thesis by metis
qed

lemma settled_kept:
  assumes "get (view w) (object_key (meta obj)) = Some z" and "settled mutate conforms z"
  shows "view (snd (tc_CreateOrUpdate tc obj mutate w)) = view w"
  using assms by (intro unchanged_kept) (auto simp: settled_def)

lemma retried_settled_kept:
  assumes "get (view w) (object_key (meta obj)) = Some z" and "settled mutate conforms z"
  shows "view (snd (retry (tc_CreateOrUpdate tc obj mutate) w)) = view w"
  using assms by (intro retry_view [where P = "\<lambda>c. c = view w"]) (metis settled_kept, simp)

end

subsection \<open>Callbacks that end in SetControllerReference\<close>

lemma set_controller_reference_Ok:
  "set_controller_reference K owner get put obj = Ok y \<longleftrightarrow>
     (\<exists>m. k_SetControllerReference K owner (get obj) = Ok m \<and> y = put m obj)"
  by (auto simp: set_controller_reference_def)

text \<open>
  What the mutate callbacks of one Site share: the ownership laws, the owner, the Site, and
  an entropy source that is no part of the cluster.
\<close>

locale site_owner =
  owner_references "k_SetControllerReference K" "k_IsControlledBy K"
  for K :: "'w kube" +
  fixes view :: "'w \<Rightarrow> cluster"
    and owner :: ObjectMeta
    and site :: Site
  assumes rand_view: "view (snd (k_RandRead K n w)) = view w"

subsection \<open>Status conditions\<close>

text \<open>The condition of a type: the first of the list, as \<open>apimeta.FindStatusCondition\<close> reads it.\<close>

definition condition_of :: "Condition list \<Rightarrow> string \<Rightarrow> Condition option" where
  "condition_of cs t = find (\<lambda>c. cond_Type c = t) cs"

text \<open>
  \<open>SetStatusCondition\<close> sets the condition of its type, leaves the others, and moves
  \<open>LastTransitionTime\<close> only when the status differs from the old one.
\<close>

locale condition_setter =
  fixes set_condition :: "Condition list \<Rightarrow> Condition \<Rightarrow> 'w \<Rightarrow> Condition list \<times> 'w"
  assumes set_same:
      "set_condition cs c w = (cs', w') \<Longrightarrow>
       \<exists>c'. condition_of cs' (cond_Type c) = Some c' \<and> cond_Status c' = cond_Status c
         \<and> cond_Reason c' = cond_Reason c \<and> cond_Message c' = cond_Message c
         \<and> cond_ObservedGeneration c' = cond_ObservedGeneration c"
    and set_other:
      "set_condition cs c w = (cs', w') \<Longrightarrow> t \<noteq> cond_Type c \<Longrightarrow>
       condition_of cs' t = condition_of cs t"
    and set_time:
      "set_condition cs c w = (cs', w') \<Longrightarrow> condition_of cs (cond_Type c) = Some old \<Longrightarrow>
       cond_Status old = cond_Status c \<Longrightarrow>
       map_option cond_LastTransitionTime (condition_of cs' (cond_Type c))
         = Some (cond_LastTransitionTime old)"

subsection \<open>Entropy\<close>

text \<open>\<open>rand.Read\<close> fills the buffer entirely when it reports no error.\<close>

locale entropy =
  fixes rand :: "nat \<Rightarrow> 'w \<Rightarrow> byte list option \<times> 'w"
  assumes rand_fills: "rand n w = (Some bs, w') \<Longrightarrow> length bs = n"

end
