(* ===== verification/SiteConditions.thy ===== *)
theory SiteConditions
  imports KubeClient
begin

text \<open>
  \<open>internal/controller/status.go\<close>: how the outcome of a reconcile and the status of the
  Deployment become the conditions \<open>Available\<close>, \<open>Progressing\<close> and \<open>Degraded\<close>.
  Replica counts and generations are signed machine integers.
\<close>

section \<open>Reading the Deployment\<close>

definition conditionStatus :: "bool \<Rightarrow> ConditionStatus" where
  "conditionStatus b = (if b then ConditionTrue else ConditionFalse)"

definition desired_replicas :: "Deployment \<Rightarrow> int32" where
  "desired_replicas deploy =
     (case ds_Replicas (dep_Spec deploy) of None \<Rightarrow> 1 | Some n \<Rightarrow> n)"

definition deploymentRolledOut :: "Deployment \<Rightarrow> bool" where
  "deploymentRolledOut deploy =
     (let s = dep_Status deploy in
      sint (dst_ObservedGeneration s) \<ge> sint (om_Generation (dep_Meta deploy))
      \<and> sint (dst_UpdatedReplicas s) \<ge> sint (desired_replicas deploy)
      \<and> dst_Replicas s = dst_UpdatedReplicas s
      \<and> dst_AvailableReplicas s = dst_UpdatedReplicas s)"

definition stalled_condition :: "DeploymentCondition \<Rightarrow> bool" where
  "stalled_condition c \<longleftrightarrow>
     dc_Type c = ''Progressing'' \<and> dc_Status c = ''False''
     \<and> dc_Reason c = ''ProgressDeadlineExceeded''"

text \<open>The message of the first stalled condition, if there is one.\<close>

definition deploymentStalled :: "Deployment \<Rightarrow> string option" where
  "deploymentStalled deploy =
     map_option dc_Message (find stalled_condition (dst_Conditions (dep_Status deploy)))"

section \<open>Setting the conditions\<close>

definition reasonReconcileError :: string where
  "reasonReconcileError = ''ReconcileError''"

definition reasonNotFound :: string where
  "reasonNotFound = ''DeploymentNotFound''"

definition reasonReady :: string where
  "reasonReady = ''DeploymentReady''"

definition reasonRollingOut :: string where
  "reasonRollingOut = ''DeploymentRollingOut''"

definition reasonRolloutStalled :: string where
  "reasonRolloutStalled = ''RolloutStalled''"

definition conditionAvailable :: string where
  "conditionAvailable = ''Available''"

definition conditionProgressing :: string where
  "conditionProgressing = ''Progressing''"

definition conditionDegraded :: string where
  "conditionDegraded = ''Degraded''"

definition new_condition ::
  "int64 \<Rightarrow> string \<Rightarrow> string \<Rightarrow> string \<times> ConditionStatus \<Rightarrow> Condition" where
  "new_condition generation reason message ts =
     \<lparr>cond_Type = fst ts, cond_Status = snd ts, cond_ObservedGeneration = generation,
      cond_LastTransitionTime = None, cond_Reason = reason, cond_Message = message\<rparr>"

definition apply_conditions ::
  "'w kube \<Rightarrow> int64 \<Rightarrow> string \<Rightarrow> string \<Rightarrow> ConditionStatus \<Rightarrow> ConditionStatus \<Rightarrow> ConditionStatus
   \<Rightarrow> Condition list \<Rightarrow> 'w \<Rightarrow> Condition list \<times> 'w" where
  "apply_conditions K generation reason message available progressing degraded cs w =
     fold (\<lambda>ts (cs, w). k_SetStatusCondition K cs (new_condition generation reason message ts) w)
       [(conditionAvailable, available), (conditionProgressing, progressing),
        (conditionDegraded, degraded)] (cs, w)"

definition setSiteConditions ::
  "'w kube \<Rightarrow> int64 \<Rightarrow> Deployment \<Rightarrow> go_error option \<Rightarrow> go_error option
   \<Rightarrow> Condition list \<Rightarrow> 'w \<Rightarrow> Condition list \<times> 'w" where
  "setSiteConditions K generation deploy deployErr reconcileErr =
    (case reconcileErr of
       Some e \<Rightarrow> apply_conditions K generation reasonReconcileError (Error e)
                   ConditionFalse ConditionFalse ConditionTrue
     | None \<Rightarrow>
       (if deployErr \<noteq> None
        then apply_conditions K generation reasonNotFound ''site deployment does not exist yet''
               ConditionFalse ConditionTrue ConditionFalse
        else if deploymentRolledOut deploy
        then apply_conditions K generation reasonReady
               ''deployment has the desired number of ready replicas''
               ConditionTrue ConditionFalse ConditionFalse
        else
          (let available =
                 conditionStatus (sint (dst_AvailableReplicas (dep_Status deploy)) > 0)
           in (case deploymentStalled deploy of
                 Some message \<Rightarrow>
                   apply_conditions K generation reasonRolloutStalled message
                     available ConditionFalse ConditionTrue
               | None \<Rightarrow>
                   apply_conditions K generation reasonRollingOut
                     ''waiting for deployment to become ready''
                     available ConditionTrue ConditionFalse))))"

section \<open>The specification: one verdict per observation\<close>

text \<open>
  The abstract reading of a Site's state: the three statuses as booleans, and the reason.
\<close>

record verdict =
  v_available :: bool
  v_progressing :: bool
  v_degraded :: bool
  v_reason :: string
  v_message :: string

definition site_verdict ::
  "Deployment \<Rightarrow> go_error option \<Rightarrow> go_error option \<Rightarrow> verdict" where
  "site_verdict deploy deployErr reconcileErr =
    (if reconcileErr \<noteq> None
     then \<lparr>v_available = False, v_progressing = False, v_degraded = True,
           v_reason = reasonReconcileError, v_message = Error (the reconcileErr)\<rparr>
     else if deployErr \<noteq> None
     then \<lparr>v_available = False, v_progressing = True, v_degraded = False,
           v_reason = reasonNotFound, v_message = ''site deployment does not exist yet''\<rparr>
     else let serving = sint (dst_AvailableReplicas (dep_Status deploy)) > 0;
              complete = deploymentRolledOut deploy;
              stalled = deploymentStalled deploy \<noteq> None
          in \<lparr>v_available = complete \<or> serving,
              v_progressing = \<not> complete \<and> \<not> stalled,
              v_degraded = \<not> complete \<and> stalled,
              v_reason = (if complete then reasonReady
                          else if stalled then reasonRolloutStalled else reasonRollingOut),
              v_message = (if complete then ''deployment has the desired number of ready replicas''
                           else if stalled then the (deploymentStalled deploy)
                           else ''waiting for deployment to become ready'')\<rparr>)"

lemma setSiteConditions_verdict:
  "setSiteConditions K generation deploy deployErr reconcileErr =
    (let v = site_verdict deploy deployErr reconcileErr in
     apply_conditions K generation (v_reason v) (v_message v)
       (conditionStatus (v_available v)) (conditionStatus (v_progressing v))
       (conditionStatus (v_degraded v)))"
  by (auto simp: setSiteConditions_def site_verdict_def Let_def conditionStatus_def
      split: option.splits)

lemma condition_types [simp]:
  "conditionAvailable \<noteq> conditionProgressing" "conditionAvailable \<noteq> conditionDegraded"
  "conditionProgressing \<noteq> conditionDegraded" "conditionProgressing \<noteq> conditionAvailable"
  "conditionDegraded \<noteq> conditionAvailable" "conditionDegraded \<noteq> conditionProgressing"
  by (simp_all add: conditionAvailable_def conditionProgressing_def conditionDegraded_def)

lemma new_condition_simps [simp]:
  "cond_Type (new_condition g r m ts) = fst ts" "cond_Status (new_condition g r m ts) = snd ts"
  "cond_Reason (new_condition g r m ts) = r" "cond_Message (new_condition g r m ts) = m"
  "cond_ObservedGeneration (new_condition g r m ts) = g"
  by (simp_all add: new_condition_def)

text \<open>What a reader of the status sees of one condition.\<close>

definition shows_condition ::
  "Condition list \<Rightarrow> string \<Rightarrow> ConditionStatus \<Rightarrow> string \<Rightarrow> string \<Rightarrow> int64 \<Rightarrow> bool" where
  "shows_condition cs t s r m g \<longleftrightarrow>
     (\<exists>c. condition_of cs t = Some c \<and> cond_Status c = s \<and> cond_Reason c = r
        \<and> cond_Message c = m \<and> cond_ObservedGeneration c = g)"

context condition_setter
begin

lemma set_shows:
  "set_condition cs (new_condition g r m (t, s)) w = (cs', w') \<Longrightarrow> shows_condition cs' t s r m g"
  using set_same [of cs "new_condition g r m (t, s)" w cs' w'] by (auto simp: shows_condition_def)

lemma set_other_shows:
  "set_condition cs (new_condition g' r' m' (t', s')) w = (cs', w') \<Longrightarrow> t \<noteq> t' \<Longrightarrow>
   shows_condition cs' t s r m g = shows_condition cs t s r m g"
  using set_other [of cs "new_condition g' r' m' (t', s')" w cs' w' t]
  by (simp add: shows_condition_def)

lemma set_other_type:
  "set_condition cs (new_condition g r m (t', s)) w = (cs', w') \<Longrightarrow> t \<noteq> t' \<Longrightarrow>
   condition_of cs' t = condition_of cs t"
  using set_other [of cs "new_condition g r m (t', s)" w cs' w' t] by simp

lemma set_same_status_time:
  "set_condition cs (new_condition g r m (t, s)) w = (cs', w') \<Longrightarrow>
   condition_of cs t = Some old \<Longrightarrow> cond_Status old = s \<Longrightarrow>
   map_option cond_LastTransitionTime (condition_of cs' t) = Some (cond_LastTransitionTime old)"
  using set_time [of cs "new_condition g r m (t, s)" w cs' w' old] by simp

end

text \<open>The only effects are those of \<open>SetStatusCondition\<close>.\<close>

lemma keeps_setSiteConditions:
  assumes "\<And>cs c. keeps I (k_SetStatusCondition K cs c)"
  shows "keeps I (setSiteConditions K g d de re cs)"
  unfolding setSiteConditions_verdict Let_def apply_conditions_def
  using assms by (auto simp: keeps_def split: prod.splits) (metis snd_conv)

lemma apply_conditions_steps:
  assumes "apply_conditions K g r m a p d cs w = (cs', w')"
  obtains cs1 w1 cs2 w2 where
    "k_SetStatusCondition K cs (new_condition g r m (conditionAvailable, a)) w = (cs1, w1)"
    "k_SetStatusCondition K cs1 (new_condition g r m (conditionProgressing, p)) w1 = (cs2, w2)"
    "k_SetStatusCondition K cs2 (new_condition g r m (conditionDegraded, d)) w2 = (cs', w')"
  using assms by (auto simp: apply_conditions_def split: prod.splits)

lemma apply_conditions_shows:
  assumes "condition_setter (k_SetStatusCondition K)"
    and "apply_conditions K g r m a p d cs w = (cs', w')"
  shows "shows_condition cs' conditionAvailable a r m g
    \<and> shows_condition cs' conditionProgressing p r m g
    \<and> shows_condition cs' conditionDegraded d r m g"
  using assms(2)
  by (rule apply_conditions_steps)
     (auto simp: condition_setter.set_other_shows [OF assms(1)]
       dest: condition_setter.set_shows [OF assms(1)])

lemma apply_conditions_other:
  assumes "condition_setter (k_SetStatusCondition K)"
    and "apply_conditions K g r m a p d cs w = (cs', w')"
    and "t \<notin> {conditionAvailable, conditionProgressing, conditionDegraded}"
  shows "condition_of cs' t = condition_of cs t"
  using assms(2)
  by (rule apply_conditions_steps)
     (use assms(3) in \<open>auto simp: condition_setter.set_other_type [OF assms(1)]\<close>)

text \<open>A condition whose status is set to what it was keeps its transition time.\<close>

lemma apply_conditions_time:
  assumes setter: "condition_setter (k_SetStatusCondition K)"
    and run: "apply_conditions K g r m a p d cs w = (cs', w')"
    and old: "condition_of cs t = Some old"
    and same: "(t, cond_Status old) \<in>
      {(conditionAvailable, a), (conditionProgressing, p), (conditionDegraded, d)}"
  shows "map_option cond_LastTransitionTime (condition_of cs' t)
    = Some (cond_LastTransitionTime old)"
proof -
  note other = condition_setter.set_other_type [OF setter]
  note kept = condition_setter.set_same_status_time [OF setter]
  from run obtain cs1 w1 cs2 w2 where
    1: "k_SetStatusCondition K cs (new_condition g r m (conditionAvailable, a)) w = (cs1, w1)" and
    2: "k_SetStatusCondition K cs1 (new_condition g r m (conditionProgressing, p)) w1 = (cs2, w2)" and
    3: "k_SetStatusCondition K cs2 (new_condition g r m (conditionDegraded, d)) w2 = (cs', w')"
    by (rule apply_conditions_steps)
  from same consider
      (available) "t = conditionAvailable" "cond_Status old = a"
    | (progressing) "t = conditionProgressing" "cond_Status old = p"
    | (degraded) "t = conditionDegraded" "cond_Status old = d"
    by auto
  then show ?thesis
  proof cases
    case available
    with kept [OF 1] old other [OF 2, of t] other [OF 3, of t] show ?thesis by simp
  next
    case progressing
    with kept [OF 2] old other [OF 1, of t] other [OF 3, of t] show ?thesis by simp
  next
    case degraded
    with kept [OF 3] old other [OF 1, of t] other [OF 2, of t] show ?thesis by simp
  qed
qed

section \<open>What the three conditions say\<close>

definition shows_verdict :: "Condition list \<Rightarrow> verdict \<Rightarrow> int64 \<Rightarrow> bool" where
  "shows_verdict cs v g \<longleftrightarrow>
     shows_condition cs conditionAvailable (conditionStatus (v_available v)) (v_reason v) (v_message v) g
     \<and> shows_condition cs conditionProgressing (conditionStatus (v_progressing v)) (v_reason v) (v_message v) g
     \<and> shows_condition cs conditionDegraded (conditionStatus (v_degraded v)) (v_reason v) (v_message v) g"

lemma setSiteConditions_shows:
  assumes "condition_setter (k_SetStatusCondition K)"
    and "setSiteConditions K g deploy deployErr reconcileErr cs w = (cs', w')"
  shows "shows_verdict cs' (site_verdict deploy deployErr reconcileErr) g"
  using apply_conditions_shows [OF assms(1) assms(2) [unfolded setSiteConditions_verdict Let_def]]
  by (simp add: shows_verdict_def)

definition condition_true :: "Condition list \<Rightarrow> string \<Rightarrow> bool" where
  "condition_true cs t \<longleftrightarrow> (\<exists>c. condition_of cs t = Some c \<and> cond_Status c = ConditionTrue)"

lemma shows_condition_true:
  "shows_condition cs t (conditionStatus b) r m g \<Longrightarrow> condition_true cs t = b"
  by (auto simp: shows_condition_def condition_true_def conditionStatus_def split: if_splits)

text \<open>A rolled-out Deployment of at least one replica has an available one.\<close>

lemma deploymentRolledOut_serving:
  "deploymentRolledOut d \<Longrightarrow> sint (desired_replicas d) \<ge> 1 \<Longrightarrow>
   sint (dst_AvailableReplicas (dep_Status d)) > 0"
  by (simp add: deploymentRolledOut_def Let_def)

end
