(* ===== verification/Sha256.thy ===== *)
theory Sha256
  imports GoStd
begin

text \<open>
  \<open>crypto/sha256\<close>: the FIPS 180-4 hash the operator fingerprints its rendered
  configuration with, executable on lists of bytes. The incremental interface
  (\<open>New\<close>, \<open>Write\<close>, \<open>Sum(nil)\<close>) hashes the concatenation of what was written, so
  the model is one function of the whole message.
\<close>

unbundle bit_operations_syntax

section \<open>Padding and parsing\<close>

definition be_bytes32 :: "int32 \<Rightarrow> byte list" where
  "be_bytes32 x = [ucast (drop_bit 24 x), ucast (drop_bit 16 x), ucast (drop_bit 8 x), ucast x]"

definition be_bytes64 :: "int64 \<Rightarrow> byte list" where
  "be_bytes64 x = be_bytes32 (ucast (drop_bit 32 x)) @ be_bytes32 (ucast x)"

definition sha256_pad :: "byte list \<Rightarrow> byte list" where
  "sha256_pad msg = msg @ [0x80] @ replicate ((119 - length msg mod 64) mod 64) 0
     @ be_bytes64 (of_nat (8 * length msg))"

fun be_words :: "byte list \<Rightarrow> int32 list" where
  "be_words (a # b # c # d # bs) =
     (push_bit 24 (ucast a) OR push_bit 16 (ucast b) OR push_bit 8 (ucast c) OR ucast d) # be_words bs"
| "be_words _ = []"

fun chunks :: "nat \<Rightarrow> nat \<Rightarrow> 'a list \<Rightarrow> 'a list list" where
  "chunks 0 k xs = []"
| "chunks (Suc n) k xs = take k xs # chunks n k (drop k xs)"

section \<open>The compression function\<close>

definition sha256_K :: "int32 list" where
  "sha256_K =
    [1116352408, 1899447441, 3049323471, 3921009573, 961987163, 1508970993,
     2453635748, 2870763221, 3624381080, 310598401, 607225278, 1426881987,
     1925078388, 2162078206, 2614888103, 3248222580, 3835390401, 4022224774,
     264347078, 604807628, 770255983, 1249150122, 1555081692, 1996064986,
     2554220882, 2821834349, 2952996808, 3210313671, 3336571891, 3584528711,
     113926993, 338241895, 666307205, 773529912, 1294757372, 1396182291,
     1695183700, 1986661051, 2177026350, 2456956037, 2730485921, 2820302411,
     3259730800, 3345764771, 3516065817, 3600352804, 4094571909, 275423344,
     430227734, 506948616, 659060556, 883997877, 958139571, 1322822218,
     1537002063, 1747873779, 1955562222, 2024104815, 2227730452, 2361852424,
     2428436474, 2756734187, 3204031479, 3329325298]"

definition sha256_init :: "int32 list" where
  "sha256_init =
    [1779033703, 3144134277, 1013904242, 2773480762, 1359893119, 2600822924,
     528734635, 1541459225]"

text \<open>
  Where the tables come from: they are the first 32 bits of the fractional parts of the cube
  roots of the first 64 primes, and of the square roots of the first 8: an entry \<open>k\<close> and the
  root's integer part \<open>r\<close> make \<open>r + k / 2^32\<close> the root rounded down. The lemmas check that for
  every entry.
\<close>

definition root_bits :: "nat \<Rightarrow> nat \<Rightarrow> nat \<Rightarrow> int32 \<Rightarrow> bool" where
  "root_bits d p r k \<longleftrightarrow>
     (r * 2 ^ 32 + unat k) ^ d \<le> p * 2 ^ (32 * d) \<and>
     p * 2 ^ (32 * d) < (r * 2 ^ 32 + unat k + 1) ^ d"

definition first_primes :: "nat list" where
  "first_primes =
    [2, 3, 5, 7, 11, 13, 17, 19, 23, 29, 31, 37, 41, 43, 47, 53,
     59, 61, 67, 71, 73, 79, 83, 89, 97, 101, 103, 107, 109, 113, 127, 131,
     137, 139, 149, 151, 157, 163, 167, 173, 179, 181, 191, 193, 197, 199, 211, 223,
     227, 229, 233, 239, 241, 251, 257, 263, 269, 271, 277, 281, 283, 293, 307, 311]"

definition cube_floor :: "nat \<Rightarrow> nat" where
  "cube_floor p = (if p < 8 then 1 else if p < 27 then 2 else if p < 64 then 3
     else if p < 125 then 4 else if p < 216 then 5 else 6)"

definition square_floor :: "nat \<Rightarrow> nat" where
  "square_floor p = (if p < 4 then 1 else if p < 9 then 2 else if p < 16 then 3 else 4)"

lemma sha256_K_cube_roots:
  "list_all2 (\<lambda>p k. root_bits 3 p (cube_floor p) k) first_primes sha256_K"
  by (simp add: first_primes_def sha256_K_def root_bits_def cube_floor_def)

lemma sha256_init_square_roots:
  "list_all2 (\<lambda>p k. root_bits 2 p (square_floor p) k) (take 8 first_primes) sha256_init"
  by (simp add: first_primes_def sha256_init_def root_bits_def square_floor_def)

definition small_sigma0 :: "int32 \<Rightarrow> int32" where
  "small_sigma0 x = word_rotr 7 x XOR word_rotr 18 x XOR drop_bit 3 x"

definition small_sigma1 :: "int32 \<Rightarrow> int32" where
  "small_sigma1 x = word_rotr 17 x XOR word_rotr 19 x XOR drop_bit 10 x"

definition big_sigma0 :: "int32 \<Rightarrow> int32" where
  "big_sigma0 x = word_rotr 2 x XOR word_rotr 13 x XOR word_rotr 22 x"

definition big_sigma1 :: "int32 \<Rightarrow> int32" where
  "big_sigma1 x = word_rotr 6 x XOR word_rotr 11 x XOR word_rotr 25 x"

text \<open>The message schedule, newest word first.\<close>

fun sha256_schedule :: "nat \<Rightarrow> int32 list \<Rightarrow> int32 list" where
  "sha256_schedule 0 ws = ws"
| "sha256_schedule (Suc n) ws =
     sha256_schedule n ((small_sigma1 (ws ! 1) + ws ! 6 + small_sigma0 (ws ! 14) + ws ! 15) # ws)"

fun sha256_round :: "int32 \<times> int32 \<Rightarrow> int32 list \<Rightarrow> int32 list" where
  "sha256_round (k, x) [a, b, c, d, e, f, g, h] =
     (let t1 = h + big_sigma1 e + ((e AND f) XOR (NOT e AND g)) + k + x;
          t2 = big_sigma0 a + ((a AND b) XOR (a AND c) XOR (b AND c))
      in [t1 + t2, a, b, c, d + t1, e, f, g])"
| "sha256_round _ hs = hs"

definition sha256_block :: "byte list \<Rightarrow> int32 list \<Rightarrow> int32 list" where
  "sha256_block blk hs =
     map2 (+) hs (fold sha256_round (zip sha256_K (rev (sha256_schedule 48 (rev (be_words blk))))) hs)"

definition sha256 :: "byte list \<Rightarrow> byte list" where
  "sha256 msg =
     (let padded = sha256_pad msg;
          hs = fold sha256_block (chunks (length padded div 64) 64 padded) sha256_init
      in concat (map be_bytes32 hs))"

section \<open>The digest has 32 bytes\<close>

lemma length_be_bytes [simp]: "length (be_bytes32 x) = 4" "length (be_bytes64 y) = 8"
  by (simp_all add: be_bytes32_def be_bytes64_def)

lemma length_sha256_round: "length (sha256_round kx hs) = length hs"
  by (induction kx hs rule: sha256_round.induct) (auto simp: Let_def)

lemma length_fold_sha256_round: "length (fold sha256_round kxs hs) = length hs"
  by (induction kxs arbitrary: hs) (auto simp: length_sha256_round)

lemma length_sha256_block: "length (sha256_block blk hs) = length hs"
  by (simp add: sha256_block_def length_fold_sha256_round)

lemma length_fold_sha256_block: "length (fold sha256_block blks hs) = length hs"
  by (induction blks arbitrary: hs) (auto simp: length_sha256_block)

lemma length_concat_const: "(\<And>x. length (f x) = k) \<Longrightarrow> length (concat (map f xs)) = length xs * k"
  by (induction xs) auto

lemma length_sha256 [simp]: "length (sha256 msg) = 32"
  by (simp add: sha256_def Let_def length_concat_const length_fold_sha256_block sha256_init_def)

lemma length_sha256_pad: "64 dvd length (sha256_pad msg)"
proof -
  have "length (sha256_pad msg) = length msg + 9 + (119 - length msg mod 64) mod 64"
    by (simp add: sha256_pad_def)
  moreover have "64 dvd n + 9 + (119 - n mod 64) mod 64" for n :: nat
  proof -
    have r: "n mod 64 < 64" by simp
    have "n mod 64 + 9 + (119 - n mod 64) mod 64 \<in> {64, 128}"
    proof (cases "n mod 64 \<le> 55")
      case True
      then have "119 - n mod 64 = 64 + (55 - n mod 64)" by simp
      then have "(119 - n mod 64) mod 64 = (64 + (55 - n mod 64)) mod 64" by (simp only:)
      also have "\<dots> = 55 - n mod 64" by simp
      finally show ?thesis using True by simp
    next
      case False
      with r show ?thesis by simp
    qed
    moreover have "64 dvd x" if "x \<in> {64, 128}" for x :: nat using that by auto
    ultimately have "64 dvd n mod 64 + 9 + (119 - n mod 64) mod 64" by blast
    moreover have "n + 9 + (119 - n mod 64) mod 64
        = 64 * (n div 64) + (n mod 64 + 9 + (119 - n mod 64) mod 64)"
      by simp
    ultimately show ?thesis by (metis dvd_add dvd_triv_left)
  qed
  ultimately show ?thesis by simp
qed

section \<open>A published test vector\<close>

text \<open>FIPS 180-4's example of the one-block message \<open>abc\<close>, evaluated by the kernel.\<close>

lemma sha256_abc:
  "hex_EncodeToString (sha256 [0x61, 0x62, 0x63])
   = ''ba7816bf8f01cfea414140de5dae2223b00361a396177a9cb410ff61f20015ad''"
  by code_simp

end
