(* ===== verification/PodScripts.thy ===== *)
theory PodScripts
  imports GoStd
begin

text \<open>
  The shell programs of the pod's containers (\<open>Args\<close> of \<open>buildWPInitContainer\<close>,
  \<open>buildPHPFPMContainer\<close> and \<open>buildFileBrowserContainer\<close> in
  \<open>internal/controller/deployment.go\<close>), line by line. They are data to the operator; what
  its own theorems need of them is which environment variables they read.
\<close>

definition wp_init_script :: string where
  \<open>wp_init_script = lines [
    '''',
    ''set -e'',
    '''',
    ''if [ ! -f /var/www/html/wp ]; then'',
    ''  echo "Downloading wp-cli..."'',
    ''  # Use php to download if curl is not available'',
    ''  php -r "copy('https://raw.githubusercontent.com/wp-cli/builds/gh-pages/phar/wp-cli.phar', '/var/www/html/wp');"'',
    ''  chmod +x /var/www/html/wp'',
    ''fi'',
    '''',
    ''# Only seeds an empty volume; a site that has already started is never touched.'',
    ''if [ ! -f /var/www/html/index.php ]; then'',
    ''  echo "Initializing WordPress files (version: $WP_VERSION)..."'',
    ''  if [ "$WP_VERSION" = "bundled" ]; then'',
    ''    cp -r /usr/src/wordpress/* /var/www/html/'',
    ''  else'',
    ''    # memory_limit: wp-cli's archive extraction needs more than the 128M CLI default.'',
    ''    # No fallback on purpose: if the download fails the pod fails to start (the'',
    ''    # kubelet retries the init container) instead of silently running whatever'',
    ''    # older WordPress the node's cached image happens to bundle.'',
    ''    php -d memory_limit=512M /var/www/html/wp core download --path=/var/www/html --version="$WP_VERSION" --allow-root'',
    ''  fi'',
    ''fi'',
    '''',
    ''# Numeric on purpose: php-fpm and filebrowser run as 33:33 (see their'',
    ''# securityContext), but "www-data" is uid 33 only on Debian-based images (it is'',
    ''# 82 on Alpine ones), so chowning by name breaks spec.php.image with *-alpine.'',
    ''chown -R 33:33 /var/www/html'']\<close>

definition php_fpm_script :: string where
  \<open>php_fpm_script = lines [
    '''',
    ''set -e'',
    '''',
    ''CONFIG=/var/www/html/wp-config.php'',
    '''',
    ''cat > $CONFIG <<EOF'',
    ''<?php'',
    ''define('DB_NAME', getenv('DB_NAME'));'',
    ''define('DB_USER', getenv('DB_USER'));'',
    ''define('DB_PASSWORD', getenv('DB_PASSWORD'));'',
    ''define('DB_HOST', getenv('DB_HOST'));'',
    '''',
    ''define('WP_HOME', getenv('WP_HOME'));'',
    ''define('WP_SITEURL', getenv('WP_SITEURL'));'',
    '''',
    ''if (getenv('WP_HOME') && str_starts_with(getenv('WP_HOME'), 'https://')) {'',
    ''    '' @ backslash @ ''$_SERVER['HTTPS'] = 'on';'',
    ''    '' @ backslash @ ''$_SERVER['SERVER_PORT'] = 443;'',
    ''    if (!defined('FORCE_SSL_ADMIN')) {'',
    ''        define('FORCE_SSL_ADMIN', true);'',
    ''    }'',
    ''}'',
    '''',
    ''// The operator's own wp-cron CronJob calls wp-cron.php directly on a'',
    ''// schedule (see cmd/wpcron.go), so WordPress's own page-load-triggered'',
    ''// pseudo-cron (unreliable on low-traffic sites, wasted work on high-traffic'',
    ''// ones) is disabled here. This does not disable cron events themselves, only'',
    ''// the implicit trigger on every page load.'',
    ''define('DISABLE_WP_CRON', true);'',
    '''',
    ''define('AUTH_KEY', getenv('AUTH_KEY'));'',
    ''define('SECURE_AUTH_KEY', getenv('SECURE_AUTH_KEY'));'',
    ''define('LOGGED_IN_KEY', getenv('LOGGED_IN_KEY'));'',
    ''define('NONCE_KEY', getenv('NONCE_KEY'));'',
    ''define('AUTH_SALT', getenv('AUTH_SALT'));'',
    ''define('SECURE_AUTH_SALT', getenv('SECURE_AUTH_SALT'));'',
    ''define('LOGGED_IN_SALT', getenv('LOGGED_IN_SALT'));'',
    ''define('NONCE_SALT', getenv('NONCE_SALT'));'',
    '''',
    backslash @ ''$table_prefix = 'wp_';'',
    '''',
    ''define('WP_DEBUG', getenv('WP_DEBUG') === 'true');'',
    ''define('WP_DEBUG_LOG', getenv('WP_DEBUG_LOG') === 'true');'',
    ''define('WP_DEBUG_DISPLAY', getenv('WP_DEBUG_DISPLAY') === 'true');'',
    '''',
    ''if ( ! defined( 'ABSPATH' ) ) {'',
    tab @ ''define( 'ABSPATH', __DIR__ . '/' );'',
    ''}'',
    '''',
    ''require_once ABSPATH . 'wp-settings.php';'',
    ''define( 'FS_METHOD', 'direct' );'',
    ''EOF'',
    '''',
    ''if [ "$WP_INSTALL" = "true" ]; then'',
    ''  echo "Checking if WordPress is installed..."'',
    ''  '',
    ''  # Wait for DB'',
    ''  echo "Waiting for database connection..."'',
    ''  until php -r "'',
    ''    '' @ backslash @ ''$host = getenv('DB_HOST');'',
    ''    '' @ backslash @ ''$user = getenv('DB_USER');'',
    ''    '' @ backslash @ ''$pass = getenv('DB_PASSWORD');'',
    ''    '' @ backslash @ ''$name = getenv('DB_NAME');'',
    ''    '' @ backslash @ ''$conn = @new mysqli('' @ backslash @ ''$host, '' @ backslash @ ''$user, '' @ backslash @ ''$pass, '' @ backslash @ ''$name);'',
    ''    if ('' @ backslash @ ''$conn->connect_error) {'',
    ''        fwrite(STDERR, 'Connection error: ' . '' @ backslash @ ''$conn->connect_error . PHP_EOL);'',
    ''        exit(1);'',
    ''    }'',
    ''    exit(0);'',
    ''  "; do'',
    ''    sleep 2'',
    ''  done'',
    ''  echo "Database connection ready."'',
    ''  '',
    ''  if ! /var/www/html/wp core is-installed; then'',
    ''    echo "Installing WordPress..."'',
    ''    /var/www/html/wp core install '' @ backslash,
    ''      --url="$WP_HOME" '' @ backslash,
    ''      --title="$WP_TITLE" '' @ backslash,
    ''      --admin_user="$WP_ADMIN_USER" '' @ backslash,
    ''      --admin_password="$WP_ADMIN_PASSWORD" '' @ backslash,
    ''      --admin_email="$WP_ADMIN_EMAIL" '' @ backslash,
    ''      --skip-email'',
    ''    echo "WordPress installed successfully."'',
    ''  else'',
    ''    echo "WordPress is already installed."'',
    ''  fi'',
    ''fi'',
    '''',
    ''exec php-fpm'']\<close>

definition filebrowser_script :: string where
  \<open>filebrowser_script = lines [
    '''',
    ''set -e'',
    ''if [ ! -f "$FB_DATABASE" ]; then'',
    ''  filebrowser config init --database="$FB_DATABASE" --address="$FB_ADDRESS" --port="$FB_PORT" --root="$FB_ROOT" --baseURL="$FB_BASE_URL" --fileMode=0o644 --dirMode=0o755'',
    ''  filebrowser users add "$FB_USERNAME" "$FB_PASSWORD" --database="$FB_DATABASE" --perm.admin'',
    ''fi'',
    ''exec filebrowser'']\<close>

section \<open>The variables a script reads\<close>

text \<open>
  \<open>$NAME\<close> with a name of capitals, digits and underscores, unless the dollar sign is escaped;
  \<open>$CONFIG\<close> is the script's own. And the arguments of PHP's \<open>getenv\<close>.
\<close>

definition name_char :: "char \<Rightarrow> bool" where
  "name_char c = (c \<in> set ''ABCDEFGHIJKLMNOPQRSTUVWXYZ0123456789_'')"

fun shell_vars :: "char \<Rightarrow> string \<Rightarrow> string list" where
  "shell_vars before [] = []"
| "shell_vars before (c # s) =
     (if c = CHR ''$'' \<and> before \<noteq> CHR 0x5C
      then (case takeWhile name_char s of [] \<Rightarrow> [] | v # vs \<Rightarrow> [v # vs]) else [])
     @ shell_vars c s"

definition script_vars :: "string \<Rightarrow> string list" where
  "script_vars s = filter (\<lambda>v. v \<noteq> ''CONFIG'') (remdups (shell_vars (CHR 0x0A) s))"

fun after_prefix :: "string \<Rightarrow> string \<Rightarrow> string option" where
  "after_prefix [] s = Some s"
| "after_prefix (p # ps) [] = None"
| "after_prefix (p # ps) (c # s) = (if p = c then after_prefix ps s else None)"

fun getenv_args :: "string \<Rightarrow> string list" where
  "getenv_args [] = []"
| "getenv_args (c # s) =
     (case after_prefix (''getenv('' @ [CHR 0x27]) (c # s) of
        None \<Rightarrow> []
      | Some arg \<Rightarrow> [takeWhile (\<lambda>x. x \<noteq> CHR 0x27 \<and> x \<noteq> CHR 0x0A) arg])
     @ getenv_args s"

lemma wp_init_vars: "script_vars wp_init_script = [''WP_VERSION'']"
  by code_simp

lemma php_fpm_vars:
  "script_vars php_fpm_script =
     [''WP_INSTALL'', ''WP_HOME'', ''WP_TITLE'', ''WP_ADMIN_USER'', ''WP_ADMIN_PASSWORD'',
      ''WP_ADMIN_EMAIL'']"
  by code_simp

lemma filebrowser_vars:
  "set (script_vars filebrowser_script) =
     {''FB_DATABASE'', ''FB_ADDRESS'', ''FB_PORT'', ''FB_ROOT'', ''FB_BASE_URL'', ''FB_USERNAME'',
      ''FB_PASSWORD''}"
  by code_simp

text \<open>An argument ends with its line.\<close>

lemma after_prefix_line:
  assumes "CHR 0x0A \<notin> set p"
  shows "after_prefix p (l @ CHR 0x0A # s) = map_option (\<lambda>r. r @ CHR 0x0A # s) (after_prefix p l)"
  using assms by (induction p l rule: after_prefix.induct) auto

lemma getenv_args_line: "getenv_args (l @ CHR 0x0A # s) = getenv_args l @ getenv_args s"
proof (induction l)
  case (Cons c l)
  have "takeWhile (\<lambda>x. x \<noteq> CHR 0x27 \<and> x \<noteq> CHR 0x0A) (r @ CHR 0x0A # s)
      = takeWhile (\<lambda>x. x \<noteq> CHR 0x27 \<and> x \<noteq> CHR 0x0A) r" for r
    by (induction r) auto
  with Cons after_prefix_line [of "''getenv('' @ [CHR 0x27]" "c # l" s] show ?case
    by (simp split: option.splits)
qed simp

lemma php_fpm_getenv:
  "set (getenv_args php_fpm_script) =
     {''DB_NAME'', ''DB_USER'', ''DB_PASSWORD'', ''DB_HOST'', ''WP_HOME'', ''WP_SITEURL'',
      ''AUTH_KEY'', ''SECURE_AUTH_KEY'', ''LOGGED_IN_KEY'', ''NONCE_KEY'', ''AUTH_SALT'',
      ''SECURE_AUTH_SALT'', ''LOGGED_IN_SALT'', ''NONCE_SALT'', ''WP_DEBUG'', ''WP_DEBUG_LOG'',
      ''WP_DEBUG_DISPLAY''}"
  unfolding php_fpm_script_def lines_Cons lines_Nil getenv_args_line append_assoc [symmetric]
  by auto

end
