(* ===== verification/Helpers.thy ===== *)
theory Helpers
  imports KubeClient
begin

text \<open>
  \<open>internal/controller/helpers.go\<close> and the pure functions of \<open>provision.go\<close>: the
  environment variables of the php-fpm container, and how a Site's database
  credentials are named when the operator provisions them.
\<close>

section \<open>Provisioning: gate, user name, cluster\<close>

definition provisionEnabled :: "Site \<Rightarrow> bool" where
  "provisionEnabled site =
     (case spec_Provision (site_Spec site) of None \<Rightarrow> False
      | Some p \<Rightarrow> (case prov_Database p of None \<Rightarrow> False | Some d \<Rightarrow> dps_Enabled d))"

text \<open>\<open>len\<close> and the slice \<open>name[:27]\<close> count bytes.\<close>

definition provisionedUsername :: "Site \<Rightarrow> string" where
  "provisionedUsername site =
     (let name = site_Name site;
          name' = (if length name > 27 then take 27 name else name)
      in ''site_'' @ name')"

definition no_mariadb_ref :: go_error where
  "no_mariadb_ref = Errorf
     (''provision.database.enabled is true but no mariadbRef is set on the Site ''
      @ ''and no default MariaDB cluster is configured on the operator'')"

text \<open>
  The callers have checked \<open>provisionEnabled\<close>; without it the Go code dereferences a nil
  pointer, which is the panic of the first branch.
\<close>

definition resolveMariaDBRef :: "Site \<Rightarrow> MariaDBClusterRef option \<Rightarrow> MariaDBClusterRef res" where
  "resolveMariaDBRef site defaultRef =
     (case Option.bind (spec_Provision (site_Spec site)) prov_Database of
        None \<Rightarrow> Panic ''invalid memory address or nil pointer dereference''
      | Some d \<Rightarrow>
          (case dps_MariaDBRef d of
             Some ref \<Rightarrow>
               if mcr_Name ref \<noteq> [] then Ok ref
               else (case defaultRef of
                       Some dr \<Rightarrow> if mcr_Name dr \<noteq> [] then Ok dr else Err no_mariadb_ref
                     | None \<Rightarrow> Err no_mariadb_ref)
           | None \<Rightarrow>
               (case defaultRef of
                  Some dr \<Rightarrow> if mcr_Name dr \<noteq> [] then Ok dr else Err no_mariadb_ref
                | None \<Rightarrow> Err no_mariadb_ref)))"

section \<open>Environment variables\<close>

definition dbUserEnv :: string where
  "dbUserEnv = ''DB_USER''"

definition dbPasswordKey :: string where
  "dbPasswordKey = ''DB_PASSWORD''"

definition site_secret_name :: "Site \<Rightarrow> string" where
  "site_secret_name site = site_Name site @ ''-site-secret''"

definition value_env :: "string \<Rightarrow> string \<Rightarrow> EnvVar" where
  "value_env n v = \<lparr>ev_Name = n, ev_Value = v, ev_SecretKeyRef = None\<rparr>"

definition secret_ref_env :: "string \<Rightarrow> string \<Rightarrow> string \<Rightarrow> EnvVar" where
  "secret_ref_env n s k =
     \<lparr>ev_Name = n, ev_Value = [], ev_SecretKeyRef = Some \<lparr>sks_Name = s, sks_Key = k\<rparr>\<rparr>"

definition secretEnv :: "Site \<Rightarrow> string \<Rightarrow> EnvVar" where
  "secretEnv site name = secret_ref_env name (site_secret_name site) name"

definition boolPtrVal :: "bool option \<Rightarrow> bool" where
  "boolPtrVal b = (case b of None \<Rightarrow> False | Some v \<Rightarrow> v)"

definition site_scheme :: "Site \<Rightarrow> string" where
  "site_scheme site =
     (case spec_Ingress (site_Spec site) of
        None \<Rightarrow> ''http''
      | Some ing \<Rightarrow>
          (case isp_TLS ing of None \<Rightarrow> ''http'' | Some t \<Rightarrow> if t then ''https'' else ''http''))"

definition site_debug :: "Site \<Rightarrow> DebugSpec" where
  "site_debug site =
     (case Option.bind (spec_Wordpress (site_Spec site)) wp_Debug of
        None \<Rightarrow> \<lparr>dbg_Enabled = False, dbg_Log = False, dbg_Display = False\<rparr>
      | Some d \<Rightarrow> d)"

text \<open>
  The variables of an automated install. The generated default password arrives under the
  name of its secret key, \<open>ADMIN_PASSWORD\<close>, unlike the two others.
\<close>

definition installEnvs :: "Site \<Rightarrow> InstallSpec \<Rightarrow> EnvVar list" where
  "installEnvs site install =
     [value_env ''WP_INSTALL'' ''true'',
      value_env ''WP_ADMIN_USER'' (inst_AdminUser install),
      value_env ''WP_ADMIN_EMAIL'' (inst_AdminEmail install),
      value_env ''WP_TITLE''
        (if inst_Title install = [] then site_Name site else inst_Title install),
      (case inst_AdminPasswordSecret install of
         Some ref \<Rightarrow> secret_ref_env ''WP_ADMIN_PASSWORD'' (skr_Name ref) (skr_Key ref)
       | None \<Rightarrow>
           (case inst_AdminPassword install of
              Some p \<Rightarrow> value_env ''WP_ADMIN_PASSWORD'' p
            | None \<Rightarrow> secretEnv site ''ADMIN_PASSWORD''))]"

definition buildWPEnvs :: "Site \<Rightarrow> EnvVar list" where
  "buildWPEnvs site =
     (let home = site_scheme site @ ''://'' @ spec_Domain (site_Spec site);
          debug = site_debug site
      in [value_env ''WP_HOME'' home,
          value_env ''WP_SITEURL'' home,
          value_env ''WP_DEBUG'' (FormatBool (dbg_Enabled debug)),
          value_env ''WP_DEBUG_LOG'' (FormatBool (dbg_Log debug)),
          value_env ''WP_DEBUG_DISPLAY'' (FormatBool (dbg_Display debug)),
          secretEnv site ''AUTH_KEY'',
          secretEnv site ''SECURE_AUTH_KEY'',
          secretEnv site ''LOGGED_IN_KEY'',
          secretEnv site ''NONCE_KEY'',
          secretEnv site ''AUTH_SALT'',
          secretEnv site ''SECURE_AUTH_SALT'',
          secretEnv site ''LOGGED_IN_SALT'',
          secretEnv site ''NONCE_SALT'']
         @ (case Option.bind (spec_Wordpress (site_Spec site)) wp_Install of
              None \<Rightarrow> []
            | Some install \<Rightarrow> installEnvs site install))"

definition user_envs :: "DatabaseSpec \<Rightarrow> EnvVar list" where
  "user_envs db =
     (case dbs_UserSecret db of
        Some ref \<Rightarrow> [secret_ref_env dbUserEnv (skr_Name ref) (skr_Key ref)]
      | None \<Rightarrow> (case dbs_User db of Some u \<Rightarrow> [value_env dbUserEnv u] | None \<Rightarrow> []))"

definition password_envs :: "DatabaseSpec \<Rightarrow> EnvVar list" where
  "password_envs db =
     (case dbs_PasswordSecret db of
        Some ref \<Rightarrow> [secret_ref_env dbPasswordKey (skr_Name ref) (skr_Key ref)]
      | None \<Rightarrow> (case dbs_Password db of Some p \<Rightarrow> [value_env dbPasswordKey p] | None \<Rightarrow> []))"

definition buildDatabaseEnvs :: "Site \<Rightarrow> EnvVar list" where
  "buildDatabaseEnvs site =
     (let db = spec_Database (site_Spec site);
          envs = [value_env ''DB_HOST'' (dbs_Host db), value_env ''DB_NAME'' (dbs_Name db)]
      in if provisionEnabled site
         then envs @ [value_env dbUserEnv (provisionedUsername site), secretEnv site dbPasswordKey]
         else envs @ user_envs db @ password_envs db)"

section \<open>Lemmas about names\<close>

lemma value_env_simps [simp]:
  "ev_Name (value_env n v) = n" "ev_Value (value_env n v) = v"
  "ev_SecretKeyRef (value_env n v) = None"
  by (simp_all add: value_env_def)

lemma secret_ref_env_simps [simp]:
  "ev_Name (secret_ref_env n s k) = n"
  "ev_SecretKeyRef (secret_ref_env n s k) = Some \<lparr>sks_Name = s, sks_Key = k\<rparr>"
  by (simp_all add: secret_ref_env_def)

lemma secretEnv_simps [simp]:
  "ev_Name (secretEnv site n) = n"
  "ev_SecretKeyRef (secretEnv site n) = Some \<lparr>sks_Name = site_secret_name site, sks_Key = n\<rparr>"
  by (simp_all add: secretEnv_def)

text \<open>The keys of the site's own secret that a list of variables reads.\<close>

definition site_secret_keys :: "Site \<Rightarrow> EnvVar list \<Rightarrow> string set" where
  "site_secret_keys site envs =
     {sks_Key r | e r. e \<in> set envs \<and> ev_SecretKeyRef e = Some r
        \<and> sks_Name r = site_secret_name site}"

lemma site_secret_keys_append [simp]:
  "site_secret_keys site (xs @ ys) = site_secret_keys site xs \<union> site_secret_keys site ys"
  by (auto simp: site_secret_keys_def)

lemma site_secret_keys_Nil [simp]: "site_secret_keys site [] = {}"
  by (simp add: site_secret_keys_def)

lemma site_secret_keys_Cons:
  "site_secret_keys site (e # es) =
     (case ev_SecretKeyRef e of None \<Rightarrow> {}
      | Some r \<Rightarrow> if sks_Name r = site_secret_name site then {sks_Key r} else {})
     \<union> site_secret_keys site es"
  by (auto simp: site_secret_keys_def split: option.splits)

lemma user_envs_names:
  "map ev_Name (user_envs db) = (if has (dbs_UserSecret db) \<or> has (dbs_User db) then [dbUserEnv] else [])"
  by (auto simp: user_envs_def has_def split: option.splits)

lemma password_envs_names:
  "map ev_Name (password_envs db) =
     (if has (dbs_PasswordSecret db) \<or> has (dbs_Password db) then [dbPasswordKey] else [])"
  by (auto simp: password_envs_def has_def split: option.splits)

text \<open>Whether the admin password is left to the operator.\<close>

definition generated_admin_password :: "InstallSpec \<Rightarrow> bool" where
  "generated_admin_password install \<longleftrightarrow>
     inst_AdminPasswordSecret install = None \<and> inst_AdminPassword install = None"

lemma installEnvs_names:
  "map ev_Name (installEnvs site install) =
     [''WP_INSTALL'', ''WP_ADMIN_USER'', ''WP_ADMIN_EMAIL'', ''WP_TITLE'',
      if generated_admin_password install then ''ADMIN_PASSWORD'' else ''WP_ADMIN_PASSWORD'']"
  by (auto simp: installEnvs_def generated_admin_password_def split: option.splits)

lemma provisionEnabled_iff:
  "provisionEnabled site \<longleftrightarrow>
     (\<exists>p d. spec_Provision (site_Spec site) = Some p \<and> prov_Database p = Some d \<and> dps_Enabled d)"
  by (auto simp: provisionEnabled_def split: option.splits)

lemma spec_valid_provision:
  "spec_valid (site_Spec site) \<longleftrightarrow>
    (let db = spec_Database (site_Spec site) in
     if provisionEnabled site
     then \<not> has (dbs_UserSecret db) \<and> \<not> has (dbs_User db)
        \<and> \<not> has (dbs_PasswordSecret db) \<and> \<not> has (dbs_Password db)
     else has (dbs_UserSecret db) \<noteq> has (dbs_User db)
        \<and> has (dbs_PasswordSecret db) \<noteq> has (dbs_Password db))"
  unfolding spec_valid_def provisionEnabled_def
  by (auto simp: has_def Let_def split: option.splits)

text \<open>The user name is the prefix \<open>site_\<close> and at most 27 bytes of the Site's name.\<close>

lemma provisionedUsername_eq: "provisionedUsername site = ''site_'' @ take 27 (site_Name site)"
  by (simp add: provisionedUsername_def Let_def)

text \<open>The names of all variables, in order.\<close>

definition wp_names :: "string list" where
  "wp_names =
     [''WP_HOME'', ''WP_SITEURL'', ''WP_DEBUG'', ''WP_DEBUG_LOG'', ''WP_DEBUG_DISPLAY'', ''AUTH_KEY'',
      ''SECURE_AUTH_KEY'', ''LOGGED_IN_KEY'', ''NONCE_KEY'', ''AUTH_SALT'', ''SECURE_AUTH_SALT'',
      ''LOGGED_IN_SALT'', ''NONCE_SALT'']"

lemma buildWPEnvs_names:
  "map ev_Name (buildWPEnvs site) = wp_names
     @ (case Option.bind (spec_Wordpress (site_Spec site)) wp_Install of
          None \<Rightarrow> [] | Some install \<Rightarrow> map ev_Name (installEnvs site install))"
  by (simp add: buildWPEnvs_def wp_names_def Let_def split: option.splits)

lemma buildDatabaseEnvs_names:
  "map ev_Name (buildDatabaseEnvs site) = [''DB_HOST'', ''DB_NAME'']
     @ (if provisionEnabled site then [''DB_USER'', ''DB_PASSWORD'']
        else map ev_Name (user_envs (spec_Database (site_Spec site)))
          @ map ev_Name (password_envs (spec_Database (site_Spec site))))"
  by (simp add: buildDatabaseEnvs_def Let_def dbUserEnv_def dbPasswordKey_def)

lemma buildDatabaseEnvs_names_subset:
  "set (map ev_Name (buildDatabaseEnvs site)) \<subseteq> {''DB_HOST'', ''DB_NAME'', ''DB_USER'', ''DB_PASSWORD''}"
  unfolding buildDatabaseEnvs_names user_envs_names password_envs_names dbUserEnv_def dbPasswordKey_def
  by auto

lemma buildDatabaseEnvs_names_valid:
  "spec_valid (site_Spec site) \<Longrightarrow>
   map ev_Name (buildDatabaseEnvs site) = [''DB_HOST'', ''DB_NAME'', ''DB_USER'', ''DB_PASSWORD'']"
  by (cases "provisionEnabled site")
     (auto simp: buildDatabaseEnvs_names spec_valid_provision user_envs_names password_envs_names
       dbUserEnv_def dbPasswordKey_def Let_def)

section \<open>Properties\<close>

text \<open>
  C17. Where the database goes: a \<open>mariadbRef\<close> of the Site's with a name wins, then the operator's
  default with a name, and otherwise the Site is refused; the lookup never panics when
  provisioning is on.
\<close>

theorem resolveMariaDBRef_precedence:
  assumes "provisionEnabled site"
    and "own = Option.bind (Option.bind (spec_Provision (site_Spec site)) prov_Database) dps_MariaDBRef"
  shows "resolveMariaDBRef site defaultRef =
    (if \<exists>ref. own = Some ref \<and> mcr_Name ref \<noteq> [] then Ok (the own)
     else if \<exists>ref. defaultRef = Some ref \<and> mcr_Name ref \<noteq> [] then Ok (the defaultRef)
     else Err no_mariadb_ref)"
  using assms by (auto simp: resolveMariaDBRef_def provisionEnabled_iff split: option.splits)

theorem resolveMariaDBRef_precedence_witness:
  "resolveMariaDBRef full_site (Some \<lparr>mcr_Name = ''default-db'', mcr_Namespace = ''db''\<rparr>)
     = Ok \<lparr>mcr_Name = ''mariadb'', mcr_Namespace = ''db''\<rparr>"
  using resolveMariaDBRef_precedence [of full_site, OF _ refl]
  by (simp add: provisionEnabled_def full_spec_def)

text \<open>
  C18. The provisioned user name fits in 32 bytes, and two Sites get the same name exactly when
  the first 27 bytes of their names agree, whatever their namespaces.
\<close>

theorem provisionedUsername_bound:
  "length (provisionedUsername site) \<le> 32
   \<and> (provisionedUsername site = provisionedUsername site' \<longleftrightarrow>
        take 27 (site_Name site) = take 27 (site_Name site'))"
  by (simp add: provisionedUsername_eq)

text \<open>
  C26. The environment of the php-fpm container sets no variable twice, so no setting silently
  overrides another; a Site that passes the CRD's validation gets exactly one database user
  and one database password, whether they are provisioned or given.
\<close>

theorem environment_names_distinct:
  "distinct (map ev_Name (buildWPEnvs site @ buildDatabaseEnvs site))
   \<and> (spec_valid (site_Spec site) \<longrightarrow>
        map ev_Name (buildDatabaseEnvs site) = [''DB_HOST'', ''DB_NAME'', ''DB_USER'', ''DB_PASSWORD''])"
  using buildDatabaseEnvs_names_valid [of site]
  by (simp add: buildWPEnvs_names buildDatabaseEnvs_names installEnvs_names user_envs_names
      password_envs_names dbUserEnv_def dbPasswordKey_def wp_names_def split: option.splits)

theorem environment_names_distinct_witness:
  "map ev_Name (buildDatabaseEnvs example_site) = [''DB_HOST'', ''DB_NAME'', ''DB_USER'', ''DB_PASSWORD'']"
proof -
  have "spec_valid (site_Spec example_site)"
    by (simp add: spec_valid_def has_def example_spec_def)
  with environment_names_distinct [of example_site] show ?thesis by blast
qed

end
