(* ===== verification/SiteSecret.thy ===== *)
theory SiteSecret
  imports Helpers
begin

text \<open>
  \<open>internal/controller/secret.go\<close>: the \<open><site>-site-secret\<close> Secret with the WordPress
  salts and the generated passwords. A key that exists is never replaced; entropy is drawn
  only for keys that are missing.
\<close>

section \<open>Random keys\<close>

definition fallback_key :: string where
  "fallback_key = ''fallback-random-key-if-entropy-fails''"

definition fallback_short_key :: string where
  "fallback_short_key = ''fallback-short-key''"

definition randomKey :: "'w kube \<Rightarrow> 'w \<Rightarrow> string \<times> 'w" where
  "randomKey K w =
     (case k_RandRead K 64 w of
        (None, w') \<Rightarrow> (fallback_key, w')
      | (Some b, w') \<Rightarrow> (base64_EncodeToString b, w'))"

definition randomShortKey :: "'w kube \<Rightarrow> 'w \<Rightarrow> string \<times> 'w" where
  "randomShortKey K w =
     (case k_RandRead K 24 w of
        (None, w') \<Rightarrow> (fallback_short_key, w')
      | (Some b, w') \<Rightarrow> (base64_EncodeToString b, w'))"

section \<open>The mutate callback\<close>

definition salts :: "string list" where
  "salts = [''AUTH_KEY'', ''SECURE_AUTH_KEY'', ''LOGGED_IN_KEY'', ''NONCE_KEY'',
            ''AUTH_SALT'', ''SECURE_AUTH_SALT'', ''LOGGED_IN_SALT'', ''NONCE_SALT'']"

text \<open>\<open>if _, ok := data[k]; !ok { data[k] = []byte(gen()) }\<close>\<close>

definition set_if_absent ::
  "('w \<Rightarrow> string \<times> 'w) \<Rightarrow> string \<Rightarrow> (string \<rightharpoonup> string) \<times> 'w \<Rightarrow> (string \<rightharpoonup> string) \<times> 'w" where
  "set_if_absent gen k = (\<lambda>(data, w).
     case data k of
       Some v \<Rightarrow> (data, w)
     | None \<Rightarrow> (case gen w of (v, w') \<Rightarrow> (data(k \<mapsto> v), w')))"

text \<open>The keys beside the salts that a Site needs, in the order the callback visits them.\<close>

definition wants_admin_password :: "Site \<Rightarrow> bool" where
  "wants_admin_password site =
     (case Option.bind (spec_Wordpress (site_Spec site)) wp_Install of
        None \<Rightarrow> False
      | Some install \<Rightarrow>
          inst_AdminPasswordSecret install = None \<and> inst_AdminPassword install = None)"

definition fileBrowserEnabled :: "Site \<Rightarrow> bool" where
  "fileBrowserEnabled site =
     (case spec_FileBrowser (site_Spec site) of None \<Rightarrow> False | Some fb \<Rightarrow> fb_Enabled fb)"

definition fill_secret_data ::
  "'w kube \<Rightarrow> Site \<Rightarrow> (string \<rightharpoonup> string) \<times> 'w \<Rightarrow> (string \<rightharpoonup> string) \<times> 'w" where
  "fill_secret_data K site dw =
     (let dw1 = fold (set_if_absent (randomKey K)) salts dw;
          dw2 = (if provisionEnabled site
                 then set_if_absent (randomKey K) dbPasswordKey dw1 else dw1);
          dw3 = (if wants_admin_password site
                 then set_if_absent (randomKey K) ''ADMIN_PASSWORD'' dw2 else dw2)
      in if fileBrowserEnabled site
         then set_if_absent (randomShortKey K) ''FB_PASSWORD'' dw3 else dw3)"

definition mutate_secret :: "'w kube \<Rightarrow> ObjectMeta \<Rightarrow> Site \<Rightarrow> Secret \<Rightarrow> ('w, Secret) act" where
  "mutate_secret K owner site secret = (\<lambda>w.
     let data0 = (case sec_Data secret of None \<Rightarrow> Map.empty | Some d \<Rightarrow> d);
         (data, w') = fill_secret_data K site (data0, w)
     in (set_controller_reference K owner sec_Meta (\<lambda>m s. s\<lparr>sec_Meta := m\<rparr>)
           (secret\<lparr>sec_Data := Some data\<rparr>), w'))"

definition reconcileSecret :: "'w kube \<Rightarrow> ObjectMeta \<Rightarrow> Site \<Rightarrow> ('w, unit) act" where
  "reconcileSecret K owner site =
     tc_CreateOrUpdate (k_Secrets K)
       \<lparr>sec_Meta = new_meta (site_Namespace site) (site_secret_name site), sec_Data = None\<rparr>
       (mutate_secret K owner site)"

section \<open>The keys a Site requires\<close>

definition required_keys :: "Site \<Rightarrow> string set" where
  "required_keys site = set salts
     \<union> (if provisionEnabled site then {dbPasswordKey} else {})
     \<union> (if wants_admin_password site then {''ADMIN_PASSWORD''} else {})
     \<union> (if fileBrowserEnabled site then {''FB_PASSWORD''} else {})"

lemma set_if_absent_le: "fst dw \<subseteq>\<^sub>m fst (set_if_absent gen k dw)"
  by (auto simp: set_if_absent_def map_le_def split: prod.splits option.splits)

lemma set_if_absent_dom: "dom (fst (set_if_absent gen k dw)) = insert k (dom (fst dw))"
  by (auto simp: set_if_absent_def split: prod.splits option.splits)

lemma set_if_absent_present: "k \<in> dom (fst dw) \<Longrightarrow> set_if_absent gen k dw = dw"
  by (auto simp: set_if_absent_def split: prod.splits)

lemma fold_set_if_absent_le: "fst dw \<subseteq>\<^sub>m fst (fold (set_if_absent gen) ks dw)"
proof (induction ks arbitrary: dw)
  case (Cons k ks)
  have "fst dw \<subseteq>\<^sub>m fst (set_if_absent gen k dw)" by (rule set_if_absent_le)
  also have "\<dots> \<subseteq>\<^sub>m fst (fold (set_if_absent gen) (k # ks) dw)" using Cons by simp
  finally (map_le_trans) show ?case .
qed simp

lemma fold_set_if_absent_dom:
  "dom (fst (fold (set_if_absent gen) ks dw)) = set ks \<union> dom (fst dw)"
  by (induction ks arbitrary: dw) (auto simp: set_if_absent_dom)

lemma fold_set_if_absent_present:
  "set ks \<subseteq> dom (fst dw) \<Longrightarrow> fold (set_if_absent gen) ks dw = dw"
  by (induction ks) (auto simp: set_if_absent_present)

lemma le_set_if_absent: "m \<subseteq>\<^sub>m fst dw \<Longrightarrow> m \<subseteq>\<^sub>m fst (set_if_absent gen k dw)"
  by (rule map_le_trans [OF _ set_if_absent_le])

lemma fill_secret_data_le: "fst dw \<subseteq>\<^sub>m fst (fill_secret_data K site dw)"
  by (simp add: fill_secret_data_def Let_def le_set_if_absent fold_set_if_absent_le)

lemma fill_secret_data_dom:
  "dom (fst (fill_secret_data K site dw)) = required_keys site \<union> dom (fst dw)"
  unfolding fill_secret_data_def required_keys_def Let_def
  by (auto simp: set_if_absent_dom fold_set_if_absent_dom simp del: not_None_eq)

lemma fill_secret_data_present:
  "required_keys site \<subseteq> dom (fst dw) \<Longrightarrow> fill_secret_data K site dw = dw"
  unfolding fill_secret_data_def required_keys_def Let_def
  by (auto simp: set_if_absent_present fold_set_if_absent_present simp del: not_None_eq)

section \<open>Contract\<close>

definition secret_conforms :: "'w kube \<Rightarrow> ObjectMeta \<Rightarrow> Site \<Rightarrow> Secret \<Rightarrow> bool" where
  "secret_conforms K owner site s \<longleftrightarrow>
     k_IsControlledBy K (sec_Meta s) owner
     \<and> (\<exists>d. sec_Data s = Some d \<and> required_keys site \<subseteq> dom d)"

lemma mutate_secret_Ok:
  "mutate_secret K owner site s w = (Ok y, w') \<longleftrightarrow>
    (\<exists>d m. fill_secret_data K site ((case sec_Data s of None \<Rightarrow> Map.empty | Some d \<Rightarrow> d), w) = (d, w')
      \<and> k_SetControllerReference K owner (sec_Meta s) = Ok m
      \<and> y = s\<lparr>sec_Data := Some d, sec_Meta := m\<rparr>)"
  by (auto simp: mutate_secret_def Let_def set_controller_reference_Ok split: prod.splits)

text \<open>Only entropy is consumed: an invariant of the entropy source is one of the callback.\<close>

definition entropy_keeps :: "'w kube \<Rightarrow> ('w \<Rightarrow> bool) \<Rightarrow> bool" where
  "entropy_keeps K I \<longleftrightarrow> (\<forall>n. keeps I (k_RandRead K n))"

lemma keeps_randomKey [keeps_intros]: "entropy_keeps K I \<Longrightarrow> keeps I (randomKey K)"
  by (auto simp: entropy_keeps_def keeps_def randomKey_def split: prod.splits option.splits)
     (metis snd_conv)+

lemma keeps_randomShortKey [keeps_intros]: "entropy_keeps K I \<Longrightarrow> keeps I (randomShortKey K)"
  by (auto simp: entropy_keeps_def keeps_def randomShortKey_def split: prod.splits option.splits)
     (metis snd_conv)+

lemma set_if_absent_keeps: "keeps I gen \<Longrightarrow> I (snd dw) \<Longrightarrow> I (snd (set_if_absent gen k dw))"
  by (auto simp: set_if_absent_def keeps_def split: prod.splits option.splits)

lemma fold_set_if_absent_keeps:
  "keeps I gen \<Longrightarrow> I (snd dw) \<Longrightarrow> I (snd (fold (set_if_absent gen) ks dw))"
  by (induction ks arbitrary: dw) (auto simp: set_if_absent_keeps)

lemma fill_secret_data_keeps:
  assumes "entropy_keeps K I" and "I (snd dw)"
  shows "I (snd (fill_secret_data K site dw))"
  using assms keeps_randomKey [OF assms(1)] keeps_randomShortKey [OF assms(1)]
  by (simp add: fill_secret_data_def Let_def set_if_absent_keeps fold_set_if_absent_keeps)

lemma keeps_mutate_secret [keeps_intros]:
  assumes "entropy_keeps K I"
  shows "keeps I (mutate_secret K owner site s)"
proof (rule keepsI)
  fix w assume "I w"
  with fill_secret_data_keeps [OF assms]
  show "I (snd (mutate_secret K owner site s w))"
    by (simp add: mutate_secret_def Let_def split: prod.splits) (metis snd_conv)
qed

sublocale site_owner \<subseteq> secret: mutate_callback view secret_stored_as
  "mutate_secret K owner site" "secret_conforms K owner site"
proof unfold_locales
  fix x y z :: Secret and w w' v :: 'w
  assume run: "mutate_secret K owner site x w = (Ok y, w')" and stored: "secret_stored_as y z"
  let ?d0 = "case sec_Data x of None \<Rightarrow> Map.empty | Some d \<Rightarrow> d"
  from run obtain d m where d: "fill_secret_data K site (?d0, w) = (d, w')"
    and m: "k_SetControllerReference K owner (sec_Meta x) = Ok m"
    and y: "y = x\<lparr>sec_Data := Some d, sec_Meta := m\<rparr>"
    unfolding mutate_secret_Ok by blast
  have z: "same_meta m (sec_Meta z)" "sec_Data z = Some d"
    using stored y by (auto simp: secret_stored_as_def)
  have required: "required_keys site \<subseteq> dom d"
    using fill_secret_data_dom [of K site "(?d0, w)"] d by simp
  show "secret_conforms K owner site z"
    using z required set_ref_controls [OF m] controlled_same_meta [OF z(1)]
    by (simp add: secret_conforms_def)
  have "fill_secret_data K site (d, v) = (d, v)"
    using required by (simp add: fill_secret_data_present)
  then show "mutate_secret K owner site z v = (Ok z, v)"
    unfolding mutate_secret_Ok using z set_ref_again [OF m z(1)] by (cases z) auto
next
  fix x :: Secret and w :: 'w
  have "entropy_keeps K (\<lambda>u. view u = view w)"
    by (simp add: entropy_keeps_def keeps_def rand_view)
  then have "keeps (\<lambda>u. view u = view w) (mutate_secret K owner site x)"
    by (rule keeps_mutate_secret)
  then show "view (snd (mutate_secret K owner site x w)) = view w"
    by (simp add: keeps_def)
qed

text \<open>Lengths and freshness of the generated values.\<close>

lemma randomKey_read: "k_RandRead K 64 w = (Some b, w') \<Longrightarrow> fst (randomKey K w) = base64_EncodeToString b"
  by (simp add: randomKey_def)

lemma length_randomShortKey:
  assumes "entropy (k_RandRead K)"
  shows "length (fst (randomShortKey K w)) \<le> 32"
proof (cases "k_RandRead K 24 w")
  case (Pair b w')
  show ?thesis
  proof (cases b)
    case (Some bs)
    with Pair assms have "length bs = 24" by (auto dest: entropy.rand_fills)
    with Pair Some show ?thesis by (simp add: randomShortKey_def length_base64_EncodeToString)
  qed (use Pair in \<open>simp add: randomShortKey_def fallback_short_key_def\<close>)
qed

text \<open>The secrets a Site names itself, beside the one the operator keeps.\<close>

definition user_secret_refs :: "Site \<Rightarrow> SecretKeyRef set" where
  "user_secret_refs site =
     set_option (dbs_UserSecret (spec_Database (site_Spec site)))
     \<union> set_option (dbs_PasswordSecret (spec_Database (site_Spec site)))
     \<union> set_option (Option.bind (Option.bind (spec_Wordpress (site_Spec site)) wp_Install)
         inst_AdminPasswordSecret)"

text \<open>The keys of the site's secret that each group of variables reads.\<close>

lemma installEnvs_keys:
  assumes "spec_Wordpress (site_Spec site) = Some wp" and "wp_Install wp = Some install"
    and "site_secret_name site \<notin> skr_Name ` user_secret_refs site"
  shows "site_secret_keys site (installEnvs site install) =
    (if wants_admin_password site then {''ADMIN_PASSWORD''} else {})"
  using assms
  by (auto simp: installEnvs_def site_secret_keys_Cons wants_admin_password_def user_secret_refs_def
      split: option.splits)

lemma buildWPEnvs_keys:
  assumes "site_secret_name site \<notin> skr_Name ` user_secret_refs site"
  shows "site_secret_keys site (buildWPEnvs site) =
    set salts \<union> (if wants_admin_password site then {''ADMIN_PASSWORD''} else {})"
proof -
  have "site_secret_keys site (case Option.bind (spec_Wordpress (site_Spec site)) wp_Install of
      None \<Rightarrow> [] | Some install \<Rightarrow> installEnvs site install) =
    (if wants_admin_password site then {''ADMIN_PASSWORD''} else {})"
  proof (cases "Option.bind (spec_Wordpress (site_Spec site)) wp_Install")
    case None
    then show ?thesis by (simp add: wants_admin_password_def)
  next
    case (Some install)
    then show ?thesis using assms by (auto simp: bind_eq_Some_conv installEnvs_keys)
  qed
  then show ?thesis
    by (simp only: buildWPEnvs_def Let_def site_secret_keys_append)
       (simp add: site_secret_keys_Cons salts_def insert_commute)
qed

lemma buildDatabaseEnvs_keys:
  assumes "site_secret_name site \<notin> skr_Name ` user_secret_refs site"
  shows "site_secret_keys site (buildDatabaseEnvs site) =
    (if provisionEnabled site then {dbPasswordKey} else {})"
  using assms
  by (auto simp: buildDatabaseEnvs_def Let_def site_secret_keys_Cons user_envs_def password_envs_def
      user_secret_refs_def split: option.splits)

end
