(* ===== verification/SiteDeployment.thy ===== *)
theory SiteDeployment
  imports Sha256 PodScripts SiteSecret
begin

text \<open>
  \<open>internal/controller/deployment.go\<close>: the rendered nginx and php configuration, its
  checksum, the pod specification and the reconciliation of the two ConfigMaps and the
  Deployment.
\<close>

section \<open>Rendered configuration\<close>

definition phpIniFileName :: string where
  "phpIniFileName = ''zz-site-operator.ini''"

definition siteDataVolume :: string where
  "siteDataVolume = ''site-data''"

definition siteRoot :: string where
  "siteRoot = ''/var/www/html''"

definition tls_enabled :: "Site \<Rightarrow> bool" where
  "tls_enabled site =
     (case spec_Ingress (site_Spec site) of None \<Rightarrow> False | Some ing \<Rightarrow> boolPtrVal (isp_TLS ing))"

definition nginx_extra :: "Site \<Rightarrow> string" where
  "nginx_extra site =
     (case spec_Nginx (site_Spec site) of None \<Rightarrow> [] | Some n \<Rightarrow> nginx_Config n)"

text \<open>The format of the server block, with the four substituted pieces as arguments.\<close>

definition nginx_template :: "string \<Rightarrow> string \<Rightarrow> string \<Rightarrow> string \<Rightarrow> string" where
  "nginx_template redirect extra https xfp = lines
     ['''',
      ''server {'',
      ''  listen 80;'',
      ''  server_name _;'',
      '''',
      ''  root /var/www/html;'',
      ''  index index.php index.html;'',
      '''',
      ''  '' @ redirect,
      '''',
      ''  '' @ extra,
      '''',
      ''  location / {'',
      ''    try_files $uri $uri/ /index.php?$args;'',
      ''  }'',
      '''',
      ''  location ~ '' @ backslash @ ''.php$ {'',
      ''    include fastcgi_params;'',
      ''    fastcgi_pass 127.0.0.1:9000;'',
      ''    fastcgi_param SCRIPT_FILENAME $document_root$fastcgi_script_name;'',
      '''',
      ''    '' @ https,
      ''    '' @ xfp,
      ''  }'',
      ''}'']"

definition buildNginxConfigContent :: "Site \<Rightarrow> string" where
  "buildNginxConfigContent site =
     (let fastcgiHTTPS = (if tls_enabled site then ''fastcgi_param HTTPS on;'' else []);
          fastcgiXFP = (if tls_enabled site
                        then ''fastcgi_param HTTP_X_FORWARDED_PROTO https;'' else []);
          extraConfig = nginx_extra site;
          absoluteRedirect = (if Contains extraConfig ''absolute_redirect'' then []
                              else ''absolute_redirect off;'')
      in nginx_template absoluteRedirect extraConfig fastcgiHTTPS fastcgiXFP)"

definition buildPHPIniContent :: "Site \<Rightarrow> string" where
  "buildPHPIniContent site =
     (case spec_Php (site_Spec site) of None \<Rightarrow> [] | Some p \<Rightarrow> php_Config p)"

text \<open>\<open>[]byte(c)\<close>, and the bytes written to the hash: each content and a zero byte.\<close>

definition bytes_of :: "string \<Rightarrow> byte list" where
  "bytes_of s = map (\<lambda>c. of_nat (of_char c)) s"

definition checksum_input :: "string list \<Rightarrow> byte list" where
  "checksum_input contents = concat (map (\<lambda>c. bytes_of c @ [0]) contents)"

definition configChecksum :: "string list \<Rightarrow> string" where
  "configChecksum contents = hex_EncodeToString (sha256 (checksum_input contents))"

section \<open>Containers and volumes\<close>

definition defaultPHPImage :: string where
  "defaultPHPImage = ''wordpress:php8.5-fpm''"

definition defaultNginxImage :: string where
  "defaultNginxImage = ''nginx:1.30-alpine''"

definition phpImage :: "Site \<Rightarrow> string" where
  "phpImage site =
     (case spec_Php (site_Spec site) of
        None \<Rightarrow> defaultPHPImage
      | Some p \<Rightarrow> if php_Image p \<noteq> [] then php_Image p else defaultPHPImage)"

definition nginxImage :: "Site \<Rightarrow> string" where
  "nginxImage site =
     (case spec_Nginx (site_Spec site) of
        None \<Rightarrow> defaultNginxImage
      | Some n \<Rightarrow> if nginx_Image n \<noteq> [] then nginx_Image n else defaultNginxImage)"

definition wpVersion :: "Site \<Rightarrow> string" where
  "wpVersion site =
     (case spec_Wordpress (site_Spec site) of
        None \<Rightarrow> ''latest''
      | Some wp \<Rightarrow> if wp_Version wp \<noteq> [] then wp_Version wp else ''latest'')"

definition mount :: "string \<Rightarrow> string \<Rightarrow> string \<Rightarrow> VolumeMount" where
  "mount n path sub = \<lparr>vm_Name = n, vm_MountPath = path, vm_SubPath = sub\<rparr>"

text \<open>\<open>RunAsUser: int64Ptr(33), RunAsGroup: int64Ptr(33)\<close>.\<close>

definition www_data :: SecurityContext where
  "www_data = \<lparr>sc_RunAsUser = Some 33, sc_RunAsGroup = Some 33\<rparr>"

definition buildWPInitContainer :: "Site \<Rightarrow> Container" where
  "buildWPInitContainer site =
     \<lparr>ct_Name = ''wp-init'', ct_Image = phpImage site, ct_Command = [''sh'', ''-c''],
      ct_Args = [wp_init_script], ct_Ports = [],
      ct_Env = [value_env ''WP_VERSION'' (wpVersion site)],
      ct_SecurityContext = None, ct_ReadinessProbe = None,
      ct_VolumeMounts = [mount siteDataVolume siteRoot []]\<rparr>"

definition buildPHPFPMContainer :: "Site \<Rightarrow> EnvVar list \<Rightarrow> Container" where
  "buildPHPFPMContainer site envs =
     \<lparr>ct_Name = ''php-fpm'', ct_Image = phpImage site, ct_Command = [''sh'', ''-c''],
      ct_Args = [php_fpm_script], ct_Ports = [9000], ct_Env = envs,
      ct_SecurityContext = Some www_data,
      ct_ReadinessProbe = Some \<lparr>probe_TCPSocketPort = 9000, probe_InitialDelaySeconds = 5,
        probe_PeriodSeconds = 10\<rparr>,
      ct_VolumeMounts =
        [mount siteDataVolume siteRoot [],
         mount ''php-config'' (''/usr/local/etc/php/conf.d/'' @ phpIniFileName) phpIniFileName]\<rparr>"

definition buildNginxContainer :: "Site \<Rightarrow> Container" where
  "buildNginxContainer site =
     \<lparr>ct_Name = ''nginx'', ct_Image = nginxImage site, ct_Command = [], ct_Args = [],
      ct_Ports = [80], ct_Env = [], ct_SecurityContext = None, ct_ReadinessProbe = None,
      ct_VolumeMounts =
        [mount siteDataVolume siteRoot [],
         mount ''nginx-config'' ''/etc/nginx/conf.d/default.conf'' ''default.conf'']\<rparr>"

definition fileBrowserImage :: "Site \<Rightarrow> string" where
  "fileBrowserImage site =
     (case spec_FileBrowser (site_Spec site) of
        None \<Rightarrow> ''filebrowser/filebrowser:latest''
      | Some fb \<Rightarrow> if fb_Image fb \<noteq> [] then fb_Image fb else ''filebrowser/filebrowser:latest'')"

definition buildFileBrowserContainer :: "Site \<Rightarrow> Container" where
  "buildFileBrowserContainer site =
     \<lparr>ct_Name = ''filebrowser'', ct_Image = fileBrowserImage site, ct_Command = [''sh'', ''-c''],
      ct_Args = [filebrowser_script], ct_Ports = [8080],
      ct_Env =
        [value_env ''FB_PORT'' ''8080'', value_env ''FB_ROOT'' siteRoot,
         value_env ''FB_DATABASE'' ''/tmp/filebrowser.db'',
         value_env ''FB_BASE_URL'' ''/filebrowser'', value_env ''FB_ADDRESS'' ''0.0.0.0'',
         value_env ''FB_USERNAME'' ''admin'', secretEnv site ''FB_PASSWORD''],
      ct_SecurityContext = Some www_data, ct_ReadinessProbe = None,
      ct_VolumeMounts = [mount siteDataVolume siteRoot [], mount ''fb-config'' ''/config'' []]\<rparr>"

definition buildSiteDataVolume :: "Site \<Rightarrow> Volume" where
  "buildSiteDataVolume site =
     (case spec_Persistence (site_Spec site) of
        None \<Rightarrow> \<lparr>vol_Name = siteDataVolume, vol_Source = EmptyDir\<rparr>
      | Some p \<Rightarrow>
          if \<not> per_Enabled p then \<lparr>vol_Name = siteDataVolume, vol_Source = EmptyDir\<rparr>
          else let claimName = (if per_ExistingClaim p \<noteq> [] then per_ExistingClaim p
                                else site_Name site @ ''-data'')
               in \<lparr>vol_Name = siteDataVolume, vol_Source = PersistentVolumeClaimVolume claimName\<rparr>)"

lemma buildSiteDataVolume_name [simp]: "vol_Name (buildSiteDataVolume site) = siteDataVolume"
  by (simp add: buildSiteDataVolume_def Let_def split: option.splits)

definition pod_volumes :: "Site \<Rightarrow> Volume list" where
  "pod_volumes site =
     [buildSiteDataVolume site,
      \<lparr>vol_Name = ''nginx-config'', vol_Source = ConfigMapVolume (site_Name site @ ''-nginx'')\<rparr>,
      \<lparr>vol_Name = ''php-config'', vol_Source = ConfigMapVolume (site_Name site @ ''-php'')\<rparr>,
      \<lparr>vol_Name = ''fb-config'', vol_Source = EmptyDir\<rparr>]"

definition pod_containers :: "Site \<Rightarrow> EnvVar list \<Rightarrow> Container list" where
  "pod_containers site envs =
     [buildPHPFPMContainer site envs, buildNginxContainer site]
     @ (if fileBrowserEnabled site then [buildFileBrowserContainer site] else [])"

section \<open>The Deployment\<close>

definition deploymentStrategyType :: "Site \<Rightarrow> string" where
  "deploymentStrategyType site =
     (if spec_UpdateStrategy (site_Spec site) = ''Recreate'' then ''Recreate''
      else ''RollingUpdate'')"

definition buildDeploymentSpec ::
  "Site \<Rightarrow> (string \<rightharpoonup> string) \<Rightarrow> EnvVar list \<Rightarrow> string \<Rightarrow> DeploymentSpec" where
  "buildDeploymentSpec site labels envs configHash =
     \<lparr>ds_Replicas = Some 1, ds_StrategyType = deploymentStrategyType site,
      ds_Selector = Some labels,
      ds_Template =
        \<lparr>pt_Labels = labels,
         pt_Annotations = [''site-operator.propastinv/config-hash'' \<mapsto> configHash],
         pt_Spec =
           \<lparr>pod_NodeSelector = spec_NodeSelector (site_Spec site),
            pod_Volumes = pod_volumes site,
            pod_InitContainers = [buildWPInitContainer site],
            pod_Containers = pod_containers site envs\<rparr>\<rparr>\<rparr>"

definition mutate_configmap ::
  "'w kube \<Rightarrow> ObjectMeta \<Rightarrow> (string \<rightharpoonup> string) \<Rightarrow> ConfigMap \<Rightarrow> ('w, ConfigMap) act" where
  "mutate_configmap K owner data cm =
     lift_res (set_controller_reference K owner cm_Meta (\<lambda>m c. c\<lparr>cm_Meta := m\<rparr>)
       (cm\<lparr>cm_Data := data\<rparr>))"

definition mutate_deployment ::
  "'w kube \<Rightarrow> ObjectMeta \<Rightarrow> Site \<Rightarrow> (string \<rightharpoonup> string) \<Rightarrow> EnvVar list \<Rightarrow> string
   \<Rightarrow> Deployment \<Rightarrow> ('w, Deployment) act" where
  "mutate_deployment K owner site labels envs configHash deploy =
     lift_res (set_controller_reference K owner dep_Meta (\<lambda>m d. d\<lparr>dep_Meta := m\<rparr>)
       (deploy\<lparr>dep_Meta := (dep_Meta deploy)\<lparr>om_Labels := labels\<rparr>,
               dep_Spec := buildDeploymentSpec site labels envs configHash\<rparr>))"

definition nginx_configmap_name :: "Site \<Rightarrow> string" where
  "nginx_configmap_name site = site_Name site @ ''-nginx''"

definition php_configmap_name :: "Site \<Rightarrow> string" where
  "php_configmap_name site = site_Name site @ ''-php''"

definition new_configmap :: "Site \<Rightarrow> string \<Rightarrow> ConfigMap" where
  "new_configmap site n = \<lparr>cm_Meta = new_meta (site_Namespace site) n, cm_Data = Map.empty\<rparr>"

definition site_config_hash :: "Site \<Rightarrow> string" where
  "site_config_hash site =
     configChecksum [buildNginxConfigContent site, buildPHPIniContent site]"

definition reconcileDeployment ::
  "'w kube \<Rightarrow> ObjectMeta \<Rightarrow> Site \<Rightarrow> (string \<rightharpoonup> string) \<Rightarrow> EnvVar list \<Rightarrow> ('w, unit) act" where
  "reconcileDeployment K owner site labels envs =
     (let nginxContent = buildNginxConfigContent site;
          phpIniContent = buildPHPIniContent site
      in and_then (k_RetryOnConflict K
           (tc_CreateOrUpdate (k_ConfigMaps K) (new_configmap site (nginx_configmap_name site))
              (mutate_configmap K owner [''default.conf'' \<mapsto> nginxContent]))) (\<lambda>_.
         and_then (k_RetryOnConflict K
           (tc_CreateOrUpdate (k_ConfigMaps K) (new_configmap site (php_configmap_name site))
              (mutate_configmap K owner [phpIniFileName \<mapsto> phpIniContent]))) (\<lambda>_.
         let configHash = configChecksum [nginxContent, phpIniContent] in
         k_RetryOnConflict K
           (tc_CreateOrUpdate (k_Deployments K)
              (new_deployment (new_meta (site_Namespace site) (site_Name site)))
              (mutate_deployment K owner site labels envs configHash)))))"

section \<open>Contract\<close>

definition configmap_conforms ::
  "'w kube \<Rightarrow> ObjectMeta \<Rightarrow> (string \<rightharpoonup> string) \<Rightarrow> ConfigMap \<Rightarrow> bool" where
  "configmap_conforms K owner data cm \<longleftrightarrow>
     k_IsControlledBy K (cm_Meta cm) owner \<and> cm_Data cm = data"

definition deployment_conforms ::
  "'w kube \<Rightarrow> ObjectMeta \<Rightarrow> (string \<rightharpoonup> string) \<Rightarrow> DeploymentSpec \<Rightarrow> Deployment \<Rightarrow> bool" where
  "deployment_conforms K owner labels spec d \<longleftrightarrow>
     k_IsControlledBy K (dep_Meta d) owner \<and> om_Labels (dep_Meta d) = labels \<and> dep_Spec d = spec"

locale configmap_owner = site_owner +
  fixes data :: "string \<rightharpoonup> string"

sublocale configmap_owner \<subseteq> configmap: mutate_callback view configmap_stored_as
  "mutate_configmap K owner data" "configmap_conforms K owner data"
proof unfold_locales
  fix x y z :: ConfigMap and w w' v
  assume run: "mutate_configmap K owner data x w = (Ok y, w')"
    and stored: "configmap_stored_as y z"
  from run obtain m where m: "k_SetControllerReference K owner (cm_Meta x) = Ok m"
    and y: "y = x\<lparr>cm_Meta := m, cm_Data := data\<rparr>"
    by (auto simp: mutate_configmap_def set_controller_reference_Ok)
  have z: "same_meta m (cm_Meta z)" "cm_Data z = data"
    using stored y by (auto simp: configmap_stored_as_def)
  show "configmap_conforms K owner data z"
    using z set_ref_controls [OF m] controlled_same_meta [OF z(1)]
    by (simp add: configmap_conforms_def)
  show "mutate_configmap K owner data z v = (Ok z, v)"
    using z set_ref_again [OF m z(1)]
    by (cases z) (auto simp: mutate_configmap_def set_controller_reference_Ok)
next
  show "view (snd (mutate_configmap K owner data x w)) = view w" for x w
    by (simp add: mutate_configmap_def)
qed

locale deployment_owner = site_owner +
  fixes labels :: "string \<rightharpoonup> string"
    and envs :: "EnvVar list"
    and configHash :: string

sublocale deployment_owner \<subseteq> deployment: mutate_callback view deployment_stored_as
  "mutate_deployment K owner site labels envs configHash"
  "deployment_conforms K owner labels (buildDeploymentSpec site labels envs configHash)"
proof unfold_locales
  fix x y z :: Deployment and w w' v
  let ?spec = "buildDeploymentSpec site labels envs configHash"
  assume run: "mutate_deployment K owner site labels envs configHash x w = (Ok y, w')"
    and stored: "deployment_stored_as y z"
  from run obtain m where
    m: "k_SetControllerReference K owner ((dep_Meta x)\<lparr>om_Labels := labels\<rparr>) = Ok m"
    and y: "y = x\<lparr>dep_Meta := m, dep_Spec := ?spec\<rparr>"
    by (auto simp: mutate_deployment_def set_controller_reference_Ok)
  have z: "same_meta m (dep_Meta z)" "dep_Spec z = ?spec"
    using stored y by (auto simp: deployment_stored_as_def)
  have labels: "om_Labels (dep_Meta z) = labels"
    using z(1) set_ref_labels [OF m] by (simp add: same_meta_def)
  show "deployment_conforms K owner labels ?spec z"
    using z labels set_ref_controls [OF m] controlled_same_meta [OF z(1)]
    by (simp add: deployment_conforms_def)
  show "mutate_deployment K owner site labels envs configHash z v = (Ok z, v)"
    using z labels_same [OF labels] set_ref_again [OF m z(1)]
    by (cases z) (auto simp: mutate_deployment_def set_controller_reference_Ok)
next
  show "view (snd (mutate_deployment K owner site labels envs configHash x w)) = view w" for x w
    by (simp add: mutate_deployment_def)
qed

section \<open>What the rendered configuration contains\<close>

lemma occurs_lines:
  assumes "CHR 0x0A \<notin> set sub" and "sub \<noteq> []"
  shows "occurs sub (lines ls) = sum_list (map (occurs sub) ls)"
  by (induction ls) (simp_all add: occurs_separator [OF assms])

lemma Contains_lines:
  assumes "CHR 0x0A \<notin> set sub" and "sub \<noteq> []"
  shows "Contains (lines ls) sub \<longleftrightarrow> (\<exists>l \<in> set ls. Contains l sub)"
  using assms by (induction ls) (simp_all add: Contains_separator)

lemma occurs_skip: "c \<noteq> hd sub \<Longrightarrow> sub \<noteq> [] \<Longrightarrow> occurs sub (c # s) = occurs sub s"
  by (cases sub) simp_all

text \<open>
  C29. The rendered server block sets \<open>absolute_redirect\<close> once if the Site's extra nginx
  configuration does not mention it, and as often as that does otherwise: the default never
  adds a second directive, which nginx would refuse.
\<close>

theorem absolute_redirect_once:
  "occurs ''absolute_redirect'' (buildNginxConfigContent site)
     = max 1 (occurs ''absolute_redirect'' (nginx_extra site))"
proof -
  let ?p = "''absolute_redirect''"
  have extra: "occurs ?p (CHR '' '' # CHR '' '' # s) = occurs ?p s" for s
    by (simp add: occurs_skip)
  have "occurs ?p (nginx_template redirect e https xfp)
      = occurs ?p redirect + occurs ?p e + occurs ?p https + occurs ?p xfp" for redirect e https xfp
    unfolding nginx_template_def by (subst occurs_lines) (simp_all add: extra)
  moreover have "occurs ?p (nginx_extra site) = 0 \<longleftrightarrow> \<not> Contains (nginx_extra site) ?p"
    by (rule occurs_eq_0_iff) simp
  ultimately show ?thesis
    by (auto simp: buildNginxConfigContent_def Let_def)
qed

text \<open>PHP is told of HTTPS when \<open>spec.ingress.tls\<close> is set, or by the Site's own configuration.\<close>

lemma nginx_tells_https:
  assumes "\<not> Contains (nginx_extra site) ''fastcgi_param HTTPS on;''"
  shows "Contains (buildNginxConfigContent site) ''fastcgi_param HTTPS on;'' \<longleftrightarrow> tls_enabled site"
proof -
  let ?p = "''fastcgi_param HTTPS on;''"
  have indent: "Contains (CHR '' '' # CHR '' '' # s) ?p = Contains s ?p" for s by simp
  have "Contains (nginx_template redirect e https xfp) ?p \<longleftrightarrow>
      Contains redirect ?p \<or> Contains e ?p \<or> Contains https ?p \<or> Contains xfp ?p" for redirect e https xfp
    unfolding nginx_template_def by (subst Contains_lines) (simp_all add: indent)
  then show ?thesis
    using assms by (simp add: buildNginxConfigContent_def Let_def)
qed

lemma site_scheme_https: "site_scheme site = ''https'' \<longleftrightarrow> tls_enabled site"
  by (auto simp: site_scheme_def tls_enabled_def boolPtrVal_def split: option.splits)

text \<open>The framing of the checksummed contents is injective on contents without NUL bytes.\<close>

lemma unat_char [simp]: "unat (of_nat (of_char c) :: byte) = of_char c"
  by (simp add: unsigned_of_nat take_bit_nat_def)

lemma char_byte_inject: "(of_nat (of_char c) :: byte) = of_nat (of_char d) \<longleftrightarrow> c = d"
  by (metis char_of_char unat_char)

lemma bytes_of_inject: "bytes_of s = bytes_of t \<longleftrightarrow> s = t"
proof -
  have "inj (\<lambda>c :: char. (of_nat (of_char c) :: byte))"
    by (rule injI) (simp only: char_byte_inject)
  then show ?thesis unfolding bytes_of_def by (rule inj_map_eq_map)
qed

lemma bytes_of_NUL: "0 \<in> set (bytes_of s) \<longleftrightarrow> CHR 0x00 \<in> set s"
proof -
  have "(of_nat (of_char c) :: byte) = 0 \<longleftrightarrow> c = CHR 0x00" for c
    using char_byte_inject [of c "CHR 0x00"] by simp
  then show ?thesis by (auto simp: bytes_of_def image_iff)
qed

lemma checksum_input_inject:
  assumes "\<forall>c \<in> set xs \<union> set ys. CHR 0x00 \<notin> set c"
  shows "checksum_input xs = checksum_input ys \<longleftrightarrow> xs = ys"
  using assms
proof (induction xs arbitrary: ys)
  case Nil
  then show ?case by (cases ys) (auto simp: checksum_input_def)
next
  case (Cons x xs)
  show ?case
  proof (cases ys)
    case Nil
    then show ?thesis by (auto simp: checksum_input_def)
  next
    case ys: (Cons y ys')
    have "0 \<notin> set (bytes_of x)" "0 \<notin> set (bytes_of y)"
      using Cons.prems ys by (simp_all add: bytes_of_NUL)
    then have "checksum_input (x # xs) = checksum_input (y # ys') \<longleftrightarrow>
        bytes_of x = bytes_of y \<and> checksum_input xs = checksum_input ys'"
      by (simp add: checksum_input_def append_separator_inject)
    with Cons.IH [of ys'] Cons.prems ys show ?thesis by (simp add: bytes_of_inject)
  qed
qed

text \<open>
  C31. The annotation that restarts the pods is 64 hex digits and differs exactly when the
  SHA-256 of the framed contents differs; the framing itself tells any two contents apart
  that hold no NUL byte, so text cannot move from one file to the other unseen.
\<close>

theorem configChecksum_detects_changes:
  assumes "\<forall>c \<in> set xs \<union> set ys. CHR 0x00 \<notin> set c"
  shows "length (configChecksum xs) = 64
    \<and> (checksum_input xs = checksum_input ys \<longleftrightarrow> xs = ys)
    \<and> (configChecksum xs = configChecksum ys \<longleftrightarrow>
         sha256 (checksum_input xs) = sha256 (checksum_input ys))"
  using checksum_input_inject [OF assms]
  by (simp add: configChecksum_def hex_EncodeToString_inject)

theorem configChecksum_detects_changes_witness:
  "length (configChecksum [''ab'', ''c'']) = 64
   \<and> checksum_input [''ab'', ''c''] \<noteq> checksum_input [''a'', ''bc'']"
proof -
  have "\<forall>c \<in> set [''ab'', ''c''] \<union> set [''a'', ''bc'']. CHR 0x00 \<notin> set c" by simp
  from configChecksum_detects_changes [OF this] show ?thesis by simp
qed

end
