(* ===== verification/SiteProvision.thy ===== *)
theory SiteProvision
  imports SiteSecret
begin

text \<open>
  \<open>reconcileDatabaseProvision\<close> of \<open>internal/controller/provision.go\<close>: the
  mariadb-operator \<open>Database\<close>, \<open>User\<close> and \<open>Grant\<close> of a Site that opted in.
\<close>

definition mariadb_ref :: "MariaDBClusterRef \<Rightarrow> MariaDBRef" where
  "mariadb_ref ref =
     \<lparr>mref_Name = mcr_Name ref, mref_Namespace = mcr_Namespace ref, mref_WaitForIt = True\<rparr>"

definition mutate_database ::
  "'w kube \<Rightarrow> ObjectMeta \<Rightarrow> Site \<Rightarrow> MariaDBRef \<Rightarrow> Database \<Rightarrow> ('w, Database) act" where
  "mutate_database K owner site ref db =
     lift_res (set_controller_reference K owner db_Meta (\<lambda>m d. d\<lparr>db_Meta := m\<rparr>)
       (db\<lparr>db_MariaDBRef := ref, db_Name := dbs_Name (spec_Database (site_Spec site))\<rparr>))"

definition mutate_user ::
  "'w kube \<Rightarrow> ObjectMeta \<Rightarrow> Site \<Rightarrow> MariaDBRef \<Rightarrow> User \<Rightarrow> ('w, User) act" where
  "mutate_user K owner site ref user =
     lift_res (set_controller_reference K owner usr_Meta (\<lambda>m u. u\<lparr>usr_Meta := m\<rparr>)
       (user\<lparr>usr_MariaDBRef := ref, usr_Name := provisionedUsername site,
             usr_PasswordSecretKeyRef :=
               Some \<lparr>sks_Name = site_Name site @ ''-site-secret'', sks_Key = dbPasswordKey\<rparr>\<rparr>))"

definition mutate_grant ::
  "'w kube \<Rightarrow> ObjectMeta \<Rightarrow> Site \<Rightarrow> MariaDBRef \<Rightarrow> Grant \<Rightarrow> ('w, Grant) act" where
  "mutate_grant K owner site ref grant =
     lift_res (set_controller_reference K owner gr_Meta (\<lambda>m g. g\<lparr>gr_Meta := m\<rparr>)
       (grant\<lparr>gr_MariaDBRef := ref, gr_Privileges := [''ALL PRIVILEGES''],
              gr_Database := dbs_Name (spec_Database (site_Spec site)), gr_Table := ''*'',
              gr_Username := provisionedUsername site\<rparr>))"

definition new_database :: "Site \<Rightarrow> Database" where
  "new_database site =
     \<lparr>db_Meta = new_meta (site_Namespace site) (site_Name site),
      db_MariaDBRef = zero_MariaDBRef, db_Name = []\<rparr>"

definition new_user :: "Site \<Rightarrow> User" where
  "new_user site =
     \<lparr>usr_Meta = new_meta (site_Namespace site) (site_Name site @ ''-db-user''),
      usr_MariaDBRef = zero_MariaDBRef, usr_Name = [], usr_PasswordSecretKeyRef = None\<rparr>"

definition new_grant :: "Site \<Rightarrow> Grant" where
  "new_grant site =
     \<lparr>gr_Meta = new_meta (site_Namespace site) (site_Name site @ ''-db-grant''),
      gr_MariaDBRef = zero_MariaDBRef, gr_Privileges = [], gr_Database = [], gr_Table = [],
      gr_Username = []\<rparr>"

definition reconcileDatabaseProvision ::
  "'w kube \<Rightarrow> ObjectMeta \<Rightarrow> Site \<Rightarrow> MariaDBClusterRef option \<Rightarrow> ('w, unit) act" where
  "reconcileDatabaseProvision K owner site defaultRef =
    (if \<not> provisionEnabled site then ret ()
     else and_then (lift_res (resolveMariaDBRef site defaultRef)) (\<lambda>ref.
       let mref = mariadb_ref ref in
       and_then (wrap_error ''reconciling mariadb Database''
         (k_RetryOnConflict K
           (tc_CreateOrUpdate (k_Databases K) (new_database site)
              (mutate_database K owner site mref)))) (\<lambda>_.
       and_then (wrap_error ''reconciling mariadb User''
         (k_RetryOnConflict K
           (tc_CreateOrUpdate (k_Users K) (new_user site)
              (mutate_user K owner site mref)))) (\<lambda>_.
       and_then (wrap_error ''reconciling mariadb Grant''
         (k_RetryOnConflict K
           (tc_CreateOrUpdate (k_Grants K) (new_grant site)
              (mutate_grant K owner site mref)))) (\<lambda>_.
       ret ())))))"

section \<open>The cluster reference\<close>

lemma resolveMariaDBRef_enabled:
  assumes "provisionEnabled site"
  shows "resolveMariaDBRef site defaultRef =
    (case find (\<lambda>r. mcr_Name r \<noteq> [])
        ((case Option.bind (Option.bind (spec_Provision (site_Spec site)) prov_Database) dps_MariaDBRef
            of None \<Rightarrow> [] | Some r \<Rightarrow> [r])
         @ (case defaultRef of None \<Rightarrow> [] | Some r \<Rightarrow> [r])) of
       Some r \<Rightarrow> Ok r
     | None \<Rightarrow> Err no_mariadb_ref)"
  using assms
  by (auto simp: resolveMariaDBRef_def provisionEnabled_iff split: option.splits)

section \<open>Contract\<close>

definition database_conforms :: "'w kube \<Rightarrow> ObjectMeta \<Rightarrow> Site \<Rightarrow> MariaDBRef \<Rightarrow> Database \<Rightarrow> bool" where
  "database_conforms K owner site ref db \<longleftrightarrow>
     k_IsControlledBy K (db_Meta db) owner \<and> db_MariaDBRef db = ref
     \<and> db_Name db = dbs_Name (spec_Database (site_Spec site))"

definition user_conforms :: "'w kube \<Rightarrow> ObjectMeta \<Rightarrow> Site \<Rightarrow> MariaDBRef \<Rightarrow> User \<Rightarrow> bool" where
  "user_conforms K owner site ref u \<longleftrightarrow>
     k_IsControlledBy K (usr_Meta u) owner \<and> usr_MariaDBRef u = ref
     \<and> usr_Name u = provisionedUsername site
     \<and> usr_PasswordSecretKeyRef u =
         Some \<lparr>sks_Name = site_secret_name site, sks_Key = dbPasswordKey\<rparr>"

definition grant_conforms :: "'w kube \<Rightarrow> ObjectMeta \<Rightarrow> Site \<Rightarrow> MariaDBRef \<Rightarrow> Grant \<Rightarrow> bool" where
  "grant_conforms K owner site ref g \<longleftrightarrow>
     k_IsControlledBy K (gr_Meta g) owner \<and> gr_MariaDBRef g = ref
     \<and> gr_Privileges g = [''ALL PRIVILEGES''] \<and> gr_Table g = ''*''
     \<and> gr_Database g = dbs_Name (spec_Database (site_Spec site))
     \<and> gr_Username g = provisionedUsername site"

locale provision_owner = site_owner +
  fixes ref :: MariaDBRef

sublocale provision_owner \<subseteq> database: mutate_callback view database_stored_as
  "mutate_database K owner site ref" "database_conforms K owner site ref"
proof unfold_locales
  fix x y z :: Database and w w' v
  assume run: "mutate_database K owner site ref x w = (Ok y, w')"
    and stored: "database_stored_as y z"
  from run obtain m where m: "k_SetControllerReference K owner (db_Meta x) = Ok m"
    and y: "y = x\<lparr>db_Meta := m, db_MariaDBRef := ref,
      db_Name := dbs_Name (spec_Database (site_Spec site))\<rparr>"
    by (auto simp: mutate_database_def set_controller_reference_Ok)
  have z: "same_meta m (db_Meta z)" "db_MariaDBRef z = ref"
    "db_Name z = dbs_Name (spec_Database (site_Spec site))"
    using stored y by (auto simp: database_stored_as_def)
  show "database_conforms K owner site ref z"
    using z set_ref_controls [OF m] controlled_same_meta [OF z(1)]
    by (simp add: database_conforms_def)
  show "mutate_database K owner site ref z v = (Ok z, v)"
    using z set_ref_again [OF m z(1)]
    by (cases z) (auto simp: mutate_database_def set_controller_reference_Ok)
next
  show "view (snd (mutate_database K owner site ref x w)) = view w" for x w
    by (simp add: mutate_database_def)
qed

sublocale provision_owner \<subseteq> user: mutate_callback view user_stored_as
  "mutate_user K owner site ref" "user_conforms K owner site ref"
proof unfold_locales
  fix x y z :: User and w w' v
  assume run: "mutate_user K owner site ref x w = (Ok y, w')" and stored: "user_stored_as y z"
  let ?pw = "Some \<lparr>sks_Name = site_secret_name site, sks_Key = dbPasswordKey\<rparr>"
  from run obtain m where m: "k_SetControllerReference K owner (usr_Meta x) = Ok m"
    and y: "y = x\<lparr>usr_Meta := m, usr_MariaDBRef := ref, usr_Name := provisionedUsername site,
      usr_PasswordSecretKeyRef := ?pw\<rparr>"
    by (auto simp: mutate_user_def set_controller_reference_Ok site_secret_name_def)
  have z: "same_meta m (usr_Meta z)" "usr_MariaDBRef z = ref"
    "usr_Name z = provisionedUsername site" "usr_PasswordSecretKeyRef z = ?pw"
    using stored y by (auto simp: user_stored_as_def)
  show "user_conforms K owner site ref z"
    using z set_ref_controls [OF m] controlled_same_meta [OF z(1)]
    by (simp add: user_conforms_def)
  show "mutate_user K owner site ref z v = (Ok z, v)"
    using z set_ref_again [OF m z(1)]
    by (cases z) (auto simp: mutate_user_def set_controller_reference_Ok site_secret_name_def)
next
  show "view (snd (mutate_user K owner site ref x w)) = view w" for x w
    by (simp add: mutate_user_def)
qed

sublocale provision_owner \<subseteq> grant: mutate_callback view grant_stored_as
  "mutate_grant K owner site ref" "grant_conforms K owner site ref"
proof unfold_locales
  fix x y z :: Grant and w w' v
  assume run: "mutate_grant K owner site ref x w = (Ok y, w')" and stored: "grant_stored_as y z"
  from run obtain m where m: "k_SetControllerReference K owner (gr_Meta x) = Ok m"
    and y: "y = x\<lparr>gr_Meta := m, gr_MariaDBRef := ref, gr_Privileges := [''ALL PRIVILEGES''],
      gr_Database := dbs_Name (spec_Database (site_Spec site)), gr_Table := ''*'',
      gr_Username := provisionedUsername site\<rparr>"
    by (auto simp: mutate_grant_def set_controller_reference_Ok)
  have z: "same_meta m (gr_Meta z)" "gr_MariaDBRef z = ref"
    "gr_Privileges z = [''ALL PRIVILEGES'']"
    "gr_Database z = dbs_Name (spec_Database (site_Spec site))" "gr_Table z = ''*''"
    "gr_Username z = provisionedUsername site"
    using stored y by (auto simp: grant_stored_as_def)
  show "grant_conforms K owner site ref z"
    using z set_ref_controls [OF m] controlled_same_meta [OF z(1)]
    by (simp add: grant_conforms_def)
  show "mutate_grant K owner site ref z v = (Ok z, v)"
    using z set_ref_again [OF m z(1)]
    by (cases z) (auto simp: mutate_grant_def set_controller_reference_Ok)
next
  show "view (snd (mutate_grant K owner site ref x w)) = view w" for x w
    by (simp add: mutate_grant_def)
qed

end
