(* ===== verification/SiteService.thy ===== *)
theory SiteService
  imports SiteSecret
begin

text \<open>
  \<open>internal/controller/service.go\<close>: the Service in front of the site's pods, with a second
  port when the file browser runs.
\<close>

definition site_labels :: "Site \<Rightarrow> (string \<rightharpoonup> string)" where
  "site_labels site = [''app'' \<mapsto> site_Name site]"

definition service_ports :: "Site \<Rightarrow> ServicePort list" where
  "service_ports site =
     [\<lparr>sp_Name = ''http'', sp_Port = 80, sp_TargetPort = 80\<rparr>]
     @ (if fileBrowserEnabled site
        then [\<lparr>sp_Name = ''filebrowser'', sp_Port = 8080, sp_TargetPort = 8080\<rparr>] else [])"

definition mutate_service ::
  "'w kube \<Rightarrow> ObjectMeta \<Rightarrow> Site \<Rightarrow> (string \<rightharpoonup> string) \<Rightarrow> Service \<Rightarrow> ('w, Service) act" where
  "mutate_service K owner site labels svc =
     lift_res (set_controller_reference K owner svc_Meta (\<lambda>m s. s\<lparr>svc_Meta := m\<rparr>)
       (svc\<lparr>svc_Meta := (svc_Meta svc)\<lparr>om_Labels := labels\<rparr>, svc_Selector := labels,
            svc_Ports := service_ports site\<rparr>))"

definition new_service :: "Site \<Rightarrow> Service" where
  "new_service site =
     \<lparr>svc_Meta = new_meta (site_Namespace site) (site_Name site),
      svc_Selector = Map.empty, svc_Ports = []\<rparr>"

definition reconcileService ::
  "'w kube \<Rightarrow> ObjectMeta \<Rightarrow> Site \<Rightarrow> (string \<rightharpoonup> string) \<Rightarrow> ('w, unit) act" where
  "reconcileService K owner site labels =
     k_RetryOnConflict K
       (tc_CreateOrUpdate (k_Services K) (new_service site) (mutate_service K owner site labels))"

section \<open>Contract\<close>

definition service_conforms :: "'w kube \<Rightarrow> ObjectMeta \<Rightarrow> Site \<Rightarrow> Service \<Rightarrow> bool" where
  "service_conforms K owner site svc \<longleftrightarrow>
     k_IsControlledBy K (svc_Meta svc) owner
     \<and> om_Labels (svc_Meta svc) = site_labels site \<and> svc_Selector svc = site_labels site
     \<and> svc_Ports svc = service_ports site"

sublocale site_owner \<subseteq> service: mutate_callback view service_stored_as
  "mutate_service K owner site (site_labels site)" "service_conforms K owner site"
proof unfold_locales
  fix x y z :: Service and w w' v :: 'w
  assume run: "mutate_service K owner site (site_labels site) x w = (Ok y, w')"
    and stored: "service_stored_as y z"
  from run obtain m where
    m: "k_SetControllerReference K owner ((svc_Meta x)\<lparr>om_Labels := site_labels site\<rparr>) = Ok m"
    and y: "y = x\<lparr>svc_Meta := m, svc_Selector := site_labels site, svc_Ports := service_ports site\<rparr>"
    by (auto simp: mutate_service_def set_controller_reference_Ok)
  have z: "same_meta m (svc_Meta z)" "svc_Selector z = site_labels site"
    "svc_Ports z = service_ports site"
    using stored y by (auto simp: service_stored_as_def)
  have labels: "om_Labels (svc_Meta z) = site_labels site"
    using z(1) set_ref_labels [OF m] by (simp add: same_meta_def)
  show "service_conforms K owner site z"
    using z labels set_ref_controls [OF m] controlled_same_meta [OF z(1)]
    by (simp add: service_conforms_def)
  show "mutate_service K owner site (site_labels site) z v = (Ok z, v)"
    using z labels_same [OF labels] set_ref_again [OF m z(1)]
    by (cases z) (auto simp: mutate_service_def set_controller_reference_Ok)
next
  show "view (snd (mutate_service K owner site (site_labels site) x w)) = view w" for x w
    by (simp add: mutate_service_def)
qed

end
