(* ===== verification/SiteIngress.thy ===== *)
theory SiteIngress
  imports SiteService
begin

text \<open>
  \<open>internal/controller/ingress.go\<close>: the Ingress of a Site, created or updated when enabled
  and deleted, if the Site controls it, when not.
\<close>

definition ingress_enabled :: "Site \<Rightarrow> IngressSpec option" where
  "ingress_enabled site =
     (case spec_Ingress (site_Spec site) of
        None \<Rightarrow> None | Some ing \<Rightarrow> if isp_Enabled ing then Some ing else None)"

definition ptrPathType :: "string \<Rightarrow> string option" where
  "ptrPathType p = Some p"

definition ingress_paths :: "Site \<Rightarrow> IngressSpec \<Rightarrow> HTTPIngressPath list" where
  "ingress_paths site ing =
     [\<lparr>path_Path = isp_Path ing, path_PathType = ptrPathType ''Prefix'',
       path_BackendService = site_Name site, path_BackendPort = 80\<rparr>]
     @ (if fileBrowserEnabled site
        then [\<lparr>path_Path = ''/filebrowser'', path_PathType = ptrPathType ''Prefix'',
               path_BackendService = site_Name site, path_BackendPort = 8080\<rparr>] else [])"

definition ingress_tls :: "Site \<Rightarrow> IngressSpec \<Rightarrow> IngressTLS list" where
  "ingress_tls site ing =
     (case isp_TLS ing of
        None \<Rightarrow> []
      | Some t \<Rightarrow>
          if t then [\<lparr>tls_Hosts = [spec_Domain (site_Spec site)],
                      tls_SecretName = site_Name site @ ''-tls''\<rparr>] else [])"

text \<open>An empty \<open>ingressClassName\<close> leaves the object's class as it is.\<close>

definition mutate_ingress ::
  "'w kube \<Rightarrow> ObjectMeta \<Rightarrow> Site \<Rightarrow> IngressSpec \<Rightarrow> (string \<rightharpoonup> string) \<Rightarrow> Ingress \<Rightarrow> ('w, Ingress) act"
  where
  "mutate_ingress K owner site spec labels ing =
     lift_res (set_controller_reference K owner ingr_Meta (\<lambda>m i. i\<lparr>ingr_Meta := m\<rparr>)
       (ing\<lparr>ingr_Meta := (ingr_Meta ing)\<lparr>om_Labels := labels, om_Annotations := isp_Annotations spec\<rparr>,
            ingr_IngressClassName :=
              (if isp_IngressClassName spec \<noteq> [] then Some (isp_IngressClassName spec)
               else ingr_IngressClassName ing),
            ingr_Rules :=
              [\<lparr>rule_Host = spec_Domain (site_Spec site), rule_Paths = ingress_paths site spec\<rparr>],
            ingr_TLS := ingress_tls site spec\<rparr>))"

definition new_ingress :: "Site \<Rightarrow> Ingress" where
  "new_ingress site =
     \<lparr>ingr_Meta = new_meta (site_Namespace site) (site_Name site @ ''-ingress''),
      ingr_IngressClassName = None, ingr_Rules = [], ingr_TLS = []\<rparr>"

text \<open>
  The removal both \<open>reconcileIngress\<close> and \<open>deleteOwnedPVC\<close> perform: look the object up,
  leave it alone unless the owner controls it, delete it, and count "not found" as done.
\<close>

definition delete_if_controlled ::
  "'w kube \<Rightarrow> ('w, 'o) typed_client \<Rightarrow> ('o \<Rightarrow> ObjectMeta) \<Rightarrow> ObjectMeta \<Rightarrow> string \<Rightarrow> string
   \<Rightarrow> ('w, unit) act" where
  "delete_if_controlled K tc meta owner ns n =
     on_result (tc_Get tc ns n)
       (\<lambda>x. if \<not> k_IsControlledBy K (meta x) owner then ret ()
            else ignore_not_found K (tc_Delete tc x))
       (\<lambda>e. lift_res (of_error (k_IgnoreNotFound K e)))"

definition reconcileIngress ::
  "'w kube \<Rightarrow> ObjectMeta \<Rightarrow> Site \<Rightarrow> (string \<rightharpoonup> string) \<Rightarrow> ('w, unit) act" where
  "reconcileIngress K owner site labels =
     (case ingress_enabled site of
        None \<Rightarrow>
          delete_if_controlled K (k_Ingresses K) ingr_Meta owner
            (site_Namespace site) (site_Name site @ ''-ingress'')
      | Some spec \<Rightarrow>
          k_RetryOnConflict K
            (tc_CreateOrUpdate (k_Ingresses K) (new_ingress site)
               (mutate_ingress K owner site spec labels)))"

text \<open>
  What the removal leaves at its key: nothing, an object on its way out, or one that is not
  the owner's.
\<close>

definition gone :: "'w kube \<Rightarrow> ObjectMeta \<Rightarrow> ('o \<Rightarrow> ObjectMeta) \<Rightarrow> 'o option \<Rightarrow> bool" where
  "gone K owner meta d \<longleftrightarrow>
     (\<forall>x. d = Some x \<longrightarrow>
        \<not> k_IsControlledBy K (meta x) owner \<or> om_DeletionTimestamp (meta x) \<noteq> None)"

text \<open>The four ways in which the removal succeeds.\<close>

lemma delete_if_controlled_OkE:
  assumes "delete_if_controlled K tc meta owner ns n w = (Ok (), w')"
    and "tc_Get tc ns n w = (r, w1)"
    and "\<And>e. k_IgnoreNotFound K e = (if not_found e then None else Some e)"
  obtains
    (foreign) x where "r = Ok x" "\<not> k_IsControlledBy K (meta x) owner" "w' = w1"
  | (removed) x where "r = Ok x" "k_IsControlledBy K (meta x) owner" "tc_Delete tc x w1 = (Ok (), w')"
  | (vanished) x e where "r = Ok x" "k_IsControlledBy K (meta x) owner"
      "tc_Delete tc x w1 = (Err e, w')" "not_found e"
  | (missing) e where "r = Err e" "not_found e" "w' = w1"
  using assms
  by (cases r) (auto simp: delete_if_controlled_def ignore_not_found_def on_result_def ret_def
      lift_res_def split: prod.splits res.splits if_splits)

context object_removal
begin

lemma delete_if_controlled_leaves:
  assumes run: "delete_if_controlled K tc meta owner ns n w = (Ok (), w')"
    and ignore: "\<And>e. k_IgnoreNotFound K e = (if not_found e then None else Some e)"
  shows "\<exists>d. gone K owner meta d \<and> view w' = put ((get (view w))((ns, n) := d)) (view w)"
proof -
  let ?here = "get (view w) (ns, n)"
  have still: ?thesis if "gone K owner meta ?here" and "view w' = view w"
    using that by (intro exI [of _ ?here]) (simp add: put_get)
  obtain r w1 where r: "tc_Get tc ns n w = (r, w1)" by (cases "tc_Get tc ns n w")
  with get_keeps [of ns n w] have w1: "view w1 = view w" by simp
  from run r ignore show ?thesis
  proof (cases rule: delete_if_controlled_OkE)
    case (foreign x)
    then have "?here = Some x" using r get_stored by auto
    with foreign w1 show ?thesis by (intro still) (auto simp: gone_def)
  next
    case (removed x)
    then have "object_key (meta x) = (ns, n)" using r get_key by auto
    with delete_removes [OF removed(3)] w1 show ?thesis by (auto simp: gone_def)
  next
    case (vanished x e)
    then have "object_key (meta x) = (ns, n)" using r get_key by auto
    with delete_missing [OF vanished(3,4)] w1 show ?thesis by (intro still) (auto simp: gone_def)
  next
    case (missing e)
    with r w1 get_missing show ?thesis by (intro still) (auto simp: gone_def)
  qed
qed

text \<open>An absent object, or another owner's, is left alone.\<close>

lemma delete_if_controlled_idle:
  assumes "\<And>x. get (view w) (ns, n) = Some x \<Longrightarrow> \<not> k_IsControlledBy K (meta x) owner"
  shows "view (snd (delete_if_controlled K tc meta owner ns n w)) = view w"
proof -
  obtain r w1 where r: "tc_Get tc ns n w = (r, w1)" by (cases "tc_Get tc ns n w")
  with get_keeps [of ns n w] have w1: "view w1 = view w" by simp
  show ?thesis
    using assms r w1 get_stored [of ns n w _ w1]
    by (cases r) (auto simp: delete_if_controlled_def act_simps)
qed

end

section \<open>Contract\<close>

definition ingress_conforms :: "'w kube \<Rightarrow> ObjectMeta \<Rightarrow> Site \<Rightarrow> IngressSpec \<Rightarrow> Ingress \<Rightarrow> bool" where
  "ingress_conforms K owner site spec ing \<longleftrightarrow>
     k_IsControlledBy K (ingr_Meta ing) owner
     \<and> om_Labels (ingr_Meta ing) = site_labels site
     \<and> om_Annotations (ingr_Meta ing) = isp_Annotations spec
     \<and> (isp_IngressClassName spec \<noteq> [] \<longrightarrow>
          ingr_IngressClassName ing = Some (isp_IngressClassName spec))
     \<and> ingr_Rules ing =
          [\<lparr>rule_Host = spec_Domain (site_Spec site), rule_Paths = ingress_paths site spec\<rparr>]
     \<and> ingr_TLS ing = ingress_tls site spec"

locale ingress_owner = site_owner +
  fixes spec :: IngressSpec

sublocale ingress_owner \<subseteq> ingress: mutate_callback view ingress_stored_as
  "mutate_ingress K owner site spec (site_labels site)" "ingress_conforms K owner site spec"
proof unfold_locales
  fix x y z :: Ingress and w w' v
  assume run: "mutate_ingress K owner site spec (site_labels site) x w = (Ok y, w')"
    and stored: "ingress_stored_as y z"
  let ?m0 = "(ingr_Meta x)\<lparr>om_Labels := site_labels site, om_Annotations := isp_Annotations spec\<rparr>"
  let ?rules = "[\<lparr>rule_Host = spec_Domain (site_Spec site), rule_Paths = ingress_paths site spec\<rparr>]"
  let ?cls = "if isp_IngressClassName spec \<noteq> [] then Some (isp_IngressClassName spec)
    else ingr_IngressClassName x"
  from run obtain m where m: "k_SetControllerReference K owner ?m0 = Ok m"
    and y: "y = x\<lparr>ingr_Meta := m, ingr_IngressClassName := ?cls, ingr_Rules := ?rules,
      ingr_TLS := ingress_tls site spec\<rparr>"
    by (auto simp: mutate_ingress_def set_controller_reference_Ok simp del: not_None_eq)
  have z: "same_meta m (ingr_Meta z)" "ingr_Rules z = ?rules" "ingr_TLS z = ingress_tls site spec"
    "isp_IngressClassName spec \<noteq> [] \<Longrightarrow> ingr_IngressClassName z = Some (isp_IngressClassName spec)"
    using stored y by (auto simp: ingress_stored_as_def)
  have labels: "om_Labels (ingr_Meta z) = site_labels site"
    using z(1) set_ref_labels [OF m] by (simp add: same_meta_def)
  have annotations: "om_Annotations (ingr_Meta z) = isp_Annotations spec"
    using z(1) set_ref_annotations [OF m] by (simp add: same_meta_def)
  show "ingress_conforms K owner site spec z"
    using z labels annotations set_ref_controls [OF m] controlled_same_meta [OF z(1)]
    by (simp add: ingress_conforms_def)
  show "mutate_ingress K owner site spec (site_labels site) z v = (Ok z, v)"
    using z labels_same [OF labels] annotations_same [OF annotations] set_ref_again [OF m z(1)]
    by (cases z) (auto simp: mutate_ingress_def set_controller_reference_Ok)
next
  show "view (snd (mutate_ingress K owner site spec (site_labels site) x w)) = view w" for x w
    by (simp add: mutate_ingress_def)
qed

end
