(* ===== verification/SitePVC.thy ===== *)
theory SitePVC
  imports SiteIngress
begin

text \<open>
  \<open>internal/controller/pvc.go\<close>: the claim for the site's files. Access modes and storage
  class are immutable once the claim exists, so they are written on creation only; the
  requested size is kept in step with the Site.
\<close>

text \<open>The persistence settings that ask for a claim of the operator's own.\<close>

definition own_claim :: "Site \<Rightarrow> PersistenceSpec option" where
  "own_claim site =
     (case spec_Persistence (site_Spec site) of
        None \<Rightarrow> None
      | Some p \<Rightarrow>
          if \<not> per_Enabled p then None
          else if per_ExistingClaim p \<noteq> [] then None
          else Some p)"

definition claim_size :: "PersistenceSpec \<Rightarrow> string" where
  "claim_size p = (if per_Size p = [] then ''1Gi'' else per_Size p)"

definition claim_storage_class :: "PersistenceSpec \<Rightarrow> string \<Rightarrow> string option" where
  "claim_storage_class p defaultStorageClassName =
     (if per_StorageClassName p = None \<and> defaultStorageClassName \<noteq> []
      then Some defaultStorageClassName else per_StorageClassName p)"

text \<open>
  \<open>resource.MustParse\<close> panics on a size that is no quantity, in the middle of the callback.
\<close>

definition mutate_pvc ::
  "'w kube \<Rightarrow> ObjectMeta \<Rightarrow> Site \<Rightarrow> string \<Rightarrow> string option
   \<Rightarrow> PersistentVolumeClaim \<Rightarrow> ('w, PersistentVolumeClaim) act" where
  "mutate_pvc K owner site claimSize storageClassName pvc =
     (let fresh = (om_CreationTimestamp (pvc_Meta pvc) = None);
          labelled = pvc\<lparr>pvc_Meta := (pvc_Meta pvc)\<lparr>om_Labels := [''app'' \<mapsto> site_Name site]\<rparr>\<rparr>;
          moded = (if fresh then labelled\<lparr>pvc_AccessModes := [''ReadWriteOnce'']\<rparr> else labelled);
          requests = (case pvc_Requests moded of None \<Rightarrow> Map.empty | Some r \<Rightarrow> r)
      in and_then (lift_res (k_MustParse K claimSize)) (\<lambda>q.
           let sized = moded\<lparr>pvc_Requests := Some (requests(''storage'' \<mapsto> q))\<rparr>;
               classed = (if fresh \<and> storageClassName \<noteq> None
                          then sized\<lparr>pvc_StorageClassName := storageClassName\<rparr> else sized)
           in lift_res (set_controller_reference K owner pvc_Meta (\<lambda>m p. p\<lparr>pvc_Meta := m\<rparr>)
                classed)))"

definition pvc_name :: "Site \<Rightarrow> string" where
  "pvc_name site = site_Name site @ ''-data''"

definition new_pvc :: "Site \<Rightarrow> PersistentVolumeClaim" where
  "new_pvc site =
     \<lparr>pvc_Meta = new_meta (site_Namespace site) (pvc_name site), pvc_AccessModes = [],
      pvc_Requests = None, pvc_StorageClassName = None\<rparr>"

definition deleteOwnedPVC :: "'w kube \<Rightarrow> ObjectMeta \<Rightarrow> Site \<Rightarrow> ('w, unit) act" where
  "deleteOwnedPVC K owner site =
     delete_if_controlled K (k_PVCs K) pvc_Meta owner (site_Namespace site) (pvc_name site)"

definition reconcilePVC :: "'w kube \<Rightarrow> ObjectMeta \<Rightarrow> Site \<Rightarrow> string \<Rightarrow> ('w, unit) act" where
  "reconcilePVC K owner site defaultStorageClassName =
     (case own_claim site of
        None \<Rightarrow> deleteOwnedPVC K owner site
      | Some p \<Rightarrow>
          k_RetryOnConflict K
            (tc_CreateOrUpdate (k_PVCs K) (new_pvc site)
               (mutate_pvc K owner site (claim_size p)
                  (claim_storage_class p defaultStorageClassName))))"

section \<open>Contract\<close>

definition pvc_conforms :: "'w kube \<Rightarrow> ObjectMeta \<Rightarrow> Site \<Rightarrow> string \<Rightarrow> PersistentVolumeClaim \<Rightarrow> bool" where
  "pvc_conforms K owner site claimSize pvc \<longleftrightarrow>
     k_IsControlledBy K (pvc_Meta pvc) owner
     \<and> om_Labels (pvc_Meta pvc) = [''app'' \<mapsto> site_Name site]
     \<and> (\<exists>r q. pvc_Requests pvc = Some r \<and> k_MustParse K claimSize = Ok q \<and> r ''storage'' = Some q)"

locale pvc_owner = site_owner +
  fixes claimSize :: string
    and storageClass :: "string option"

lemma mutate_pvc_Ok:
  "mutate_pvc K owner site claimSize sc pvc w = (Ok y, w') \<longleftrightarrow> w' = w \<and>
    (\<exists>q m. k_MustParse K claimSize = Ok q
      \<and> k_SetControllerReference K owner ((pvc_Meta pvc)\<lparr>om_Labels := [''app'' \<mapsto> site_Name site]\<rparr>) = Ok m
      \<and> y = pvc\<lparr>pvc_Meta := m,
          pvc_AccessModes := (if om_CreationTimestamp (pvc_Meta pvc) = None then [''ReadWriteOnce'']
                              else pvc_AccessModes pvc),
          pvc_Requests := Some ((case pvc_Requests pvc of None \<Rightarrow> Map.empty | Some r \<Rightarrow> r)(''storage'' \<mapsto> q)),
          pvc_StorageClassName := (if om_CreationTimestamp (pvc_Meta pvc) = None \<and> sc \<noteq> None then sc
                                   else pvc_StorageClassName pvc)\<rparr>)"
  by (cases pvc)
     (auto simp: mutate_pvc_def Let_def and_then_eq_Ok_iff set_controller_reference_Ok)

sublocale pvc_owner \<subseteq> pvc: mutate_callback view pvc_stored_as
  "mutate_pvc K owner site claimSize storageClass" "pvc_conforms K owner site claimSize"
proof unfold_locales
  fix x y z :: PersistentVolumeClaim and w w' v
  assume run: "mutate_pvc K owner site claimSize storageClass x w = (Ok y, w')"
    and stored: "pvc_stored_as y z"
  let ?labels = "[''app'' \<mapsto> site_Name site]"
  from run obtain q m r where q: "k_MustParse K claimSize = Ok q"
    and m: "k_SetControllerReference K owner ((pvc_Meta x)\<lparr>om_Labels := ?labels\<rparr>) = Ok m"
    and y: "pvc_Meta y = m" "pvc_Requests y = Some (r(''storage'' \<mapsto> q))"
      "om_CreationTimestamp (pvc_Meta x) = None \<Longrightarrow>
         pvc_AccessModes y = [''ReadWriteOnce''] \<and> (storageClass \<noteq> None \<longrightarrow> pvc_StorageClassName y = storageClass)"
    unfolding mutate_pvc_Ok by (elim conjE exE) (auto split: if_splits)
  have z: "same_meta m (pvc_Meta z)" "pvc_Requests z = Some (r(''storage'' \<mapsto> q))"
    using stored y by (auto simp: pvc_stored_as_def)
  have fresh: "pvc_AccessModes z = [''ReadWriteOnce'']"
    "storageClass \<noteq> None \<Longrightarrow> pvc_StorageClassName z = storageClass"
    if "om_CreationTimestamp (pvc_Meta z) = None"
    using that stored y set_ref_creation [OF m] by (auto simp: pvc_stored_as_def)
  have labels: "om_Labels (pvc_Meta z) = ?labels"
    using z(1) set_ref_labels [OF m] by (simp add: same_meta_def)
  show "pvc_conforms K owner site claimSize z"
    using z labels q set_ref_controls [OF m] controlled_same_meta [OF z(1)]
    by (simp add: pvc_conforms_def)
  show "mutate_pvc K owner site claimSize storageClass z v = (Ok z, v)"
    unfolding mutate_pvc_Ok
    using z labels_same [OF labels] set_ref_again [OF m z(1)] q fresh
    by (cases z) auto
next
  show "view (snd (mutate_pvc K owner site claimSize storageClass x w)) = view w" for x w
    by (simp add: mutate_pvc_def Let_def and_then_def on_result_def split: res.splits)
qed

end
