(* ===== verification/SiteController.thy ===== *)
theory SiteController
  imports SiteConditions SiteDeployment SiteProvision SitePVC
begin

text \<open>
  \<open>internal/controller/site_controller.go\<close>: one reconcile of a Site, with its deferred
  status update.
\<close>

section \<open>Reconcile\<close>

text \<open>The operator-level defaults of \<open>SiteReconciler\<close>; client and scheme are in \<open>K\<close>.\<close>

record SiteReconciler =
  rc_DefaultMariaDBRef :: "MariaDBClusterRef option"
  rc_DefaultStorageClassName :: string

definition site_envs :: "Site \<Rightarrow> EnvVar list" where
  "site_envs site = buildWPEnvs site @ buildDatabaseEnvs site"

text \<open>The statements of \<open>Reconcile\<close> after the Site was fetched, up to its last return.\<close>

definition reconcile_body :: "'w kube \<Rightarrow> SiteReconciler \<Rightarrow> Site \<Rightarrow> ('w, unit) act" where
  "reconcile_body K r site =
    (let owner = site_Meta site; labels = site_labels site in
     and_then (reconcileSecret K owner site) (\<lambda>_.
     and_then (reconcileDatabaseProvision K owner site (rc_DefaultMariaDBRef r)) (\<lambda>_.
     let envs = site_envs site in
     and_then (reconcileDeployment K owner site labels envs) (\<lambda>_.
     and_then (reconcileService K owner site labels) (\<lambda>_.
     and_then (reconcileIngress K owner site labels) (\<lambda>_.
     and_then (reconcilePVC K owner site (rc_DefaultStorageClassName r)) (\<lambda>_.
     ret ())))))))"

text \<open>
  The closure of \<open>updateSiteStatus\<close>. A Deployment that cannot be read leaves the zero value
  and its error behind.
\<close>

definition write_status ::
  "'w kube \<Rightarrow> Site \<Rightarrow> Deployment \<Rightarrow> go_error option \<Rightarrow> go_error option \<Rightarrow> ('w, unit) act" where
  "write_status K current deploy deployErr reconcileErr = (\<lambda>w.
     case setSiteConditions K (om_Generation (site_Meta current)) deploy deployErr reconcileErr
            (st_Conditions (site_Status current)) w of
       (cs, w') \<Rightarrow>
         k_UpdateSiteStatus K
           (current\<lparr>site_Status := (site_Status current)\<lparr>st_Conditions := cs\<rparr>\<rparr>) w')"

definition status_attempt :: "'w kube \<Rightarrow> Site \<Rightarrow> go_error option \<Rightarrow> ('w, unit) act" where
  "status_attempt K site reconcileErr =
     on_result (tc_Get (k_Sites K) (site_Namespace site) (site_Name site))
       (\<lambda>current.
          on_result (tc_Get (k_Deployments K) (site_Namespace current) (site_Name current))
            (\<lambda>deploy. write_status K current deploy None reconcileErr)
            (\<lambda>e. write_status K current (new_deployment (new_meta [] [])) (Some e) reconcileErr))
       (\<lambda>e. lift_res (of_error (k_IgnoreNotFound K e)))"

definition updateSiteStatus :: "'w kube \<Rightarrow> Site \<Rightarrow> go_error option \<Rightarrow> ('w, unit) act" where
  "updateSiteStatus K site reconcileErr = k_RetryOnConflict K (status_attempt K site reconcileErr)"

text \<open>
  \<open>reconcileErr\<close> as the deferred function sees it. On a panic nothing has been assigned to
  the named result, so it is still nil.
\<close>

fun reconcileErr_of :: "'a res \<Rightarrow> go_error option" where
  "reconcileErr_of (Ok _) = None"
| "reconcileErr_of (Err e) = Some e"
| "reconcileErr_of (Panic _) = None"

text \<open>
  The deferred function runs on every exit, a panic included; the status error replaces
  the result only when there is no other, and a panic goes on afterwards.
\<close>

definition with_status_update :: "'w kube \<Rightarrow> Site \<Rightarrow> ('w, unit) act \<Rightarrow> ('w, unit) act" where
  "with_status_update K site body = (\<lambda>w.
     case body w of
       (r, w1) \<Rightarrow>
         (case updateSiteStatus K site (reconcileErr_of r) w1 of
            (Ok _, w2) \<Rightarrow> (r, w2)
          | (Err statusErr, w2) \<Rightarrow> (case r of Ok _ \<Rightarrow> (Err statusErr, w2) | _ \<Rightarrow> (r, w2))
          | (Panic p, w2) \<Rightarrow> (Panic p, w2)))"

text \<open>\<open>ctrl.Result{}\<close>, empty on every path, is the unit value.\<close>

definition Reconcile :: "'w kube \<Rightarrow> SiteReconciler \<Rightarrow> string \<Rightarrow> string \<Rightarrow> ('w, unit) act" where
  "Reconcile K r ns n =
     on_result (tc_Get (k_Sites K) ns n)
       (\<lambda>site. with_status_update K site (reconcile_body K r site))
       (\<lambda>e. lift_res (of_error (k_IgnoreNotFound K e)))"

section \<open>The body as a sequence of steps\<close>

fun run_steps :: "('w, unit) act list \<Rightarrow> ('w, unit) act" where
  "run_steps [] = ret ()"
| "run_steps (m # ms) = and_then m (\<lambda>_. run_steps ms)"

definition reconcile_steps :: "'w kube \<Rightarrow> SiteReconciler \<Rightarrow> Site \<Rightarrow> ('w, unit) act list" where
  "reconcile_steps K r site =
     [reconcileSecret K (site_Meta site) site,
      reconcileDatabaseProvision K (site_Meta site) site (rc_DefaultMariaDBRef r),
      reconcileDeployment K (site_Meta site) site (site_labels site) (site_envs site),
      reconcileService K (site_Meta site) site (site_labels site),
      reconcileIngress K (site_Meta site) site (site_labels site),
      reconcilePVC K (site_Meta site) site (rc_DefaultStorageClassName r)]"

lemma reconcile_body_steps: "reconcile_body K r site = run_steps (reconcile_steps K r site)"
  by (simp add: reconcile_body_def reconcile_steps_def Let_def)

lemma keeps_run_steps: "(\<And>m. m \<in> set ms \<Longrightarrow> keeps I m) \<Longrightarrow> keeps I (run_steps ms)"
  by (induction ms) (auto intro: keeps_intros)

text \<open>
  Steps that all succeed are run in order; the first that does not decides the outcome, and
  the ones after it are not run.
\<close>

lemma run_steps_append_Ok:
  "run_steps ms w = (Ok (), w') \<Longrightarrow> run_steps (ms @ ms') w = run_steps ms' w'"
  by (induction ms arbitrary: w) (auto simp: and_then_eq_Ok_iff and_then_Ok)

lemma run_steps_stops:
  assumes "run_steps ms w = (Ok (), w1)" and "m w1 = (r, w2)" and "r \<noteq> Ok ()"
  shows "run_steps (ms @ m # ms') w = (r, w2)"
  using assms by (cases r) (auto simp: run_steps_append_Ok act_simps)

lemma run_steps_Ok_Cons:
  "run_steps (m # ms) w = (Ok (), w'') \<longleftrightarrow>
     (\<exists>w'. m w = (Ok (), w') \<and> run_steps ms w' = (Ok (), w''))"
  by (auto simp: and_then_eq_Ok_iff)

lemma run_steps_cases:
  obtains (all) "fst (run_steps ms w) = Ok ()"
  | (stopped) pre m post w1 where "ms = pre @ m # post" and "run_steps pre w = (Ok (), w1)"
      and "fst (m w1) \<noteq> Ok ()" and "run_steps ms w = m w1"
proof -
  have "fst (run_steps ms w) = Ok () \<or>
    (\<exists>pre m post w1. ms = pre @ m # post \<and> run_steps pre w = (Ok (), w1)
       \<and> fst (m w1) \<noteq> Ok () \<and> run_steps ms w = m w1)"
  proof (induction ms arbitrary: w)
    case Nil
    then show ?case by simp
  next
    case (Cons m ms)
    obtain r w' where m: "m w = (r, w')" by (cases "m w")
    show ?case
    proof (cases "r = Ok ()")
      case True
      with m have step: "run_steps (m # ms) w = run_steps ms w'" by (simp add: act_simps)
      from Cons [of w'] show ?thesis
      proof
        assume "fst (run_steps ms w') = Ok ()"
        with step show ?thesis by simp
      next
        assume "\<exists>pre m post w1. ms = pre @ m # post \<and> run_steps pre w' = (Ok (), w1)
          \<and> fst (m w1) \<noteq> Ok () \<and> run_steps ms w' = m w1"
        then obtain pre m' post w1 where ms: "ms = pre @ m' # post"
          and pre: "run_steps pre w' = (Ok (), w1)" and rest: "fst (m' w1) \<noteq> Ok ()"
            "run_steps ms w' = m' w1"
          by blast
        have "m # ms = (m # pre) @ m' # post" using ms by simp
        moreover have "run_steps (m # pre) w = (Ok (), w1)"
          using m True pre by (simp add: act_simps)
        ultimately show ?thesis using rest step by metis
      qed
    next
      case False
      then have "run_steps (m # ms) w = m w"
        using m by (cases r) (simp_all add: act_simps)
      moreover have "m # ms = [] @ m # ms" by simp
      moreover have "run_steps [] w = (Ok (), w)" by simp
      ultimately show ?thesis using m False by (metis fst_conv)
    qed
  qed
  then show thesis using that by blast
qed

end
