(* ===== verification/Convergence.thy ===== *)
theory Convergence
  imports SiteController
begin

text \<open>
  What a successful reconcile achieves on a quiescent API server, for every object kind at
  once: the interface \<open>site_cluster\<close> bundles the laws of the clients, each component's
  callback contract is placed on its client, and the steps of \<open>Reconcile\<close> compose to
  "everything the Site asks for is there". A reconcile of a cluster in that state leaves
  the cluster as it is.
\<close>

section \<open>The status of one Site\<close>

text \<open>The API server lets a status update change nothing but the status of the Site it names.\<close>

definition same_but_status :: "object_key \<Rightarrow> cluster \<Rightarrow> cluster \<Rightarrow> bool" where
  "same_but_status k c c' \<longleftrightarrow>
     c' = c \<or> (\<exists>s t. cl_Sites c k = Some s
       \<and> c' = c\<lparr>cl_Sites := (cl_Sites c)(k \<mapsto> s\<lparr>site_Status := t\<rparr>)\<rparr>)"

lemma same_but_status_refl [simp]: "same_but_status k c c"
  by (simp add: same_but_status_def)

lemma same_but_status_trans:
  assumes "same_but_status k c c'" and "same_but_status k c' c''"
  shows "same_but_status k c c''"
proof (cases "c' = c")
  case False
  with assms(1) obtain s t where "cl_Sites c k = Some s"
    "c' = c\<lparr>cl_Sites := (cl_Sites c)(k \<mapsto> s\<lparr>site_Status := t\<rparr>)\<rparr>" by (auto simp: same_but_status_def)
  with assms(2) have "\<exists>t. c'' = c\<lparr>cl_Sites := (cl_Sites c)(k \<mapsto> s\<lparr>site_Status := t\<rparr>)\<rparr>"
    by (auto simp: same_but_status_def)
  with \<open>cl_Sites c k = Some s\<close> show ?thesis by (auto simp: same_but_status_def)
qed (use assms in simp)

section \<open>The laws of all clients\<close>

locale site_cluster =
  site_owner K view "site_Meta site" site +
  secrets: object_store view "k_Secrets K" cl_Secrets "\<lambda>m c. c\<lparr>cl_Secrets := m\<rparr>"
    sec_Meta secret_stored_as conflict +
  databases: object_store view "k_Databases K" cl_Databases "\<lambda>m c. c\<lparr>cl_Databases := m\<rparr>"
    db_Meta database_stored_as conflict +
  users: object_store view "k_Users K" cl_Users "\<lambda>m c. c\<lparr>cl_Users := m\<rparr>"
    usr_Meta user_stored_as conflict +
  grants: object_store view "k_Grants K" cl_Grants "\<lambda>m c. c\<lparr>cl_Grants := m\<rparr>"
    gr_Meta grant_stored_as conflict +
  configmaps: object_store view "k_ConfigMaps K" cl_ConfigMaps "\<lambda>m c. c\<lparr>cl_ConfigMaps := m\<rparr>"
    cm_Meta configmap_stored_as conflict +
  deployments: object_store view "k_Deployments K" cl_Deployments "\<lambda>m c. c\<lparr>cl_Deployments := m\<rparr>"
    dep_Meta deployment_stored_as conflict +
  services: object_store view "k_Services K" cl_Services "\<lambda>m c. c\<lparr>cl_Services := m\<rparr>"
    svc_Meta service_stored_as conflict +
  ingresses: object_removal view "k_Ingresses K" cl_Ingresses "\<lambda>m c. c\<lparr>cl_Ingresses := m\<rparr>"
    ingr_Meta ingress_stored_as conflict not_found +
  pvcs: object_removal view "k_PVCs K" cl_PVCs "\<lambda>m c. c\<lparr>cl_PVCs := m\<rparr>"
    pvc_Meta pvc_stored_as conflict not_found +
  sites: object_lookup view "k_Sites K" cl_Sites not_found +
  conflict_retry "k_RetryOnConflict K" view conflict
  for K :: "'w kube" and view :: "'w \<Rightarrow> cluster" and site :: Site
    and conflict :: "go_error \<Rightarrow> bool" and not_found :: "go_error \<Rightarrow> bool" +
  assumes ignore: "k_IgnoreNotFound K e = (if not_found e then None else Some e)"
    and site_found: "tc_Get (k_Sites K) ns n w = (Ok s, w') \<Longrightarrow> object_key (site_Meta s) = (ns, n)"
    and update_status_view:
      "same_but_status (object_key (site_Meta s)) (view w) (view (snd (k_UpdateSiteStatus K s w)))"
    and set_condition_view: "view (snd (k_SetStatusCondition K cs c w)) = view w"

text \<open>Each component's callback on its client.\<close>

sublocale site_cluster \<subseteq> secret_sync: managed_object view "k_Secrets K" cl_Secrets
  "\<lambda>m c. c\<lparr>cl_Secrets := m\<rparr>" sec_Meta secret_stored_as conflict
  "mutate_secret K (site_Meta site) site" "secret_conforms K (site_Meta site) site"
  "k_RetryOnConflict K"
  by unfold_locales

sublocale site_cluster \<subseteq> service_sync: managed_object view "k_Services K" cl_Services
  "\<lambda>m c. c\<lparr>cl_Services := m\<rparr>" svc_Meta service_stored_as conflict
  "mutate_service K (site_Meta site) site (site_labels site)"
  "service_conforms K (site_Meta site) site" "k_RetryOnConflict K"
  by unfold_locales

sublocale site_cluster \<subseteq> provision: provision_owner K view "site_Meta site" site ref for ref
  by unfold_locales

sublocale site_cluster \<subseteq> database_sync: managed_object view "k_Databases K" cl_Databases
  "\<lambda>m c. c\<lparr>cl_Databases := m\<rparr>" db_Meta database_stored_as conflict
  "mutate_database K (site_Meta site) site ref" "database_conforms K (site_Meta site) site ref"
  "k_RetryOnConflict K" for ref
  by unfold_locales

sublocale site_cluster \<subseteq> user_sync: managed_object view "k_Users K" cl_Users
  "\<lambda>m c. c\<lparr>cl_Users := m\<rparr>" usr_Meta user_stored_as conflict
  "mutate_user K (site_Meta site) site ref" "user_conforms K (site_Meta site) site ref"
  "k_RetryOnConflict K" for ref
  by unfold_locales

sublocale site_cluster \<subseteq> grant_sync: managed_object view "k_Grants K" cl_Grants
  "\<lambda>m c. c\<lparr>cl_Grants := m\<rparr>" gr_Meta grant_stored_as conflict
  "mutate_grant K (site_Meta site) site ref" "grant_conforms K (site_Meta site) site ref"
  "k_RetryOnConflict K" for ref
  by unfold_locales

sublocale site_cluster \<subseteq> config: configmap_owner K view "site_Meta site" site data for data
  by unfold_locales

sublocale site_cluster \<subseteq> configmap_sync: managed_object view "k_ConfigMaps K" cl_ConfigMaps
  "\<lambda>m c. c\<lparr>cl_ConfigMaps := m\<rparr>" cm_Meta configmap_stored_as conflict
  "mutate_configmap K (site_Meta site) data" "configmap_conforms K (site_Meta site) data"
  "k_RetryOnConflict K" for data
  by unfold_locales

sublocale site_cluster \<subseteq> pods: deployment_owner K view "site_Meta site" site labels envs hash
  for labels envs hash
  by unfold_locales

sublocale site_cluster \<subseteq> deployment_sync: managed_object view "k_Deployments K" cl_Deployments
  "\<lambda>m c. c\<lparr>cl_Deployments := m\<rparr>" dep_Meta deployment_stored_as conflict
  "mutate_deployment K (site_Meta site) site labels envs hash"
  "deployment_conforms K (site_Meta site) labels (buildDeploymentSpec site labels envs hash)"
  "k_RetryOnConflict K" for labels envs hash
  by unfold_locales

sublocale site_cluster \<subseteq> routing: ingress_owner K view "site_Meta site" site spec for spec
  by unfold_locales

sublocale site_cluster \<subseteq> ingress_sync: managed_object view "k_Ingresses K" cl_Ingresses
  "\<lambda>m c. c\<lparr>cl_Ingresses := m\<rparr>" ingr_Meta ingress_stored_as conflict
  "mutate_ingress K (site_Meta site) site spec (site_labels site)"
  "ingress_conforms K (site_Meta site) site spec" "k_RetryOnConflict K" for spec
  by unfold_locales

sublocale site_cluster \<subseteq> storage: pvc_owner K view "site_Meta site" site size cls for size cls
  by unfold_locales

sublocale site_cluster \<subseteq> pvc_sync: managed_object view "k_PVCs K" cl_PVCs
  "\<lambda>m c. c\<lparr>cl_PVCs := m\<rparr>" pvc_Meta pvc_stored_as conflict
  "mutate_pvc K (site_Meta site) site size cls" "pvc_conforms K (site_Meta site) site size"
  "k_RetryOnConflict K" for size cls
  by unfold_locales

section \<open>The state a Site asks for\<close>

definition synced :: "('o \<Rightarrow> ('w, 'o) act) \<Rightarrow> ('o \<Rightarrow> bool) \<Rightarrow> 'o option \<Rightarrow> bool" where
  "synced mutate conforms d \<longleftrightarrow> (\<exists>z. d = Some z \<and> settled mutate conforms z)"

lemma synced_Some [simp]: "synced mutate conforms (Some z) \<longleftrightarrow> settled mutate conforms z"
  by (simp add: synced_def)

definition secret_synced :: "'w kube \<Rightarrow> Site \<Rightarrow> cluster \<Rightarrow> bool" where
  "secret_synced K site c \<longleftrightarrow>
     synced (mutate_secret K (site_Meta site) site) (secret_conforms K (site_Meta site) site)
       (cl_Secrets c (site_Namespace site, site_secret_name site))"

definition provision_synced :: "'w kube \<Rightarrow> SiteReconciler \<Rightarrow> Site \<Rightarrow> cluster \<Rightarrow> bool" where
  "provision_synced K r site c \<longleftrightarrow>
     (provisionEnabled site \<longrightarrow>
       (\<exists>cl. resolveMariaDBRef site (rc_DefaultMariaDBRef r) = Ok cl \<and>
         (let owner = site_Meta site; ref = mariadb_ref cl; ns = site_Namespace site in
          synced (mutate_database K owner site ref) (database_conforms K owner site ref)
            (cl_Databases c (ns, site_Name site))
          \<and> synced (mutate_user K owner site ref) (user_conforms K owner site ref)
            (cl_Users c (ns, site_Name site @ ''-db-user''))
          \<and> synced (mutate_grant K owner site ref) (grant_conforms K owner site ref)
            (cl_Grants c (ns, site_Name site @ ''-db-grant'')))))"

definition config_synced :: "'w kube \<Rightarrow> Site \<Rightarrow> cluster \<Rightarrow> bool" where
  "config_synced K site c \<longleftrightarrow>
     (let owner = site_Meta site; ns = site_Namespace site;
          nginx = [''default.conf'' \<mapsto> buildNginxConfigContent site];
          php = [phpIniFileName \<mapsto> buildPHPIniContent site]
      in synced (mutate_configmap K owner nginx) (configmap_conforms K owner nginx)
           (cl_ConfigMaps c (ns, nginx_configmap_name site))
       \<and> synced (mutate_configmap K owner php) (configmap_conforms K owner php)
           (cl_ConfigMaps c (ns, php_configmap_name site)))"

definition deployment_synced :: "'w kube \<Rightarrow> Site \<Rightarrow> cluster \<Rightarrow> bool" where
  "deployment_synced K site c \<longleftrightarrow>
     (let owner = site_Meta site; labels = site_labels site; envs = site_envs site;
          hash = site_config_hash site
      in synced (mutate_deployment K owner site labels envs hash)
           (deployment_conforms K owner labels (buildDeploymentSpec site labels envs hash))
           (cl_Deployments c (site_Namespace site, site_Name site)))"

definition service_synced :: "'w kube \<Rightarrow> Site \<Rightarrow> cluster \<Rightarrow> bool" where
  "service_synced K site c \<longleftrightarrow>
     synced (mutate_service K (site_Meta site) site (site_labels site))
       (service_conforms K (site_Meta site) site)
       (cl_Services c (site_Namespace site, site_Name site))"

definition ingress_synced :: "'w kube \<Rightarrow> Site \<Rightarrow> cluster \<Rightarrow> bool" where
  "ingress_synced K site c \<longleftrightarrow>
     (let owner = site_Meta site;
          here = cl_Ingresses c (site_Namespace site, site_Name site @ ''-ingress'')
      in case ingress_enabled site of
           None \<Rightarrow> gone K owner ingr_Meta here
         | Some spec \<Rightarrow> synced (mutate_ingress K owner site spec (site_labels site))
             (ingress_conforms K owner site spec) here)"

definition pvc_synced :: "'w kube \<Rightarrow> SiteReconciler \<Rightarrow> Site \<Rightarrow> cluster \<Rightarrow> bool" where
  "pvc_synced K r site c \<longleftrightarrow>
     (let owner = site_Meta site; here = cl_PVCs c (site_Namespace site, pvc_name site)
      in case own_claim site of
           None \<Rightarrow> gone K owner pvc_Meta here
         | Some p \<Rightarrow>
             synced (mutate_pvc K owner site (claim_size p)
                 (claim_storage_class p (rc_DefaultStorageClassName r)))
               (pvc_conforms K owner site (claim_size p)) here)"

definition site_synced :: "'w kube \<Rightarrow> SiteReconciler \<Rightarrow> Site \<Rightarrow> cluster \<Rightarrow> bool" where
  "site_synced K r site c \<longleftrightarrow>
     secret_synced K site c \<and> provision_synced K r site c \<and> config_synced K site c
     \<and> deployment_synced K site c \<and> service_synced K site c \<and> ingress_synced K site c
     \<and> pvc_synced K r site c"

lemmas synced_defs = secret_synced_def provision_synced_def config_synced_def
  deployment_synced_def service_synced_def ingress_synced_def pvc_synced_def

section \<open>Each step does its part\<close>

text \<open>
  A successful step leaves its kind synced and changes no other kind of object.
\<close>

context site_cluster
begin

lemma secret_step:
  assumes "reconcileSecret K (site_Meta site) site w = (Ok (), w')"
  shows "secret_synced K site (view w') \<and> view w' = (view w)\<lparr>cl_Secrets := cl_Secrets (view w')\<rparr>"
  using secret_sync.create_or_update_settles [OF assms [unfolded reconcileSecret_def]]
  by (auto simp: secret_synced_def)

lemma provision_step:
  assumes run: "reconcileDatabaseProvision K (site_Meta site) site (rc_DefaultMariaDBRef r) w = (Ok (), w')"
  shows "provision_synced K r site (view w') \<and>
    view w' = (view w)\<lparr>cl_Databases := cl_Databases (view w'), cl_Users := cl_Users (view w'),
      cl_Grants := cl_Grants (view w')\<rparr>"
proof (cases "provisionEnabled site")
  case False
  then have "w' = w" using run by (simp add: reconcileDatabaseProvision_def)
  then show ?thesis
    using False by (simp add: provision_synced_def)
next
  case True
  with run obtain cl w1 w2 where
    cl: "resolveMariaDBRef site (rc_DefaultMariaDBRef r) = Ok cl" and
    1: "k_RetryOnConflict K (tc_CreateOrUpdate (k_Databases K) (new_database site)
          (mutate_database K (site_Meta site) site (mariadb_ref cl))) w = (Ok (), w1)" and
    2: "k_RetryOnConflict K (tc_CreateOrUpdate (k_Users K) (new_user site)
          (mutate_user K (site_Meta site) site (mariadb_ref cl))) w1 = (Ok (), w2)" and
    3: "k_RetryOnConflict K (tc_CreateOrUpdate (k_Grants K) (new_grant site)
          (mutate_grant K (site_Meta site) site (mariadb_ref cl))) w2 = (Ok (), w')"
    by (auto simp: reconcileDatabaseProvision_def Let_def and_then_eq_Ok_iff wrap_error_eq_Ok_iff)
  from database_sync.retried_create_or_update_settles [OF 1]
    user_sync.retried_create_or_update_settles [OF 2]
    grant_sync.retried_create_or_update_settles [OF 3]
  show ?thesis
    by (auto simp: provision_synced_def cl new_database_def new_user_def new_grant_def)
qed

lemma deployment_step:
  assumes run: "reconcileDeployment K (site_Meta site) site (site_labels site) (site_envs site) w
    = (Ok (), w')"
  shows "config_synced K site (view w') \<and> deployment_synced K site (view w') \<and>
    view w' = (view w)\<lparr>cl_ConfigMaps := cl_ConfigMaps (view w'),
      cl_Deployments := cl_Deployments (view w')\<rparr>"
proof -
  let ?nginx = "[''default.conf'' \<mapsto> buildNginxConfigContent site]"
    and ?php = "[phpIniFileName \<mapsto> buildPHPIniContent site]"
  from run obtain w1 w2 where
    1: "k_RetryOnConflict K (tc_CreateOrUpdate (k_ConfigMaps K)
          (new_configmap site (nginx_configmap_name site))
          (mutate_configmap K (site_Meta site) ?nginx)) w = (Ok (), w1)" and
    2: "k_RetryOnConflict K (tc_CreateOrUpdate (k_ConfigMaps K)
          (new_configmap site (php_configmap_name site))
          (mutate_configmap K (site_Meta site) ?php)) w1 = (Ok (), w2)" and
    3: "k_RetryOnConflict K (tc_CreateOrUpdate (k_Deployments K)
          (new_deployment (new_meta (site_Namespace site) (site_Name site)))
          (mutate_deployment K (site_Meta site) site (site_labels site) (site_envs site)
             (site_config_hash site))) w2 = (Ok (), w')"
    by (auto simp: reconcileDeployment_def Let_def and_then_eq_Ok_iff site_config_hash_def)
  have "nginx_configmap_name site \<noteq> php_configmap_name site"
    by (simp add: nginx_configmap_name_def php_configmap_name_def)
  with configmap_sync.retried_create_or_update_settles [OF 1]
    configmap_sync.retried_create_or_update_settles [OF 2]
    deployment_sync.retried_create_or_update_settles [OF 3]
  show ?thesis
    by (auto simp: config_synced_def deployment_synced_def new_configmap_def Let_def)
qed

lemma service_step:
  assumes "reconcileService K (site_Meta site) site (site_labels site) w = (Ok (), w')"
  shows "service_synced K site (view w') \<and> view w' = (view w)\<lparr>cl_Services := cl_Services (view w')\<rparr>"
  using service_sync.retried_create_or_update_settles [OF assms [unfolded reconcileService_def]]
  by (auto simp: service_synced_def new_service_def)

lemma ingress_step:
  assumes "reconcileIngress K (site_Meta site) site (site_labels site) w = (Ok (), w')"
  shows "ingress_synced K site (view w') \<and> view w' = (view w)\<lparr>cl_Ingresses := cl_Ingresses (view w')\<rparr>"
proof (cases "ingress_enabled site")
  case None
  from ingresses.delete_if_controlled_leaves [OF assms [unfolded reconcileIngress_def None, simplified] ignore]
  show ?thesis using None by (auto simp: ingress_synced_def)
next
  case (Some spec)
  from ingress_sync.retried_create_or_update_settles [OF assms [unfolded reconcileIngress_def Some, simplified]]
  show ?thesis using Some by (auto simp: ingress_synced_def new_ingress_def)
qed

lemma pvc_step:
  assumes "reconcilePVC K (site_Meta site) site (rc_DefaultStorageClassName r) w = (Ok (), w')"
  shows "pvc_synced K r site (view w') \<and> view w' = (view w)\<lparr>cl_PVCs := cl_PVCs (view w')\<rparr>"
proof (cases "own_claim site")
  case None
  from pvcs.delete_if_controlled_leaves
    [OF assms [unfolded reconcilePVC_def None deleteOwnedPVC_def, simplified] ignore]
  show ?thesis using None by (auto simp: pvc_synced_def)
next
  case (Some p)
  from pvc_sync.retried_create_or_update_settles [OF assms [unfolded reconcilePVC_def Some, simplified]]
  show ?thesis using Some by (auto simp: pvc_synced_def new_pvc_def)
qed

text \<open>The steps in sequence.\<close>

lemma body_steps:
  assumes "reconcile_body K r site w = (Ok (), w')"
  obtains w1 w2 w3 w4 w5 where "reconcileSecret K (site_Meta site) site w = (Ok (), w1)"
      "reconcileDatabaseProvision K (site_Meta site) site (rc_DefaultMariaDBRef r) w1 = (Ok (), w2)"
      "reconcileDeployment K (site_Meta site) site (site_labels site) (site_envs site) w2 = (Ok (), w3)"
      "reconcileService K (site_Meta site) site (site_labels site) w3 = (Ok (), w4)"
      "reconcileIngress K (site_Meta site) site (site_labels site) w4 = (Ok (), w5)"
      "reconcilePVC K (site_Meta site) site (rc_DefaultStorageClassName r) w5 = (Ok (), w')"
  using assms unfolding reconcile_body_def Let_def and_then_eq_Ok_iff by auto

lemma body_frame:
  assumes "reconcile_body K r site w = (Ok (), w')"
  shows "cl_Sites (view w') = cl_Sites (view w)
    \<and> (\<not> provisionEnabled site \<longrightarrow>
        cl_Databases (view w') = cl_Databases (view w) \<and> cl_Users (view w') = cl_Users (view w)
        \<and> cl_Grants (view w') = cl_Grants (view w))"
  using assms
proof (rule body_steps)
  fix w1 w2 w3 w4 w5
  assume 1: "reconcileSecret K (site_Meta site) site w = (Ok (), w1)"
    and 2: "reconcileDatabaseProvision K (site_Meta site) site (rc_DefaultMariaDBRef r) w1 = (Ok (), w2)"
    and 3: "reconcileDeployment K (site_Meta site) site (site_labels site) (site_envs site) w2 = (Ok (), w3)"
    and 4: "reconcileService K (site_Meta site) site (site_labels site) w3 = (Ok (), w4)"
    and 5: "reconcileIngress K (site_Meta site) site (site_labels site) w4 = (Ok (), w5)"
    and 6: "reconcilePVC K (site_Meta site) site (rc_DefaultStorageClassName r) w5 = (Ok (), w')"
  obtain m1 d u g m3 d3 m4 m5 m6 where
    v1: "view w1 = (view w)\<lparr>cl_Secrets := m1\<rparr>" and
    v2: "view w2 = (view w1)\<lparr>cl_Databases := d, cl_Users := u, cl_Grants := g\<rparr>" and
    v: "view w3 = (view w2)\<lparr>cl_ConfigMaps := m3, cl_Deployments := d3\<rparr>"
    "view w4 = (view w3)\<lparr>cl_Services := m4\<rparr>" "view w5 = (view w4)\<lparr>cl_Ingresses := m5\<rparr>"
    "view w' = (view w5)\<lparr>cl_PVCs := m6\<rparr>"
    using secret_step [OF 1] provision_step [OF 2] deployment_step [OF 3] service_step [OF 4]
      ingress_step [OF 5] pvc_step [OF 6] by blast
  have "view w2 = view w1" if "\<not> provisionEnabled site"
    using 2 that by (simp add: reconcileDatabaseProvision_def)
  then have "cl_Databases (view w2) = cl_Databases (view w) \<and> cl_Users (view w2) = cl_Users (view w)
    \<and> cl_Grants (view w2) = cl_Grants (view w)" if "\<not> provisionEnabled site"
    using that v1 by simp
  moreover have "cl_Sites (view w2) = cl_Sites (view w)" using v1 v2 by simp
  ultimately show ?thesis by (simp add: v)
qed

lemma body_syncs:
  assumes "reconcile_body K r site w = (Ok (), w')"
  shows "site_synced K r site (view w')"
  using assms
proof (rule body_steps)
  fix w1 w2 w3 w4 w5
  assume steps: "reconcileSecret K (site_Meta site) site w = (Ok (), w1)"
      "reconcileDatabaseProvision K (site_Meta site) site (rc_DefaultMariaDBRef r) w1 = (Ok (), w2)"
      "reconcileDeployment K (site_Meta site) site (site_labels site) (site_envs site) w2 = (Ok (), w3)"
      "reconcileService K (site_Meta site) site (site_labels site) w3 = (Ok (), w4)"
      "reconcileIngress K (site_Meta site) site (site_labels site) w4 = (Ok (), w5)"
      "reconcilePVC K (site_Meta site) site (rc_DefaultStorageClassName r) w5 = (Ok (), w')"
  note synced = secret_step [OF steps(1)] provision_step [OF steps(2)] deployment_step [OF steps(3)]
    service_step [OF steps(4)] ingress_step [OF steps(5)] pvc_step [OF steps(6)]
  from synced obtain m1 d u g m3 d3 m4 m5 m6 where
    "view w1 = (view w)\<lparr>cl_Secrets := m1\<rparr>"
    and v: "view w2 = (view w1)\<lparr>cl_Databases := d, cl_Users := u, cl_Grants := g\<rparr>"
      "view w3 = (view w2)\<lparr>cl_ConfigMaps := m3, cl_Deployments := d3\<rparr>"
      "view w4 = (view w3)\<lparr>cl_Services := m4\<rparr>" "view w5 = (view w4)\<lparr>cl_Ingresses := m5\<rparr>"
      "view w' = (view w5)\<lparr>cl_PVCs := m6\<rparr>"
    by blast
  have "cl_Secrets (view w') = cl_Secrets (view w1)"
    "cl_Databases (view w') = cl_Databases (view w2)" "cl_Users (view w') = cl_Users (view w2)"
    "cl_Grants (view w') = cl_Grants (view w2)"
    "cl_ConfigMaps (view w') = cl_ConfigMaps (view w3)"
    "cl_Deployments (view w') = cl_Deployments (view w3)"
    "cl_Services (view w') = cl_Services (view w4)"
    "cl_Ingresses (view w') = cl_Ingresses (view w5)"
    by (simp_all add: v)
  with synced show ?thesis
    unfolding site_synced_def by (simp add: synced_defs)
qed

end

text \<open>The status update touches the status of the Site only.\<close>

lemma site_synced_same_but_status:
  "same_but_status k c c' \<Longrightarrow> site_synced K r site c' = site_synced K r site c"
  by (auto simp: same_but_status_def site_synced_def synced_defs)

context site_cluster
begin

lemma setSiteConditions_view:
  "view (snd (setSiteConditions K g d de re cs w)) = view w"
  using keeps_setSiteConditions [of "\<lambda>u. view u = view w"]
  by (simp add: keeps_def set_condition_view)

lemma write_status_view:
  "same_but_status (object_key (site_Meta s)) (view w) (view (snd (write_status K s d de re w)))"
proof -
  obtain cs w1 where set: "setSiteConditions K (om_Generation (site_Meta s)) d de re
      (st_Conditions (site_Status s)) w = (cs, w1)" by fastforce
  with setSiteConditions_view [of "om_Generation (site_Meta s)" d de re
      "st_Conditions (site_Status s)" w] have "view w1 = view w" by simp
  with set update_status_view [of "s\<lparr>site_Status := (site_Status s)\<lparr>st_Conditions := cs\<rparr>\<rparr>" w1]
  show ?thesis by (simp add: write_status_def)
qed

lemma status_attempt_view:
  assumes "object_key (site_Meta s) = k"
  shows "same_but_status k (view w) (view (snd (status_attempt K s re w)))"
proof -
  let ?ns = "site_Namespace s" and ?n = "site_Name s"
  obtain r1 w1 where 1: "tc_Get (k_Sites K) ?ns ?n w = (r1, w1)"
    by (cases "tc_Get (k_Sites K) ?ns ?n w")
  with sites.get_keeps [of ?ns ?n w] have w1: "view w1 = view w" by simp
  show ?thesis
  proof (cases r1)
    case (Ok x)
    with 1 site_found [of ?ns ?n w x w1] assms have key: "object_key (site_Meta x) = k"
      by (simp add: object_key_def)
    obtain r2 w2 where 2: "tc_Get (k_Deployments K) (site_Namespace x) (site_Name x) w1 = (r2, w2)"
      by (cases "tc_Get (k_Deployments K) (site_Namespace x) (site_Name x) w1")
    with deployments.get_keeps [of "site_Namespace x" "site_Name x" w1] w1
    have w2: "view w2 = view w" by simp
    from write_status_view [of x w2] 1 2 Ok key w2 show ?thesis
      by (cases r2) (simp_all add: status_attempt_def act_simps)
  qed (use 1 w1 in \<open>simp_all add: status_attempt_def act_simps\<close>)
qed

lemma updateSiteStatus_view:
  assumes "object_key (site_Meta s) = k"
  shows "same_but_status k (view w) (view (snd (updateSiteStatus K s re w)))"
  unfolding updateSiteStatus_def
  by (rule retry_view [where P = "same_but_status k (view w)"])
     (auto intro: same_but_status_trans status_attempt_view [OF assms])

lemma with_status_update_view:
  assumes "object_key (site_Meta s) = k"
  shows "same_but_status k (view (snd (body w))) (view (snd (with_status_update K s body w)))"
  using updateSiteStatus_view [OF assms, of "snd (body w)" "reconcileErr_of (fst (body w))"]
  by (auto simp: with_status_update_def split: prod.splits res.splits)

text \<open>A reconcile that succeeds: the Site was found, its steps succeeded, its status is new.\<close>

lemma Reconcile_Ok:
  assumes "cl_Sites (view w) (ns, n) = Some site" and run: "Reconcile K r ns n w = (Ok (), w')"
  obtains w1 w2 where "view w1 = view w" and "reconcile_body K r site w1 = (Ok (), w2)"
    and "same_but_status (ns, n) (view w2) (view w')"
proof -
  obtain res w1 where get: "tc_Get (k_Sites K) ns n w = (res, w1)"
    by (cases "tc_Get (k_Sites K) ns n w")
  have res: "res = Ok site"
    using assms get sites.get_stored [of ns n w _ w1] sites.get_missing [of ns n w _ w1]
    by (cases res) (auto simp: Reconcile_def ignore act_simps split: if_splits)
  with run get have run: "with_status_update K site (reconcile_body K r site) w1 = (Ok (), w')"
    by (simp add: Reconcile_def act_simps)
  then obtain w2 where body: "reconcile_body K r site w1 = (Ok (), w2)"
    by (cases "reconcile_body K r site w1"; cases "fst (reconcile_body K r site w1)")
       (auto simp: with_status_update_def split: prod.splits res.splits)
  have "object_key (site_Meta site) = (ns, n)" using get res by (simp add: site_found)
  from with_status_update_view [OF this, of "reconcile_body K r site" w1] run body
  have "same_but_status (ns, n) (view w2) (view w')" by simp
  moreover have "view w1 = view w" using sites.get_keeps [of ns n w] get by simp
  ultimately show ?thesis using that body by blast
qed

lemma Reconcile_syncs:
  assumes "cl_Sites (view w) (ns, n) = Some site" and "Reconcile K r ns n w = (Ok (), w')"
  shows "site_synced K r site (view w')"
  using assms
proof (rule Reconcile_Ok)
  fix w1 w2
  assume "reconcile_body K r site w1 = (Ok (), w2)" and status: "same_but_status (ns, n) (view w2) (view w')"
  from this(1) have "site_synced K r site (view w2)" by (rule body_syncs)
  with status show ?thesis by (simp add: site_synced_same_but_status)
qed

text \<open>With provisioning off, the database objects that exist are left alone.\<close>

lemma Reconcile_keeps_databases:
  assumes "cl_Sites (view w) (ns, n) = Some site" and "Reconcile K r ns n w = (Ok (), w')"
    and off: "\<not> provisionEnabled site"
  shows "cl_Databases (view w') = cl_Databases (view w) \<and> cl_Users (view w') = cl_Users (view w)
    \<and> cl_Grants (view w') = cl_Grants (view w)"
  using assms(1,2)
proof (rule Reconcile_Ok)
  fix w1 w2
  assume w1: "view w1 = view w" and "reconcile_body K r site w1 = (Ok (), w2)"
    and status: "same_but_status (ns, n) (view w2) (view w')"
  from body_frame [OF this(2)] off
  have "cl_Databases (view w2) = cl_Databases (view w) \<and> cl_Users (view w2) = cl_Users (view w)
    \<and> cl_Grants (view w2) = cl_Grants (view w)" unfolding w1 by simp
  with status show ?thesis by (auto simp: same_but_status_def)
qed

end

section \<open>A synced cluster is at rest\<close>

text \<open>No object of the Site that it no longer asks for is still waiting for its finalizers.\<close>

definition removals_done :: "'w kube \<Rightarrow> Site \<Rightarrow> cluster \<Rightarrow> bool" where
  "removals_done K site c \<longleftrightarrow>
     (ingress_enabled site = None \<longrightarrow>
        (\<forall>x. cl_Ingresses c (site_Namespace site, site_Name site @ ''-ingress'') = Some x \<longrightarrow>
           \<not> k_IsControlledBy K (ingr_Meta x) (site_Meta site)))
     \<and> (own_claim site = None \<longrightarrow>
        (\<forall>x. cl_PVCs c (site_Namespace site, pvc_name site) = Some x \<longrightarrow>
           \<not> k_IsControlledBy K (pvc_Meta x) (site_Meta site)))"

context site_cluster
begin

lemma keeps_viewI: "(\<And>w. view w = c \<Longrightarrow> view (snd (m w)) = view w) \<Longrightarrow> keeps (\<lambda>u. view u = c) m"
  by (simp add: keeps_def)

lemma secret_rests:
  "secret_synced K site c \<Longrightarrow> keeps (\<lambda>u. view u = c) (reconcileSecret K (site_Meta site) site)"
  unfolding reconcileSecret_def secret_synced_def synced_def
  by (auto intro!: keeps_viewI elim!: secret_sync.settled_kept [rotated])

lemma provision_rests:
  assumes "provision_synced K r site c"
  shows "keeps (\<lambda>u. view u = c)
    (reconcileDatabaseProvision K (site_Meta site) site (rc_DefaultMariaDBRef r))"
proof (cases "provisionEnabled site")
  case True
  with assms obtain cl where cl: "resolveMariaDBRef site (rc_DefaultMariaDBRef r) = Ok cl"
    and synced: "provision_synced K r site c" by (auto simp: provision_synced_def)
  let ?ref = "mariadb_ref cl" and ?I = "\<lambda>u. view u = c"
  have "keeps ?I (k_RetryOnConflict K (tc_CreateOrUpdate (k_Databases K) (new_database site)
      (mutate_database K (site_Meta site) site ?ref)))"
    using synced True cl
    by (auto simp: provision_synced_def synced_def new_database_def Let_def
        intro!: keeps_viewI elim!: database_sync.retried_settled_kept [rotated])
  moreover have "keeps ?I (k_RetryOnConflict K (tc_CreateOrUpdate (k_Users K) (new_user site)
      (mutate_user K (site_Meta site) site ?ref)))"
    using synced True cl
    by (auto simp: provision_synced_def synced_def new_user_def Let_def
        intro!: keeps_viewI elim!: user_sync.retried_settled_kept [rotated])
  moreover have "keeps ?I (k_RetryOnConflict K (tc_CreateOrUpdate (k_Grants K) (new_grant site)
      (mutate_grant K (site_Meta site) site ?ref)))"
    using synced True cl
    by (auto simp: provision_synced_def synced_def new_grant_def Let_def
        intro!: keeps_viewI elim!: grant_sync.retried_settled_kept [rotated])
  ultimately show ?thesis
    by (simp add: reconcileDatabaseProvision_def True cl Let_def keeps_intros)
qed (simp add: reconcileDatabaseProvision_def)

lemma deployment_rests:
  assumes "config_synced K site c" and "deployment_synced K site c"
  shows "keeps (\<lambda>u. view u = c)
    (reconcileDeployment K (site_Meta site) site (site_labels site) (site_envs site))"
proof -
  let ?I = "\<lambda>u. view u = c"
  have "keeps ?I (k_RetryOnConflict K
      (tc_CreateOrUpdate (k_ConfigMaps K) (new_configmap site (nginx_configmap_name site))
        (mutate_configmap K (site_Meta site) [''default.conf'' \<mapsto> buildNginxConfigContent site])))"
    using assms(1)
    by (auto simp: config_synced_def synced_def new_configmap_def Let_def
        intro!: keeps_viewI elim!: configmap_sync.retried_settled_kept [rotated])
  moreover have "keeps ?I (k_RetryOnConflict K
      (tc_CreateOrUpdate (k_ConfigMaps K) (new_configmap site (php_configmap_name site))
        (mutate_configmap K (site_Meta site) [phpIniFileName \<mapsto> buildPHPIniContent site])))"
    using assms(1)
    by (auto simp: config_synced_def synced_def new_configmap_def Let_def
        intro!: keeps_viewI elim!: configmap_sync.retried_settled_kept [rotated])
  moreover have "keeps ?I (k_RetryOnConflict K
      (tc_CreateOrUpdate (k_Deployments K)
        (new_deployment (new_meta (site_Namespace site) (site_Name site)))
        (mutate_deployment K (site_Meta site) site (site_labels site) (site_envs site)
          (site_config_hash site))))"
    using assms(2)
    by (auto simp: deployment_synced_def synced_def Let_def
        intro!: keeps_viewI elim!: deployment_sync.retried_settled_kept [rotated])
  ultimately show ?thesis
    by (simp add: reconcileDeployment_def Let_def keeps_intros flip: site_config_hash_def)
qed

lemma service_rests:
  "service_synced K site c \<Longrightarrow>
   keeps (\<lambda>u. view u = c) (reconcileService K (site_Meta site) site (site_labels site))"
  unfolding reconcileService_def service_synced_def synced_def
  by (auto simp: new_service_def intro!: keeps_viewI elim!: service_sync.retried_settled_kept [rotated])

lemma ingress_rests:
  assumes "ingress_synced K site c" and "removals_done K site c"
  shows "keeps (\<lambda>u. view u = c) (reconcileIngress K (site_Meta site) site (site_labels site))"
proof (cases "ingress_enabled site")
  case None
  with assms(2) show ?thesis
    unfolding reconcileIngress_def removals_done_def
    by (auto intro!: keeps_viewI ingresses.delete_if_controlled_idle)
next
  case (Some spec)
  with assms(1) show ?thesis
    unfolding reconcileIngress_def
    by (auto simp: ingress_synced_def synced_def new_ingress_def Let_def
        intro!: keeps_viewI elim!: ingress_sync.retried_settled_kept [rotated])
qed

lemma pvc_rests:
  assumes "pvc_synced K r site c" and "removals_done K site c"
  shows "keeps (\<lambda>u. view u = c)
    (reconcilePVC K (site_Meta site) site (rc_DefaultStorageClassName r))"
proof (cases "own_claim site")
  case None
  with assms(2) show ?thesis
    unfolding reconcilePVC_def deleteOwnedPVC_def removals_done_def
    by (auto intro!: keeps_viewI pvcs.delete_if_controlled_idle)
next
  case (Some p)
  with assms(1) show ?thesis
    unfolding reconcilePVC_def
    by (auto simp: pvc_synced_def synced_def new_pvc_def Let_def
        intro!: keeps_viewI elim!: pvc_sync.retried_settled_kept [rotated])
qed

lemma body_rests:
  assumes "site_synced K r site c" and "removals_done K site c"
  shows "keeps (\<lambda>u. view u = c) (reconcile_body K r site)"
  using assms secret_rests provision_rests deployment_rests service_rests ingress_rests pvc_rests
  unfolding reconcile_body_def site_synced_def Let_def
  by (intro keeps_and_then keeps_ret) auto

text \<open>Whatever the reconcile returns, the cluster is as before but for the Site's own status.\<close>

lemma Reconcile_rests:
  assumes "cl_Sites (view w) (ns, n) = Some site"
    and "site_synced K r site (view w)" and "removals_done K site (view w)"
  shows "same_but_status (ns, n) (view w) (view (snd (Reconcile K r ns n w)))"
proof -
  obtain res w1 where get: "tc_Get (k_Sites K) ns n w = (res, w1)"
    by (cases "tc_Get (k_Sites K) ns n w")
  with sites.get_keeps [of ns n w] have w1: "view w1 = view w" by simp
  show ?thesis
  proof (cases res)
    case (Ok s)
    with get assms(1) sites.get_stored [of ns n w s w1] have "s = site" by simp
    with get Ok have "Reconcile K r ns n w = with_status_update K site (reconcile_body K r site) w1"
      by (simp add: Reconcile_def act_simps)
    moreover have "view (snd (reconcile_body K r site w1)) = view w"
      using body_rests [OF assms(2,3)] w1 by (simp add: keeps_def)
    moreover have "object_key (site_Meta site) = (ns, n)"
      using get Ok \<open>s = site\<close> by (simp add: site_found)
    ultimately show ?thesis
      using with_status_update_view [of site "(ns, n)" "reconcile_body K r site" w1] by simp
  qed (use get w1 in \<open>simp_all add: Reconcile_def act_simps\<close>)
qed

end

end
