(* ===== verification/StatusReport.thy ===== *)
theory StatusReport
  imports Convergence
begin

text \<open>
  What the status of a Site tells after a reconcile. The interface \<open>reporting_cluster\<close> adds to
  the laws of the clients that of the status subresource: a successful update stores the
  status it is given, one refused with a conflict stores nothing. With it the deferred status
  update is followed through its retries to the conditions that are in the cluster.
\<close>

text \<open>
  A reading of the Deployment in the state \<open>c\<close> of the cluster: the stored one, or the error
  of some read in that state.
\<close>

definition deployment_read ::
  "'w kube \<Rightarrow> ('w \<Rightarrow> cluster) \<Rightarrow> cluster \<Rightarrow> object_key \<Rightarrow> Deployment \<Rightarrow> go_error option \<Rightarrow> bool" where
  "deployment_read K view c k deploy deployErr \<longleftrightarrow>
     (case deployErr of
        None \<Rightarrow> cl_Deployments c k = Some deploy
      | Some e \<Rightarrow> \<exists>v. view v = c \<and> fst (tc_Get (k_Deployments K) (fst k) (snd k) v) = Err e)"

text \<open>The conditions of the stored Site are the verdict on such a reading and on the reconcile.\<close>

definition reports ::
  "'w kube \<Rightarrow> ('w \<Rightarrow> cluster) \<Rightarrow> cluster \<Rightarrow> object_key \<Rightarrow> int64 \<Rightarrow> go_error option \<Rightarrow> cluster \<Rightarrow> bool" where
  "reports K view c k generation reconcileErr c' \<longleftrightarrow>
     (\<exists>z deploy deployErr. cl_Sites c' k = Some z
        \<and> deployment_read K view c k deploy deployErr
        \<and> shows_verdict (st_Conditions (site_Status z)) (site_verdict deploy deployErr reconcileErr)
            generation)"

locale reporting_cluster =
  site_cluster K view site conflict not_found + condition_setter "k_SetStatusCondition K"
  for K :: "'w kube" and view :: "'w \<Rightarrow> cluster" and site :: Site
    and conflict :: "go_error \<Rightarrow> bool" and not_found :: "go_error \<Rightarrow> bool" +
  assumes status_stored: "k_UpdateSiteStatus K s w = (Ok (), w') \<Longrightarrow>
      \<exists>z. cl_Sites (view w') (object_key (site_Meta s)) = Some z \<and> site_Status z = site_Status s"
    and status_conflict: "k_UpdateSiteStatus K s w = (Err e, w') \<Longrightarrow> conflict e \<Longrightarrow> view w' = view w"
begin

lemma write_status_conflict:
  assumes "write_status K s d de re w = (Err e, w')" and "conflict e"
  shows "view w' = view w"
proof -
  obtain cs w1 where set: "setSiteConditions K (om_Generation (site_Meta s)) d de re
      (st_Conditions (site_Status s)) w = (cs, w1)" by fastforce
  with assms(1) have "k_UpdateSiteStatus K
      (s\<lparr>site_Status := (site_Status s)\<lparr>st_Conditions := cs\<rparr>\<rparr>) w1 = (Err e, w')"
    by (simp add: write_status_def)
  from status_conflict [OF this assms(2)] set show ?thesis
    using setSiteConditions_view [of "om_Generation (site_Meta s)" d de re
        "st_Conditions (site_Status s)" w] by simp
qed

lemma write_status_reports:
  assumes "write_status K s d de re w = (Ok (), w')"
  shows "\<exists>z. cl_Sites (view w') (object_key (site_Meta s)) = Some z
    \<and> shows_verdict (st_Conditions (site_Status z)) (site_verdict d de re) (om_Generation (site_Meta s))"
proof -
  obtain cs w1 where set: "setSiteConditions K (om_Generation (site_Meta s)) d de re
      (st_Conditions (site_Status s)) w = (cs, w1)" by fastforce
  with assms have "k_UpdateSiteStatus K
      (s\<lparr>site_Status := (site_Status s)\<lparr>st_Conditions := cs\<rparr>\<rparr>) w1 = (Ok (), w')"
    by (simp add: write_status_def)
  from status_stored [OF this] setSiteConditions_shows [OF condition_setter_axioms set]
  show ?thesis by auto
qed

lemma attempt_conflict:
  assumes "status_attempt K s re w = (Err e, w')" and "conflict e"
  shows "view w' = view w"
proof -
  obtain r1 w1 where 1: "tc_Get (k_Sites K) (site_Namespace s) (site_Name s) w = (r1, w1)"
    by (cases "tc_Get (k_Sites K) (site_Namespace s) (site_Name s) w")
  with sites.get_keeps have w1: "view w1 = view w" by (metis snd_conv)
  show ?thesis
  proof (cases r1)
    case (Ok x)
    obtain r2 w2 where 2: "tc_Get (k_Deployments K) (site_Namespace x) (site_Name x) w1 = (r2, w2)"
      by (cases "tc_Get (k_Deployments K) (site_Namespace x) (site_Name x) w1")
    with deployments.get_keeps have "view w2 = view w1" by (metis snd_conv)
    with assms 1 2 Ok w1 show ?thesis
      by (cases r2) (auto simp: status_attempt_def act_simps dest: write_status_conflict)
  qed (use assms 1 w1 in \<open>simp_all add: status_attempt_def act_simps\<close>)
qed

lemma attempt_reports:
  assumes "status_attempt K s re w = (Ok (), w')"
    and k: "object_key (site_Meta s) = (ns, n)" and here: "cl_Sites (view w) (ns, n) = Some current"
  shows "reports K view (view w) (ns, n) (om_Generation (site_Meta current)) re (view w')"
proof -
  have ns: "site_Namespace s = ns" "site_Name s = n" using k by (simp_all add: object_key_def)
  obtain r1 w1 where 1: "tc_Get (k_Sites K) ns n w = (r1, w1)"
    by (cases "tc_Get (k_Sites K) ns n w")
  with sites.get_keeps [of ns n w] have w1: "view w1 = view w" by simp
  have r1: "r1 = Ok current"
    using assms(1) 1 here sites.get_stored [of ns n w _ w1] sites.get_missing [of ns n w _ w1]
    by (cases r1) (auto simp: status_attempt_def ns ignore act_simps split: if_splits)
  with site_found [of ns n w current w1] 1 have key: "object_key (site_Meta current) = (ns, n)" by simp
  then have cur: "site_Namespace current = ns" "site_Name current = n" by (simp_all add: object_key_def)
  obtain r2 w2 where 2: "tc_Get (k_Deployments K) ns n w1 = (r2, w2)"
    by (cases "tc_Get (k_Deployments K) ns n w1")
  show ?thesis
  proof (cases r2)
    case (Ok d)
    with assms(1) 1 2 r1 have "write_status K current d None re w2 = (Ok (), w')"
      by (simp add: status_attempt_def act_simps ns cur)
    moreover have "deployment_read K view (view w) (ns, n) d None"
      using deployments.get_stored [of ns n w1 d w2] 2 Ok w1 by (simp add: deployment_read_def)
    ultimately show ?thesis
      using write_status_reports key unfolding reports_def by metis
  next
    case (Err e)
    with assms(1) 1 2 r1
    have "write_status K current (new_deployment (new_meta [] [])) (Some e) re w2 = (Ok (), w')"
      by (simp add: status_attempt_def act_simps ns cur)
    moreover have "deployment_read K view (view w) (ns, n) (new_deployment (new_meta [] [])) (Some e)"
      using 2 Err w1 by (auto simp: deployment_read_def)
    ultimately show ?thesis
      using write_status_reports key unfolding reports_def by metis
  next
    case (Panic p)
    with assms(1) 1 2 r1 show ?thesis by (simp add: status_attempt_def act_simps ns cur)
  qed
qed

lemma updateSiteStatus_reports:
  assumes "updateSiteStatus K s re w = (Ok (), w')"
    and "object_key (site_Meta s) = (ns, n)" and "cl_Sites (view w) (ns, n) = Some current"
  shows "reports K view (view w) (ns, n) (om_Generation (site_Meta current)) re (view w')"
proof -
  have "\<exists>w0. view w0 = view w \<and> status_attempt K s re w0 = (Ok (), w')"
    by (rule retry_succeeds [OF assms(1) [unfolded updateSiteStatus_def]]) (rule attempt_conflict)
  then obtain w0 where "view w0 = view w" "status_attempt K s re w0 = (Ok (), w')" by blast
  with attempt_reports [of s re w0 w'] assms(2,3) show ?thesis by simp
qed

end

end
