(* ===== verification/Confinement.thy ===== *)
theory Confinement
  imports SiteController
begin

text \<open>
  What a reconcile can touch, whatever the API server answers and whether it succeeds, fails
  or panics. The interface \<open>site_confined\<close> says which calls an invariant \<open>I\<close> of the world
  tolerates: reads, writes at the names derived from the Site's own, deletion of an object
  of such a name that the Site controls, and the status of the Site itself. \<open>Reconcile\<close>
  keeps every such invariant, so it makes no other call.
\<close>

section \<open>Calls an invariant tolerates\<close>

text \<open>\<open>keys\<close>: where objects of one kind may be created and updated.\<close>

locale confined_writes =
  fixes I :: "'w \<Rightarrow> bool"
    and tc :: "('w, 'o) typed_client"
    and meta :: "'o \<Rightarrow> ObjectMeta"
    and keys :: "object_key set"
  assumes write_keeps:
      "object_key (meta obj) \<in> keys \<Longrightarrow> (\<And>x. keeps I (f x)) \<Longrightarrow>
       keeps I (tc_CreateOrUpdate tc obj f)"

text \<open>Objects at \<open>keys\<close> may also be looked up, and removed by an owner that controls them.\<close>

locale confined_removal = confined_writes +
  fixes controlled :: "ObjectMeta \<Rightarrow> bool"
  assumes lookup_keeps: "keeps I (tc_Get tc a b)"
    and lookup_key: "tc_Get tc a b w = (Ok x, w') \<Longrightarrow> object_key (meta x) = (a, b)"
    and delete_keeps:
      "object_key (meta x) \<in> keys \<Longrightarrow> controlled (meta x) \<Longrightarrow> keeps I (tc_Delete tc x)"
begin

lemma keeps_delete_if_controlled:
  assumes "(a, b) \<in> keys" and "\<And>m. k_IsControlledBy K m owner \<Longrightarrow> controlled m"
  shows "keeps I (delete_if_controlled K tc meta owner a b)"
proof (rule keepsI)
  fix w assume "I w"
  obtain r w1 where r: "tc_Get tc a b w = (r, w1)" by (cases "tc_Get tc a b w")
  with keepsD [OF lookup_keeps \<open>I w\<close>] have w1: "I w1" by (metis snd_conv)
  show "I (snd (delete_if_controlled K tc meta owner a b w))"
  proof (cases r)
    case (Ok x)
    with r lookup_key have "object_key (meta x) = (a, b)" by blast
    then have "k_IsControlledBy K (meta x) owner \<Longrightarrow> keeps I (tc_Delete tc x)"
      using assms by (intro delete_keeps) auto
    then have "k_IsControlledBy K (meta x) owner \<Longrightarrow> keeps I (ignore_not_found K (tc_Delete tc x))"
      unfolding ignore_not_found_def by (intro keeps_intros)
    with w1 have "k_IsControlledBy K (meta x) owner \<Longrightarrow>
        I (snd (ignore_not_found K (tc_Delete tc x) w1))"
      by (simp add: keeps_def)
    with r Ok w1 show ?thesis by (simp add: delete_if_controlled_def act_simps)
  qed (use r w1 in \<open>simp_all add: delete_if_controlled_def act_simps\<close>)
qed

end

section \<open>The footprint of a Site\<close>

text \<open>
  The Site named \<open>nm\<close> in namespace \<open>ns\<close>: the keys it may write per kind. "Controlled"
  is by an owner of the Site's key. \<open>site_writes\<close> has all kinds but the Secret, whose step
  some invariants tolerate because of what its callback does, not because of its key.
\<close>

locale site_writes =
  databases: confined_writes I "k_Databases K" db_Meta "{(ns, nm)}" +
  users: confined_writes I "k_Users K" usr_Meta "{(ns, nm @ ''-db-user'')}" +
  grants: confined_writes I "k_Grants K" gr_Meta "{(ns, nm @ ''-db-grant'')}" +
  configmaps: confined_writes I "k_ConfigMaps K" cm_Meta "{(ns, nm @ ''-nginx''), (ns, nm @ ''-php'')}" +
  deployments: confined_writes I "k_Deployments K" dep_Meta "{(ns, nm)}" +
  services: confined_writes I "k_Services K" svc_Meta "{(ns, nm)}" +
  ingresses: confined_removal I "k_Ingresses K" ingr_Meta "{(ns, nm @ ''-ingress'')}"
    "\<lambda>m. \<exists>owner. object_key owner = (ns, nm) \<and> k_IsControlledBy K m owner" +
  pvcs: confined_removal I "k_PVCs K" pvc_Meta "{(ns, nm @ ''-data'')}"
    "\<lambda>m. \<exists>owner. object_key owner = (ns, nm) \<and> k_IsControlledBy K m owner"
  for K :: "'w kube" and I :: "'w \<Rightarrow> bool" and ns nm :: string +
  assumes get_site_keeps: "keeps I (tc_Get (k_Sites K) a b)"
    and get_site_key:
      "tc_Get (k_Sites K) a b w = (Ok s, w') \<Longrightarrow> object_key (site_Meta s) = (a, b)"
    and get_deployment_keeps: "keeps I (tc_Get (k_Deployments K) a b)"
    and status_keeps: "object_key (site_Meta s) = (ns, nm) \<Longrightarrow> keeps I (k_UpdateSiteStatus K s)"
    and retry_keeps: "keeps I f \<Longrightarrow> keeps I (k_RetryOnConflict K f)"
    and entropy_keeps: "entropy_keeps K I"
    and set_condition_keeps: "keeps I (k_SetStatusCondition K cs c)"
begin

lemma keeps_write_status:
  assumes "object_key (site_Meta s) = (ns, nm)"
  shows "keeps I (write_status K s d de re)"
proof (rule keepsI)
  fix w assume "I w"
  obtain cs w1 where set: "setSiteConditions K (om_Generation (site_Meta s)) d de re
      (st_Conditions (site_Status s)) w = (cs, w1)" by fastforce
  with keepsD [OF keeps_setSiteConditions [OF set_condition_keeps] \<open>I w\<close>] have "I w1" by (metis snd_conv)
  moreover have "keeps I (k_UpdateSiteStatus K
      (s\<lparr>site_Status := (site_Status s)\<lparr>st_Conditions := cs\<rparr>\<rparr>))"
    using assms by (intro status_keeps) simp
  ultimately show "I (snd (write_status K s d de re w))"
    using set by (simp add: write_status_def keeps_def)
qed

text \<open>A continuation of a successful \<open>Get\<close> may use the key of what was returned.\<close>

lemma keeps_with_site:
  assumes "\<And>s. object_key (site_Meta s) = (ns, nm) \<Longrightarrow> keeps I (k s)" and "\<And>e. keeps I (h e)"
  shows "keeps I (on_result (tc_Get (k_Sites K) ns nm) k h)"
proof (rule keepsI)
  fix w assume "I w"
  obtain r w1 where r: "tc_Get (k_Sites K) ns nm w = (r, w1)"
    by (cases "tc_Get (k_Sites K) ns nm w")
  with keepsD [OF get_site_keeps \<open>I w\<close>] have w1: "I w1" by (metis snd_conv)
  with r assms show "I (snd (on_result (tc_Get (k_Sites K) ns nm) k h w))"
    by (cases r) (auto simp: act_simps dest: get_site_key intro: keepsD)
qed

lemma keeps_updateSiteStatus:
  assumes "object_key (site_Meta s) = (ns, nm)"
  shows "keeps I (updateSiteStatus K s re)"
proof -
  have "site_Namespace s = ns" "site_Name s = nm" using assms by (simp_all add: object_key_def)
  then show ?thesis
    unfolding updateSiteStatus_def status_attempt_def
    by (simp only:) (intro retry_keeps keeps_with_site keeps_on_result get_deployment_keeps
        keeps_write_status keeps_lift_res; assumption)
qed

lemma keeps_with_status_update:
  assumes "object_key (site_Meta s) = (ns, nm)" and "keeps I body"
  shows "keeps I (with_status_update K s body)"
proof (rule keepsI)
  fix w assume "I w"
  with assms(2) have "I (snd (body w))" by (rule keepsD)
  then have "I (snd (updateSiteStatus K s (reconcileErr_of (fst (body w))) (snd (body w))))"
    by (rule keepsD [OF keeps_updateSiteStatus [OF assms(1)]])
  then show "I (snd (with_status_update K s body w))"
    by (auto simp: with_status_update_def split: prod.splits res.splits)
qed

text \<open>The callbacks draw entropy and do nothing else.\<close>

lemma keeps_callbacks:
  "keeps I (mutate_secret K owner s sec)" "keeps I (mutate_database K owner s ref db)"
  "keeps I (mutate_user K owner s ref u)" "keeps I (mutate_grant K owner s ref g)"
  "keeps I (mutate_configmap K owner data cm)" "keeps I (mutate_deployment K owner s l e h d)"
  "keeps I (mutate_service K owner s l svc)" "keeps I (mutate_ingress K owner s spec l ing)"
  "keeps I (mutate_pvc K owner s sz cls p)"
  by (simp_all add: keeps_mutate_secret [OF entropy_keeps] mutate_database_def mutate_user_def
      mutate_grant_def mutate_configmap_def mutate_deployment_def mutate_service_def
      mutate_ingress_def mutate_pvc_def Let_def keeps_intros)

lemma keeps_reconcile_steps:
  assumes "object_key (site_Meta s) = (ns, nm)"
    and secret: "keeps I (reconcileSecret K (site_Meta s) s)"
    and "m \<in> set (reconcile_steps K r s)"
  shows "keeps I m"
proof -
  let ?owner = "site_Meta s"
  have names: "site_Namespace s = ns" "site_Name s = nm"
    using assms(1) by (simp_all add: object_key_def)
  note writes = databases.write_keeps users.write_keeps grants.write_keeps
    configmaps.write_keeps deployments.write_keeps services.write_keeps
    ingresses.write_keeps pvcs.write_keeps
  have "keeps I (reconcileDatabaseProvision K ?owner s d)" for d
    unfolding reconcileDatabaseProvision_def Let_def
    by (auto intro!: keeps_intros retry_keeps writes keeps_callbacks
        simp: names new_database_def new_user_def new_grant_def)
  moreover have "keeps I (reconcileDeployment K ?owner s l e)" for l e
    unfolding reconcileDeployment_def Let_def
    by (auto intro!: keeps_intros retry_keeps writes keeps_callbacks
        simp: names new_configmap_def nginx_configmap_name_def php_configmap_name_def)
  moreover have "keeps I (reconcileService K ?owner s l)" for l
    unfolding reconcileService_def
    by (auto intro!: retry_keeps writes keeps_callbacks simp: names new_service_def)
  moreover have "keeps I (reconcileIngress K ?owner s l)" for l
    unfolding reconcileIngress_def using assms(1)
    by (auto intro!: retry_keeps writes keeps_callbacks ingresses.keeps_delete_if_controlled
        simp: names new_ingress_def split: option.splits)
  moreover have "keeps I (reconcilePVC K ?owner s c)" for c
    unfolding reconcilePVC_def deleteOwnedPVC_def using assms(1)
    by (auto intro!: retry_keeps writes keeps_callbacks pvcs.keeps_delete_if_controlled
        simp: names new_pvc_def pvc_name_def split: option.splits)
  ultimately show ?thesis
    using assms(3) secret by (auto simp: reconcile_steps_def)
qed

lemma keeps_reconcile_body:
  assumes "object_key (site_Meta s) = (ns, nm)" and "keeps I (reconcileSecret K (site_Meta s) s)"
  shows "keeps I (reconcile_body K r s)"
  unfolding reconcile_body_steps using keeps_reconcile_steps [OF assms] by (rule keeps_run_steps)

lemma keeps_Reconcile_if:
  assumes "\<And>s. object_key (site_Meta s) = (ns, nm) \<Longrightarrow> keeps I (reconcileSecret K (site_Meta s) s)"
  shows "keeps I (Reconcile K r ns nm)"
  unfolding Reconcile_def
  by (intro keeps_with_site keeps_with_status_update keeps_reconcile_body keeps_lift_res assms)

end

locale site_confined =
  secrets: confined_writes I "k_Secrets K" sec_Meta "{(ns, nm @ ''-site-secret'')}" +
  site_writes K I ns nm
  for K :: "'w kube" and I :: "'w \<Rightarrow> bool" and ns nm :: string
begin

lemma keeps_reconcileSecret:
  "object_key (site_Meta s) = (ns, nm) \<Longrightarrow> keeps I (reconcileSecret K (site_Meta s) s)"
  unfolding reconcileSecret_def
  by (auto intro!: secrets.write_keeps keeps_callbacks simp: site_secret_name_def object_key_def)

lemma keeps_Reconcile: "keeps I (Reconcile K r ns nm)"
  using keeps_reconcileSecret by (rule keeps_Reconcile_if)

end

section \<open>Clusters that agree off a footprint\<close>

definition agree_off :: "object_key set \<Rightarrow> (object_key \<rightharpoonup> 'o) \<Rightarrow> (object_key \<rightharpoonup> 'o) \<Rightarrow> bool" where
  "agree_off S m m' \<longleftrightarrow> (\<forall>k. k \<notin> S \<longrightarrow> m' k = m k)"

lemma agree_off_refl [simp]: "agree_off S m m"
  by (simp add: agree_off_def)

lemma agree_off_upd: "k \<in> S \<Longrightarrow> agree_off S m m' \<Longrightarrow> agree_off S m (m'(k := d))"
  by (auto simp: agree_off_def)

text \<open>Two clusters agree on every object outside the footprint of the Site \<open>nm\<close> in \<open>ns\<close>.\<close>

definition untouched :: "string \<Rightarrow> string \<Rightarrow> cluster \<Rightarrow> cluster \<Rightarrow> bool" where
  "untouched ns nm c c' \<longleftrightarrow>
     agree_off {(ns, nm)} (cl_Sites c) (cl_Sites c')
     \<and> agree_off {(ns, nm @ ''-site-secret'')} (cl_Secrets c) (cl_Secrets c')
     \<and> agree_off {(ns, nm @ ''-nginx''), (ns, nm @ ''-php'')} (cl_ConfigMaps c) (cl_ConfigMaps c')
     \<and> agree_off {(ns, nm)} (cl_Deployments c) (cl_Deployments c')
     \<and> agree_off {(ns, nm)} (cl_Services c) (cl_Services c')
     \<and> agree_off {(ns, nm @ ''-ingress'')} (cl_Ingresses c) (cl_Ingresses c')
     \<and> agree_off {(ns, nm @ ''-data'')} (cl_PVCs c) (cl_PVCs c')
     \<and> agree_off {(ns, nm)} (cl_Databases c) (cl_Databases c')
     \<and> agree_off {(ns, nm @ ''-db-user'')} (cl_Users c) (cl_Users c')
     \<and> agree_off {(ns, nm @ ''-db-grant'')} (cl_Grants c) (cl_Grants c')"

lemma untouched_refl [simp]: "untouched ns nm c c"
  by (simp add: untouched_def)

end
