(* ===== verification/MemCluster.thy ===== *)
theory MemCluster
  imports StatusReport Confinement
begin

text \<open>
  An API server in memory: one concrete value of the parameters, with a store per kind, a
  clock, an entropy seed and a number of conflicts still to be injected. Every interface of
  the development is interpreted on it, so the laws the theorems rest on hold together,
  and it is where the theorems are evaluated.
\<close>

section \<open>The world\<close>

record mem =
  mem_Cluster :: cluster
  mem_Clock :: nat
  mem_Seed :: nat
  mem_Conflicts :: nat

definition not_found_error :: go_error where
  "not_found_error = LibError 404 ''not found''"

definition conflict_error :: go_error where
  "conflict_error = LibError 409 ''the object has been modified''"

definition other_error :: "string \<Rightarrow> go_error" where
  "other_error txt = LibError 500 txt"

fun error_code :: "go_error \<Rightarrow> nat" where
  "error_code (LibError c _) = c"
| "error_code (Errorf _) = 0"
| "error_code (WrapError _ e) = error_code e"

definition is_not_found :: "go_error \<Rightarrow> bool" where
  "is_not_found e = (error_code e = 404)"

definition is_conflict :: "go_error \<Rightarrow> bool" where
  "is_conflict e = (error_code e = 409)"

section \<open>What the server admits\<close>

text \<open>
  Everything new; after that a Deployment keeps its selector, and a claim, of a class without
  volume expansion, what it asked for.
\<close>

definition admit_any :: "'o option \<Rightarrow> 'o \<Rightarrow> bool" where
  "admit_any d y = True"

definition admit_Deployment :: "Deployment option \<Rightarrow> Deployment \<Rightarrow> bool" where
  "admit_Deployment d y =
     (case d of None \<Rightarrow> True | Some x \<Rightarrow> ds_Selector (dep_Spec y) = ds_Selector (dep_Spec x))"

definition admit_PVC :: "PersistentVolumeClaim option \<Rightarrow> PersistentVolumeClaim \<Rightarrow> bool" where
  "admit_PVC d y =
     (case d of
        None \<Rightarrow> True
      | Some x \<Rightarrow> pvc_AccessModes y = pvc_AccessModes x \<and> pvc_Requests y = pvc_Requests x
          \<and> pvc_StorageClassName y = pvc_StorageClassName x)"

lemma admit_simps [simp]: "admit_any d y" "admit_Deployment None z" "admit_PVC None p"
  by (simp_all add: admit_any_def admit_Deployment_def admit_PVC_def)

section \<open>The client of one kind\<close>

definition mem_get ::
  "(cluster \<Rightarrow> (object_key \<rightharpoonup> 'o)) \<Rightarrow> ('o \<Rightarrow> ObjectMeta) \<Rightarrow> string \<Rightarrow> string \<Rightarrow> (mem, 'o) act" where
  "mem_get get meta ns n = (\<lambda>w.
     (case get (mem_Cluster w) (ns, n) of
        None \<Rightarrow> Err not_found_error
      | Some x \<Rightarrow> if object_key (meta x) = (ns, n) then Ok x
                  else Err (other_error ''corrupt entry''), w))"

text \<open>On creation the server sets the creation time.\<close>

definition stamp :: "nat \<Rightarrow> ObjectMeta \<Rightarrow> ObjectMeta" where
  "stamp now m = m\<lparr>om_CreationTimestamp := Some now\<rparr>"

definition mem_store ::
  "(cluster \<Rightarrow> (object_key \<rightharpoonup> 'o)) \<Rightarrow> ((object_key \<rightharpoonup> 'o) \<Rightarrow> cluster \<Rightarrow> cluster) \<Rightarrow> object_key \<Rightarrow> 'o option
   \<Rightarrow> mem \<Rightarrow> mem" where
  "mem_store get put key d w =
     w\<lparr>mem_Cluster := put ((get (mem_Cluster w))(key := d)) (mem_Cluster w),
       mem_Clock := Suc (mem_Clock w)\<rparr>"

definition mem_create_or_update ::
  "(cluster \<Rightarrow> (object_key \<rightharpoonup> 'o)) \<Rightarrow> ((object_key \<rightharpoonup> 'o) \<Rightarrow> cluster \<Rightarrow> cluster) \<Rightarrow> ('o \<Rightarrow> ObjectMeta)
   \<Rightarrow> (ObjectMeta \<Rightarrow> 'o \<Rightarrow> 'o) \<Rightarrow> ('o option \<Rightarrow> 'o \<Rightarrow> bool) \<Rightarrow> 'o \<Rightarrow> ('o \<Rightarrow> (mem, 'o) act)
   \<Rightarrow> (mem, unit) act" where
  "mem_create_or_update get put meta set_meta admit obj f = (\<lambda>w.
     let key = object_key (meta obj); here = get (mem_Cluster w) key in
     case f (case here of None \<Rightarrow> obj | Some s \<Rightarrow> s) w of
       (Ok y, w1) \<Rightarrow>
         if object_key (meta y) \<noteq> key then (Err (other_error ''mutated key''), w1)
         else if \<not> admit here y then (Err (other_error ''invalid''), w1)
         else if mem_Conflicts w1 > 0
         then (Err conflict_error, w1\<lparr>mem_Conflicts := mem_Conflicts w1 - 1\<rparr>)
         else (Ok (), mem_store get put key
           (Some (if here = None then set_meta (stamp (mem_Clock w1) (meta y)) y else y)) w1)
     | (Err e, w1) \<Rightarrow> (Err e, w1)
     | (Panic p, w1) \<Rightarrow> (Panic p, w1))"

definition mem_delete ::
  "(cluster \<Rightarrow> (object_key \<rightharpoonup> 'o)) \<Rightarrow> ((object_key \<rightharpoonup> 'o) \<Rightarrow> cluster \<Rightarrow> cluster) \<Rightarrow> ('o \<Rightarrow> ObjectMeta)
   \<Rightarrow> 'o \<Rightarrow> (mem, unit) act" where
  "mem_delete get put meta x = (\<lambda>w.
     case get (mem_Cluster w) (object_key (meta x)) of
       None \<Rightarrow> (Err not_found_error, w)
     | Some _ \<Rightarrow> (Ok (), mem_store get put (object_key (meta x)) None w))"

definition mem_client ::
  "(cluster \<Rightarrow> (object_key \<rightharpoonup> 'o)) \<Rightarrow> ((object_key \<rightharpoonup> 'o) \<Rightarrow> cluster \<Rightarrow> cluster) \<Rightarrow> ('o \<Rightarrow> ObjectMeta)
   \<Rightarrow> (ObjectMeta \<Rightarrow> 'o \<Rightarrow> 'o) \<Rightarrow> ('o option \<Rightarrow> 'o \<Rightarrow> bool) \<Rightarrow> (mem, 'o) typed_client" where
  "mem_client get put meta set_meta admit =
     \<lparr>tc_Get = mem_get get meta, tc_CreateOrUpdate = mem_create_or_update get put meta set_meta admit,
      tc_Delete = mem_delete get put meta\<rparr>"

lemma mem_client_simps [simp]:
  "tc_Get (mem_client get put meta set_meta admit) = mem_get get meta"
  "tc_CreateOrUpdate (mem_client get put meta set_meta admit) = mem_create_or_update get put meta set_meta admit"
  "tc_Delete (mem_client get put meta set_meta admit) = mem_delete get put meta"
  by (simp_all add: mem_client_def)

section \<open>The other parameters\<close>

definition mem_UpdateSiteStatus :: "Site \<Rightarrow> (mem, unit) act" where
  "mem_UpdateSiteStatus s = (\<lambda>w.
     case cl_Sites (mem_Cluster w) (object_key (site_Meta s)) of
       None \<Rightarrow> (Err not_found_error, w)
     | Some cur \<Rightarrow> (Ok (), mem_store cl_Sites (\<lambda>m c. c\<lparr>cl_Sites := m\<rparr>) (object_key (site_Meta s))
         (Some (cur\<lparr>site_Status := site_Status s\<rparr>)) w))"

text \<open>Up to five attempts, the steps of \<open>retry.DefaultRetry\<close>.\<close>

fun mem_attempts :: "nat \<Rightarrow> (mem, unit) act \<Rightarrow> (mem, unit) act" where
  "mem_attempts 0 f w = f w"
| "mem_attempts (Suc n) f w =
     (case f w of
        (Err e, w') \<Rightarrow> if is_conflict e then mem_attempts n f w' else (Err e, w')
      | (Ok u, w') \<Rightarrow> (Ok u, w')
      | (Panic p, w') \<Rightarrow> (Panic p, w'))"

definition mem_RetryOnConflict :: "(mem, unit) act \<Rightarrow> (mem, unit) act" where
  "mem_RetryOnConflict f = mem_attempts 4 f"

definition mem_controller :: "ObjectMeta \<Rightarrow> string option" where
  "mem_controller m = map_option or_UID (find or_Controller (om_OwnerReferences m))"

definition mem_IsControlledBy :: "ObjectMeta \<Rightarrow> ObjectMeta \<Rightarrow> bool" where
  "mem_IsControlledBy m owner = (mem_controller m = Some (om_UID owner))"

text \<open>An object with another controller is refused.\<close>

definition mem_SetControllerReference :: "ObjectMeta \<Rightarrow> ObjectMeta \<Rightarrow> ObjectMeta res" where
  "mem_SetControllerReference owner m =
     (case mem_controller m of
        Some u \<Rightarrow> if u = om_UID owner then Ok m else Err (other_error ''already owned'')
      | None \<Rightarrow> Ok (m\<lparr>om_OwnerReferences :=
          filter (\<lambda>r. or_UID r \<noteq> om_UID owner) (om_OwnerReferences m)
          @ [\<lparr>or_UID = om_UID owner, or_Controller = True\<rparr>]\<rparr>))"

fun upsert_condition :: "nat \<Rightarrow> Condition list \<Rightarrow> Condition \<Rightarrow> Condition list" where
  "upsert_condition now [] c = [c\<lparr>cond_LastTransitionTime := Some now\<rparr>]"
| "upsert_condition now (x # xs) c =
     (if cond_Type x = cond_Type c
      then c\<lparr>cond_LastTransitionTime :=
             (if cond_Status x = cond_Status c then cond_LastTransitionTime x else Some now)\<rparr> # xs
      else x # upsert_condition now xs c)"

definition mem_SetStatusCondition :: "Condition list \<Rightarrow> Condition \<Rightarrow> mem \<Rightarrow> Condition list \<times> mem" where
  "mem_SetStatusCondition cs c w = (upsert_condition (mem_Clock w) cs c, w)"

definition mem_MustParse :: "string \<Rightarrow> Quantity res" where
  "mem_MustParse s =
     (if s \<noteq> [] \<and> hd s \<in> set ''0123456789'' then Ok (Quantity s)
      else Panic (''cannot parse '' @ s))"

definition mem_RandRead :: "nat \<Rightarrow> mem \<Rightarrow> byte list option \<times> mem" where
  "mem_RandRead n w =
     (Some (map (\<lambda>i. word_of_nat (mem_Seed w + i)) [0..<n]), w\<lparr>mem_Seed := mem_Seed w + n\<rparr>)"

definition mem_IgnoreNotFound :: "go_error \<Rightarrow> go_error option" where
  "mem_IgnoreNotFound e = (if is_not_found e then None else Some e)"

definition mem_kube :: "mem kube" where
  "mem_kube =
     \<lparr>k_Sites = mem_client cl_Sites (\<lambda>m c. c\<lparr>cl_Sites := m\<rparr>) site_Meta (\<lambda>m x. x\<lparr>site_Meta := m\<rparr>) admit_any,
      k_UpdateSiteStatus = mem_UpdateSiteStatus,
      k_Secrets = mem_client cl_Secrets (\<lambda>m c. c\<lparr>cl_Secrets := m\<rparr>) sec_Meta (\<lambda>m x. x\<lparr>sec_Meta := m\<rparr>) admit_any,
      k_ConfigMaps = mem_client cl_ConfigMaps (\<lambda>m c. c\<lparr>cl_ConfigMaps := m\<rparr>) cm_Meta
        (\<lambda>m x. x\<lparr>cm_Meta := m\<rparr>) admit_any,
      k_Deployments = mem_client cl_Deployments (\<lambda>m c. c\<lparr>cl_Deployments := m\<rparr>) dep_Meta
        (\<lambda>m x. x\<lparr>dep_Meta := m\<rparr>) admit_Deployment,
      k_Services = mem_client cl_Services (\<lambda>m c. c\<lparr>cl_Services := m\<rparr>) svc_Meta
        (\<lambda>m x. x\<lparr>svc_Meta := m\<rparr>) admit_any,
      k_Ingresses = mem_client cl_Ingresses (\<lambda>m c. c\<lparr>cl_Ingresses := m\<rparr>) ingr_Meta
        (\<lambda>m x. x\<lparr>ingr_Meta := m\<rparr>) admit_any,
      k_PVCs = mem_client cl_PVCs (\<lambda>m c. c\<lparr>cl_PVCs := m\<rparr>) pvc_Meta (\<lambda>m x. x\<lparr>pvc_Meta := m\<rparr>) admit_PVC,
      k_Databases = mem_client cl_Databases (\<lambda>m c. c\<lparr>cl_Databases := m\<rparr>) db_Meta
        (\<lambda>m x. x\<lparr>db_Meta := m\<rparr>) admit_any,
      k_Users = mem_client cl_Users (\<lambda>m c. c\<lparr>cl_Users := m\<rparr>) usr_Meta (\<lambda>m x. x\<lparr>usr_Meta := m\<rparr>) admit_any,
      k_Grants = mem_client cl_Grants (\<lambda>m c. c\<lparr>cl_Grants := m\<rparr>) gr_Meta (\<lambda>m x. x\<lparr>gr_Meta := m\<rparr>) admit_any,
      k_RetryOnConflict = mem_RetryOnConflict,
      k_SetControllerReference = mem_SetControllerReference,
      k_IsControlledBy = mem_IsControlledBy,
      k_IgnoreNotFound = mem_IgnoreNotFound,
      k_SetStatusCondition = mem_SetStatusCondition,
      k_MustParse = mem_MustParse,
      k_RandRead = mem_RandRead\<rparr>"

lemma mem_kube_simps [simp]:
  "k_RetryOnConflict mem_kube = mem_RetryOnConflict"
  "k_SetControllerReference mem_kube = mem_SetControllerReference"
  "k_IsControlledBy mem_kube = mem_IsControlledBy"
  "k_IgnoreNotFound mem_kube = mem_IgnoreNotFound"
  "k_SetStatusCondition mem_kube = mem_SetStatusCondition"
  "k_MustParse mem_kube = mem_MustParse"
  "k_RandRead mem_kube = mem_RandRead"
  "k_UpdateSiteStatus mem_kube = mem_UpdateSiteStatus"
  by (simp_all add: mem_kube_def)

lemma mem_kube_clients [simp]:
  "k_Sites mem_kube = mem_client cl_Sites (\<lambda>m c. c\<lparr>cl_Sites := m\<rparr>) site_Meta
     (\<lambda>m x. x\<lparr>site_Meta := m\<rparr>) admit_any"
  "k_Secrets mem_kube = mem_client cl_Secrets (\<lambda>m c. c\<lparr>cl_Secrets := m\<rparr>) sec_Meta
     (\<lambda>m x. x\<lparr>sec_Meta := m\<rparr>) admit_any"
  "k_ConfigMaps mem_kube = mem_client cl_ConfigMaps (\<lambda>m c. c\<lparr>cl_ConfigMaps := m\<rparr>) cm_Meta
     (\<lambda>m x. x\<lparr>cm_Meta := m\<rparr>) admit_any"
  "k_Deployments mem_kube = mem_client cl_Deployments (\<lambda>m c. c\<lparr>cl_Deployments := m\<rparr>) dep_Meta
     (\<lambda>m x. x\<lparr>dep_Meta := m\<rparr>) admit_Deployment"
  "k_Services mem_kube = mem_client cl_Services (\<lambda>m c. c\<lparr>cl_Services := m\<rparr>) svc_Meta
     (\<lambda>m x. x\<lparr>svc_Meta := m\<rparr>) admit_any"
  "k_Ingresses mem_kube = mem_client cl_Ingresses (\<lambda>m c. c\<lparr>cl_Ingresses := m\<rparr>) ingr_Meta
     (\<lambda>m x. x\<lparr>ingr_Meta := m\<rparr>) admit_any"
  "k_PVCs mem_kube = mem_client cl_PVCs (\<lambda>m c. c\<lparr>cl_PVCs := m\<rparr>) pvc_Meta
     (\<lambda>m x. x\<lparr>pvc_Meta := m\<rparr>) admit_PVC"
  "k_Databases mem_kube = mem_client cl_Databases (\<lambda>m c. c\<lparr>cl_Databases := m\<rparr>) db_Meta
     (\<lambda>m x. x\<lparr>db_Meta := m\<rparr>) admit_any"
  "k_Users mem_kube = mem_client cl_Users (\<lambda>m c. c\<lparr>cl_Users := m\<rparr>) usr_Meta
     (\<lambda>m x. x\<lparr>usr_Meta := m\<rparr>) admit_any"
  "k_Grants mem_kube = mem_client cl_Grants (\<lambda>m c. c\<lparr>cl_Grants := m\<rparr>) gr_Meta
     (\<lambda>m x. x\<lparr>gr_Meta := m\<rparr>) admit_any"
  by (simp_all add: mem_kube_def)

section \<open>The laws hold\<close>

interpretation mem_refs: owner_references mem_SetControllerReference mem_IsControlledBy
proof
  fix owner m m' :: ObjectMeta
  assume set: "mem_SetControllerReference owner m = Ok m'"
  have "\<exists>refs. m = m\<lparr>om_OwnerReferences := refs\<rparr>"
    by (rule exI [of _ "om_OwnerReferences m"]) simp
  with set show "\<exists>refs. m' = m\<lparr>om_OwnerReferences := refs\<rparr>"
    by (auto simp: mem_SetControllerReference_def split: option.splits if_splits)
  have none: "find or_Controller rs = None \<Longrightarrow> find or_Controller (filter P rs @ rs') = find or_Controller rs'"
    for P rs rs' by (induction rs) (auto split: if_splits)
  show con: "mem_IsControlledBy m' owner"
    using set by (auto simp: mem_SetControllerReference_def mem_IsControlledBy_def
        mem_controller_def none split: option.splits if_splits)
  show "mem_SetControllerReference owner m'' = Ok m''"
    if "om_OwnerReferences m'' = om_OwnerReferences m'" for m''
    using that con
    by (auto simp: mem_SetControllerReference_def mem_IsControlledBy_def mem_controller_def)
next
  show "mem_IsControlledBy m owner = mem_IsControlledBy m' owner"
    if "om_OwnerReferences m = om_OwnerReferences m'" for m m' owner
    using that by (simp add: mem_IsControlledBy_def mem_controller_def)
qed

lemma upsert_condition_same:
  "\<exists>t. condition_of (upsert_condition now cs c) (cond_Type c) = Some (c\<lparr>cond_LastTransitionTime := t\<rparr>)"
  by (induction cs) (auto simp: condition_of_def)

lemma upsert_condition_other:
  "t \<noteq> cond_Type c \<Longrightarrow> condition_of (upsert_condition now cs c) t = condition_of cs t"
  by (induction cs) (auto simp: condition_of_def)

lemma upsert_condition_time:
  "condition_of cs (cond_Type c) = Some old \<Longrightarrow> cond_Status old = cond_Status c \<Longrightarrow>
   map_option cond_LastTransitionTime (condition_of (upsert_condition now cs c) (cond_Type c))
     = Some (cond_LastTransitionTime old)"
  by (induction cs) (auto simp: condition_of_def split: if_splits)

interpretation mem_conditions: condition_setter mem_SetStatusCondition
proof
  fix cs cs' :: "Condition list" and c :: Condition and w w' :: mem
  assume set: "mem_SetStatusCondition cs c w = (cs', w')"
  then have cs': "cs' = upsert_condition (mem_Clock w) cs c"
    by (auto simp: mem_SetStatusCondition_def)
  show "\<exists>c'. condition_of cs' (cond_Type c) = Some c' \<and> cond_Status c' = cond_Status c
      \<and> cond_Reason c' = cond_Reason c \<and> cond_Message c' = cond_Message c
      \<and> cond_ObservedGeneration c' = cond_ObservedGeneration c"
    using upsert_condition_same [of "mem_Clock w" cs c] cs' by auto
  show "condition_of cs' t = condition_of cs t" if "t \<noteq> cond_Type c" for t
    using that cs' by (simp add: upsert_condition_other)
  show "map_option cond_LastTransitionTime (condition_of cs' (cond_Type c))
      = Some (cond_LastTransitionTime old)"
    if "condition_of cs (cond_Type c) = Some old" "cond_Status old = cond_Status c" for old
    using that cs' by (simp add: upsert_condition_time)
qed

interpretation mem_entropy: entropy mem_RandRead
  by unfold_locales (auto simp: mem_RandRead_def)

interpretation mem_retry: conflict_retry mem_RetryOnConflict mem_Cluster is_conflict
proof
  fix f :: "(mem, unit) act" and w w' :: mem
  assume run: "mem_RetryOnConflict f w = (Ok (), w')"
    and refused: "\<And>v e v'. f v = (Err e, v') \<Longrightarrow> is_conflict e \<Longrightarrow> mem_Cluster v' = mem_Cluster v"
  have "mem_attempts n f w = (Ok (), w') \<Longrightarrow>
      \<exists>w0. mem_Cluster w0 = mem_Cluster w \<and> f w0 = (Ok (), w')" for n
  proof (induction n arbitrary: w)
    case (Suc n)
    obtain r v where r: "f w = (r, v)" by (cases "f w")
    show ?case
    proof (cases r)
      case (Err e)
      with Suc.prems r have e: "is_conflict e" and "mem_attempts n f v = (Ok (), w')"
        by (auto split: if_splits)
      with Suc.IH obtain w0 where "mem_Cluster w0 = mem_Cluster v" "f w0 = (Ok (), w')"
        by blast
      moreover have "mem_Cluster v = mem_Cluster w" using r Err e refused by blast
      ultimately show ?thesis by auto
    qed (use Suc.prems r in auto)
  qed auto
  with run show "\<exists>w0. mem_Cluster w0 = mem_Cluster w \<and> f w0 = (Ok (), w')"
    unfolding mem_RetryOnConflict_def by blast
next
  fix P :: "cluster \<Rightarrow> bool" and f :: "(mem, unit) act" and w :: mem
  assume f: "\<And>v. P (mem_Cluster v) \<Longrightarrow> P (mem_Cluster (snd (f v)))" and "P (mem_Cluster w)"
  from this(2) have "P (mem_Cluster (snd (mem_attempts n f w)))" for n
  proof (induction n arbitrary: w)
    case (Suc n)
    obtain r v where "f w = (r, v)" by (cases "f w")
    with f [OF Suc.prems] Suc.IH [of v] show ?case by (auto split: res.splits)
  qed (simp add: f)
  then show "P (mem_Cluster (snd (mem_RetryOnConflict f w)))"
    by (simp add: mem_RetryOnConflict_def)
qed

text \<open>The store of any kind whose two access functions are a lens.\<close>

lemma mem_client_reader:
  "object_lookup mem_Cluster (mem_client get put meta set_meta admit) get is_not_found"
  by unfold_locales
     (auto simp: mem_get_def not_found_error_def other_error_def is_not_found_def
       split: option.splits if_splits)

lemma mem_create_or_update_Ok:
  "mem_create_or_update get put meta set_meta admit obj f w = (Ok (), w') \<longleftrightarrow>
    (\<exists>y w1. f (case get (mem_Cluster w) (object_key (meta obj)) of None \<Rightarrow> obj | Some s \<Rightarrow> s) w = (Ok y, w1)
       \<and> object_key (meta y) = object_key (meta obj)
       \<and> admit (get (mem_Cluster w) (object_key (meta obj))) y \<and> mem_Conflicts w1 = 0
       \<and> w' = mem_store get put (object_key (meta obj))
           (Some (if get (mem_Cluster w) (object_key (meta obj)) = None
                  then set_meta (stamp (mem_Clock w1) (meta y)) y else y)) w1)"
  by (auto simp: mem_create_or_update_def Let_def split: res.splits prod.splits)

lemma mem_create_or_update_Err:
  assumes "mem_create_or_update get put meta set_meta admit obj f w = (Err e, w')"
    and "\<And>x v. mem_Cluster (snd (f x v)) = mem_Cluster v"
  shows "mem_Cluster w' = mem_Cluster w"
proof -
  let ?x = "case get (mem_Cluster w) (object_key (meta obj)) of None \<Rightarrow> obj | Some s \<Rightarrow> s"
  have "mem_Cluster w' = mem_Cluster (snd (f ?x w))"
    using assms(1) by (auto simp: mem_create_or_update_def Let_def split: res.splits prod.splits if_splits)
  with assms(2) show ?thesis by simp
qed

lemma mem_client_store:
  fixes meta :: "'o \<Rightarrow> ObjectMeta"
  assumes lens: "\<And>m c. get (put m c) = m" "\<And>c. put (get c) c = c"
    and stored: "\<And>y. stored_as y y" "\<And>t y. stored_as y (set_meta (stamp t (meta y)) y)"
  shows "object_store mem_Cluster (mem_client get put meta set_meta admit) get put meta stored_as is_conflict"
proof (intro object_store.intro object_store_axioms.intro)
  show "object_reader mem_Cluster (mem_client get put meta set_meta admit) get"
    using mem_client_reader [of get put meta set_meta admit] by (simp add: object_lookup_def)
next
  fix obj and w w' :: mem and f :: "'o \<Rightarrow> (mem, 'o) act"
  let ?key = "object_key (meta obj)"
  assume run: "tc_CreateOrUpdate (mem_client get put meta set_meta admit) obj f w = (Ok (), w')"
    and f: "\<And>x v. mem_Cluster (snd (f x v)) = mem_Cluster v"
  let ?x = "case get (mem_Cluster w) ?key of None \<Rightarrow> obj | Some s \<Rightarrow> s"
  from run obtain y w1 where y: "f ?x w = (Ok y, w1)"
    and w': "w' = mem_store get put ?key (Some (if get (mem_Cluster w) ?key = None
        then set_meta (stamp (mem_Clock w1) (meta y)) y else y)) w1"
    by (auto simp: mem_create_or_update_Ok)
  have "mem_Cluster w1 = mem_Cluster w" using f [of ?x w] y by simp
  with y w' stored show "\<exists>x w0 y w1 z. mem_Cluster w0 = mem_Cluster w
      \<and> x = (case get (mem_Cluster w) ?key of None \<Rightarrow> obj | Some s \<Rightarrow> s)
      \<and> f x w0 = (Ok y, w1) \<and> stored_as y z
      \<and> mem_Cluster w' = put ((get (mem_Cluster w))(?key \<mapsto> z)) (mem_Cluster w)"
    by (intro exI [of _ ?x] exI [of _ w] exI [of _ y] exI [of _ w1] exI conjI)
       (auto simp: mem_store_def)
next
  show "mem_Cluster w' = mem_Cluster w"
    if "tc_CreateOrUpdate (mem_client get put meta set_meta admit) obj f w = (Err e, w')"
      and "\<And>x v. mem_Cluster (snd (f x v)) = mem_Cluster v" for obj e w w' and f
    using that by (simp add: mem_create_or_update_Err)
next
  fix obj s and w :: mem and f :: "'o \<Rightarrow> (mem, 'o) act"
  let ?key = "object_key (meta obj)"
  assume "get (mem_Cluster w) ?key = Some s" and "\<And>v. f s v = (Ok s, v)"
  moreover from this(1) have "put ((get (mem_Cluster w))(?key \<mapsto> s)) (mem_Cluster w) = mem_Cluster w"
    by (simp add: fun_upd_idem lens)
  ultimately show "mem_Cluster (snd (tc_CreateOrUpdate (mem_client get put meta set_meta admit) obj f w))
      = mem_Cluster w"
    by (simp add: mem_create_or_update_def mem_store_def Let_def)
next
  show "\<exists>d. mem_Cluster w' = put ((get (mem_Cluster w))(object_key (meta x) := d)) (mem_Cluster w)
      \<and> (\<forall>x'. d = Some x' \<longrightarrow> om_DeletionTimestamp (meta x') \<noteq> None)"
    if "tc_Delete (mem_client get put meta set_meta admit) x w = (Ok (), w')" for x w w'
    using that by (intro exI [of _ None]) (auto simp: mem_delete_def mem_store_def split: option.splits)
qed (fact lens)+

lemma mem_client_removal:
  assumes "\<And>m c. get (put m c) = m" "\<And>c. put (get c) c = c"
    and "\<And>y. stored_as y y" "\<And>t y. stored_as y (set_meta (stamp t (meta y)) y)"
  shows "object_removal mem_Cluster (mem_client get put meta set_meta admit) get put meta stored_as
    is_conflict is_not_found"
proof (intro object_removal.intro object_removal_axioms.intro)
  show "object_store mem_Cluster (mem_client get put meta set_meta admit) get put meta stored_as is_conflict"
    using assms by (rule mem_client_store)
  show "object_lookup mem_Cluster (mem_client get put meta set_meta admit) get is_not_found"
    by (rule mem_client_reader)
qed (auto simp: mem_get_def mem_delete_def split: option.splits if_splits)

lemma same_meta_stamp [simp]: "same_meta m (stamp t m)"
  by (simp add: same_meta_def stamp_def)

lemma stamp_creation [simp]: "om_CreationTimestamp (stamp t m) = Some t"
  by (simp add: stamp_def)

interpretation mem: site_cluster mem_kube mem_Cluster site is_conflict is_not_found for site
proof (intro site_cluster.intro site_owner.intro site_owner_axioms.intro site_cluster_axioms.intro)
  show "same_but_status (object_key (site_Meta s)) (mem_Cluster w)
      (mem_Cluster (snd (k_UpdateSiteStatus mem_kube s w)))" for s w
    by (auto simp: mem_UpdateSiteStatus_def mem_store_def same_but_status_def split: option.splits)
  show "object_key (site_Meta s) = (ns, n)" if "tc_Get (k_Sites mem_kube) ns n w = (Ok s, w')"
    for ns n w s w'
    using that by (auto simp: mem_get_def split: option.splits if_splits)
qed (simp_all add: mem_client_store mem_client_removal mem_client_reader stored_as_defs
    mem_refs.owner_references_axioms mem_retry.conflict_retry_axioms
    mem_RandRead_def mem_IgnoreNotFound_def mem_SetStatusCondition_def)

interpretation mem_reporting: reporting_cluster mem_kube mem_Cluster site is_conflict is_not_found
  for site
proof (intro reporting_cluster.intro mem.site_cluster_axioms reporting_cluster_axioms.intro)
  show "condition_setter (k_SetStatusCondition mem_kube)"
    by (simp add: mem_conditions.condition_setter_axioms)
qed (auto simp: mem_get_def mem_UpdateSiteStatus_def mem_store_def split: option.splits if_splits)

section \<open>Confinement in memory\<close>

lemma mem_client_writes:
  assumes "\<And>c k d. k \<in> keys \<Longrightarrow> U c \<Longrightarrow> U (put ((get c)(k := d)) c)"
  shows "confined_writes (\<lambda>w. U (mem_Cluster w)) (mem_client get put meta set_meta admit) meta keys"
proof
  fix obj and f :: "'a \<Rightarrow> (mem, 'a) act"
  assume key: "object_key (meta obj) \<in> keys" and f: "\<And>x. keeps (\<lambda>w. U (mem_Cluster w)) (f x)"
  show "keeps (\<lambda>w. U (mem_Cluster w)) (tc_CreateOrUpdate (mem_client get put meta set_meta admit) obj f)"
  proof (rule keepsI)
    fix w :: mem assume "U (mem_Cluster w)"
    then have "U (mem_Cluster (snd (f x w)))" for x using f by (simp add: keeps_def)
    then show "U (mem_Cluster (snd (tc_CreateOrUpdate (mem_client get put meta set_meta admit) obj f w)))"
      using assms [OF key]
      by (auto simp: mem_create_or_update_def mem_store_def Let_def split: prod.splits res.splits)
         (metis snd_conv)+
  qed
qed

lemma mem_client_removes:
  assumes "\<And>c k d. k \<in> keys \<Longrightarrow> U c \<Longrightarrow> U (put ((get c)(k := d)) c)"
  shows "confined_removal (\<lambda>w. U (mem_Cluster w)) (mem_client get put meta set_meta admit) meta keys P"
proof (intro confined_removal.intro confined_removal_axioms.intro)
  show "confined_writes (\<lambda>w. U (mem_Cluster w)) (mem_client get put meta set_meta admit) meta keys"
    using assms by (rule mem_client_writes)
qed (auto simp: mem_get_def mem_delete_def mem_store_def keeps_def assms
    split: option.splits if_splits)

lemma keeps_mem_attempts: "keeps I f \<Longrightarrow> keeps I (mem_attempts n f)"
proof (induction n)
  case (Suc n)
  show ?case
  proof (rule keepsI)
    fix w assume "I w"
    with Suc.prems have "I (snd (f w))" by (rule keepsD)
    with Suc show "I (snd (mem_attempts (Suc n) f w))"
      by (auto simp: keeps_def split: prod.splits res.splits)
  qed
qed (simp add: keeps_def)

interpretation mem_confined: site_confined mem_kube "\<lambda>w. untouched ns nm c (mem_Cluster w)" ns nm
  for c ns nm
proof (intro site_confined.intro site_writes.intro site_writes_axioms.intro)
  show "keeps (\<lambda>w. untouched ns nm c (mem_Cluster w)) (k_UpdateSiteStatus mem_kube s)"
    if "object_key (site_Meta s) = (ns, nm)" for s
    using that
    by (auto simp: keeps_def mem_UpdateSiteStatus_def mem_store_def untouched_def agree_off_upd
        split: option.splits)
  show "keeps (\<lambda>w. untouched ns nm c (mem_Cluster w)) (k_RetryOnConflict mem_kube f)"
    if "keeps (\<lambda>w. untouched ns nm c (mem_Cluster w)) f" for f
    using that by (simp add: mem_RetryOnConflict_def keeps_mem_attempts)
qed (auto intro!: mem_client_writes mem_client_removes agree_off_upd
    simp: untouched_def keeps_def entropy_keeps_def mem_RandRead_def mem_SetStatusCondition_def
      mem_get_def split: option.splits if_splits)

section \<open>A run from an empty cluster\<close>

definition empty_cluster :: cluster where
  "empty_cluster =
     \<lparr>cl_Sites = Map.empty, cl_Secrets = Map.empty, cl_ConfigMaps = Map.empty,
      cl_Deployments = Map.empty, cl_Services = Map.empty, cl_Ingresses = Map.empty,
      cl_PVCs = Map.empty, cl_Databases = Map.empty, cl_Users = Map.empty, cl_Grants = Map.empty\<rparr>"

definition start_world :: "Site \<Rightarrow> mem" where
  "start_world site =
     \<lparr>mem_Cluster = empty_cluster\<lparr>cl_Sites := [object_key (site_Meta site) \<mapsto> site]\<rparr>,
      mem_Clock = 7, mem_Seed = 0, mem_Conflicts = 0\<rparr>"

definition no_defaults :: SiteReconciler where
  "no_defaults = \<lparr>rc_DefaultMariaDBRef = None, rc_DefaultStorageClassName = []\<rparr>"

text \<open>An object that is not there is created at the first attempt.\<close>

lemma mem_creates:
  assumes "get (mem_Cluster w) (object_key (meta obj)) = None" and "f obj w = (Ok y, w1)"
    and "object_key (meta y) = object_key (meta obj)"
    and "mem_Conflicts w1 = 0" and "mem_Cluster w1 = mem_Cluster w" and "admit None y"
  shows "\<exists>z w'. mem_create_or_update get put meta set_meta admit obj f w = (Ok (), w')
    \<and> mem_RetryOnConflict (mem_create_or_update get put meta set_meta admit obj f) w = (Ok (), w')
    \<and> mem_Conflicts w' = 0
    \<and> mem_Cluster w' = put ((get (mem_Cluster w))(object_key (meta obj) \<mapsto> z)) (mem_Cluster w)"
proof -
  let ?z = "set_meta (stamp (mem_Clock w1) (meta y)) y"
  let ?w' = "mem_store get put (object_key (meta obj)) (Some ?z) w1"
  have run: "mem_create_or_update get put meta set_meta admit obj f w = (Ok (), ?w')"
    using assms by (auto simp: mem_create_or_update_Ok)
  then have "mem_RetryOnConflict (mem_create_or_update get put meta set_meta admit obj f) w = (Ok (), ?w')"
    by (simp add: mem_RetryOnConflict_def numeral_eq_Suc)
  moreover have "mem_Conflicts ?w' = 0" using assms(4) by (simp add: mem_store_def)
  moreover have "mem_Cluster ?w' = put ((get (mem_Cluster w))(object_key (meta obj) \<mapsto> ?z)) (mem_Cluster w)"
    using assms(5) by (simp add: mem_store_def)
  ultimately show ?thesis using run by blast
qed

text \<open>New objects have no controller yet.\<close>

lemma mem_SetControllerReference_new:
  "om_OwnerReferences m = [] \<Longrightarrow> mem_SetControllerReference owner m =
     Ok (m\<lparr>om_OwnerReferences := [\<lparr>or_UID = om_UID owner, or_Controller = True\<rparr>]\<rparr>)"
  by (simp add: mem_SetControllerReference_def mem_controller_def)

lemma object_key_refs [simp]: "object_key (m\<lparr>om_OwnerReferences := x\<rparr>) = object_key m"
  and object_key_labels [simp]: "object_key (m\<lparr>om_Labels := l\<rparr>) = object_key m"
  and object_key_annotations [simp]: "object_key (m\<lparr>om_Annotations := a\<rparr>) = object_key m"
  by (simp_all add: object_key_def)

lemma mem_secret_created:
  assumes "cl_Secrets (mem_Cluster w) (site_Namespace site, site_secret_name site) = None"
    and "mem_Conflicts w = 0"
  shows "\<exists>w' z. reconcileSecret mem_kube (site_Meta site) site w = (Ok (), w') \<and> mem_Conflicts w' = 0
    \<and> mem_Cluster w' = (mem_Cluster w)\<lparr>cl_Secrets :=
        (cl_Secrets (mem_Cluster w))((site_Namespace site, site_secret_name site) \<mapsto> z)\<rparr>"
proof -
  let ?obj = "\<lparr>sec_Meta = new_meta (site_Namespace site) (site_secret_name site), sec_Data = None\<rparr>"
  let ?I = "\<lambda>u. mem_Conflicts u = 0 \<and> mem_Cluster u = mem_Cluster w"
  obtain r w1 where run: "mutate_secret mem_kube (site_Meta site) site ?obj w = (r, w1)"
    by fastforce
  have "entropy_keeps mem_kube ?I"
    by (simp add: entropy_keeps_def keeps_def mem_RandRead_def)
  from keepsD [OF keeps_mutate_secret [OF this], of w] run assms(2) have "?I w1"
    by (metis snd_conv)
  moreover obtain y where "r = Ok y" "object_key (sec_Meta y) = object_key (sec_Meta ?obj)"
    using run by (auto simp: mutate_secret_def Let_def set_controller_reference_def
        mem_SetControllerReference_new split: prod.splits)
  ultimately show ?thesis
    using mem_creates [of cl_Secrets w sec_Meta ?obj
        "mutate_secret mem_kube (site_Meta site) site" y w1 admit_any "\<lambda>m c. c\<lparr>cl_Secrets := m\<rparr>"
        "\<lambda>m x. x\<lparr>sec_Meta := m\<rparr>"] run assms(1)
    by (auto simp: reconcileSecret_def)
qed

text \<open>A callback that only computes creates its object in one step.\<close>

lemma mem_lift_creates:
  assumes "\<exists>y. (\<forall>v. f obj v = (Ok y, v)) \<and> object_key (meta y) = object_key (meta obj)"
    and "get (mem_Cluster w) (object_key (meta obj)) = None" and "mem_Conflicts w = 0"
    and "\<And>y. admit None y"
  shows "\<exists>z w'. mem_RetryOnConflict (mem_create_or_update get put meta set_meta admit obj f) w = (Ok (), w')
    \<and> mem_Conflicts w' = 0
    \<and> mem_Cluster w' = put ((get (mem_Cluster w))(object_key (meta obj) \<mapsto> z)) (mem_Cluster w)"
proof -
  from assms(1) obtain y where "f obj w = (Ok y, w)" "object_key (meta y) = object_key (meta obj)"
    by auto
  with mem_creates [of get w meta obj f y w admit put set_meta] assms(2-4) show ?thesis by blast
qed

text \<open>The callbacks on new objects.\<close>

lemmas mem_callback_defs = set_controller_reference_def mem_SetControllerReference_new
  mutate_database_def mutate_user_def mutate_grant_def mutate_configmap_def
  mutate_deployment_def mutate_service_def mutate_ingress_def
  new_database_def new_user_def new_grant_def new_configmap_def new_service_def new_ingress_def

lemma mem_new_callbacks:
  "\<exists>y. (\<forall>v. mutate_database mem_kube owner s ref (new_database s) v = (Ok y, v))
     \<and> object_key (db_Meta y) = object_key (db_Meta (new_database s))"
  "\<exists>y. (\<forall>v. mutate_user mem_kube owner s ref (new_user s) v = (Ok y, v))
     \<and> object_key (usr_Meta y) = object_key (usr_Meta (new_user s))"
  "\<exists>y. (\<forall>v. mutate_grant mem_kube owner s ref (new_grant s) v = (Ok y, v))
     \<and> object_key (gr_Meta y) = object_key (gr_Meta (new_grant s))"
  "\<exists>y. (\<forall>v. mutate_configmap mem_kube owner data (new_configmap s n) v = (Ok y, v))
     \<and> object_key (cm_Meta y) = object_key (cm_Meta (new_configmap s n))"
  "\<exists>y. (\<forall>v. mutate_deployment mem_kube owner s l e h (new_deployment (new_meta a b)) v = (Ok y, v))
     \<and> object_key (dep_Meta y) = object_key (dep_Meta (new_deployment (new_meta a b)))"
  "\<exists>y. (\<forall>v. mutate_service mem_kube owner s l (new_service s) v = (Ok y, v))
     \<and> object_key (svc_Meta y) = object_key (svc_Meta (new_service s))"
  "\<exists>y. (\<forall>v. mutate_ingress mem_kube owner s spec l (new_ingress s) v = (Ok y, v))
     \<and> object_key (ingr_Meta y) = object_key (ingr_Meta (new_ingress s))"
  by (simp_all add: mem_callback_defs)

lemma mem_new_pvc_callback:
  assumes "mem_MustParse sz = Ok q"
  shows "\<exists>y. (\<forall>v. mutate_pvc mem_kube owner s sz cls (new_pvc s) v = (Ok y, v))
    \<and> object_key (pvc_Meta y) = object_key (pvc_Meta (new_pvc s))"
  using assms by (simp add: mutate_pvc_def Let_def new_pvc_def set_controller_reference_def
      mem_SetControllerReference_new)

lemmas mem_database_created = mem_lift_creates
  [where get = cl_Databases and meta = db_Meta and put = "\<lambda>m c. c\<lparr>cl_Databases := m\<rparr>"
     and set_meta = "\<lambda>m x. x\<lparr>db_Meta := m\<rparr>" and admit = admit_any and obj = "new_database s"
     and f = "mutate_database mem_kube owner s ref", OF mem_new_callbacks(1) _ _ admit_simps(1)]
  for owner s ref

lemmas mem_user_created = mem_lift_creates
  [where get = cl_Users and meta = usr_Meta and put = "\<lambda>m c. c\<lparr>cl_Users := m\<rparr>"
     and set_meta = "\<lambda>m x. x\<lparr>usr_Meta := m\<rparr>" and admit = admit_any and obj = "new_user s"
     and f = "mutate_user mem_kube owner s ref", OF mem_new_callbacks(2) _ _ admit_simps(1)]
  for owner s ref

lemmas mem_grant_created = mem_lift_creates
  [where get = cl_Grants and meta = gr_Meta and put = "\<lambda>m c. c\<lparr>cl_Grants := m\<rparr>"
     and set_meta = "\<lambda>m x. x\<lparr>gr_Meta := m\<rparr>" and admit = admit_any and obj = "new_grant s"
     and f = "mutate_grant mem_kube owner s ref", OF mem_new_callbacks(3) _ _ admit_simps(1)]
  for owner s ref

lemmas mem_configmap_created = mem_lift_creates
  [where get = cl_ConfigMaps and meta = cm_Meta and put = "\<lambda>m c. c\<lparr>cl_ConfigMaps := m\<rparr>"
     and set_meta = "\<lambda>m x. x\<lparr>cm_Meta := m\<rparr>" and admit = admit_any and obj = "new_configmap s n"
     and f = "mutate_configmap mem_kube owner data", OF mem_new_callbacks(4) _ _ admit_simps(1)]
  for owner data s n

lemmas mem_deployment_created = mem_lift_creates
  [where get = cl_Deployments and meta = dep_Meta and put = "\<lambda>m c. c\<lparr>cl_Deployments := m\<rparr>"
     and set_meta = "\<lambda>m x. x\<lparr>dep_Meta := m\<rparr>" and admit = admit_Deployment and obj = "new_deployment (new_meta a b)"
     and f = "mutate_deployment mem_kube owner s l e h", OF mem_new_callbacks(5) _ _ admit_simps(2)]
  for owner s l e h a b

lemmas mem_service_created = mem_lift_creates
  [where get = cl_Services and meta = svc_Meta and put = "\<lambda>m c. c\<lparr>cl_Services := m\<rparr>"
     and set_meta = "\<lambda>m x. x\<lparr>svc_Meta := m\<rparr>" and admit = admit_any and obj = "new_service s"
     and f = "mutate_service mem_kube owner s l", OF mem_new_callbacks(6) _ _ admit_simps(1)]
  for owner s l

lemmas mem_ingress_created = mem_lift_creates
  [where get = cl_Ingresses and meta = ingr_Meta and put = "\<lambda>m c. c\<lparr>cl_Ingresses := m\<rparr>"
     and set_meta = "\<lambda>m x. x\<lparr>ingr_Meta := m\<rparr>" and admit = admit_any and obj = "new_ingress s"
     and f = "mutate_ingress mem_kube owner s spec l", OF mem_new_callbacks(7) _ _ admit_simps(1)]
  for owner s spec l

lemmas mem_pvc_created = mem_lift_creates
  [where get = cl_PVCs and meta = pvc_Meta and put = "\<lambda>m c. c\<lparr>cl_PVCs := m\<rparr>"
     and set_meta = "\<lambda>m x. x\<lparr>pvc_Meta := m\<rparr>" and admit = admit_PVC and obj = "new_pvc s"
     and f = "mutate_pvc mem_kube owner s sz cls", OF mem_new_pvc_callback _ _ admit_simps(3)]
  for owner s sz cls q

text \<open>Everything there is to create is created, step by step.\<close>

lemma full_provision_runs:
  assumes "cl_Databases (mem_Cluster w1) = Map.empty" "cl_Users (mem_Cluster w1) = Map.empty"
    "cl_Grants (mem_Cluster w1) = Map.empty" and "mem_Conflicts w1 = 0"
  shows "\<exists>w4 d u g. reconcileDatabaseProvision mem_kube (site_Meta full_site) full_site None w1 = (Ok (), w4)
    \<and> mem_Conflicts w4 = 0
    \<and> mem_Cluster w4 = (mem_Cluster w1)\<lparr>cl_Databases := d, cl_Users := u, cl_Grants := g\<rparr>"
proof -
  let ?s = full_site and ?o = "site_Meta full_site"
  let ?ref = "mariadb_ref \<lparr>mcr_Name = ''mariadb'', mcr_Namespace = ''db''\<rparr>"
  have ref: "provisionEnabled ?s"
    "resolveMariaDBRef ?s None = Ok \<lparr>mcr_Name = ''mariadb'', mcr_Namespace = ''db''\<rparr>"
    by (simp_all add: provisionEnabled_def resolveMariaDBRef_def full_spec_def)
  obtain w2 z2 where 2: "mem_RetryOnConflict (tc_CreateOrUpdate (k_Databases mem_kube) (new_database ?s)
      (mutate_database mem_kube ?o ?s ?ref)) w1 = (Ok (), w2)"
      "mem_Conflicts w2 = 0" "mem_Cluster w2 = (mem_Cluster w1)\<lparr>cl_Databases := z2\<rparr>"
    using mem_database_created [of w1 ?s ?o ?ref] assms 
    by (auto simp: empty_cluster_def)
  obtain w3 z3 where 3: "mem_RetryOnConflict (tc_CreateOrUpdate (k_Users mem_kube) (new_user ?s)
      (mutate_user mem_kube ?o ?s ?ref)) w2 = (Ok (), w3)"
      "mem_Conflicts w3 = 0" "mem_Cluster w3 = (mem_Cluster w2)\<lparr>cl_Users := z3\<rparr>"
    using mem_user_created [of w2 ?s ?o ?ref] 2 assms 
    by (auto simp: empty_cluster_def)
  obtain w4 z4 where 4: "mem_RetryOnConflict (tc_CreateOrUpdate (k_Grants mem_kube) (new_grant ?s)
      (mutate_grant mem_kube ?o ?s ?ref)) w3 = (Ok (), w4)"
      "mem_Conflicts w4 = 0" "mem_Cluster w4 = (mem_Cluster w3)\<lparr>cl_Grants := z4\<rparr>"
    using mem_grant_created [of w3 ?s ?o ?ref] 2 3 assms 
    by (auto simp: empty_cluster_def)
  have "reconcileDatabaseProvision mem_kube ?o ?s None w1 = (Ok (), w4)"
    unfolding reconcileDatabaseProvision_def Let_def using ref 2(1) 3(1) 4(1)
    by (simp add: act_simps)
  moreover have "mem_Cluster w4 = (mem_Cluster w1)\<lparr>cl_Databases := z2, cl_Users := z3, cl_Grants := z4\<rparr>"
    using 2(3) 3(3) 4(3) by simp
  ultimately show ?thesis using 4(2) by blast
qed

lemma mem_pods_created:
  assumes "cl_ConfigMaps (mem_Cluster w4) = Map.empty" "cl_Deployments (mem_Cluster w4) = Map.empty"
    and "mem_Conflicts w4 = 0"
  shows "\<exists>w7 m d. reconcileDeployment mem_kube (site_Meta s) s
      (site_labels s) (site_envs s) w4 = (Ok (), w7)
    \<and> mem_Conflicts w7 = 0
    \<and> mem_Cluster w7 = (mem_Cluster w4)\<lparr>cl_ConfigMaps := m, cl_Deployments := d\<rparr>"
proof -
  let ?s = s and ?o = "site_Meta s"
  let ?nginx = "mutate_configmap mem_kube ?o [''default.conf'' \<mapsto> buildNginxConfigContent ?s]"
    and ?php = "mutate_configmap mem_kube ?o [phpIniFileName \<mapsto> buildPHPIniContent ?s]"
  obtain w5 z5 where 5: "mem_RetryOnConflict (tc_CreateOrUpdate (k_ConfigMaps mem_kube)
      (new_configmap ?s (nginx_configmap_name ?s)) ?nginx) w4 = (Ok (), w5)" "mem_Conflicts w5 = 0"
      "mem_Cluster w5 = (mem_Cluster w4)\<lparr>cl_ConfigMaps := [(site_Namespace s, nginx_configmap_name s) \<mapsto> z5]\<rparr>"
    using mem_configmap_created [of w4 ?s "nginx_configmap_name ?s" ?o
        "[''default.conf'' \<mapsto> buildNginxConfigContent ?s]"] assms
    by (auto simp: empty_cluster_def new_configmap_def)
  obtain w6 z6 where 6: "mem_RetryOnConflict (tc_CreateOrUpdate (k_ConfigMaps mem_kube)
      (new_configmap ?s (php_configmap_name ?s)) ?php) w5 = (Ok (), w6)" "mem_Conflicts w6 = 0"
      "mem_Cluster w6 = (mem_Cluster w5)\<lparr>cl_ConfigMaps := z6\<rparr>"
    using mem_configmap_created [of w5 ?s "php_configmap_name ?s" ?o
        "[phpIniFileName \<mapsto> buildPHPIniContent ?s]"] 5
    by (auto simp: new_configmap_def nginx_configmap_name_def php_configmap_name_def)
  obtain w7 z7 where 7: "mem_RetryOnConflict (tc_CreateOrUpdate (k_Deployments mem_kube) (new_deployment (new_meta (site_Namespace ?s) (site_Name ?s)))
      (mutate_deployment mem_kube ?o ?s (site_labels ?s) (site_envs ?s)
        (configChecksum [buildNginxConfigContent ?s, buildPHPIniContent ?s]))) w6 = (Ok (), w7)"
      "mem_Conflicts w7 = 0" "mem_Cluster w7 = (mem_Cluster w6)\<lparr>cl_Deployments := z7\<rparr>"
    using mem_deployment_created [of w6 "site_Namespace ?s" "site_Name ?s" ?o ?s "site_labels ?s"
        "site_envs ?s" "configChecksum [buildNginxConfigContent ?s, buildPHPIniContent ?s]"] 5 6 assms 
    by (auto simp: empty_cluster_def)
  have "reconcileDeployment mem_kube ?o ?s (site_labels ?s) (site_envs ?s) w4 = (Ok (), w7)"
    unfolding reconcileDeployment_def Let_def using 5(1) 6(1) 7(1) by (simp add: act_simps)
  moreover have "mem_Cluster w7 = (mem_Cluster w4)\<lparr>cl_ConfigMaps := z6, cl_Deployments := z7\<rparr>"
    using 5(3) 6(3) 7(3) by simp
  ultimately show ?thesis using 7(2) by blast
qed

lemma full_body_runs:
  assumes "mem_Cluster w = empty_cluster\<lparr>cl_Sites := sites\<rparr>" and "mem_Conflicts w = 0"
  shows "\<exists>w'. reconcile_body mem_kube no_defaults full_site w = (Ok (), w')
    \<and> cl_Sites (mem_Cluster w') = sites"
proof -
  let ?s = full_site and ?o = "site_Meta full_site"
  obtain w1 z1 where 1: "reconcileSecret mem_kube ?o ?s w = (Ok (), w1)" "mem_Conflicts w1 = 0"
      "mem_Cluster w1 = (mem_Cluster w)\<lparr>cl_Secrets := z1\<rparr>"
    using mem_secret_created [of w ?s] assms by (auto simp: empty_cluster_def)
  obtain w4 d u g where 4: "reconcileDatabaseProvision mem_kube ?o ?s None w1 = (Ok (), w4)"
      "mem_Conflicts w4 = 0"
      "mem_Cluster w4 = (mem_Cluster w1)\<lparr>cl_Databases := d, cl_Users := u, cl_Grants := g\<rparr>"
    using full_provision_runs [of w1] 1 assms by (auto simp: empty_cluster_def)
  obtain w7 m e where 7: "reconcileDeployment mem_kube ?o ?s (site_labels ?s) (site_envs ?s) w4 = (Ok (), w7)"
      "mem_Conflicts w7 = 0"
      "mem_Cluster w7 = (mem_Cluster w4)\<lparr>cl_ConfigMaps := m, cl_Deployments := e\<rparr>"
    using mem_pods_created [of w4 ?s] 1 4 assms by (auto simp: empty_cluster_def)
  obtain w8 z8 where 8: "mem_RetryOnConflict (tc_CreateOrUpdate (k_Services mem_kube) (new_service ?s)
      (mutate_service mem_kube ?o ?s (site_labels ?s))) w7 = (Ok (), w8)"
      "mem_Conflicts w8 = 0" "mem_Cluster w8 = (mem_Cluster w7)\<lparr>cl_Services := z8\<rparr>"
    using mem_service_created [of w7 ?s ?o "site_labels ?s"] 1 4 7 assms 
    by (auto simp: empty_cluster_def)
  obtain spec where spec: "ingress_enabled ?s = Some spec"
    by (auto simp: ingress_enabled_def full_spec_def)
  obtain w9 z9 where 9: "mem_RetryOnConflict (tc_CreateOrUpdate (k_Ingresses mem_kube) (new_ingress ?s)
      (mutate_ingress mem_kube ?o ?s spec (site_labels ?s))) w8 = (Ok (), w9)"
      "mem_Conflicts w9 = 0" "mem_Cluster w9 = (mem_Cluster w8)\<lparr>cl_Ingresses := z9\<rparr>"
    using mem_ingress_created [of w8 ?s ?o spec "site_labels ?s"] 1 4 7 8 assms 
    by (auto simp: empty_cluster_def)
  obtain p q where p: "own_claim ?s = Some p" "mem_MustParse (claim_size p) = Ok q"
    by (auto simp: own_claim_def full_spec_def claim_size_def mem_MustParse_def)
  obtain w10 where 10: "mem_RetryOnConflict (tc_CreateOrUpdate (k_PVCs mem_kube) (new_pvc ?s)
      (mutate_pvc mem_kube ?o ?s (claim_size p) (claim_storage_class p []))) w9 = (Ok (), w10)"
      "cl_Sites (mem_Cluster w10) = sites"
    using mem_pvc_created [OF p(2), of w9 ?s ?o "claim_storage_class p []"]
      1 4 7 8 9 assms by (auto simp: empty_cluster_def)
  have "reconcileService mem_kube ?o ?s (site_labels ?s) w7 = (Ok (), w8)"
    using 8(1) by (simp add: reconcileService_def)
  moreover have "reconcileIngress mem_kube ?o ?s (site_labels ?s) w8 = (Ok (), w9)"
    using 9(1) spec by (simp add: reconcileIngress_def)
  moreover have "reconcilePVC mem_kube ?o ?s [] w9 = (Ok (), w10)"
    using 10(1) p by (simp add: reconcilePVC_def)
  ultimately show ?thesis
    using 1(1) 4(1) 7(1) 10(2)
    by (simp add: reconcile_body_def Let_def no_defaults_def act_simps)
qed

lemma mem_write_status_Ok:
  assumes "cl_Sites (mem_Cluster w) (object_key (site_Meta s)) = Some x"
  shows "\<exists>w'. write_status mem_kube s d de re w = (Ok (), w')"
proof -
  obtain cs w1 where set: "setSiteConditions mem_kube (om_Generation (site_Meta s)) d de re
      (st_Conditions (site_Status s)) w = (cs, w1)" by fastforce
  have "mem_Cluster w1 = mem_Cluster w"
    using mem.setSiteConditions_view [of "om_Generation (site_Meta s)" d de re
        "st_Conditions (site_Status s)" w] set by simp
  with assms set show ?thesis by (simp add: write_status_def mem_UpdateSiteStatus_def)
qed

lemma mem_updateSiteStatus_Ok:
  assumes "cl_Sites (mem_Cluster w) (object_key (site_Meta site)) = Some site"
  shows "\<exists>w'. updateSiteStatus mem_kube site re w = (Ok (), w')"
proof -
  have key: "object_key (site_Meta site) = (site_Namespace site, site_Name site)"
    by (simp add: object_key_def)
  have "tc_Get (k_Sites mem_kube) (site_Namespace site) (site_Name site) w = (Ok site, w)"
    using assms key by (simp add: mem_get_def)
  moreover have "\<exists>r. tc_Get (k_Deployments mem_kube) a b w = (r, w) \<and> (\<forall>p. r \<noteq> Panic p)" for a b
    by (auto simp: mem_get_def split: option.splits)
  then obtain r where "tc_Get (k_Deployments mem_kube) (site_Namespace site) (site_Name site) w = (r, w)"
    and "\<forall>p. r \<noteq> Panic p" by blast
  ultimately have "\<exists>w'. status_attempt mem_kube site re w = (Ok (), w')"
    using mem_write_status_Ok [OF assms]
    by (cases r) (auto simp: status_attempt_def act_simps)
  then show ?thesis
    by (auto simp: updateSiteStatus_def mem_RetryOnConflict_def numeral_eq_Suc)
qed

lemma full_reconcile_runs:
  "\<exists>w'. Reconcile mem_kube no_defaults ''default'' ''blog'' (start_world full_site) = (Ok (), w')"
proof -
  have key: "object_key (site_Meta full_site) = (''default'', ''blog'')"
    by (simp add: object_key_def)
  let ?w = "start_world full_site" and ?sites = "[(''default'', ''blog'') \<mapsto> full_site]"
  have w: "mem_Cluster ?w = empty_cluster\<lparr>cl_Sites := ?sites\<rparr>" "mem_Conflicts ?w = 0"
    by (simp_all add: start_world_def key)
  from full_body_runs [OF w] obtain w1 where
    body: "reconcile_body mem_kube no_defaults full_site ?w = (Ok (), w1)"
    and sites: "cl_Sites (mem_Cluster w1) = ?sites" by blast
  from mem_updateSiteStatus_Ok [of w1 full_site None] obtain w2 where
    "updateSiteStatus mem_kube full_site None w1 = (Ok (), w2)"
    by (auto simp: sites key)
  then have "with_status_update mem_kube full_site (reconcile_body mem_kube no_defaults full_site) ?w
    = (Ok (), w2)"
    by (simp add: with_status_update_def body)
  moreover have "tc_Get (k_Sites mem_kube) ''default'' ''blog'' ?w = (Ok full_site, ?w)"
    by (simp add: mem_get_def start_world_def key)
  ultimately show ?thesis by (simp add: Reconcile_def act_simps)
qed

section \<open>Sites that cannot be reconciled\<close>

text \<open>Provisioning without a MariaDB cluster, and a claim whose size is no quantity.\<close>

definition unref_site :: Site where
  "unref_site = full_site\<lparr>site_Spec := full_spec\<lparr>spec_Provision :=
     Some \<lparr>prov_Database = Some \<lparr>dps_Enabled = True, dps_MariaDBRef = None\<rparr>\<rparr>\<rparr>\<rparr>"

definition bad_size_site :: Site where
  "bad_size_site = example_site\<lparr>site_Spec := example_spec\<lparr>spec_Persistence :=
     Some \<lparr>per_Enabled = True, per_ExistingClaim = [], per_Size = ''lots'',
           per_StorageClassName = None\<rparr>\<rparr>\<rparr>"

lemma site_simps [simp]:
  "site_Meta unref_site = site_Meta full_site" "site_Meta bad_size_site = site_Meta example_site"
  by (simp_all add: unref_site_def bad_size_site_def)

lemma start_world_simps [simp]:
  "mem_Conflicts (start_world site) = 0"
  "cl_Sites (mem_Cluster (start_world site)) = [object_key (site_Meta site) \<mapsto> site]"
  "cl_Secrets (mem_Cluster (start_world site)) = Map.empty"
  "cl_ConfigMaps (mem_Cluster (start_world site)) = Map.empty"
  "cl_Deployments (mem_Cluster (start_world site)) = Map.empty"
  "cl_Services (mem_Cluster (start_world site)) = Map.empty"
  "cl_Ingresses (mem_Cluster (start_world site)) = Map.empty"
  "cl_PVCs (mem_Cluster (start_world site)) = Map.empty"
  by (simp_all add: start_world_def empty_cluster_def)

lemma start_world_get:
  "tc_Get (k_Sites mem_kube) (site_Namespace site) (site_Name site) (start_world site)
     = (Ok site, start_world site)"
  by (simp add: mem_get_def object_key_def)

lemma unref_secret_runs:
  "\<exists>w1. reconcileSecret mem_kube (site_Meta unref_site) unref_site (start_world unref_site) = (Ok (), w1)
     \<and> cl_Sites (mem_Cluster w1) = [object_key (site_Meta unref_site) \<mapsto> unref_site]"
  using mem_secret_created [of "start_world unref_site" unref_site] by force

lemma bad_size_body_panics:
  "\<exists>w1. reconcile_body mem_kube no_defaults bad_size_site (start_world bad_size_site)
       = (Panic ''cannot parse lots'', w1)
     \<and> cl_Sites (mem_Cluster w1) = [object_key (site_Meta bad_size_site) \<mapsto> bad_size_site]"
proof -
  let ?s = bad_size_site and ?o = "site_Meta bad_size_site" and ?w = "start_world bad_size_site"
  have spec: "\<not> provisionEnabled ?s" "ingress_enabled ?s = None"
    by (simp_all add: provisionEnabled_def ingress_enabled_def bad_size_site_def example_spec_def)
  obtain p where p: "own_claim ?s = Some p" "claim_size p = ''lots''"
    by (simp add: own_claim_def bad_size_site_def claim_size_def)
  obtain w1 z where 1: "reconcileSecret mem_kube ?o ?s ?w = (Ok (), w1)" "mem_Conflicts w1 = 0"
    "mem_Cluster w1 = (mem_Cluster ?w)\<lparr>cl_Secrets := z\<rparr>"
    using mem_secret_created [of ?w ?s] by auto
  obtain w2 m d where 2: "reconcileDeployment mem_kube ?o ?s (site_labels ?s) (site_envs ?s) w1 = (Ok (), w2)"
    "mem_Conflicts w2 = 0" "mem_Cluster w2 = (mem_Cluster w1)\<lparr>cl_ConfigMaps := m, cl_Deployments := d\<rparr>"
    using mem_pods_created [of w1 ?s] 1 by auto
  obtain w3 v where 3: "reconcileService mem_kube ?o ?s (site_labels ?s) w2 = (Ok (), w3)"
    "mem_Cluster w3 = (mem_Cluster w2)\<lparr>cl_Services := v\<rparr>"
    using mem_service_created [of w2 ?s ?o "site_labels ?s"] 1 2 by (auto simp: reconcileService_def)
  have 4: "reconcileIngress mem_kube ?o ?s (site_labels ?s) w3 = (Ok (), w3)"
    using 1 2 3 spec
    by (simp add: reconcileIngress_def delete_if_controlled_def on_result_def mem_get_def
        mem_IgnoreNotFound_def is_not_found_def not_found_error_def)
  have "mutate_pvc mem_kube ?o ?s ''lots'' c x v = (Panic ''cannot parse lots'', v)" for c x v
    by (simp add: mutate_pvc_def Let_def and_then_def on_result_def mem_MustParse_def)
  then have 5: "reconcilePVC mem_kube ?o ?s [] w3 = (Panic ''cannot parse lots'', w3)"
    using p by (simp add: reconcilePVC_def mem_RetryOnConflict_def numeral_eq_Suc
        mem_create_or_update_def Let_def)
  have "reconcile_body mem_kube no_defaults ?s ?w = (Panic ''cannot parse lots'', w3)"
    using 1(1) 2(1) 3(1) 4 5 spec
    by (simp add: reconcile_body_def Let_def no_defaults_def reconcileDatabaseProvision_def act_simps)
  then show ?thesis using 1(3) 2(3) 3(2) by simp
qed

end
