(* ===== verification/Progress.thy ===== *)
theory Progress
  imports Convergence Confinement
begin

text \<open>
  When a reconcile succeeds. An API server decides on its own which objects it takes: names
  and fields must be valid, selectors stay as they are, claims do not shrink. That decision
  is a parameter, \<open>admission\<close>. The interface \<open>available_cluster\<close> adds to the laws of a quiescent
  API server that it answers: in an available world a write whose callback succeeds with an
  admitted object is done, a lookup finds or misses, a removal removes. Then a reconcile of
  a Site that is \<open>ready\<close> (its MariaDB reference resolves, its claim size parses, its object
  names are not taken by another owner, and the server admits the objects it asks for)
  returns without error, and reconciling all Sites once, in any order, leaves every one of
  them synced.
\<close>

section \<open>Admission\<close>

text \<open>For every kind: whether the server takes an object in place of the stored one, if any.\<close>

record admission =
  ad_Secret :: "Secret option \<Rightarrow> Secret \<Rightarrow> bool"
  ad_Database :: "Database option \<Rightarrow> Database \<Rightarrow> bool"
  ad_User :: "User option \<Rightarrow> User \<Rightarrow> bool"
  ad_Grant :: "Grant option \<Rightarrow> Grant \<Rightarrow> bool"
  ad_ConfigMap :: "ConfigMap option \<Rightarrow> ConfigMap \<Rightarrow> bool"
  ad_Deployment :: "Deployment option \<Rightarrow> Deployment \<Rightarrow> bool"
  ad_Service :: "Service option \<Rightarrow> Service \<Rightarrow> bool"
  ad_Ingress :: "Ingress option \<Rightarrow> Ingress \<Rightarrow> bool"
  ad_PVC :: "PersistentVolumeClaim option \<Rightarrow> PersistentVolumeClaim \<Rightarrow> bool"

text \<open>Whatever the callback makes of the stored object \<open>d\<close>, or of \<open>obj\<close>, is admitted.\<close>

definition admitted :: "('o option \<Rightarrow> 'o \<Rightarrow> bool) \<Rightarrow> ('o \<Rightarrow> ('w, 'o) act) \<Rightarrow> 'o \<Rightarrow> 'o option \<Rightarrow> bool" where
  "admitted admits f obj d \<longleftrightarrow>
     (\<forall>v y v'. f (case d of None \<Rightarrow> obj | Some s \<Rightarrow> s) v = (Ok y, v') \<longrightarrow> admits d y)"

section \<open>Callbacks that succeed\<close>

text \<open>In every available world the callback returns an object of the same key.\<close>

definition accepts ::
  "('w \<Rightarrow> bool) \<Rightarrow> ('o \<Rightarrow> ObjectMeta) \<Rightarrow> ('o \<Rightarrow> ('w, 'o) act) \<Rightarrow> 'o \<Rightarrow> bool" where
  "accepts avail meta f x \<longleftrightarrow>
     (\<forall>v. avail v \<longrightarrow>
       (\<exists>y v'. f x v = (Ok y, v') \<and> avail v' \<and> object_key (meta y) = object_key (meta x)))"

text \<open>An object the owner may take: it has no owners, or the owner controls it already.\<close>

definition adoptable :: "'w kube \<Rightarrow> ObjectMeta \<Rightarrow> ObjectMeta \<Rightarrow> bool" where
  "adoptable K owner m \<longleftrightarrow> om_OwnerReferences m = [] \<or> k_IsControlledBy K m owner"

definition own_or_new :: "'w kube \<Rightarrow> ObjectMeta \<Rightarrow> ('o \<Rightarrow> ObjectMeta) \<Rightarrow> 'o option \<Rightarrow> bool" where
  "own_or_new K owner meta d \<longleftrightarrow> (\<forall>x. d = Some x \<longrightarrow> adoptable K owner (meta x))"

definition writable ::
  "'w kube \<Rightarrow> ObjectMeta \<Rightarrow> ('o \<Rightarrow> ObjectMeta) \<Rightarrow> ('o option \<Rightarrow> 'o \<Rightarrow> bool) \<Rightarrow> ('o \<Rightarrow> ('w, 'o) act)
   \<Rightarrow> 'o \<Rightarrow> 'o option \<Rightarrow> bool" where
  "writable K owner meta admits f obj d \<longleftrightarrow> own_or_new K owner meta d \<and> admitted admits f obj d"

locale available_store =
  fixes avail :: "'w \<Rightarrow> bool"
    and view :: "'w \<Rightarrow> cluster"
    and tc :: "('w, 'o) typed_client"
    and get :: "cluster \<Rightarrow> (object_key \<rightharpoonup> 'o)"
    and meta :: "'o \<Rightarrow> ObjectMeta"
    and admits :: "'o option \<Rightarrow> 'o \<Rightarrow> bool"
    and retry :: "('w, unit) act \<Rightarrow> ('w, unit) act"
  assumes retry_done: "m w = (Ok (), w') \<Longrightarrow> retry m w = (Ok (), w')"
    and avail_key: "avail w \<Longrightarrow> get (view w) k = Some x \<Longrightarrow> object_key (meta x) = k"
    and avail_write:
      "avail w \<Longrightarrow>
       accepts avail meta f
         (case get (view w) (object_key (meta obj)) of None \<Rightarrow> obj | Some s \<Rightarrow> s) \<Longrightarrow>
       admitted admits f obj (get (view w) (object_key (meta obj))) \<Longrightarrow>
       \<exists>w'. tc_CreateOrUpdate tc obj f w = (Ok (), w') \<and> avail w'"
begin

lemma write_succeeds:
  assumes "avail w" and "writable K owner meta admits f obj (get (view w) (object_key (meta obj)))"
    and "om_OwnerReferences (meta obj) = []" and "om_Namespace (meta obj) = om_Namespace owner"
    and f: "\<And>x. om_Namespace (meta x) = om_Namespace owner \<Longrightarrow> adoptable K owner (meta x)
      \<Longrightarrow> accepts avail meta f x"
  shows "\<exists>w'. tc_CreateOrUpdate tc obj f w = (Ok (), w') \<and> avail w'"
  using assms(1)
proof (rule avail_write)
  show "accepts avail meta f (case get (view w) (object_key (meta obj)) of None \<Rightarrow> obj | Some s \<Rightarrow> s)"
  proof (cases "get (view w) (object_key (meta obj))")
    case None
    with assms(3,4) show ?thesis by (simp add: f adoptable_def)
  next
    case (Some x)
    with assms(1) have "object_key (meta x) = object_key (meta obj)" by (rule avail_key)
    with assms(2,4) Some show ?thesis by (simp add: f writable_def own_or_new_def object_key_def)
  qed
qed (use assms(2) in \<open>simp add: writable_def\<close>)

lemma retried_write_succeeds:
  assumes "avail w" and "writable K owner meta admits f obj (get (view w) (object_key (meta obj)))"
    and "om_OwnerReferences (meta obj) = []" and "om_Namespace (meta obj) = om_Namespace owner"
    and "\<And>x. om_Namespace (meta x) = om_Namespace owner \<Longrightarrow> adoptable K owner (meta x)
      \<Longrightarrow> accepts avail meta f x"
  shows "\<exists>w'. retry (tc_CreateOrUpdate tc obj f) w = (Ok (), w') \<and> avail w'"
  using write_succeeds [OF assms] retry_done by blast

end

locale available_lookup =
  fixes avail :: "'w \<Rightarrow> bool"
    and tc :: "('w, 'o) typed_client"
    and not_found :: "go_error \<Rightarrow> bool"
  assumes avail_get:
      "avail w \<Longrightarrow> \<exists>r w'. tc_Get tc ns n w = (r, w') \<and> avail w'
         \<and> ((\<exists>x. r = Ok x) \<or> (\<exists>e. r = Err e \<and> not_found e))"

locale available_removal =
  object_removal view tc get put meta stored_as conflict not_found +
  available_store avail view tc get meta admits retry + available_lookup avail tc not_found
  for avail :: "'w \<Rightarrow> bool" and view :: "'w \<Rightarrow> cluster" and tc :: "('w, 'o) typed_client"
    and get and put and meta and stored_as and conflict and not_found and admits and retry +
  assumes avail_delete:
      "avail w \<Longrightarrow> get (view w) (object_key (meta x)) \<noteq> None \<Longrightarrow>
       \<exists>w'. tc_Delete tc x w = (Ok (), w') \<and> avail w'"
begin

lemma delete_if_controlled_succeeds:
  assumes "avail w" and ignore: "\<And>e. k_IgnoreNotFound K e = (if not_found e then None else Some e)"
  shows "\<exists>w'. delete_if_controlled K tc meta owner ns n w = (Ok (), w') \<and> avail w'"
proof -
  obtain r w1 where r: "tc_Get tc ns n w = (r, w1)" "avail w1"
      "(\<exists>x. r = Ok x) \<or> (\<exists>e. r = Err e \<and> not_found e)"
    using avail_get [OF assms(1)] by blast
  then consider x where "r = Ok x" | e where "r = Err e" "not_found e" by blast
  then show ?thesis
  proof cases
    case 1
    have w1: "view w1 = view w" using get_keeps [of ns n w] r(1) by simp
    have "get (view w1) (object_key (meta x)) \<noteq> None"
      using get_stored get_key r(1) 1 w1 by fastforce
    with r(2) obtain w2 where "tc_Delete tc x w1 = (Ok (), w2)" "avail w2"
      using avail_delete by blast
    with r 1 show ?thesis
      by (simp add: delete_if_controlled_def ignore_not_found_def act_simps)
  next
    case 2
    with r show ?thesis by (simp add: delete_if_controlled_def act_simps ignore)
  qed
qed

end

section \<open>An API server that answers\<close>

locale available_cluster =
  site_cluster K view site conflict not_found +
  secrets: available_store avail view "k_Secrets K" cl_Secrets sec_Meta "ad_Secret A"
    "k_RetryOnConflict K" +
  databases: available_store avail view "k_Databases K" cl_Databases db_Meta "ad_Database A"
    "k_RetryOnConflict K" +
  users: available_store avail view "k_Users K" cl_Users usr_Meta "ad_User A"
    "k_RetryOnConflict K" +
  grants: available_store avail view "k_Grants K" cl_Grants gr_Meta "ad_Grant A"
    "k_RetryOnConflict K" +
  configmaps: available_store avail view "k_ConfigMaps K" cl_ConfigMaps cm_Meta "ad_ConfigMap A"
    "k_RetryOnConflict K" +
  deployments: available_store avail view "k_Deployments K" cl_Deployments dep_Meta "ad_Deployment A"
    "k_RetryOnConflict K" +
  deployments: available_lookup avail "k_Deployments K" not_found +
  services: available_store avail view "k_Services K" cl_Services svc_Meta "ad_Service A"
    "k_RetryOnConflict K" +
  ingresses: available_removal avail view "k_Ingresses K" cl_Ingresses "\<lambda>m c. c\<lparr>cl_Ingresses := m\<rparr>"
    ingr_Meta ingress_stored_as conflict not_found "ad_Ingress A" "k_RetryOnConflict K" +
  pvcs: available_removal avail view "k_PVCs K" cl_PVCs "\<lambda>m c. c\<lparr>cl_PVCs := m\<rparr>"
    pvc_Meta pvc_stored_as conflict not_found "ad_PVC A" "k_RetryOnConflict K" +
  sites: available_lookup avail "k_Sites K" not_found
  for K :: "'w kube" and view :: "'w \<Rightarrow> cluster" and site :: Site
    and conflict :: "go_error \<Rightarrow> bool" and not_found :: "go_error \<Rightarrow> bool"
    and avail :: "'w \<Rightarrow> bool" and A :: admission +
  assumes set_ref_accepts:
      "adoptable K owner m \<Longrightarrow> om_Namespace m = om_Namespace owner \<Longrightarrow>
       \<exists>m'. k_SetControllerReference K owner m = Ok m'"
    and avail_site_key: "avail w \<Longrightarrow> cl_Sites (view w) k = Some s \<Longrightarrow> object_key (site_Meta s) = k"
    and avail_status:
      "avail w \<Longrightarrow> cl_Sites (view w) (object_key (site_Meta s)) = Some s \<Longrightarrow>
       fst (setSiteConditions K (om_Generation (site_Meta s)) d de None (st_Conditions (site_Status s)) v)
         = cs \<Longrightarrow>
       \<exists>w'. k_UpdateSiteStatus K (s\<lparr>site_Status := (site_Status s)\<lparr>st_Conditions := cs\<rparr>\<rparr>) w = (Ok (), w')
         \<and> avail w'"
    and avail_entropy: "entropy_keeps K avail"
    and avail_set_condition: "keeps avail (k_SetStatusCondition K cs c)"
begin

text \<open>A callback that computes and then claims the object.\<close>

lemma accepts_claim:
  assumes "f x = lift_res (set_controller_reference K owner meta put x')"
    and "\<And>m. meta (put m x') = m"
    and "om_OwnerReferences (meta x') = om_OwnerReferences (meta x)"
    and "object_key (meta x') = object_key (meta x)"
    and "om_Namespace (meta x) = om_Namespace owner" and "adoptable K owner (meta x)"
  shows "accepts avail meta f x"
proof -
  have "adoptable K owner (meta x')"
    using assms(3,6) controlled_refs [OF assms(3)] by (simp add: adoptable_def)
  moreover have "om_Namespace (meta x') = om_Namespace owner"
    using assms(4,5) by (simp add: object_key_def)
  ultimately obtain m where m: "k_SetControllerReference K owner (meta x') = Ok m"
    using set_ref_accepts by blast
  then show ?thesis
    using assms(1,2,4) set_ref_key [OF m]
    by (simp add: accepts_def set_controller_reference_def)
qed

lemma accepts_database:
  "om_Namespace (db_Meta x) = om_Namespace owner \<Longrightarrow> adoptable K owner (db_Meta x) \<Longrightarrow>
   accepts avail db_Meta (mutate_database K owner s ref) x"
  by (rule accepts_claim [where f = "mutate_database K owner s ref" and x = x,
        OF mutate_database_def]) (simp_all add: object_key_def)

lemma accepts_user:
  "om_Namespace (usr_Meta x) = om_Namespace owner \<Longrightarrow> adoptable K owner (usr_Meta x) \<Longrightarrow>
   accepts avail usr_Meta (mutate_user K owner s ref) x"
  by (rule accepts_claim [where f = "mutate_user K owner s ref" and x = x,
        OF mutate_user_def]) (simp_all add: object_key_def)

lemma accepts_grant:
  "om_Namespace (gr_Meta x) = om_Namespace owner \<Longrightarrow> adoptable K owner (gr_Meta x) \<Longrightarrow>
   accepts avail gr_Meta (mutate_grant K owner s ref) x"
  by (rule accepts_claim [where f = "mutate_grant K owner s ref" and x = x,
        OF mutate_grant_def]) (simp_all add: object_key_def)

lemma accepts_configmap:
  "om_Namespace (cm_Meta x) = om_Namespace owner \<Longrightarrow> adoptable K owner (cm_Meta x) \<Longrightarrow>
   accepts avail cm_Meta (mutate_configmap K owner data) x"
  by (rule accepts_claim [where f = "mutate_configmap K owner data" and x = x,
        OF mutate_configmap_def]) (simp_all add: object_key_def)

lemma accepts_deployment:
  "om_Namespace (dep_Meta x) = om_Namespace owner \<Longrightarrow> adoptable K owner (dep_Meta x) \<Longrightarrow>
   accepts avail dep_Meta (mutate_deployment K owner s l e h) x"
  by (rule accepts_claim [where f = "mutate_deployment K owner s l e h" and x = x,
        OF mutate_deployment_def]) (simp_all add: object_key_def)

lemma accepts_service:
  "om_Namespace (svc_Meta x) = om_Namespace owner \<Longrightarrow> adoptable K owner (svc_Meta x) \<Longrightarrow>
   accepts avail svc_Meta (mutate_service K owner s l) x"
  by (rule accepts_claim [where f = "mutate_service K owner s l" and x = x,
        OF mutate_service_def]) (simp_all add: object_key_def)

lemma accepts_ingress:
  "om_Namespace (ingr_Meta x) = om_Namespace owner \<Longrightarrow> adoptable K owner (ingr_Meta x) \<Longrightarrow>
   accepts avail ingr_Meta (mutate_ingress K owner s spec l) x"
  by (rule accepts_claim [where f = "mutate_ingress K owner s spec l" and x = x,
        OF mutate_ingress_def]) (simp_all add: object_key_def)

lemma accepts_pvc:
  assumes "k_MustParse K sz = Ok q"
    and "om_Namespace (pvc_Meta x) = om_Namespace owner" and "adoptable K owner (pvc_Meta x)"
  shows "accepts avail pvc_Meta (mutate_pvc K owner s sz cls) x"
proof -
  have "\<exists>x'. mutate_pvc K owner s sz cls x =
      lift_res (set_controller_reference K owner pvc_Meta (\<lambda>m p. p\<lparr>pvc_Meta := m\<rparr>) x')
    \<and> om_OwnerReferences (pvc_Meta x') = om_OwnerReferences (pvc_Meta x)
    \<and> object_key (pvc_Meta x') = object_key (pvc_Meta x)"
    unfolding mutate_pvc_def Let_def assms(1) and_then_lift_Ok
    by (rule exI, rule conjI, rule refl) (auto simp: object_key_def)
  then obtain x' where x': "mutate_pvc K owner s sz cls x =
      lift_res (set_controller_reference K owner pvc_Meta (\<lambda>m p. p\<lparr>pvc_Meta := m\<rparr>) x')"
      "om_OwnerReferences (pvc_Meta x') = om_OwnerReferences (pvc_Meta x)"
      "object_key (pvc_Meta x') = object_key (pvc_Meta x)" by blast
  show ?thesis
    by (rule accepts_claim [where f = "mutate_pvc K owner s sz cls" and x = x, OF x'(1)])
      (simp_all add: x'(2,3) assms)
qed

lemma accepts_secret:
  assumes "om_Namespace (sec_Meta x) = om_Namespace owner" and "adoptable K owner (sec_Meta x)"
  shows "accepts avail sec_Meta (mutate_secret K owner s) x"
  unfolding accepts_def
proof (intro allI impI)
  fix v assume "avail v"
  obtain m where m: "k_SetControllerReference K owner (sec_Meta x) = Ok m"
    using set_ref_accepts assms by blast
  obtain d v' where "fill_secret_data K s
      ((case sec_Data x of None \<Rightarrow> Map.empty | Some d \<Rightarrow> d), v) = (d, v')" by fastforce
  with m have run: "mutate_secret K owner s x v = (Ok (x\<lparr>sec_Data := Some d, sec_Meta := m\<rparr>), v')"
    by (simp add: mutate_secret_Ok)
  then have "avail v'"
    using keepsD [OF keeps_mutate_secret [OF avail_entropy] \<open>avail v\<close>, of owner s x] by simp
  with run show "\<exists>y v'. mutate_secret K owner s x v = (Ok y, v') \<and> avail v'
      \<and> object_key (sec_Meta y) = object_key (sec_Meta x)" by (simp add: set_ref_key [OF m])
qed

end

section \<open>Sites that are ready\<close>

definition database_ready ::
  "'w kube \<Rightarrow> admission \<Rightarrow> SiteReconciler \<Rightarrow> Site \<Rightarrow> cluster \<Rightarrow> bool" where
  "database_ready K A r site c \<longleftrightarrow>
    (let owner = site_Meta site; ns = site_Namespace site; n = site_Name site in
     provisionEnabled site \<longrightarrow>
       (\<exists>cl. resolveMariaDBRef site (rc_DefaultMariaDBRef r) = Ok cl
          \<and> writable K owner db_Meta (ad_Database A) (mutate_database K owner site (mariadb_ref cl))
              (new_database site) (cl_Databases c (ns, n))
          \<and> writable K owner usr_Meta (ad_User A) (mutate_user K owner site (mariadb_ref cl))
              (new_user site) (cl_Users c (ns, n @ ''-db-user''))
          \<and> writable K owner gr_Meta (ad_Grant A) (mutate_grant K owner site (mariadb_ref cl))
              (new_grant site) (cl_Grants c (ns, n @ ''-db-grant''))))"

definition pods_ready :: "'w kube \<Rightarrow> admission \<Rightarrow> Site \<Rightarrow> cluster \<Rightarrow> bool" where
  "pods_ready K A site c \<longleftrightarrow>
    (let owner = site_Meta site; ns = site_Namespace site; n = site_Name site in
     writable K owner cm_Meta (ad_ConfigMap A)
       (mutate_configmap K owner [''default.conf'' \<mapsto> buildNginxConfigContent site])
       (new_configmap site (nginx_configmap_name site)) (cl_ConfigMaps c (ns, nginx_configmap_name site))
     \<and> writable K owner cm_Meta (ad_ConfigMap A)
       (mutate_configmap K owner [phpIniFileName \<mapsto> buildPHPIniContent site])
       (new_configmap site (php_configmap_name site)) (cl_ConfigMaps c (ns, php_configmap_name site))
     \<and> writable K owner dep_Meta (ad_Deployment A)
       (mutate_deployment K owner site (site_labels site) (site_envs site) (site_config_hash site))
       (new_deployment (new_meta ns n)) (cl_Deployments c (ns, n)))"

definition ingress_ready :: "'w kube \<Rightarrow> admission \<Rightarrow> Site \<Rightarrow> cluster \<Rightarrow> bool" where
  "ingress_ready K A site c \<longleftrightarrow>
     (\<forall>spec. ingress_enabled site = Some spec \<longrightarrow>
        writable K (site_Meta site) ingr_Meta (ad_Ingress A)
          (mutate_ingress K (site_Meta site) site spec (site_labels site)) (new_ingress site)
          (cl_Ingresses c (site_Namespace site, site_Name site @ ''-ingress'')))"

definition pvc_ready :: "'w kube \<Rightarrow> admission \<Rightarrow> SiteReconciler \<Rightarrow> Site \<Rightarrow> cluster \<Rightarrow> bool" where
  "pvc_ready K A r site c \<longleftrightarrow>
     (\<forall>p. own_claim site = Some p \<longrightarrow>
        (\<exists>q. k_MustParse K (claim_size p) = Ok q)
        \<and> writable K (site_Meta site) pvc_Meta (ad_PVC A)
            (mutate_pvc K (site_Meta site) site (claim_size p)
              (claim_storage_class p (rc_DefaultStorageClassName r)))
            (new_pvc site) (cl_PVCs c (site_Namespace site, pvc_name site)))"

definition site_ready ::
  "'w kube \<Rightarrow> admission \<Rightarrow> SiteReconciler \<Rightarrow> Site \<Rightarrow> cluster \<Rightarrow> bool" where
  "site_ready K A r site c \<longleftrightarrow>
    (let owner = site_Meta site; ns = site_Namespace site; n = site_Name site in
     writable K owner sec_Meta (ad_Secret A) (mutate_secret K owner site)
       \<lparr>sec_Meta = new_meta ns (site_secret_name site), sec_Data = None\<rparr>
       (cl_Secrets c (ns, site_secret_name site))
     \<and> database_ready K A r site c \<and> pods_ready K A site c
     \<and> writable K owner svc_Meta (ad_Service A) (mutate_service K owner site (site_labels site))
       (new_service site) (cl_Services c (ns, n))
     \<and> ingress_ready K A site c \<and> pvc_ready K A r site c)"

lemmas ready_defs = database_ready_def pods_ready_def ingress_ready_def pvc_ready_def

context available_cluster
begin

lemma secret_succeeds:
  assumes "avail w"
    and "writable K (site_Meta site) sec_Meta (ad_Secret A) (mutate_secret K (site_Meta site) site)
      \<lparr>sec_Meta = new_meta (site_Namespace site) (site_secret_name site), sec_Data = None\<rparr>
      (cl_Secrets (view w) (site_Namespace site, site_secret_name site))"
  shows "\<exists>w'. reconcileSecret K (site_Meta site) site w = (Ok (), w') \<and> avail w'"
  unfolding reconcileSecret_def using assms
  by (intro secrets.write_succeeds [where K = K and owner = "site_Meta site"])
    (simp_all add: accepts_secret new_meta_def object_key_def)

text \<open>One write of each kind.\<close>

lemma database_written:
  "avail w \<Longrightarrow>
   writable K (site_Meta site) db_Meta (ad_Database A) (mutate_database K (site_Meta site) site ref) (new_database site)
     (cl_Databases (view w) (site_Namespace site, site_Name site)) \<Longrightarrow>
   \<exists>w'. k_RetryOnConflict K (tc_CreateOrUpdate (k_Databases K) (new_database site)
       (mutate_database K (site_Meta site) site ref)) w = (Ok (), w') \<and> avail w'"
  by (rule databases.retried_write_succeeds [where K = K and owner = "site_Meta site"])
    (simp_all add: new_database_def new_meta_def object_key_def accepts_database)

lemma user_written:
  "avail w \<Longrightarrow>
   writable K (site_Meta site) usr_Meta (ad_User A) (mutate_user K (site_Meta site) site ref) (new_user site)
     (cl_Users (view w) (site_Namespace site, site_Name site @ ''-db-user'')) \<Longrightarrow>
   \<exists>w'. k_RetryOnConflict K (tc_CreateOrUpdate (k_Users K) (new_user site)
       (mutate_user K (site_Meta site) site ref)) w = (Ok (), w') \<and> avail w'"
  by (rule users.retried_write_succeeds [where K = K and owner = "site_Meta site"])
    (simp_all add: new_user_def new_meta_def object_key_def accepts_user)

lemma grant_written:
  "avail w \<Longrightarrow>
   writable K (site_Meta site) gr_Meta (ad_Grant A) (mutate_grant K (site_Meta site) site ref) (new_grant site)
     (cl_Grants (view w) (site_Namespace site, site_Name site @ ''-db-grant'')) \<Longrightarrow>
   \<exists>w'. k_RetryOnConflict K (tc_CreateOrUpdate (k_Grants K) (new_grant site)
       (mutate_grant K (site_Meta site) site ref)) w = (Ok (), w') \<and> avail w'"
  by (rule grants.retried_write_succeeds [where K = K and owner = "site_Meta site"])
    (simp_all add: new_grant_def new_meta_def object_key_def accepts_grant)

lemma configmap_written:
  "avail w \<Longrightarrow>
   writable K (site_Meta site) cm_Meta (ad_ConfigMap A) (mutate_configmap K (site_Meta site) data) (new_configmap site m)
     (cl_ConfigMaps (view w) (site_Namespace site, m)) \<Longrightarrow>
   \<exists>w'. k_RetryOnConflict K (tc_CreateOrUpdate (k_ConfigMaps K) (new_configmap site m)
       (mutate_configmap K (site_Meta site) data)) w = (Ok (), w') \<and> avail w'"
  by (rule configmaps.retried_write_succeeds [where K = K and owner = "site_Meta site"])
    (simp_all add: new_configmap_def new_meta_def object_key_def accepts_configmap)

lemma deployment_written:
  "avail w \<Longrightarrow>
   writable K (site_Meta site) dep_Meta (ad_Deployment A) (mutate_deployment K (site_Meta site) site l e h) (new_deployment (new_meta (site_Namespace site) (site_Name site)))
     (cl_Deployments (view w) (site_Namespace site, site_Name site)) \<Longrightarrow>
   \<exists>w'. k_RetryOnConflict K (tc_CreateOrUpdate (k_Deployments K) (new_deployment (new_meta (site_Namespace site) (site_Name site)))
       (mutate_deployment K (site_Meta site) site l e h)) w = (Ok (), w') \<and> avail w'"
  by (rule deployments.retried_write_succeeds [where K = K and owner = "site_Meta site"])
    (simp_all add: new_meta_def object_key_def accepts_deployment)

lemma service_written:
  "avail w \<Longrightarrow>
   writable K (site_Meta site) svc_Meta (ad_Service A) (mutate_service K (site_Meta site) site l) (new_service site)
     (cl_Services (view w) (site_Namespace site, site_Name site)) \<Longrightarrow>
   \<exists>w'. k_RetryOnConflict K (tc_CreateOrUpdate (k_Services K) (new_service site)
       (mutate_service K (site_Meta site) site l)) w = (Ok (), w') \<and> avail w'"
  by (rule services.retried_write_succeeds [where K = K and owner = "site_Meta site"])
    (simp_all add: new_service_def new_meta_def object_key_def accepts_service)

lemma ingress_written:
  "avail w \<Longrightarrow>
   writable K (site_Meta site) ingr_Meta (ad_Ingress A) (mutate_ingress K (site_Meta site) site spec l) (new_ingress site)
     (cl_Ingresses (view w) (site_Namespace site, site_Name site @ ''-ingress'')) \<Longrightarrow>
   \<exists>w'. k_RetryOnConflict K (tc_CreateOrUpdate (k_Ingresses K) (new_ingress site)
       (mutate_ingress K (site_Meta site) site spec l)) w = (Ok (), w') \<and> avail w'"
  by (rule ingresses.retried_write_succeeds [where K = K and owner = "site_Meta site"])
    (simp_all add: new_ingress_def new_meta_def object_key_def accepts_ingress)

lemma pvc_written:
  "k_MustParse K sz = Ok q \<Longrightarrow> avail w \<Longrightarrow>
   writable K (site_Meta site) pvc_Meta (ad_PVC A) (mutate_pvc K (site_Meta site) site sz cls) (new_pvc site)
     (cl_PVCs (view w) (site_Namespace site, pvc_name site)) \<Longrightarrow>
   \<exists>w'. k_RetryOnConflict K (tc_CreateOrUpdate (k_PVCs K) (new_pvc site)
       (mutate_pvc K (site_Meta site) site sz cls)) w = (Ok (), w') \<and> avail w'"
  by (rule pvcs.retried_write_succeeds [where K = K and owner = "site_Meta site"])
    (simp_all add: new_pvc_def new_meta_def object_key_def accepts_pvc)

text \<open>The steps.\<close>

lemma provision_succeeds:
  assumes "avail w" and "database_ready K A r site (view w)"
  shows "\<exists>w'. reconcileDatabaseProvision K (site_Meta site) site (rc_DefaultMariaDBRef r) w = (Ok (), w')
    \<and> avail w'"
proof (cases "provisionEnabled site")
  case False
  with assms(1) show ?thesis by (simp add: reconcileDatabaseProvision_def)
next
  case True
  let ?o = "site_Meta site"
  from assms(2) True obtain cl where cl: "resolveMariaDBRef site (rc_DefaultMariaDBRef r) = Ok cl"
    and ready: "writable K ?o db_Meta (ad_Database A) (mutate_database K ?o site (mariadb_ref cl))
        (new_database site) (cl_Databases (view w) (site_Namespace site, site_Name site))"
      "writable K ?o usr_Meta (ad_User A) (mutate_user K ?o site (mariadb_ref cl))
        (new_user site) (cl_Users (view w) (site_Namespace site, site_Name site @ ''-db-user''))"
      "writable K ?o gr_Meta (ad_Grant A) (mutate_grant K ?o site (mariadb_ref cl))
        (new_grant site) (cl_Grants (view w) (site_Namespace site, site_Name site @ ''-db-grant''))"
    unfolding database_ready_def Let_def by blast
  let ?ref = "mariadb_ref cl"
  obtain w1 where 1: "k_RetryOnConflict K (tc_CreateOrUpdate (k_Databases K) (new_database site)
      (mutate_database K ?o site ?ref)) w = (Ok (), w1)" "avail w1"
    using database_written [OF assms(1) ready(1)] by blast
  obtain z1 where 11: "view w1 = (view w)\<lparr>cl_Databases := z1\<rparr>"
    using database_sync.retried_create_or_update_settles [OF 1(1)] by blast
  obtain w2 where 2: "k_RetryOnConflict K (tc_CreateOrUpdate (k_Users K) (new_user site)
      (mutate_user K ?o site ?ref)) w1 = (Ok (), w2)" "avail w2"
    using user_written [OF 1(2), of ?ref] ready(2) 11 by auto
  obtain z2 where 22: "view w2 = (view w1)\<lparr>cl_Users := z2\<rparr>"
    using user_sync.retried_create_or_update_settles [OF 2(1)] by blast
  obtain w3 where "k_RetryOnConflict K (tc_CreateOrUpdate (k_Grants K) (new_grant site)
      (mutate_grant K ?o site ?ref)) w2 = (Ok (), w3)" "avail w3"
    using grant_written [OF 2(2), of ?ref] ready(3) 11 22 by auto
  with 1(1) 2(1) True cl show ?thesis
    by (simp add: reconcileDatabaseProvision_def Let_def act_simps)
qed

lemma deployment_succeeds:
  assumes "avail w" and "pods_ready K A site (view w)"
  shows "\<exists>w'. reconcileDeployment K (site_Meta site) site (site_labels site) (site_envs site) w = (Ok (), w')
    \<and> avail w'"
proof -
  let ?o = "site_Meta site"
  let ?nginx = "[''default.conf'' \<mapsto> buildNginxConfigContent site]"
    and ?php = "[phpIniFileName \<mapsto> buildPHPIniContent site]"
  note ready = assms(2) [unfolded pods_ready_def Let_def]
  obtain w1 where 1: "k_RetryOnConflict K (tc_CreateOrUpdate (k_ConfigMaps K)
      (new_configmap site (nginx_configmap_name site)) (mutate_configmap K ?o ?nginx)) w = (Ok (), w1)"
      "avail w1"
    using configmap_written [OF assms(1), of ?nginx "nginx_configmap_name site"] ready by blast
  obtain z1 where 11: "view w1 = (view w)\<lparr>cl_ConfigMaps := (cl_ConfigMaps (view w))
      ((site_Namespace site, nginx_configmap_name site) \<mapsto> z1)\<rparr>"
    using configmap_sync.retried_create_or_update_settles [OF 1(1)] by (auto simp: new_configmap_def)
  have "php_configmap_name site \<noteq> nginx_configmap_name site"
    by (simp add: nginx_configmap_name_def php_configmap_name_def)
  then obtain w2 where 2: "k_RetryOnConflict K (tc_CreateOrUpdate (k_ConfigMaps K)
      (new_configmap site (php_configmap_name site)) (mutate_configmap K ?o ?php)) w1 = (Ok (), w2)"
      "avail w2"
    using configmap_written [OF 1(2), of ?php "php_configmap_name site"] ready 11 by auto
  obtain z2 where 22: "view w2 = (view w1)\<lparr>cl_ConfigMaps := z2\<rparr>"
    using configmap_sync.retried_create_or_update_settles [OF 2(1)] by blast
  obtain w3 where "k_RetryOnConflict K (tc_CreateOrUpdate (k_Deployments K)
      (new_deployment (new_meta (site_Namespace site) (site_Name site)))
      (mutate_deployment K ?o site (site_labels site) (site_envs site) (site_config_hash site))) w2
      = (Ok (), w3)" "avail w3"
    using deployment_written [OF 2(2), of "site_labels site" "site_envs site" "site_config_hash site"]
      ready 11 22 by auto
  with 1(1) 2(1) show ?thesis
    by (simp add: reconcileDeployment_def Let_def act_simps flip: site_config_hash_def)
qed

lemma ingress_succeeds:
  assumes "avail w" and "ingress_ready K A site (view w)"
  shows "\<exists>w'. reconcileIngress K (site_Meta site) site (site_labels site) w = (Ok (), w') \<and> avail w'"
proof (cases "ingress_enabled site")
  case None
  with ingresses.delete_if_controlled_succeeds [OF assms(1) ignore] show ?thesis
    by (simp add: reconcileIngress_def)
next
  case (Some spec)
  with ingress_written [OF assms(1)] assms(2) show ?thesis
    by (simp add: reconcileIngress_def ingress_ready_def)
qed

lemma pvc_succeeds:
  assumes "avail w" and "pvc_ready K A r site (view w)"
  shows "\<exists>w'. reconcilePVC K (site_Meta site) site (rc_DefaultStorageClassName r) w = (Ok (), w')
    \<and> avail w'"
proof (cases "own_claim site")
  case None
  with pvcs.delete_if_controlled_succeeds [OF assms(1) ignore] show ?thesis
    by (simp add: reconcilePVC_def deleteOwnedPVC_def)
next
  case (Some p)
  with assms(2) obtain q where "k_MustParse K (claim_size p) = Ok q" unfolding pvc_ready_def by blast
  from pvc_written [OF this assms(1)] assms(2) Some show ?thesis
    by (simp add: reconcilePVC_def pvc_ready_def)
qed

lemma body_succeeds:
  assumes "avail w" and "site_ready K A r site (view w)"
  shows "\<exists>w'. reconcile_body K r site w = (Ok (), w') \<and> avail w'
    \<and> cl_Sites (view w') = cl_Sites (view w)"
proof -
  let ?o = "site_Meta site"
  note ready = assms(2) [unfolded site_ready_def Let_def]
  obtain w1 where 1: "reconcileSecret K ?o site w = (Ok (), w1)" "avail w1"
    using secret_succeeds [OF assms(1)] ready by blast
  obtain m1 where v1: "view w1 = (view w)\<lparr>cl_Secrets := m1\<rparr>" using secret_step [OF 1(1)] by blast
  obtain w2 where 2: "reconcileDatabaseProvision K ?o site (rc_DefaultMariaDBRef r) w1 = (Ok (), w2)"
      "avail w2"
    using provision_succeeds [OF 1(2), of r] ready v1 by (auto simp: ready_defs)
  obtain d u g where v2: "view w2 = (view w1)\<lparr>cl_Databases := d, cl_Users := u, cl_Grants := g\<rparr>"
    using provision_step [OF 2(1)] by blast
  obtain w3 where 3: "reconcileDeployment K ?o site (site_labels site) (site_envs site) w2 = (Ok (), w3)"
      "avail w3"
    using deployment_succeeds [OF 2(2)] ready v1 v2 by (auto simp: ready_defs)
  obtain m3 d3 where v3: "view w3 = (view w2)\<lparr>cl_ConfigMaps := m3, cl_Deployments := d3\<rparr>"
    using deployment_step [OF 3(1)] by blast
  obtain w4 where 4: "reconcileService K ?o site (site_labels site) w3 = (Ok (), w4)" "avail w4"
    unfolding reconcileService_def using service_written [OF 3(2), of "site_labels site"] ready v1 v2 v3 by auto
  obtain m4 where v4: "view w4 = (view w3)\<lparr>cl_Services := m4\<rparr>" using service_step [OF 4(1)] by blast
  obtain w5 where 5: "reconcileIngress K ?o site (site_labels site) w4 = (Ok (), w5)" "avail w5"
    using ingress_succeeds [OF 4(2)] ready v1 v2 v3 v4 by (auto simp: ready_defs)
  obtain m5 where v5: "view w5 = (view w4)\<lparr>cl_Ingresses := m5\<rparr>" using ingress_step [OF 5(1)] by blast
  obtain w6 where 6: "reconcilePVC K ?o site (rc_DefaultStorageClassName r) w5 = (Ok (), w6)" "avail w6"
    using pvc_succeeds [OF 5(2), of r] ready v1 v2 v3 v4 v5 by (auto simp: ready_defs)
  obtain m6 where v6: "view w6 = (view w5)\<lparr>cl_PVCs := m6\<rparr>" using pvc_step [OF 6(1)] by blast
  have "reconcile_body K r site w = (Ok (), w6)"
    using 1(1) 2(1) 3(1) 4(1) 5(1) 6(1) by (simp add: reconcile_body_def Let_def act_simps)
  moreover have "cl_Sites (view w6) = cl_Sites (view w)"
    by (simp add: v1 v2 v3 v4 v5 v6)
  ultimately show ?thesis using 6(2) by blast
qed

text \<open>The status update.\<close>

lemma write_status_succeeds:
  assumes "avail w" and "cl_Sites (view w) (object_key (site_Meta s)) = Some s"
  shows "\<exists>w'. write_status K s d de None w = (Ok (), w') \<and> avail w'"
proof -
  obtain cs w1 where set: "setSiteConditions K (om_Generation (site_Meta s)) d de None
      (st_Conditions (site_Status s)) w = (cs, w1)" by fastforce
  have "avail w1"
    using keepsD [OF keeps_setSiteConditions [OF avail_set_condition] assms(1)] set by (metis snd_conv)
  moreover have "view w1 = view w"
    using setSiteConditions_view [of "om_Generation (site_Meta s)" d de None
        "st_Conditions (site_Status s)" w] set by simp
  ultimately show ?thesis
    using avail_status [of w1 s d de w cs] assms(2) set
    by (auto simp: write_status_def)
qed

lemma get_site_succeeds:
  assumes "avail w" and "cl_Sites (view w) (ns, n) = Some s"
  shows "\<exists>w'. tc_Get (k_Sites K) ns n w = (Ok s, w') \<and> avail w' \<and> view w' = view w"
proof -
  obtain r w1 where r: "tc_Get (k_Sites K) ns n w = (r, w1)" "avail w1"
      "(\<exists>x. r = Ok x) \<or> (\<exists>e. r = Err e \<and> not_found e)"
    using sites.avail_get [OF assms(1)] by blast
  have "r = Ok s"
    using r assms(2) sites.get_missing [of ns n w _ w1] sites.get_stored [of ns n w _ w1] by fastforce
  moreover have "view w1 = view w"
    using sites.get_keeps [of ns n w] r(1) by simp
  ultimately show ?thesis using r by blast
qed

lemma updateSiteStatus_succeeds:
  assumes "avail w" and "cl_Sites (view w) (object_key (site_Meta s)) = Some s'"
  shows "\<exists>w'. updateSiteStatus K s None w = (Ok (), w') \<and> avail w'"
proof -
  let ?ns = "site_Namespace s" and ?n = "site_Name s"
  have here: "cl_Sites (view w) (?ns, ?n) = Some s'" using assms(2) by (simp add: object_key_def)
  obtain w1 where 1: "tc_Get (k_Sites K) ?ns ?n w = (Ok s', w1)" "avail w1" "view w1 = view w"
    using get_site_succeeds [OF assms(1) here] by blast
  have key: "object_key (site_Meta s') = (?ns, ?n)"
    using assms(1) here by (rule avail_site_key)
  obtain r w2 where 2: "tc_Get (k_Deployments K) (site_Namespace s') (site_Name s') w1 = (r, w2)"
      "avail w2" "(\<exists>x. r = Ok x) \<or> (\<exists>e. r = Err e \<and> not_found e)"
    using deployments.avail_get [OF 1(2)] by blast
  have "view w2 = view w"
    using deployments.get_keeps [of "site_Namespace s'" "site_Name s'" w1] 2(1) 1(3) by simp
  then have written: "\<exists>w'. write_status K s' d de None w2 = (Ok (), w') \<and> avail w'" for d de
    using write_status_succeeds [OF 2(2)] key here by simp
  have "\<exists>w'. status_attempt K s None w = (Ok (), w') \<and> avail w'"
    using 2(3) 1(1) 2(1) written by (auto simp: status_attempt_def act_simps)
  then show ?thesis
    unfolding updateSiteStatus_def using secrets.retry_done by blast
qed

lemma Reconcile_succeeds:
  assumes "avail w" and "cl_Sites (view w) (ns, n) = Some site" and "site_ready K A r site (view w)"
  shows "\<exists>w'. Reconcile K r ns n w = (Ok (), w') \<and> avail w'"
proof -
  obtain w1 where 1: "tc_Get (k_Sites K) ns n w = (Ok site, w1)" "avail w1" "view w1 = view w"
    using get_site_succeeds [OF assms(1,2)] by blast
  obtain w2 where 2: "reconcile_body K r site w1 = (Ok (), w2)" "avail w2"
      "cl_Sites (view w2) = cl_Sites (view w1)"
    using body_succeeds [OF 1(2)] assms(3) 1(3) by auto
  have "object_key (site_Meta site) = (ns, n)"
    using assms(1,2) by (rule avail_site_key)
  then have "cl_Sites (view w2) (object_key (site_Meta site)) = Some site"
    using assms(2) 1(3) 2(3) by simp
  then obtain w3 where "updateSiteStatus K site None w2 = (Ok (), w3)" "avail w3"
    using updateSiteStatus_succeeds [OF 2(2)] by blast
  with 1(1) 2(1) show ?thesis
    by (simp add: Reconcile_def with_status_update_def act_simps)
qed

end

section \<open>Several Sites\<close>

text \<open>
  No object name of one Site is an object name of another, kind by kind: whatever stays
  outside the footprint of \<open>nm\<close> in \<open>ns\<close> includes everything of every other Site.
\<close>

lemma untouched_others:
  assumes "untouched ns nm c c'" and "object_key (site_Meta site) \<noteq> (ns, nm)"
  shows "cl_Sites c' (object_key (site_Meta site)) = cl_Sites c (object_key (site_Meta site))"
    and "cl_Secrets c' (site_Namespace site, site_secret_name site)
      = cl_Secrets c (site_Namespace site, site_secret_name site)"
    and "cl_ConfigMaps c' (site_Namespace site, nginx_configmap_name site)
      = cl_ConfigMaps c (site_Namespace site, nginx_configmap_name site)"
    and "cl_ConfigMaps c' (site_Namespace site, php_configmap_name site)
      = cl_ConfigMaps c (site_Namespace site, php_configmap_name site)"
    and "cl_Deployments c' (site_Namespace site, site_Name site)
      = cl_Deployments c (site_Namespace site, site_Name site)"
    and "cl_Services c' (site_Namespace site, site_Name site)
      = cl_Services c (site_Namespace site, site_Name site)"
    and "cl_Ingresses c' (site_Namespace site, site_Name site @ ''-ingress'')
      = cl_Ingresses c (site_Namespace site, site_Name site @ ''-ingress'')"
    and "cl_PVCs c' (site_Namespace site, pvc_name site) = cl_PVCs c (site_Namespace site, pvc_name site)"
    and "cl_Databases c' (site_Namespace site, site_Name site)
      = cl_Databases c (site_Namespace site, site_Name site)"
    and "cl_Users c' (site_Namespace site, site_Name site @ ''-db-user'')
      = cl_Users c (site_Namespace site, site_Name site @ ''-db-user'')"
    and "cl_Grants c' (site_Namespace site, site_Name site @ ''-db-grant'')
      = cl_Grants c (site_Namespace site, site_Name site @ ''-db-grant'')"
  using assms
  by (auto simp: untouched_def agree_off_def object_key_def site_secret_name_def
      nginx_configmap_name_def php_configmap_name_def pvc_name_def)

lemma untouched_sites: "untouched ns nm c c' \<Longrightarrow> k \<noteq> (ns, nm) \<Longrightarrow> cl_Sites c' k = cl_Sites c k"
  by (cases k) (simp add: untouched_def agree_off_def)

lemma site_synced_frame:
  "untouched ns nm c c' \<Longrightarrow> object_key (site_Meta site) \<noteq> (ns, nm) \<Longrightarrow>
   site_synced K r site c' = site_synced K r site c"
  by (simp add: site_synced_def synced_defs Let_def untouched_others)

lemma site_ready_frame:
  "untouched ns nm c c' \<Longrightarrow> object_key (site_Meta site) \<noteq> (ns, nm) \<Longrightarrow>
   site_ready K A r site c' = site_ready K A r site c"
  by (simp add: site_ready_def ready_defs Let_def untouched_others)

text \<open>The work queue's items one after the other, ending at the first error.\<close>

definition reconcile_all :: "'w kube \<Rightarrow> SiteReconciler \<Rightarrow> object_key list \<Rightarrow> ('w, unit) act" where
  "reconcile_all K r keys = run_steps (map (\<lambda>(ns, n). Reconcile K r ns n) keys)"

locale fleet_cluster =
  available_cluster K view site conflict not_found avail A
  for K :: "'w kube" and view :: "'w \<Rightarrow> cluster" and site :: Site
    and conflict :: "go_error \<Rightarrow> bool" and not_found :: "go_error \<Rightarrow> bool"
    and avail :: "'w \<Rightarrow> bool" and A :: admission +
  assumes confined: "site_confined K (\<lambda>w. untouched ns nm c (view w)) ns nm"
begin

lemma Reconcile_untouched: "untouched ns n (view w) (view (snd (Reconcile K r ns n w)))"
  using keepsD [OF site_confined.keeps_Reconcile [OF confined [of ns n "view w"]]] by simp

text \<open>
  One pass over the Sites: every reconcile succeeds, every Site of the pass is synced at the
  end, and what was synced and is not in the pass stays so.
\<close>

text \<open>One reconcile of a pass: its Site is synced, and the others are where they were.\<close>

lemma one_reconcile:
  assumes "avail w" and s: "cl_Sites (view w) k = Some s" "site_ready K A r s (view w)"
  shows "\<exists>w1. Reconcile K r (fst k) (snd k) w = (Ok (), w1) \<and> avail w1 \<and> site_synced K r s (view w1)
    \<and> (\<forall>k'. k' \<noteq> k \<longrightarrow> cl_Sites (view w1) k' = cl_Sites (view w) k')
    \<and> (\<forall>x. object_key (site_Meta x) \<noteq> k \<longrightarrow>
          site_ready K A r x (view w1) = site_ready K A r x (view w)
        \<and> site_synced K r x (view w1) = site_synced K r x (view w))"
proof -
  obtain ns n where k: "k = (ns, n)" by (cases k)
  obtain w1 where 1: "Reconcile K r ns n w = (Ok (), w1)" "avail w1"
    using available_cluster.Reconcile_succeeds [OF available_cluster_axioms assms(1)] s k by blast
  have "site_synced K r s (view w1)"
    using site_cluster.Reconcile_syncs [OF site_cluster_axioms _ 1(1)] s(1) k by blast
  moreover have frame: "untouched ns n (view w) (view w1)"
    using Reconcile_untouched [of ns n w r] 1(1) by simp
  ultimately show ?thesis
    using 1 k untouched_sites [OF frame]
    by (simp add: site_ready_frame [OF frame] site_synced_frame [OF frame])
qed

lemma reconcile_all_syncs:
  assumes "avail w" and "distinct keys"
    and "\<And>k. k \<in> set keys \<Longrightarrow> \<exists>s. cl_Sites (view w) k = Some s \<and> site_ready K A r s (view w)"
  shows "\<exists>w'. reconcile_all K r keys w = (Ok (), w') \<and> avail w'
    \<and> (\<forall>k \<in> set keys. \<forall>s. cl_Sites (view w) k = Some s \<longrightarrow> site_synced K r s (view w'))
    \<and> (\<forall>s. object_key (site_Meta s) \<notin> set keys \<longrightarrow>
          site_synced K r s (view w') = site_synced K r s (view w))"
  using assms
proof (induction keys arbitrary: w)
  case Nil
  then show ?case by (simp add: reconcile_all_def)
next
  case (Cons k ks)
  obtain s where s: "cl_Sites (view w) k = Some s" "site_ready K A r s (view w)"
    using Cons.prems(3) [of k] by auto
  from one_reconcile [OF Cons.prems(1) this] obtain w1 where
    1: "Reconcile K r (fst k) (snd k) w = (Ok (), w1)" "avail w1" "site_synced K r s (view w1)" and
    others: "\<And>k'. k' \<noteq> k \<Longrightarrow> cl_Sites (view w1) k' = cl_Sites (view w) k'" and
    frame: "\<And>x. object_key (site_Meta x) \<noteq> k \<Longrightarrow>
        site_ready K A r x (view w1) = site_ready K A r x (view w)
      \<and> site_synced K r x (view w1) = site_synced K r x (view w)" by blast
  have key: "object_key (site_Meta x) = k'" if "cl_Sites (view w) k' = Some x" for k' x
    using Cons.prems(1) that by (rule avail_site_key)
  have "\<exists>x. cl_Sites (view w1) k' = Some x \<and> site_ready K A r x (view w1)" if mem: "k' \<in> set ks" for k'
  proof -
    obtain x where x: "cl_Sites (view w) k' = Some x" "site_ready K A r x (view w)"
      using Cons.prems(3) [of k'] mem by auto
    moreover have "k' \<noteq> k" using Cons.prems(2) mem by auto
    ultimately show ?thesis using others [of k'] frame [of x] key [OF x(1)] by simp
  qed
  with Cons.IH [OF 1(2)] Cons.prems(2) obtain w2 where
    2: "reconcile_all K r ks w1 = (Ok (), w2)" "avail w2"
      "\<And>k' x. k' \<in> set ks \<Longrightarrow> cl_Sites (view w1) k' = Some x \<Longrightarrow> site_synced K r x (view w2)"
      "\<And>x. object_key (site_Meta x) \<notin> set ks \<Longrightarrow>
          site_synced K r x (view w2) = site_synced K r x (view w1)" by auto
  have "reconcile_all K r (k # ks) w = (Ok (), w2)"
    using 1(1) 2(1) by (simp add: reconcile_all_def act_simps case_prod_unfold)
  moreover have "site_synced K r x (view w2)"
    if "k' \<in> set (k # ks)" "cl_Sites (view w) k' = Some x" for k' x
    using that s(1) key [OF s(1)] 1(3) 2(3,4) others Cons.prems(2) by (cases "k' = k") auto
  moreover have "site_synced K r x (view w2) = site_synced K r x (view w)"
    if "object_key (site_Meta x) \<notin> set (k # ks)" for x
    using that 2(4) frame by simp
  ultimately show ?case using 2(2) by blast
qed

end

end
