(* ===== verification/Executions.thy ===== *)
theory Executions
  imports Confinement
begin

text \<open>
  Executions of the operator in its environment: reconciles of any Site with any outcome,
  a process that dies between two steps of a reconcile, and whatever else happens in the
  cluster, in any order and any number. What a reconcile keeps in every outcome becomes an
  invariant of all executions; here, that a credential once stored is never changed or lost.
\<close>

section \<open>Steps\<close>

inductive operator_step ::
  "'w kube \<Rightarrow> SiteReconciler \<Rightarrow> ('w \<Rightarrow> 'w \<Rightarrow> bool) \<Rightarrow> 'w \<Rightarrow> 'w \<Rightarrow> bool"
  for K :: "'w kube" and r :: SiteReconciler and env :: "'w \<Rightarrow> 'w \<Rightarrow> bool" where
  reconciled: "operator_step K r env w (snd (Reconcile K r ns n w))"
| crashed: "tc_Get (k_Sites K) ns n w = (Ok site, w1) \<Longrightarrow>
    operator_step K r env w (snd (run_steps (take i (reconcile_steps K r site)) w1))"
| environment: "env w w' \<Longrightarrow> operator_step K r env w w'"

abbreviation operator_runs ::
  "'w kube \<Rightarrow> SiteReconciler \<Rightarrow> ('w \<Rightarrow> 'w \<Rightarrow> bool) \<Rightarrow> 'w \<Rightarrow> 'w \<Rightarrow> bool" where
  "operator_runs K r env \<equiv> (operator_step K r env)\<^sup>*\<^sup>*"

text \<open>An invariant of the reconciles and of the environment is one of the executions.\<close>

lemma operator_step_keeps:
  assumes "operator_step K r env w w'" and "I w"
    and reconcile: "\<And>ns n. keeps I (Reconcile K r ns n)"
    and get: "\<And>ns n. keeps I (tc_Get (k_Sites K) ns n)"
    and steps: "\<And>ns n s v v' m. tc_Get (k_Sites K) ns n v = (Ok s, v') \<Longrightarrow>
      m \<in> set (reconcile_steps K r s) \<Longrightarrow> keeps I m"
    and env: "\<And>v v'. env v v' \<Longrightarrow> I v \<Longrightarrow> I v'"
  shows "I w'"
  using assms(1)
proof (cases rule: operator_step.cases)
  case (reconciled ns n)
  with keepsD [OF reconcile \<open>I w\<close>] show ?thesis by simp
next
  case (crashed ns n site w1 i)
  have "I w1" using keepsD [OF get \<open>I w\<close>] crashed(2) by (metis snd_conv)
  moreover have "keeps I (run_steps (take i (reconcile_steps K r site)))"
    using steps [OF crashed(2)] by (auto intro!: keeps_run_steps dest: in_set_takeD)
  ultimately show ?thesis using crashed(1) by (simp add: keepsD)
qed (use env \<open>I w\<close> in blast)

section \<open>Credentials\<close>

text \<open>Every entry of every Secret of \<open>m\<close> is in \<open>m'\<close> with the same value.\<close>

definition secrets_kept :: "(object_key \<rightharpoonup> Secret) \<Rightarrow> (object_key \<rightharpoonup> Secret) \<Rightarrow> bool" where
  "secrets_kept m m' \<longleftrightarrow>
     (\<forall>k s d. m k = Some s \<longrightarrow> sec_Data s = Some d \<longrightarrow>
       (\<exists>s' d'. m' k = Some s' \<and> sec_Data s' = Some d' \<and> d \<subseteq>\<^sub>m d'))"

lemma secrets_kept_refl [simp]: "secrets_kept m m"
  by (auto simp: secrets_kept_def)

lemma secrets_kept_trans: "secrets_kept m m' \<Longrightarrow> secrets_kept m' m'' \<Longrightarrow> secrets_kept m m''"
  unfolding secrets_kept_def by (meson map_le_trans)

lemma secrets_kept_upd:
  assumes "sec_Data z = Some e"
    and "\<And>s d. m k = Some s \<Longrightarrow> sec_Data s = Some d \<Longrightarrow> d \<subseteq>\<^sub>m e"
  shows "secrets_kept m (m(k \<mapsto> z))"
  using assms by (simp add: secrets_kept_def)

text \<open>
  What is asked of the API server, whether it answers or not, and whoever else writes at the
  same time: a \<open>CreateOrUpdate\<close> of a Secret changes nothing or stores the callback's result on
  the Secret that was there (updates carry the version that was read, so a concurrent
  change makes them fail), and no other call touches a Secret.
\<close>

locale secret_custody =
  fixes K :: "'w kube" and view :: "'w \<Rightarrow> cluster"
  assumes secret_write:
      "(\<And>x v. cl_Secrets (view (snd (f x v))) = cl_Secrets (view v)) \<Longrightarrow>
       cl_Secrets (view (snd (tc_CreateOrUpdate (k_Secrets K) obj f w))) = cl_Secrets (view w)
       \<or> (\<exists>x w0 y w1 z. x = (case cl_Secrets (view w) (object_key (sec_Meta obj)) of
              None \<Rightarrow> obj | Some s \<Rightarrow> s)
            \<and> f x w0 = (Ok y, w1) \<and> secret_stored_as y z
            \<and> cl_Secrets (view (snd (tc_CreateOrUpdate (k_Secrets K) obj f w)))
              = (cl_Secrets (view w))(object_key (sec_Meta obj) \<mapsto> z))"
    and other_calls: "site_writes K (\<lambda>w. P (cl_Secrets (view w))) ns nm"
begin

text \<open>The callback only adds keys, so what is stored has every entry of what was there.\<close>

lemma reconcileSecret_keeps:
  "keeps (\<lambda>w. secrets_kept m (cl_Secrets (view w))) (reconcileSecret K owner s)"
proof (rule keepsI)
  fix w assume kept: "secrets_kept m (cl_Secrets (view w))"
  let ?obj = "\<lparr>sec_Meta = new_meta (site_Namespace s) (site_secret_name s), sec_Data = None\<rparr>"
  let ?f = "mutate_secret K owner s" and ?here = "cl_Secrets (view w)"
  let ?k = "object_key (sec_Meta ?obj)"
  let ?after = "cl_Secrets (view (snd (tc_CreateOrUpdate (k_Secrets K) ?obj ?f w)))"
  have "cl_Secrets (view (snd (?f x v))) = cl_Secrets (view v)" for x v
    using keepsD [OF site_writes.keeps_callbacks(1) [OF other_calls
        [where P = "\<lambda>c. c = cl_Secrets (view v)"]], of v] by simp
  then consider "?after = ?here"
    | x w0 y w1 z where "x = (case ?here ?k of None \<Rightarrow> ?obj | Some s \<Rightarrow> s)"
        "?f x w0 = (Ok y, w1)" "secret_stored_as y z" "?after = ?here(?k \<mapsto> z)"
    using secret_write [of ?f ?obj w] by blast
  then have "secrets_kept ?here ?after"
  proof cases
    case 1
    then show ?thesis by simp
  next
    case (2 x w0 y w1 z)
    let ?d0 = "case sec_Data x of None \<Rightarrow> Map.empty | Some d \<Rightarrow> d"
    from 2(2) obtain d where d: "fill_secret_data K s (?d0, w0) = (d, w1)" "sec_Data y = Some d"
      by (auto simp: mutate_secret_Ok)
    have "?d0 \<subseteq>\<^sub>m d" using fill_secret_data_le [of "(?d0, w0)" K s] d(1) by simp
    moreover have "sec_Data z = Some d" using 2(3) d(2) by (simp add: secret_stored_as_def)
    ultimately show ?thesis
      unfolding 2(4) using 2(1) by (intro secrets_kept_upd) auto
  qed
  with kept show "secrets_kept m (cl_Secrets (view (snd (reconcileSecret K owner s w))))"
    unfolding reconcileSecret_def by (rule secrets_kept_trans)
qed

lemma Reconcile_keeps_secrets:
  "keeps (\<lambda>w. secrets_kept m (cl_Secrets (view w))) (Reconcile K r ns n)"
  using other_calls reconcileSecret_keeps by (rule site_writes.keeps_Reconcile_if)

lemma run_keeps_secrets:
  assumes env: "\<And>v v'. env v v' \<Longrightarrow> secrets_kept (cl_Secrets (view v)) (cl_Secrets (view v'))"
    and "operator_runs K r env w w'"
  shows "secrets_kept (cl_Secrets (view w)) (cl_Secrets (view w'))"
  using assms(2)
proof (induction rule: rtranclp_induct)
  case (step v v')
  let ?I = "\<lambda>u. secrets_kept (cl_Secrets (view w)) (cl_Secrets (view u))"
  have "keeps ?I m" if "tc_Get (k_Sites K) ns n u = (Ok s, u')" "m \<in> set (reconcile_steps K r s)"
    for ns n s u u' m
    using site_writes.keeps_reconcile_steps [OF other_calls surjective_pairing
        reconcileSecret_keeps that(2)] .
  moreover have "keeps ?I (tc_Get (k_Sites K) ns n)" for ns n
    using other_calls by (rule site_writes.get_site_keeps)
  ultimately show ?case
    using step operator_step_keeps [of K r env v v' ?I] Reconcile_keeps_secrets secrets_kept_trans env
    by blast
qed simp

end

end
