(* ===== verification/MemFleet.thy ===== *)
theory MemFleet
  imports MemCluster Progress Executions
begin

text \<open>
  The API server in memory also answers: with no conflicts left to inject and every object
  stored under its own key it is an \<open>available_cluster\<close>, so whole passes over several Sites
  can be run on it.
\<close>

section \<open>Availability\<close>

definition keyed :: "('o \<Rightarrow> ObjectMeta) \<Rightarrow> (object_key \<rightharpoonup> 'o) \<Rightarrow> bool" where
  "keyed meta m \<longleftrightarrow> (\<forall>k x. m k = Some x \<longrightarrow> object_key (meta x) = k)"

lemma keyedD: "keyed meta m \<Longrightarrow> m k = Some x \<Longrightarrow> object_key (meta x) = k"
  unfolding keyed_def by blast

lemma keyed_empty [simp]: "keyed meta Map.empty"
  by (simp add: keyed_def)

lemma keyed_upd: "keyed meta m \<Longrightarrow> object_key (meta x) = k \<Longrightarrow> keyed meta (m(k \<mapsto> x))"
  by (simp add: keyed_def)

lemma keyed_delete: "keyed meta m \<Longrightarrow> keyed meta (m(k := None))"
  by (simp add: keyed_def)

definition well_keyed :: "cluster \<Rightarrow> bool" where
  "well_keyed c \<longleftrightarrow>
     keyed site_Meta (cl_Sites c) \<and> keyed sec_Meta (cl_Secrets c)
     \<and> keyed cm_Meta (cl_ConfigMaps c) \<and> keyed dep_Meta (cl_Deployments c)
     \<and> keyed svc_Meta (cl_Services c) \<and> keyed ingr_Meta (cl_Ingresses c)
     \<and> keyed pvc_Meta (cl_PVCs c) \<and> keyed db_Meta (cl_Databases c)
     \<and> keyed usr_Meta (cl_Users c) \<and> keyed gr_Meta (cl_Grants c)"

definition mem_avail :: "mem \<Rightarrow> bool" where
  "mem_avail w \<longleftrightarrow> mem_Conflicts w = 0 \<and> well_keyed (mem_Cluster w)"

lemma mem_retry_done: "f w = (Ok (), w') \<Longrightarrow> mem_RetryOnConflict f w = (Ok (), w')"
  by (simp add: mem_RetryOnConflict_def numeral_eq_Suc)

lemma mem_available_store:
  fixes meta :: "'o \<Rightarrow> ObjectMeta"
  assumes keyed: "\<And>c. well_keyed c \<Longrightarrow> keyed meta (get c)"
    and put: "\<And>c k x. well_keyed c \<Longrightarrow> object_key (meta x) = k \<Longrightarrow> well_keyed (put ((get c)(k \<mapsto> x)) c)"
    and stamp: "\<And>t x. object_key (meta (set_meta (stamp t (meta x)) x)) = object_key (meta x)"
  shows "available_store mem_avail mem_Cluster (mem_client get put meta set_meta admit) get meta
    admit mem_RetryOnConflict"
proof
  have stored: "object_key (meta x) = k" if "well_keyed c" "get c k = Some x" for c k x
    using keyedD [OF keyed] that .
  show "mem_RetryOnConflict m w = (Ok (), w')" if "m w = (Ok (), w')" for m w w'
    using that by (rule mem_retry_done)
  show "object_key (meta x) = k" if "mem_avail w" "get (mem_Cluster w) k = Some x" for w k x
    using that stored unfolding mem_avail_def by blast
  fix w :: mem and obj and f :: "'o \<Rightarrow> (mem, 'o) act"
  let ?x = "case get (mem_Cluster w) (object_key (meta obj)) of None \<Rightarrow> obj | Some s \<Rightarrow> s"
  assume w: "mem_avail w" and f: "accepts mem_avail meta f ?x"
    and ok: "admitted admit f obj (get (mem_Cluster w) (object_key (meta obj)))"
  then obtain y w1 where y: "f ?x w = (Ok y, w1)" "mem_avail w1"
      "object_key (meta y) = object_key (meta ?x)"
    by (auto simp: accepts_def)
  have "object_key (meta ?x) = object_key (meta obj)"
    using w stored [of "mem_Cluster w" "object_key (meta obj)"]
    by (simp add: mem_avail_def split: option.splits)
  moreover have "admit (get (mem_Cluster w) (object_key (meta obj))) y"
    using ok y(1) unfolding admitted_def by blast
  ultimately show "\<exists>w'. tc_CreateOrUpdate (mem_client get put meta set_meta admit) obj f w = (Ok (), w')
      \<and> mem_avail w'"
    using y by (auto simp: mem_create_or_update_Ok mem_avail_def mem_store_def stamp intro: put)
qed

lemma mem_available_lookup:
  assumes keyed: "\<And>c. well_keyed c \<Longrightarrow> keyed meta (get c)"
  shows "available_lookup mem_avail (mem_client get put meta set_meta admit) is_not_found"
  by unfold_locales
    (use keyedD [OF keyed] in \<open>auto simp: mem_get_def mem_avail_def not_found_error_def
      is_not_found_def split: option.splits\<close>)

lemma mem_available_delete:
  assumes "\<And>c k. well_keyed c \<Longrightarrow> well_keyed (put ((get c)(k := None)) c)"
    and "mem_avail w" and "get (mem_Cluster w) (object_key (meta x)) \<noteq> None"
  shows "\<exists>w'. tc_Delete (mem_client get put meta set_meta admit) x w = (Ok (), w') \<and> mem_avail w'"
  using assms(2,3) assms(1) [of "mem_Cluster w" "object_key (meta x)"]
  by (auto simp: mem_delete_def mem_store_def mem_avail_def)

lemma object_key_stamp [simp]: "object_key (stamp t m) = object_key m"
  by (simp add: object_key_def stamp_def)

lemmas well_keyed_put = keyed_upd keyed_delete

text \<open>What the server in memory admits, kind by kind.\<close>

definition mem_admission :: admission where
  "mem_admission =
     \<lparr>ad_Secret = admit_any, ad_Database = admit_any, ad_User = admit_any, ad_Grant = admit_any,
      ad_ConfigMap = admit_any, ad_Deployment = admit_Deployment, ad_Service = admit_any,
      ad_Ingress = admit_any, ad_PVC = admit_PVC\<rparr>"

lemma mem_admission_simps [simp]:
  "ad_Secret mem_admission = admit_any" "ad_Database mem_admission = admit_any"
  "ad_User mem_admission = admit_any" "ad_Grant mem_admission = admit_any"
  "ad_ConfigMap mem_admission = admit_any" "ad_Deployment mem_admission = admit_Deployment"
  "ad_Service mem_admission = admit_any" "ad_Ingress mem_admission = admit_any"
  "ad_PVC mem_admission = admit_PVC"
  by (simp_all add: mem_admission_def)

interpretation mem_fleet: fleet_cluster mem_kube mem_Cluster site is_conflict is_not_found mem_avail
    mem_admission for site
proof (intro fleet_cluster.intro fleet_cluster_axioms.intro available_cluster.intro
    available_cluster_axioms.intro available_removal.intro available_removal_axioms.intro)
  show "\<exists>w'. k_UpdateSiteStatus mem_kube (s\<lparr>site_Status := (site_Status s)\<lparr>st_Conditions := cs\<rparr>\<rparr>) w
      = (Ok (), w') \<and> mem_avail w'"
    if "mem_avail w" "cl_Sites (mem_Cluster w) (object_key (site_Meta s)) = Some s" for s w cs
    using that by (simp add: mem_UpdateSiteStatus_def mem_store_def mem_avail_def well_keyed_def keyed_upd)
  show "\<exists>m'. k_SetControllerReference mem_kube owner m = Ok m'"
    if "adoptable mem_kube owner m" "om_Namespace m = om_Namespace owner" for owner m
    using that by (auto simp: adoptable_def mem_SetControllerReference_def mem_IsControlledBy_def
        mem_controller_def split: option.splits)
  show "object_key (site_Meta s) = k" if "mem_avail w" "cl_Sites (mem_Cluster w) k = Some s" for w k s
    using that by (auto simp: mem_avail_def well_keyed_def dest: keyedD)
  show "\<exists>w'. tc_Delete (k_Ingresses mem_kube) x w = (Ok (), w') \<and> mem_avail w'"
    if "mem_avail w" "cl_Ingresses (mem_Cluster w) (object_key (ingr_Meta x)) \<noteq> None" for w x
    unfolding mem_kube_clients using that
    by (intro mem_available_delete) (auto simp: well_keyed_def keyed_delete)
  show "\<exists>w'. tc_Delete (k_PVCs mem_kube) x w = (Ok (), w') \<and> mem_avail w'"
    if "mem_avail w" "cl_PVCs (mem_Cluster w) (object_key (pvc_Meta x)) \<noteq> None" for w x
    unfolding mem_kube_clients using that
    by (intro mem_available_delete) (auto simp: well_keyed_def keyed_delete)
  show "entropy_keeps mem_kube mem_avail"
    by (simp add: entropy_keeps_def keeps_def mem_RandRead_def mem_avail_def)
  show "keeps mem_avail (k_SetStatusCondition mem_kube cs c)" for cs c
    by (simp add: keeps_def mem_SetStatusCondition_def)
  show "site_confined mem_kube (\<lambda>w. untouched ns nm c (mem_Cluster w)) ns nm" for ns nm c
    by (rule mem_confined.site_confined_axioms)
qed (simp_all only: mem_kube_clients mem_kube_simps mem_admission_simps mem.site_cluster_axioms,
    (rule mem_available_store mem_available_lookup mem_client_removal;
      simp add: well_keyed_def keyed_upd stored_as_defs)+)

section \<open>Two Sites\<close>

definition shop_site :: Site where
  "shop_site = example_site\<lparr>site_Meta := (new_meta ''default'' ''shop'')\<lparr>om_UID := ''uid-2''\<rparr>\<rparr>"

definition two_sites_world :: mem where
  "two_sites_world =
     \<lparr>mem_Cluster = empty_cluster\<lparr>cl_Sites :=
        [(''default'', ''blog'') \<mapsto> full_site, (''default'', ''shop'') \<mapsto> shop_site]\<rparr>,
      mem_Clock = 7, mem_Seed = 0, mem_Conflicts = 0\<rparr>"

lemma two_sites_avail: "mem_avail two_sites_world"
  by (auto simp: mem_avail_def two_sites_world_def well_keyed_def empty_cluster_def keyed_def
      object_key_def shop_site_def)

lemma own_or_new_None [simp]: "own_or_new K owner meta None"
  by (simp add: own_or_new_def)

lemma writable_None [simp]:
  "writable K owner meta admit_any f obj None"
  "writable K owner dep_Meta admit_Deployment f' obj' None"
  "writable K owner pvc_Meta admit_PVC f'' obj'' None"
  by (simp_all add: writable_def admitted_def)

lemma two_sites_ready:
  "site_ready mem_kube mem_admission no_defaults full_site (mem_Cluster two_sites_world)"
  "site_ready mem_kube mem_admission no_defaults shop_site (mem_Cluster two_sites_world)"
  by (simp_all add: site_ready_def ready_defs Let_def two_sites_world_def empty_cluster_def
      resolveMariaDBRef_def own_claim_def full_spec_def claim_size_def mem_MustParse_def
      provisionEnabled_def shop_site_def example_site_def example_spec_def)

text \<open>Being ready is more than finding the names free: a claim cannot get another size.\<close>

lemma resized_claim_not_ready:
  assumes "own_claim site = Some p" and "mem_MustParse (claim_size p) = Ok q"
    and stored: "cl_PVCs c (site_Namespace site, pvc_name site) = Some x"
    and other: "pvc_Requests x = Some m" "m ''storage'' \<noteq> Some q"
  shows "\<not> site_ready mem_kube mem_admission r site c"
proof
  let ?f = "mutate_pvc mem_kube (site_Meta site) site (claim_size p)
    (claim_storage_class p (rc_DefaultStorageClassName r))"
  let ?m = "(pvc_Meta x)\<lparr>om_Labels := [''app'' \<mapsto> site_Name site]\<rparr>"
  assume "site_ready mem_kube mem_admission r site c"
  then have "writable mem_kube (site_Meta site) pvc_Meta admit_PVC ?f (new_pvc site) (Some x)"
    using assms(1) stored by (simp add: site_ready_def pvc_ready_def Let_def)
  then have adopt: "adoptable mem_kube (site_Meta site) (pvc_Meta x)"
    and admit: "\<And>v y v'. ?f x v = (Ok y, v') \<Longrightarrow> admit_PVC (Some x) y"
    by (auto simp: writable_def own_or_new_def admitted_def)
  from adopt obtain m' where "mem_SetControllerReference (site_Meta site) ?m = Ok m'"
    by (auto simp: adoptable_def mem_SetControllerReference_def mem_IsControlledBy_def
        mem_controller_def split: option.splits)
  then obtain y v where y: "?f x v = (Ok y, v)" "pvc_Requests y = Some (m(''storage'' \<mapsto> q))"
    using assms(2) other(1) by (auto simp: mutate_pvc_Ok)
  from admit [OF y(1)] y(2) other have "m(''storage'' \<mapsto> q) = m" by (simp add: admit_PVC_def)
  with other(2) show False by (metis fun_upd_same)
qed

section \<open>Custody of the Secrets\<close>

interpretation mem_custody: secret_custody mem_kube mem_Cluster
proof (rule secret_custody.intro)
  fix f :: "Secret \<Rightarrow> (mem, Secret) act" and obj :: Secret and w :: mem
  assume f: "\<And>x v. cl_Secrets (mem_Cluster (snd (f x v))) = cl_Secrets (mem_Cluster v)"
  let ?k = "object_key (sec_Meta obj)" and ?here = "cl_Secrets (mem_Cluster w)"
  let ?x = "case ?here ?k of None \<Rightarrow> obj | Some s \<Rightarrow> s"
  let ?after = "cl_Secrets (mem_Cluster (snd (tc_CreateOrUpdate (k_Secrets mem_kube) obj f w)))"
  obtain r w1 where r: "f ?x w = (r, w1)" by (cases "f ?x w")
  with f [of ?x w] have w1: "cl_Secrets (mem_Cluster w1) = ?here" by simp
  show "?after = ?here \<or> (\<exists>x w0 y w1 z. x = ?x \<and> f x w0 = (Ok y, w1) \<and> secret_stored_as y z
      \<and> ?after = ?here(?k \<mapsto> z))"
  proof (cases "\<exists>y. r = Ok y \<and> object_key (sec_Meta y) = ?k \<and> mem_Conflicts w1 = 0")
    case False
    with r w1 show ?thesis by (cases r) (auto simp: mem_create_or_update_def Let_def)
  next
    case True
    then obtain y where y: "r = Ok y" "object_key (sec_Meta y) = ?k" "mem_Conflicts w1 = 0" by blast
    let ?z = "if ?here ?k = None then y\<lparr>sec_Meta := stamp (mem_Clock w1) (sec_Meta y)\<rparr> else y"
    have "?after = ?here(?k \<mapsto> ?z)"
      using r y w1 by (simp add: mem_create_or_update_def mem_store_def Let_def)
    moreover have "secret_stored_as y ?z" by (simp add: secret_stored_as_def)
    ultimately show ?thesis using r y(1) by blast
  qed
next
  fix P :: "(object_key \<rightharpoonup> Secret) \<Rightarrow> bool" and ns nm
  show "site_writes mem_kube (\<lambda>w. P (cl_Secrets (mem_Cluster w))) ns nm"
  proof (intro site_writes.intro site_writes_axioms.intro)
    show "keeps (\<lambda>w. P (cl_Secrets (mem_Cluster w))) (k_UpdateSiteStatus mem_kube s)" for s
      by (auto simp: keeps_def mem_UpdateSiteStatus_def mem_store_def split: option.splits)
    show "keeps (\<lambda>w. P (cl_Secrets (mem_Cluster w))) (k_RetryOnConflict mem_kube f)"
      if "keeps (\<lambda>w. P (cl_Secrets (mem_Cluster w))) f" for f
      using that by (simp add: mem_RetryOnConflict_def keeps_mem_attempts)
  qed (auto intro!: mem_client_writes [where U = "\<lambda>c. P (cl_Secrets c)"]
      mem_client_removes [where U = "\<lambda>c. P (cl_Secrets c)"]
      simp: keeps_def entropy_keeps_def mem_RandRead_def mem_SetStatusCondition_def mem_get_def
      split: option.splits if_splits)
qed

text \<open>A Site whose Secret holds a key already, and an environment in which Sites are edited.\<close>

definition kept_secret :: Secret where
  "kept_secret = \<lparr>sec_Meta = new_meta ''default'' ''blog-site-secret'',
     sec_Data = Some [''AUTH_KEY'' \<mapsto> ''old'']\<rparr>"

definition custody_world :: mem where
  "custody_world =
     \<lparr>mem_Cluster = empty_cluster\<lparr>cl_Sites := [(''default'', ''blog'') \<mapsto> full_site],
        cl_Secrets := [(''default'', ''blog-site-secret'') \<mapsto> kept_secret]\<rparr>,
      mem_Clock = 7, mem_Seed = 0, mem_Conflicts = 0\<rparr>"

definition sites_edited :: "mem \<Rightarrow> mem \<Rightarrow> bool" where
  "sites_edited w w' \<longleftrightarrow>
     (\<exists>m n. w' = w\<lparr>mem_Cluster := (mem_Cluster w)\<lparr>cl_Sites := m\<rparr>, mem_Conflicts := n\<rparr>)"

end
