(* ===== verification/WPCron.thy ===== *)
theory WPCron
  imports SiteService
begin

text \<open>
  \<open>cmd/wpcron.go\<close>: the one-shot run that requests \<open>wp-cron.php\<close> of every Site. The API
  client and the HTTP client are parameters; log lines are not modelled.
\<close>

section \<open>Parameters\<close>

text \<open>
  \<open>client.New\<close>, \<open>c.List\<close>, \<open>http.NewRequestWithContext\<close> (whose outcome depends on the URL
  only) and \<open>httpClient.Do\<close>, given the request's timeout in nanoseconds (the client's own is the
  same) and answering with an error or a status code.
\<close>

record 'w cron_env =
  cr_NewClient :: "('w, unit) act"
  cr_ListSites :: "('w, Site list) act"
  cr_NewRequest :: "string \<Rightarrow> go_error option"
  cr_Do :: "nat \<Rightarrow> string \<Rightarrow> 'w \<Rightarrow> (go_error + nat) \<times> 'w"

section \<open>One site\<close>

definition siteCronURL :: "Site \<Rightarrow> string" where
  "siteCronURL site =
     ''http://'' @ site_Name site @ ''.'' @ site_Namespace site
     @ ''.svc.cluster.local/wp-cron.php?doing_wp_cron''"

definition wpCronHTTPTimeout :: nat where
  "wpCronHTTPTimeout = 20 * 1000000000"

definition StatusBadRequest :: nat where
  "StatusBadRequest = 400"

definition triggerWPCron :: "'w cron_env \<Rightarrow> string \<Rightarrow> 'w \<Rightarrow> (nat \<times> go_error option) \<times> 'w" where
  "triggerWPCron E url w =
     (case cr_NewRequest E url of
        Some err \<Rightarrow> ((0, Some err), w)
      | None \<Rightarrow>
          (case cr_Do E wpCronHTTPTimeout url w of
             (Inl err, w') \<Rightarrow> ((0, Some err), w')
           | (Inr status, w') \<Rightarrow>
               if status \<ge> StatusBadRequest
               then ((status, Some (Errorf (''HTTP '' @ show_nat status))), w')
               else ((status, None), w')))"

section \<open>All sites\<close>

definition site_ref :: "Site \<Rightarrow> string" where
  "site_ref site = site_Namespace site @ ''/'' @ site_Name site"

text \<open>The loop, with the two named results as accumulator.\<close>

fun trigger_loop ::
  "'w cron_env \<Rightarrow> (Site \<Rightarrow> string) \<Rightarrow> Site list \<Rightarrow> nat \<Rightarrow> string list \<Rightarrow> 'w
   \<Rightarrow> (nat \<times> string list) \<times> 'w" where
  "trigger_loop E urlFor [] triggered unreachable w = ((triggered, unreachable), w)"
| "trigger_loop E urlFor (site # sites) triggered unreachable w =
     (case triggerWPCron E (urlFor site) w of
        ((status, Some err), w') \<Rightarrow>
          trigger_loop E urlFor sites triggered (unreachable @ [site_ref site]) w'
      | ((status, None), w') \<Rightarrow> trigger_loop E urlFor sites (triggered + 1) unreachable w')"

definition triggerSites ::
  "'w cron_env \<Rightarrow> (Site \<Rightarrow> string) \<Rightarrow> Site list \<Rightarrow> 'w \<Rightarrow> (nat \<times> string list) \<times> 'w" where
  "triggerSites E urlFor sites w = trigger_loop E urlFor sites 0 [] w"

definition cronRunError :: "nat \<Rightarrow> nat \<Rightarrow> string list \<Rightarrow> go_error option" where
  "cronRunError sites triggered unreachable =
     (if sites > 0 \<and> triggered = 0
      then Some (Errorf (''wp-cron could not reach any site ('' @ show_nat sites @ ''): ''
             @ show_strings unreachable))
      else None)"

definition runWPCronOnce :: "'w cron_env \<Rightarrow> ('w, unit) act" where
  "runWPCronOnce E =
     and_then (wrap_error ''building client'' (cr_NewClient E)) (\<lambda>_.
     and_then (wrap_error ''listing sites'' (cr_ListSites E)) (\<lambda>sites w.
       case triggerSites E siteCronURL sites w of
         ((triggered, unreachable), w') \<Rightarrow>
           (of_error (cronRunError (length sites) triggered unreachable), w')))"

section \<open>Reference: every site is tried once, in order\<close>

text \<open>The answers of all sites, whatever the earlier ones answered.\<close>

fun answers :: "'w cron_env \<Rightarrow> string list \<Rightarrow> 'w \<Rightarrow> go_error option list \<times> 'w" where
  "answers E [] w = ([], w)"
| "answers E (url # urls) w =
     (case triggerWPCron E url w of
        ((_, err), w') \<Rightarrow> (case answers E urls w' of (errs, w'') \<Rightarrow> (err # errs, w'')))"

definition failed :: "Site list \<Rightarrow> go_error option list \<Rightarrow> Site list" where
  "failed sites errs = map fst (filter (\<lambda>(_, err). err \<noteq> None) (zip sites errs))"

lemma length_answers: "length (fst (answers E urls w)) = length urls"
  by (induction urls arbitrary: w) (auto split: prod.splits, (metis fst_conv)+)

lemma trigger_loop_answers:
  "trigger_loop E urlFor sites t u w =
     (case answers E (map urlFor sites) w of
        (errs, w') \<Rightarrow> ((t + length (filter (\<lambda>e. e = None) errs),
                        u @ map site_ref (failed sites errs)), w'))"
proof (induction sites arbitrary: t u w)
  case Nil
  then show ?case by (simp add: failed_def)
next
  case (Cons s sites)
  obtain status err w1 where one: "triggerWPCron E (urlFor s) w = ((status, err), w1)"
    by (metis prod.exhaust)
  then show ?case by (cases err) (auto simp: Cons.IH failed_def split: prod.splits)
qed

lemma length_failed:
  "length errs = length sites \<Longrightarrow>
   length (filter (\<lambda>e. e = None) errs) + length (failed sites errs) = length sites"
proof (induction errs arbitrary: sites)
  case (Cons e errs)
  then obtain s ss where "sites = s # ss" by (cases sites) auto
  with Cons show ?case by (auto simp: failed_def)
qed (simp add: failed_def)

lemma triggerSites_answers:
  "triggerSites E urlFor sites w =
     (case answers E (map urlFor sites) w of
        (errs, w') \<Rightarrow> ((length (filter (\<lambda>e. e = None) errs), map site_ref (failed sites errs)), w'))"
  by (simp add: triggerSites_def trigger_loop_answers)

lemma no_success_iff:
  "length (filter (\<lambda>e. e = None) errs) = 0 \<longleftrightarrow> None \<notin> set errs"
  by (induction errs) auto

section \<open>An HTTP client for concrete runs\<close>

text \<open>A world that is the list of status codes still to be answered, and the URLs asked so far.\<close>

definition scripted_cron :: "Site list \<Rightarrow> (nat list \<times> string list) cron_env" where
  "scripted_cron sites =
     \<lparr>cr_NewClient = ret (), cr_ListSites = ret sites, cr_NewRequest = (\<lambda>_. None),
      cr_Do = (\<lambda>timeout url (codes, urls).
        case codes of
          [] \<Rightarrow> (Inl (LibError 0 ''connection refused''), (codes, urls @ [url]))
        | c # cs \<Rightarrow> (Inr c, (cs, urls @ [url])))\<rparr>"

lemma scripted_triggerWPCron:
  "\<exists>r codes'. triggerWPCron (scripted_cron ss) url (codes, urls) = (r, (codes', urls @ [url]))"
  by (cases codes) (auto simp: triggerWPCron_def scripted_cron_def)

lemma answers_asks_all:
  "snd (snd (answers (scripted_cron ss) us (codes, urls))) = urls @ us"
proof (induction us arbitrary: codes urls)
  case (Cons u us)
  obtain r codes' where "triggerWPCron (scripted_cron ss) u (codes, urls) = (r, (codes', urls @ [u]))"
    using scripted_triggerWPCron by blast
  then show ?case
    using Cons.IH [of codes' "urls @ [u]"] by (cases r) (auto split: prod.splits)
qed simp

section \<open>Time\<close>

text \<open>A request with a deadline is over by then: answered, failed, or given up.\<close>

locale timed_client =
  fixes clock :: "'w \<Rightarrow> nat" and request :: "nat \<Rightarrow> string \<Rightarrow> 'w \<Rightarrow> (go_error + nat) \<times> 'w"
  assumes over_by_deadline: "clock (snd (request d url w)) \<le> clock w + d"
begin

lemma triggerWPCron_in_time:
  assumes "cr_Do E = request"
  shows "clock (snd (triggerWPCron E url w)) \<le> clock w + wpCronHTTPTimeout"
  using over_by_deadline [of wpCronHTTPTimeout url w] assms
  by (auto simp: triggerWPCron_def split: option.splits prod.splits sum.splits)

lemma answers_in_time_of:
  assumes "cr_Do E = request"
  shows "clock (snd (answers E urls w)) \<le> clock w + length urls * wpCronHTTPTimeout"
proof (induction urls arbitrary: w)
  case (Cons url urls)
  obtain res w1 where one: "triggerWPCron E url w = (res, w1)" by fastforce
  with triggerWPCron_in_time [OF assms, of url w] Cons.IH [of w1]
  show ?case by (cases res; cases "answers E urls w1") simp
qed simp

end

lemma timed_answers:
  "timed_client clock (cr_Do E) \<Longrightarrow>
   clock (snd (answers E urls w)) \<le> clock w + length urls * wpCronHTTPTimeout"
  by (rule timed_client.answers_in_time_of) simp_all

text \<open>A client whose requests all hang: the clock runs to the deadline of each.\<close>

definition hanging_cron :: "Site list \<Rightarrow> (nat \<times> string list) cron_env" where
  "hanging_cron sites =
     \<lparr>cr_NewClient = ret (), cr_ListSites = ret sites, cr_NewRequest = (\<lambda>_. None),
      cr_Do = (\<lambda>timeout url (now, urls).
        (Inl (LibError 0 ''context deadline exceeded''), (now + timeout, urls @ [url])))\<rparr>"

interpretation hanging: timed_client fst "cr_Do (hanging_cron sites)" for sites
  by unfold_locales (simp add: hanging_cron_def split: prod.splits)

section \<open>Properties\<close>

text \<open>
  C32. One run tries every site once, in order, whatever the others answer: the counts and names
  are those of the reference, every site is counted as triggered or listed as unreachable,
  and on a client that records them the requests are the sites' URLs.
\<close>

theorem triggerSites_tries_all:
  "triggerSites E urlFor sites w =
     (case answers E (map urlFor sites) w of
        (errs, w') \<Rightarrow> ((length (filter (\<lambda>e. e = None) errs), map site_ref (failed sites errs)), w'))
   \<and> (case fst (triggerSites E urlFor sites w) of
        (triggered, unreachable) \<Rightarrow> triggered + length unreachable = length sites)
   \<and> snd (snd (triggerSites (scripted_cron all) urlFor sites (codes, []))) = map urlFor sites"
proof (intro conjI)
  have "length (fst (answers E (map urlFor sites) w)) = length sites"
    by (simp add: length_answers)
  then show "case fst (triggerSites E urlFor sites w) of
      (triggered, unreachable) \<Rightarrow> triggered + length unreachable = length sites"
    by (auto simp: triggerSites_answers length_failed split: prod.splits)
  show "snd (snd (triggerSites (scripted_cron all) urlFor sites (codes, []))) = map urlFor sites"
    using answers_asks_all [of all "map urlFor sites" codes "[]"]
    by (auto simp: triggerSites_answers split: prod.splits)
qed (rule triggerSites_answers)

text \<open>
  C33. A run whose sites could be listed fails exactly when there are sites and none of them
  answered; a single site that is down does not fail it.
\<close>

theorem runWPCronOnce_fails_iff:
  assumes "cr_NewClient E w = (Ok (), w1)" and "cr_ListSites E w1 = (Ok sites, w2)"
  shows "(\<exists>e. fst (runWPCronOnce E w) = Err e)
      = (sites \<noteq> [] \<and> None \<notin> set (fst (answers E (map siteCronURL sites) w2)))
    \<and> (\<forall>p. fst (runWPCronOnce E w) \<noteq> Panic p)"
proof -
  obtain errs w3 where errs: "answers E (map siteCronURL sites) w2 = (errs, w3)" by fastforce
  have "fst (runWPCronOnce E w)
      = of_error (cronRunError (length sites) (length (filter (\<lambda>e. e = None) errs))
          (map site_ref (failed sites errs)))"
    using assms errs by (simp add: runWPCronOnce_def act_simps triggerSites_answers)
  with errs show ?thesis
    using no_success_iff [of errs] by (auto simp: cronRunError_def)
qed

theorem runWPCronOnce_fails_iff_witness:
  "\<exists>e. fst (runWPCronOnce (scripted_cron [example_site]) ([404], [])) = Err e"
proof -
  let ?E = "scripted_cron [example_site]" and ?w = "([404], []) :: nat list \<times> string list"
  have "cr_NewClient ?E ?w = (Ok (), ?w)" "cr_ListSites ?E ?w = (Ok [example_site], ?w)"
    by (simp_all add: scripted_cron_def)
  note fails = runWPCronOnce_fails_iff [OF this]
  have "None \<notin> set (fst (answers ?E (map siteCronURL [example_site]) ?w))"
    by (simp add: triggerWPCron_def scripted_cron_def StatusBadRequest_def)
  with fails show ?thesis by simp
qed

text \<open>
  C34. The URL of a Site is its Service's cluster name, at a port the Service has; Sites whose
  names have no dot, as a Service's name must, get the same URL only if they are the same.
\<close>

theorem siteCronURL_targets_service:
  assumes "CHR ''.'' \<notin> set (site_Name s)" and "CHR ''.'' \<notin> set (site_Name t)"
    and "CHR ''.'' \<notin> set (site_Namespace s)" and "CHR ''.'' \<notin> set (site_Namespace t)"
  shows "(siteCronURL s = siteCronURL t \<longleftrightarrow> object_key (site_Meta s) = object_key (site_Meta t))
    \<and> siteCronURL s = ''http://'' @ om_Name (svc_Meta (new_service s)) @ ''.''
        @ om_Namespace (svc_Meta (new_service s)) @ ''.svc.cluster.local/wp-cron.php?doing_wp_cron''
    \<and> 80 \<in> sp_Port ` set (service_ports s)"
proof -
  have "siteCronURL s = siteCronURL t \<longleftrightarrow>
      site_Name s = site_Name t \<and> site_Namespace s = site_Namespace t"
    unfolding siteCronURL_def
    using append_separator_inject [OF assms(1,2)] append_separator_inject [OF assms(3,4)] by simp
  then show ?thesis
    by (auto simp: object_key_def siteCronURL_def new_service_def service_ports_def)
qed

theorem siteCronURL_targets_service_witness:
  "siteCronURL example_site
     = ''http://blog.default.svc.cluster.local/wp-cron.php?doing_wp_cron''"
  using siteCronURL_targets_service [of example_site example_site] by (simp add: new_service_def)

text \<open>
  C35. No site can stall the run: an HTTP client that gives a request up at its deadline makes
  the run end within 20 seconds per Site, whatever the Sites answer, and if none ever does.
\<close>

theorem runWPCronOnce_ends_in_time:
  assumes "timed_client clock (cr_Do E)"
    and "cr_NewClient E w = (Ok (), w1)" and "cr_ListSites E w1 = (Ok sites, w2)"
  shows "clock (snd (runWPCronOnce E w)) \<le> clock w2 + length sites * (20 * 10 ^ 9)"
proof -
  have "snd (runWPCronOnce E w) = snd (triggerSites E siteCronURL sites w2)"
    using assms(2,3) by (simp add: runWPCronOnce_def act_simps split: prod.splits)
  also have "\<dots> = snd (answers E (map siteCronURL sites) w2)"
    by (simp add: triggerSites_answers split: prod.splits)
  finally show ?thesis
    using timed_answers [OF assms(1), of "map siteCronURL sites" w2]
    by (simp add: wpCronHTTPTimeout_def)
qed

theorem runWPCronOnce_ends_in_time_witness:
  "fst (snd (runWPCronOnce (hanging_cron [example_site, full_site]) (5, [])))
     \<le> 5 + 2 * (20 * 10 ^ 9)"
  using runWPCronOnce_ends_in_time [OF hanging.timed_client_axioms [of "[example_site, full_site]"],
      of "(5, [])" "(5, [])" "[example_site, full_site]" "(5, [])"]
  by (simp add: hanging_cron_def)

end
