(* ===== verification/GoFlags.thy ===== *)
theory GoFlags
  imports GoStd
begin

text \<open>
  Go's \<open>flag\<close> package, as far as the operator uses it: a set of flags given by name, each a
  string, a boolean or a variable of another package, and \<open>FlagSet.Parse\<close>, which reads the
  arguments from the left until one is no flag. The messages of a misuse are not modelled.
\<close>

section \<open>Flags\<close>

text \<open>
  A flag writes to a field of a record of settings \<open>'f\<close>; a flag of another package changes
  the world \<open>'w\<close> in its \<open>Set\<close> and tells with \<open>IsBoolFlag\<close> whether it can stand without a value.
\<close>

datatype ('w, 'f) flag_var =
    StringVar "string \<Rightarrow> 'f \<Rightarrow> 'f"
  | BoolVar "bool \<Rightarrow> 'f \<Rightarrow> 'f"
  | OtherVar bool "string \<Rightarrow> 'w \<Rightarrow> go_error option \<times> 'w"

fun IsBoolFlag :: "('w, 'f) flag_var \<Rightarrow> bool" where
  "IsBoolFlag (StringVar _) = False"
| "IsBoolFlag (BoolVar _) = True"
| "IsBoolFlag (OtherVar b _) = b"

definition ParseBool :: "string \<Rightarrow> bool option" where
  "ParseBool s =
     (if s \<in> set [''1'', ''t'', ''T'', ''true'', ''TRUE'', ''True''] then Some True
      else if s \<in> set [''0'', ''f'', ''F'', ''false'', ''FALSE'', ''False''] then Some False
      else None)"

fun set_var :: "('w, 'f) flag_var \<Rightarrow> string \<Rightarrow> 'f \<Rightarrow> 'w \<Rightarrow> 'f option \<times> 'w" where
  "set_var (StringVar put) s f w = (Some (put s f), w)"
| "set_var (BoolVar put) s f w = (map_option (\<lambda>b. put b f) (ParseBool s), w)"
| "set_var (OtherVar _ put) s f w =
     (case put s w of (None, w') \<Rightarrow> (Some f, w') | (Some _, w') \<Rightarrow> (None, w'))"

lemma ParseBool_FormatBool [simp]: "ParseBool (FormatBool b) = Some b"
  by (simp add: ParseBool_def FormatBool_def)

lemma FormatBool_inject [simp]: "FormatBool a = FormatBool b \<longleftrightarrow> a = b"
  by (simp add: FormatBool_def)

section \<open>One argument\<close>

datatype argument =
    Positional
  | Terminator
  | BadSyntax
  | FlagArg string "string option"

definition split_argument :: "string \<Rightarrow> argument" where
  "split_argument name =
     FlagArg (hd name # takeWhile (\<lambda>c. c \<noteq> CHR ''='') (tl name))
       (case dropWhile (\<lambda>c. c \<noteq> CHR ''='') (tl name) of [] \<Rightarrow> None | _ # v \<Rightarrow> Some v)"

definition read_argument :: "string \<Rightarrow> argument" where
  "read_argument s =
     (if length s < 2 \<or> hd s \<noteq> CHR ''-'' then Positional
      else if s = ''--'' then Terminator
      else let name = (if s ! 1 = CHR ''-'' then drop 2 s else drop 1 s)
           in if hd name = CHR ''-'' \<or> hd name = CHR ''='' then BadSyntax else split_argument name)"

text \<open>The value of a flag: after \<open>=\<close>, else \<open>true\<close> for a boolean, else the next argument.\<close>

fun flag_value :: "bool \<Rightarrow> string option \<Rightarrow> string list \<Rightarrow> (string \<times> string list) option" where
  "flag_value isBool (Some v) args = Some (v, args)"
| "flag_value True None args = Some (''true'', args)"
| "flag_value False None [] = None"
| "flag_value False None (v # args) = Some (v, args)"

lemma flag_value_shortens: "flag_value b v args = Some (x, rest) \<Longrightarrow> length rest \<le> length args"
  by (induction b v args rule: flag_value.induct) auto

section \<open>All arguments\<close>

datatype 'f parsed = Parsed 'f | HelpRequested | Misused

function parse_args ::
  "(string \<Rightarrow> ('w, 'f) flag_var option) \<Rightarrow> string list \<Rightarrow> 'f \<Rightarrow> 'w \<Rightarrow> 'f parsed \<times> 'w" where
  "parse_args formal [] f w = (Parsed f, w)"
| "parse_args formal (s # args) f w =
     (case read_argument s of
        Positional \<Rightarrow> (Parsed f, w)
      | Terminator \<Rightarrow> (Parsed f, w)
      | BadSyntax \<Rightarrow> (Misused, w)
      | FlagArg name v \<Rightarrow>
          (case formal name of
             None \<Rightarrow> (if name = ''help'' \<or> name = ''h'' then HelpRequested else Misused, w)
           | Some var \<Rightarrow>
               (case flag_value (IsBoolFlag var) v args of
                  None \<Rightarrow> (Misused, w)
                | Some (x, rest) \<Rightarrow>
                    (case set_var var x f w of
                       (None, w') \<Rightarrow> (Misused, w')
                     | (Some f', w') \<Rightarrow> parse_args formal rest f' w'))))"
  by pat_completeness auto

termination
  by (relation "measure (\<lambda>(formal, args, f, w). length args)")
    (auto dest!: flag_value_shortens)

section \<open>Settings given as \<open>--name=value\<close>\<close>

definition flag_name :: "string \<Rightarrow> bool" where
  "flag_name n \<longleftrightarrow> n \<noteq> [] \<and> hd n \<noteq> CHR ''-'' \<and> CHR ''='' \<notin> set n"

definition setting :: "string \<Rightarrow> string \<Rightarrow> string" where
  "setting n v = ''--'' @ n @ ''='' @ v"

lemma setting_inject:
  "flag_name n \<Longrightarrow> flag_name n' \<Longrightarrow> setting n v = setting n' v' \<longleftrightarrow> n = n' \<and> v = v'"
  by (simp add: setting_def flag_name_def append_separator_inject)

lemma read_setting: "flag_name n \<Longrightarrow> read_argument (setting n v) = FlagArg n (Some v)"
  by (cases n)
    (auto simp: read_argument_def setting_def flag_name_def split_argument_def takeWhile_append
      dropWhile_append)

text \<open>One setting is one write; it neither looks at the arguments after it nor stops.\<close>

lemma parse_setting:
  assumes "flag_name n" and "formal n = Some var" and "set_var var v f w = (Some f', w)"
  shows "parse_args formal (setting n v # args) f w = parse_args formal args f' w"
  using assms by (simp add: read_setting)

end
