(* ===== verification/MainCmd.thy ===== *)
theory MainCmd
  imports SiteController WPCron GoFlags
begin

text \<open>
  \<open>cmd/main.go\<close>: the registration of the API types (with \<open>groupversion_info.go\<close> and \<open>init\<close>
  of \<open>site_types.go\<close>), the command line, the options of the manager, its servers and the
  reconciler, and the exit code; and the watches of \<open>SetupWithManager\<close> in
  \<open>site_controller.go\<close>. The manager, the servers, the scheme and the flags of the logging
  library are parameters.
\<close>

section \<open>Flags\<close>

record flags =
  fl_metricsAddr :: string
  fl_metricsCertPath :: string
  fl_metricsCertName :: string
  fl_metricsCertKey :: string
  fl_webhookCertPath :: string
  fl_webhookCertName :: string
  fl_webhookCertKey :: string
  fl_enableLeaderElection :: bool
  fl_probeAddr :: string
  fl_secureMetrics :: bool
  fl_enableHTTP2 :: bool
  fl_defaultMariaDBName :: string
  fl_defaultMariaDBNamespace :: string
  fl_defaultStorageClassName :: string
  fl_runWPCron :: bool

text \<open>The \<open>StringVar\<close> and \<open>BoolVar\<close> calls in their order, and their default values.\<close>

definition flag_table :: "(string \<times> ('w, flags) flag_var) list" where
  "flag_table =
     [(''metrics-bind-address'', StringVar (\<lambda>s f. f\<lparr>fl_metricsAddr := s\<rparr>)),
      (''run-wp-cron'', BoolVar (\<lambda>b f. f\<lparr>fl_runWPCron := b\<rparr>)),
      (''default-mariadb-name'', StringVar (\<lambda>s f. f\<lparr>fl_defaultMariaDBName := s\<rparr>)),
      (''default-mariadb-namespace'', StringVar (\<lambda>s f. f\<lparr>fl_defaultMariaDBNamespace := s\<rparr>)),
      (''default-storage-class-name'', StringVar (\<lambda>s f. f\<lparr>fl_defaultStorageClassName := s\<rparr>)),
      (''health-probe-bind-address'', StringVar (\<lambda>s f. f\<lparr>fl_probeAddr := s\<rparr>)),
      (''leader-elect'', BoolVar (\<lambda>b f. f\<lparr>fl_enableLeaderElection := b\<rparr>)),
      (''metrics-secure'', BoolVar (\<lambda>b f. f\<lparr>fl_secureMetrics := b\<rparr>)),
      (''webhook-cert-path'', StringVar (\<lambda>s f. f\<lparr>fl_webhookCertPath := s\<rparr>)),
      (''webhook-cert-name'', StringVar (\<lambda>s f. f\<lparr>fl_webhookCertName := s\<rparr>)),
      (''webhook-cert-key'', StringVar (\<lambda>s f. f\<lparr>fl_webhookCertKey := s\<rparr>)),
      (''metrics-cert-path'', StringVar (\<lambda>s f. f\<lparr>fl_metricsCertPath := s\<rparr>)),
      (''metrics-cert-name'', StringVar (\<lambda>s f. f\<lparr>fl_metricsCertName := s\<rparr>)),
      (''metrics-cert-key'', StringVar (\<lambda>s f. f\<lparr>fl_metricsCertKey := s\<rparr>)),
      (''enable-http2'', BoolVar (\<lambda>b f. f\<lparr>fl_enableHTTP2 := b\<rparr>))]"

definition default_flags :: flags where
  "default_flags =
     \<lparr>fl_metricsAddr = ''0'', fl_metricsCertPath = '''', fl_metricsCertName = ''tls.crt'',
      fl_metricsCertKey = ''tls.key'', fl_webhookCertPath = '''',
      fl_webhookCertName = ''tls.crt'', fl_webhookCertKey = ''tls.key'',
      fl_enableLeaderElection = False, fl_probeAddr = '':8081'', fl_secureMetrics = True,
      fl_enableHTTP2 = False, fl_defaultMariaDBName = '''', fl_defaultMariaDBNamespace = '''',
      fl_defaultStorageClassName = '''', fl_runWPCron = False\<rparr>"

text \<open>
  \<open>flag.Parse\<close>: \<open>other\<close> are the flags that the linked libraries define, none of which has a
  name of the table (\<open>flag\<close> would panic on that).
\<close>

definition parse_flags ::
  "(string \<Rightarrow> ('w, flags) flag_var option) \<Rightarrow> string list \<Rightarrow> 'w \<Rightarrow> flags parsed \<times> 'w" where
  "parse_flags other args = parse_args (other ++ map_of flag_table) args default_flags"

section \<open>Server and manager options\<close>

text \<open>The one field of \<open>tls.Config\<close> the code writes; an option is a function on it.\<close>

record tls_config =
  NextProtos :: "string list"

definition disableHTTP2 :: "tls_config \<Rightarrow> tls_config" where
  "disableHTTP2 c = c\<lparr>NextProtos := [''http/1.1'']\<rparr>"

definition tlsOpts :: "flags \<Rightarrow> (tls_config \<Rightarrow> tls_config) list" where
  "tlsOpts f = (if \<not> fl_enableHTTP2 f then [disableHTTP2] else [])"

record webhook_options =
  wo_TLSOpts :: "(tls_config \<Rightarrow> tls_config) list"
  wo_CertDir :: string
  wo_CertName :: string
  wo_KeyName :: string

definition webhookServerOptions :: "flags \<Rightarrow> webhook_options" where
  "webhookServerOptions f =
     (let o0 = \<lparr>wo_TLSOpts = tlsOpts f, wo_CertDir = [], wo_CertName = [], wo_KeyName = []\<rparr>
      in if length (fl_webhookCertPath f) > 0
         then o0\<lparr>wo_CertDir := fl_webhookCertPath f, wo_CertName := fl_webhookCertName f,
                wo_KeyName := fl_webhookCertKey f\<rparr>
         else o0)"

datatype filter_provider = WithAuthenticationAndAuthorization

record metrics_options =
  mo_BindAddress :: string
  mo_SecureServing :: bool
  mo_TLSOpts :: "(tls_config \<Rightarrow> tls_config) list"
  mo_FilterProvider :: "filter_provider option"
  mo_CertDir :: string
  mo_CertName :: string
  mo_KeyName :: string

definition metricsServerOptions :: "flags \<Rightarrow> metrics_options" where
  "metricsServerOptions f =
     (let o0 = \<lparr>mo_BindAddress = fl_metricsAddr f, mo_SecureServing = fl_secureMetrics f,
                mo_TLSOpts = tlsOpts f, mo_FilterProvider = None, mo_CertDir = [],
                mo_CertName = [], mo_KeyName = []\<rparr>;
          o1 = (if fl_secureMetrics f
                then o0\<lparr>mo_FilterProvider := Some WithAuthenticationAndAuthorization\<rparr> else o0)
      in if length (fl_metricsCertPath f) > 0
         then o1\<lparr>mo_CertDir := fl_metricsCertPath f, mo_CertName := fl_metricsCertName f,
                mo_KeyName := fl_metricsCertKey f\<rparr>
         else o1)"

text \<open>The API types the operator names, as Go identifies them.\<close>

datatype kind =
    KSite | KDeployment | KService | KIngress | KConfigMap | KPersistentVolumeClaim | KSecret
  | KDatabase | KUser | KGrant

instantiation kind :: enum
begin

definition enum_kind :: "kind list" where
  "enum_kind = [KSite, KDeployment, KService, KIngress, KConfigMap, KPersistentVolumeClaim, KSecret,
     KDatabase, KUser, KGrant]"

definition enum_all_kind :: "(kind \<Rightarrow> bool) \<Rightarrow> bool" where
  "enum_all_kind P = list_all P enum_class.enum"

definition enum_ex_kind :: "(kind \<Rightarrow> bool) \<Rightarrow> bool" where
  "enum_ex_kind P = list_ex P enum_class.enum"

instance
proof
  show all: "UNIV = set (enum_class.enum :: kind list)"
  proof (rule UNIV_eq_I)
    show "k \<in> set enum_class.enum" for k :: kind
      by (cases k) (simp_all add: enum_kind_def)
  qed
  show "distinct (enum_class.enum :: kind list)"
    by (simp add: enum_kind_def)
  show "enum_class.enum_all P = Ball UNIV P" for P :: "kind \<Rightarrow> bool"
    by (simp add: all enum_all_kind_def list_all_iff)
  show "enum_class.enum_ex P = Bex UNIV P" for P :: "kind \<Rightarrow> bool"
    by (simp add: all enum_ex_kind_def list_ex_iff)
qed

end

section \<open>The scheme\<close>

text \<open>What is registered under one Go type: a kind, or the list of a kind.\<close>

datatype api_type = Single kind | ListOf kind

definition GroupVersion :: "string \<times> string" where
  "GroupVersion = (''site.operator'', ''v1alpha1'')"

text \<open>The arguments of \<open>SchemeBuilder.Register\<close> in \<open>init\<close> of \<open>site_types.go\<close>.\<close>

definition registered_types :: "api_type list" where
  "registered_types = [Single KSite, ListOf KSite]"

text \<open>
  \<open>AddToScheme\<close> of client-go and of mariadb-operator, and \<open>AddToScheme\<close> of a \<open>scheme.Builder\<close>
  with a group version and the types registered with it.
\<close>

record 'w scheme_env =
  se_AddClientgo :: "('w, unit) act"
  se_AddBuilder :: "string \<times> string \<Rightarrow> api_type list \<Rightarrow> ('w, unit) act"
  se_AddMariaDB :: "('w, unit) act"

definition AddToScheme :: "'w scheme_env \<Rightarrow> ('w, unit) act" where
  "AddToScheme L = se_AddBuilder L GroupVersion registered_types"

text \<open>\<open>utilruntime.Must\<close> panics on an error.\<close>

definition Must :: "('w, unit) act \<Rightarrow> ('w, unit) act" where
  "Must m = on_result m ret (\<lambda>e. panic (Error e))"

definition init_scheme :: "'w scheme_env \<Rightarrow> ('w, unit) act" where
  "init_scheme L =
     and_then (Must (se_AddClientgo L)) (\<lambda>_.
     and_then (Must (AddToScheme L)) (\<lambda>_.
     Must (se_AddMariaDB L)))"

lemma Must_eq_Ok_iff: "Must m w = (Ok u, w') \<longleftrightarrow> m w = (Ok u, w')"
  by (auto simp: Must_def on_result_def split: prod.splits res.splits)

lemma init_scheme_panics: "init_scheme L w \<noteq> (Err e, w')"
  by (auto simp: init_scheme_def Must_def and_then_def on_result_def split: prod.splits res.splits)

text \<open>
  What a client relies on: the types known to the scheme. A registration that succeeds adds
  its types and takes none away.
\<close>

locale scheme_registry =
  fixes L :: "'w scheme_env"
    and known :: "'w \<Rightarrow> api_type set"
  assumes clientgo: "se_AddClientgo L w = (Ok (), w') \<Longrightarrow>
      known w \<union> Single ` {KDeployment, KService, KIngress, KConfigMap, KPersistentVolumeClaim, KSecret}
        \<subseteq> known w'"
    and builder: "se_AddBuilder L gv ts w = (Ok (), w') \<Longrightarrow> known w \<union> set ts \<subseteq> known w'"
    and mariadb: "se_AddMariaDB L w = (Ok (), w') \<Longrightarrow>
      known w \<union> Single ` {KDatabase, KUser, KGrant} \<subseteq> known w'"
begin

lemma init_registers:
  assumes "init_scheme L w = (Ok (), w')"
  shows "insert (ListOf KSite) (range Single) \<subseteq> known w'"
proof -
  from assms obtain w1 w2 where
    "se_AddClientgo L w = (Ok (), w1)" "se_AddBuilder L GroupVersion registered_types w1 = (Ok (), w2)"
    "se_AddMariaDB L w2 = (Ok (), w')"
    by (auto simp: init_scheme_def AddToScheme_def and_then_eq_Ok_iff Must_eq_Ok_iff)
  then show ?thesis
    using clientgo [of w w1] builder [of GroupVersion registered_types w1 w2] mariadb [of w2 w']
    by (auto simp: UNIV_enum enum_kind_def registered_types_def)
qed

end

text \<open>A scheme as the set of its types.\<close>

definition set_scheme :: "api_type set scheme_env" where
  "set_scheme =
     \<lparr>se_AddClientgo = (\<lambda>w. (Ok (), w \<union> Single ` {KDeployment, KService, KIngress, KConfigMap,
        KPersistentVolumeClaim, KSecret})),
      se_AddBuilder = (\<lambda>gv ts w. (Ok (), w \<union> set ts)),
      se_AddMariaDB = (\<lambda>w. (Ok (), w \<union> Single ` {KDatabase, KUser, KGrant}))\<rparr>"

interpretation set_registry: scheme_registry set_scheme "\<lambda>w. w"
  by unfold_locales (auto simp: set_scheme_def)

record manager_options =
  mg_DisableFor :: "kind list"
  mg_Metrics :: metrics_options
  mg_WebhookServer :: webhook_options
  mg_HealthProbeBindAddress :: string
  mg_LeaderElection :: bool
  mg_LeaderElectionID :: string

definition manager_options_of :: "flags \<Rightarrow> manager_options" where
  "manager_options_of f =
     \<lparr>mg_DisableFor = [KDatabase, KUser, KGrant], mg_Metrics = metricsServerOptions f,
      mg_WebhookServer = webhookServerOptions f, mg_HealthProbeBindAddress = fl_probeAddr f,
      mg_LeaderElection = fl_enableLeaderElection f, mg_LeaderElectionID = ''f82ecd3f.propastinv''\<rparr>"

section \<open>The reconciler and its watches\<close>

definition defaultMariaDBRef :: "flags \<Rightarrow> MariaDBClusterRef option" where
  "defaultMariaDBRef f =
     (if fl_defaultMariaDBName f \<noteq> []
      then Some \<lparr>mcr_Name = fl_defaultMariaDBName f, mcr_Namespace = fl_defaultMariaDBNamespace f\<rparr>
      else None)"

definition reconciler_of :: "flags \<Rightarrow> SiteReconciler" where
  "reconciler_of f =
     \<lparr>rc_DefaultMariaDBRef = defaultMariaDBRef f,
      rc_DefaultStorageClassName = fl_defaultStorageClassName f\<rparr>"

record controller_builder =
  cb_For :: kind
  cb_Owns :: "kind list"
  cb_Named :: string

definition SetupWithManager :: controller_builder where
  "SetupWithManager =
     \<lparr>cb_For = KSite,
      cb_Owns = [KDeployment, KService, KIngress, KConfigMap, KPersistentVolumeClaim, KSecret],
      cb_Named = ''site''\<rparr>"

section \<open>main\<close>

text \<open>
  The library calls of the process, each with an error to test, on a world of their own;
  \<open>GetConfigOrDie\<close> is part of \<open>me_NewManager\<close>. \<open>me_OtherFlags\<close> are the flags of the
  linked libraries, zap's among them.
\<close>

record 'w main_env =
  me_Scheme :: "'w scheme_env"
  me_OtherFlags :: "string \<Rightarrow> ('w, flags) flag_var option"
  me_Cron :: "'w cron_env"
  me_NewManager :: "manager_options \<Rightarrow> ('w, unit) act"
  me_Complete :: "controller_builder \<Rightarrow> SiteReconciler \<Rightarrow> ('w, unit) act"
  me_AddHealthzCheck :: "('w, unit) act"
  me_AddReadyzCheck :: "('w, unit) act"
  me_Start :: "('w, unit) act"

definition run_manager :: "'w main_env \<Rightarrow> flags \<Rightarrow> ('w, unit) act" where
  "run_manager E f =
     and_then (me_NewManager E (manager_options_of f)) (\<lambda>_.
     and_then (me_Complete E SetupWithManager (reconciler_of f)) (\<lambda>_.
     and_then (me_AddHealthzCheck E) (\<lambda>_.
     and_then (me_AddReadyzCheck E) (\<lambda>_.
     me_Start E))))"

text \<open>
  The exit status: 1 after \<open>os.Exit(1)\<close>, 2 after a panic, 0 when \<open>main\<close> returns; \<open>flag.Parse\<close>
  itself exits with 0 on \<open>-help\<close> and 2 on a misuse.
\<close>

fun exit_code :: "unit res \<Rightarrow> nat" where
  "exit_code (Ok _) = 0"
| "exit_code (Err _) = 1"
| "exit_code (Panic _) = 2"

definition main :: "'w main_env \<Rightarrow> string list \<Rightarrow> 'w \<Rightarrow> nat \<times> 'w" where
  "main E args w =
     (case parse_flags (me_OtherFlags E) args w of
        (HelpRequested, w1) \<Rightarrow> (0, w1)
      | (Misused, w1) \<Rightarrow> (2, w1)
      | (Parsed f, w1) \<Rightarrow>
          (case (if fl_runWPCron f then runWPCronOnce (me_Cron E) else run_manager E f) w1 of
             (r, w2) \<Rightarrow> (exit_code r, w2)))"

text \<open>The process: package initialisation comes before \<open>main\<close>.\<close>

definition process :: "'w main_env \<Rightarrow> string list \<Rightarrow> 'w \<Rightarrow> nat \<times> 'w" where
  "process E args w =
     (case init_scheme (me_Scheme E) w of
        (Ok _, w1) \<Rightarrow> main E args w1
      | (r, w1) \<Rightarrow> (exit_code r, w1))"

lemma exit_code_0 [simp]: "exit_code r = 0 \<longleftrightarrow> r = Ok ()"
  by (cases r) auto

lemma exit_code_1: "exit_code r = 1 \<longleftrightarrow> (\<exists>e. r = Err e)"
  by (cases r) auto

section \<open>Command lines\<close>

text \<open>Every setting written out, by the name of its flag.\<close>

definition flag_settings :: "flags \<Rightarrow> (string \<times> string) list" where
  "flag_settings f =
     [(''metrics-bind-address'', fl_metricsAddr f),
      (''run-wp-cron'', FormatBool (fl_runWPCron f)),
      (''default-mariadb-name'', fl_defaultMariaDBName f),
      (''default-mariadb-namespace'', fl_defaultMariaDBNamespace f),
      (''default-storage-class-name'', fl_defaultStorageClassName f),
      (''health-probe-bind-address'', fl_probeAddr f),
      (''leader-elect'', FormatBool (fl_enableLeaderElection f)),
      (''metrics-secure'', FormatBool (fl_secureMetrics f)),
      (''webhook-cert-path'', fl_webhookCertPath f),
      (''webhook-cert-name'', fl_webhookCertName f),
      (''webhook-cert-key'', fl_webhookCertKey f),
      (''metrics-cert-path'', fl_metricsCertPath f),
      (''metrics-cert-name'', fl_metricsCertName f),
      (''metrics-cert-key'', fl_metricsCertKey f),
      (''enable-http2'', FormatBool (fl_enableHTTP2 f))]"

definition command_line :: "flags \<Rightarrow> string list" where
  "command_line f = map (\<lambda>(n, v). setting n v) (flag_settings f)"

lemma command_line_inject: "command_line f = command_line g \<longleftrightarrow> f = g"
  by (auto simp: command_line_def flag_settings_def setting_def intro: flags.equality)

text \<open>The settings of \<open>f\<close> among \<open>args\<close>, and those of \<open>g\<close> for the rest.\<close>

definition override :: "string list \<Rightarrow> flags \<Rightarrow> flags \<Rightarrow> string list" where
  "override args f g =
     map2 (\<lambda>a d. if a \<in> set args then a else d) (command_line f) (command_line g)"

lemma length_command_line [simp]: "length (command_line f) = 15"
  by (simp add: command_line_def flag_settings_def)

lemma override_Nil [simp]: "override [] f g = command_line g"
  by (rule nth_equalityI) (simp_all add: override_def)

lemma override_Cons:
  assumes "command_line g' = override [a] f g"
  shows "override args f g' = override (a # args) f g"
  by (rule nth_equalityI) (auto simp: override_def assms)

lemma override_all: "set (command_line f) \<subseteq> set args \<Longrightarrow> override args f g = command_line f"
  by (rule nth_equalityI) (auto simp: override_def subset_iff)

lemma flag_settings_named: "(n, v) \<in> set (flag_settings f) \<Longrightarrow> flag_name n"
  by (auto simp: flag_settings_def flag_name_def)

text \<open>The row of a setting writes that setting and no other.\<close>

lemma one_setting:
  assumes "(n, v) \<in> set (flag_settings f)"
  shows "\<exists>(var :: ('w, flags) flag_var) g'. map_of flag_table n = Some var \<and> (\<forall>w. set_var var v g w = (Some g', w))
    \<and> flag_settings g' = map2 (\<lambda>(m, x) (_, y). (m, if m = n then x else y))
         (flag_settings f) (flag_settings g)"
  using assms unfolding flag_settings_def set_simps insert_iff empty_iff prod.inject
  by (elim disjE conjE FalseE; hypsubst) (simp_all add: flag_table_def)

lemma override_row:
  assumes "flag_settings g' = map2 (\<lambda>(m, x) (_, y). (m, if m = n then x else y))
      (flag_settings f) (flag_settings g)"
    and "(n, v) \<in> set (flag_settings f)"
  shows "command_line g' = override [setting n v] f g"
proof -
  have "command_line g' = map (\<lambda>(n, v). setting n v)
      (map2 (\<lambda>(m, x) (_, y). (m, if m = n then x else y)) (flag_settings f) (flag_settings g))"
    by (simp only: command_line_def assms(1))
  also have "\<dots> = override [setting n v] f g"
    using assms(2) unfolding command_line_def override_def
      flag_settings_def set_simps insert_iff empty_iff prod.inject
    by (elim disjE conjE FalseE; hypsubst) (simp_all add: setting_def)
  finally show ?thesis .
qed

lemma parse_settings:
  fixes other :: "string \<Rightarrow> ('w, flags) flag_var option" and w :: 'w
  assumes "set args \<subseteq> set (command_line f)"
  shows "\<exists>g'. parse_args (other ++ map_of flag_table) args g w = (Parsed g', w)
    \<and> command_line g' = override args f g"
  using assms
proof (induction args arbitrary: g)
  case (Cons a args)
  then obtain n v where a: "a = setting n v" and row: "(n, v) \<in> set (flag_settings f)"
    by (auto simp: command_line_def)
  from one_setting [where 'w = 'w, OF row, of g] obtain var :: "('w, flags) flag_var" and g1 where
    step: "map_of flag_table n = Some var" "\<And>w. set_var var v g w = (Some g1, w)" and
    rows: "flag_settings g1 = map2 (\<lambda>(m, x) (_, y). (m, if m = n then x else y))
         (flag_settings f) (flag_settings g)" by blast
  have "(other ++ map_of flag_table) n = Some var" using step(1) by simp
  then have "parse_args (other ++ map_of flag_table) (a # args) g w
      = parse_args (other ++ map_of flag_table) args g1 w"
    unfolding a by (rule parse_setting [OF flag_settings_named [OF row] _ step(2)])
  then show ?case
    using Cons.IH [of g1] Cons.prems override_Cons [OF override_row [OF rows row], of args]
    by (auto simp: a)
qed simp

section \<open>Properties\<close>

text \<open>
  C36. The process: \<open>-help\<close> exits with 0 and a misuse of the flags with 2, before any other call.
  In wp-cron mode \<open>main\<close> makes none of the manager's calls and its exit status is that of the
  run; otherwise it exits with 0 exactly when every call has succeeded, in the order of the
  program and with the options and the reconciler of the flags.
\<close>

theorem main_exit_status:
  "case parse_flags (me_OtherFlags E) args w0 of
     (HelpRequested, w) \<Rightarrow> main E args w0 = (0, w)
   | (Misused, w) \<Rightarrow> main E args w0 = (2, w)
   | (Parsed f, w) \<Rightarrow>
       if fl_runWPCron f then
         main E args w0 = main (E\<lparr>me_NewManager := nm, me_Complete := c, me_AddHealthzCheck := h,
           me_AddReadyzCheck := rd, me_Start := st\<rparr>) args w0
         \<and> (fst (main E args w0) = 0 \<longleftrightarrow> fst (runWPCronOnce (me_Cron E) w) = Ok ())
       else
         main E args w0 = (0, w') \<longleftrightarrow>
           (\<exists>w1 w2 w3 w4. me_NewManager E (manager_options_of f) w = (Ok (), w1)
              \<and> me_Complete E SetupWithManager (reconciler_of f) w1 = (Ok (), w2)
              \<and> me_AddHealthzCheck E w2 = (Ok (), w3) \<and> me_AddReadyzCheck E w3 = (Ok (), w4)
              \<and> me_Start E w4 = (Ok (), w'))"
proof (cases "parse_flags (me_OtherFlags E) args w0")
  case (Pair p w)
  have "main E args w0 = (0, w') \<longleftrightarrow> run_manager E f w = (Ok (), w')"
    if "p = Parsed f" "\<not> fl_runWPCron f" for f
    using that Pair by (auto simp: main_def split: prod.splits)
  then show ?thesis
    using Pair by (cases p) (auto simp: main_def run_manager_def and_then_eq_Ok_iff split: prod.splits)
qed

text \<open>
  C37. The command line: settings written as \<open>--name=value\<close>, in any order and any number of
  times, are read as what they say, and every other setting has its default; so every
  configuration of the operator can be given on the command line and is read back.
\<close>

theorem command_line_read:
  assumes "set args \<subseteq> set (command_line f)"
  shows "\<exists>g. parse_flags other args w = (Parsed g, w)
    \<and> command_line g = map2 (\<lambda>given default. if given \<in> set args then given else default)
        (command_line f) (command_line default_flags)
    \<and> (set (command_line f) \<subseteq> set args \<longrightarrow> g = f)"
proof -
  from parse_settings [OF assms, of other default_flags w] obtain g where
    g: "parse_flags other args w = (Parsed g, w)" "command_line g = override args f default_flags"
    unfolding parse_flags_def by blast
  moreover have "g = f" if "set (command_line f) \<subseteq> set args"
    using g(2) override_all [OF that] by (simp add: command_line_inject)
  ultimately show ?thesis unfolding override_def by blast
qed

theorem command_line_read_witness:
  "\<exists>g. parse_flags Map.empty [''--default-mariadb-name=main'', ''--metrics-secure=false''] ()
     = (Parsed g, ())
   \<and> fl_defaultMariaDBName g = ''main'' \<and> fl_secureMetrics g = False \<and> fl_probeAddr g = '':8081''"
proof -
  let ?f = "default_flags\<lparr>fl_defaultMariaDBName := ''main'', fl_secureMetrics := False\<rparr>"
  let ?args = "[''--default-mariadb-name=main'', ''--metrics-secure=false'']"
  have "set ?args \<subseteq> set (command_line ?f)"
    by (simp add: command_line_def flag_settings_def setting_def FormatBool_def)
  from command_line_read [OF this, of Map.empty "()"] obtain g where
    parsed: "parse_flags Map.empty ?args () = (Parsed g, ())" and
    line: "command_line g = map2 (\<lambda>given default. if given \<in> set ?args then given else default)
      (command_line ?f) (command_line default_flags)" by blast
  have "fl_defaultMariaDBName g = ''main'' \<and> fl_secureMetrics g = False \<and> fl_probeAddr g = '':8081''"
    using line by (auto simp: command_line_def flag_settings_def setting_def FormatBool_def
      default_flags_def split: if_splits)
  with parsed show ?thesis by blast
qed

text \<open>
  C38. Unless HTTP/2 is asked for, both servers end up offering HTTP/1.1 only, whatever the
  configuration they start from, and with the flag neither is changed; a metrics endpoint
  that is served securely is always behind authentication and authorization.
\<close>

theorem servers_hardened:
  "NextProtos (fold (\<lambda>opt. opt) (mo_TLSOpts (metricsServerOptions f)) c)
     = (if fl_enableHTTP2 f then NextProtos c else [''http/1.1''])
   \<and> NextProtos (fold (\<lambda>opt. opt) (wo_TLSOpts (webhookServerOptions f)) c)
     = (if fl_enableHTTP2 f then NextProtos c else [''http/1.1''])
   \<and> (mo_SecureServing (metricsServerOptions f)
        = (mo_FilterProvider (metricsServerOptions f) = Some WithAuthenticationAndAuthorization))"
  by (simp add: metricsServerOptions_def webhookServerOptions_def tlsOpts_def disableHTTP2_def Let_def)

text \<open>
  The flags and the Sites together: a Site that provisions without a cluster of its own is
  refused when no default was named on the command line, and uses the named one otherwise.
\<close>

lemma default_cluster_from_flags:
  assumes "provisionEnabled site"
    and "Option.bind (Option.bind (spec_Provision (site_Spec site)) prov_Database) dps_MariaDBRef = None"
  shows "resolveMariaDBRef site (rc_DefaultMariaDBRef (reconciler_of f)) =
    (if fl_defaultMariaDBName f = [] then Err no_mariadb_ref
     else Ok \<lparr>mcr_Name = fl_defaultMariaDBName f, mcr_Namespace = fl_defaultMariaDBNamespace f\<rparr>)"
  using assms
  by (auto simp: resolveMariaDBRef_enabled reconciler_of_def defaultMariaDBRef_def)

text \<open>
  C39. Every kind of object is either watched for changes, as the Site itself or as owned by it,
  or never cached, and none is both: a cluster without mariadb-operator's types can run the
  operator. And when \<open>main\<close> starts, the scheme knows all these types and the list of
  Sites; a registration that fails ends the process before.
\<close>

theorem watched_or_uncached:
  assumes "scheme_registry (me_Scheme E) known"
  shows "insert (cb_For SetupWithManager) (set (cb_Owns SetupWithManager))
     \<union> set (mg_DisableFor (manager_options_of f)) = UNIV
   \<and> insert (cb_For SetupWithManager) (set (cb_Owns SetupWithManager))
     \<inter> set (mg_DisableFor (manager_options_of f)) = {}
   \<and> ((\<exists>w1. process E args w = main E args w1 \<and> insert (ListOf KSite) (range Single) \<subseteq> known w1)
     \<or> fst (process E args w) = 2)"
proof -
  have "(\<exists>w1. process E args w = main E args w1 \<and> insert (ListOf KSite) (range Single) \<subseteq> known w1)
     \<or> fst (process E args w) = 2"
    using scheme_registry.init_registers [OF assms] init_scheme_panics
    by (fastforce simp: process_def split: prod.splits res.splits)
  then show ?thesis
    by (auto simp: UNIV_enum enum_kind_def SetupWithManager_def manager_options_of_def)
qed

definition registry_env :: "api_type set main_env" where
  "registry_env = \<lparr>me_Scheme = set_scheme, me_OtherFlags = Map.empty,
     me_Cron = \<lparr>cr_NewClient = ret (), cr_ListSites = ret [], cr_NewRequest = (\<lambda>_. None),
       cr_Do = (\<lambda>_ _ w. (Inr 200, w))\<rparr>,
     me_NewManager = (\<lambda>_. ret ()), me_Complete = (\<lambda>_ _. ret ()), me_AddHealthzCheck = ret (),
     me_AddReadyzCheck = ret (), me_Start = ret ()\<rparr>"

theorem watched_or_uncached_witness:
  "\<exists>w1. process registry_env [] {} = main registry_env [] w1
    \<and> insert (ListOf KSite) (range Single) \<subseteq> w1"
proof -
  have "scheme_registry (me_Scheme registry_env) (\<lambda>w. w)"
    using set_registry.scheme_registry_axioms by (simp add: registry_env_def)
  moreover have "fst (process registry_env [] {}) = 0"
    by (simp add: process_def init_scheme_def Must_def AddToScheme_def and_then_def on_result_def
      registry_env_def set_scheme_def main_def parse_flags_def default_flags_def run_manager_def)
  ultimately show ?thesis using watched_or_uncached [of registry_env "\<lambda>w. w" _ "[]" "{}"] by simp
qed

end
