(* ===== verification/GoHeap.thy ===== *)
theory GoHeap
  imports Prelude "HOL-Library.AList"
begin

text \<open>
  Memory with pointers, for the code whose point is which memory is shared: the generated
  deep copies. A memory is the list of its blocks; allocation appends zeroed blocks, so an
  address that is not below the length is fresh. Pointers, maps and slices are nil
  (\<open>None\<close>) or addresses; a call on memory is an \<open>act\<close> whose world is the memory, and a
  dereference of nil or of a block of another type panics.

  A reader takes a memory and an in-memory value to the pure value it stands for and the
  addresses it reaches. The interface \<open>deep_copy\<close> is what a copy function promises about a
  reader; it is closed under pointers, maps, slices, pairs and struct literals.
\<close>

named_theorems deep_copies \<open>copies that are deep, by the reader they are deep for\<close>

section \<open>Memory\<close>

type_synonym addr = nat
type_synonym 'c memory = "'c option list"

definition cell_at :: "'c memory \<Rightarrow> addr \<Rightarrow> 'c option" where
  "cell_at h a = (if a < length h then h ! a else None)"

text \<open>The content of a block as a value of one Go type; \<open>dest\<close> tells the types apart.\<close>

definition content :: "('c \<Rightarrow> 'a option) \<Rightarrow> 'c memory \<Rightarrow> addr \<Rightarrow> 'a option" where
  "content dest h a = Option.bind (cell_at h a) dest"

definition nil_dereference :: "('w, 'a) act" where
  "nil_dereference = panic ''invalid memory address or nil pointer dereference''"

text \<open>\<open>new(T)\<close> is \<open>make_blocks 1\<close>, \<open>make([]T, n)\<close> is \<open>make_blocks n\<close>.\<close>

definition make_blocks :: "nat \<Rightarrow> ('c memory, addr) act" where
  "make_blocks n = (\<lambda>h. (Ok (length h), h @ replicate n None))"

definition load :: "('c \<Rightarrow> 'a option) \<Rightarrow> addr \<Rightarrow> ('c memory, 'a) act" where
  "load dest a = (\<lambda>h. case content dest h a of None \<Rightarrow> nil_dereference h | Some x \<Rightarrow> (Ok x, h))"

definition store :: "addr \<Rightarrow> 'c \<Rightarrow> ('c memory, unit) act" where
  "store a c = (\<lambda>h. if a < length h then (Ok (), h[a := Some c]) else nil_dereference h)"

lemma load_apply: "content dest h a = Some x \<Longrightarrow> load dest a h = (Ok x, h)"
  by (simp add: load_def)

lemma store_apply: "a < length h \<Longrightarrow> store a c h = (Ok (), h[a := Some c])"
  by (simp add: store_def)

lemma make_blocks_apply: "make_blocks n h = (Ok (length h), h @ replicate n None)"
  by (simp add: make_blocks_def)

section \<open>What a call leaves alone\<close>

text \<open>\<open>memory_kept X h h'\<close>: of the blocks of \<open>h\<close>, at most those in \<open>X\<close> were written.\<close>

definition memory_kept :: "addr set \<Rightarrow> 'c memory \<Rightarrow> 'c memory \<Rightarrow> bool" where
  "memory_kept X h h' \<longleftrightarrow>
     length h \<le> length h' \<and> (\<forall>a < length h. a \<notin> X \<longrightarrow> cell_at h' a = cell_at h a)"

lemma memory_kept_refl [simp, intro]: "memory_kept X h h"
  by (simp add: memory_kept_def)

lemma memory_kept_trans:
  assumes "memory_kept X h h'" and "memory_kept Y h' h''" and "X \<union> Y \<inter> {..<length h} \<subseteq> Z"
  shows "memory_kept Z h h''"
  unfolding memory_kept_def
proof (intro conjI allI impI)
  show "length h \<le> length h''"
    using assms(1,2) by (simp add: memory_kept_def)
  fix a assume a: "a < length h" "a \<notin> Z"
  with assms(3) have "a \<notin> X" "a \<notin> Y" by auto
  with a assms(1,2) show "cell_at h'' a = cell_at h a"
    by (simp add: memory_kept_def)
qed

lemma memory_kept_append [simp]: "memory_kept X h (h @ h')"
  by (simp add: memory_kept_def cell_at_def nth_append)

lemma memory_kept_update: "a \<in> X \<or> length h \<le> a \<Longrightarrow> memory_kept X h (h[a := c])"
  by (cases "a < length h")
    (auto simp: memory_kept_def cell_at_def nth_list_update list_update_beyond)

text \<open>Writes to freshly made blocks, seen from the memory before they were made.\<close>

lemma memory_kept_made:
  assumes "memory_kept X (h @ bs) h'" and "X \<inter> {..<length h} = {}"
  shows "memory_kept {} h h'"
  using memory_kept_append [of "{}"] assms(1) by (rule memory_kept_trans) (use assms(2) in auto)

lemma memory_kept_length: "memory_kept X h h' \<Longrightarrow> length h \<le> length h'"
  by (simp add: memory_kept_def)

lemma cell_at_update [simp]: "a < length h \<Longrightarrow> cell_at (h[a := c]) a = c"
  by (simp add: cell_at_def)

lemma content_cong: "cell_at h' a = cell_at h a \<Longrightarrow> content dest h' a = content dest h a"
  by (simp add: content_def)

lemma content_bound: "content dest h a = Some x \<Longrightarrow> a < length h"
  by (auto simp: content_def cell_at_def split: if_splits)

lemma content_update [simp]:
  "a < length h \<Longrightarrow> content dest (h[a := Some c]) a = dest c"
  by (simp add: content_def)

section \<open>Readers and copies\<close>

type_synonym ('c, 'p, 'v) reader = "'c memory \<Rightarrow> 'p \<Rightarrow> ('v \<times> addr set) option"

text \<open>
  The laws: what is read depends on the reached blocks only; they are allocated; a copy of
  what can be read succeeds, writes no block of the old memory, reads as the same value, and
  reaches only blocks that were allocated for it.
\<close>

locale deep_copy =
  fixes rd :: "('c, 'p, 'v) reader" and copy :: "'p \<Rightarrow> ('c memory, 'p) act"
  assumes read_local: "rd h p = Some (v, A) \<Longrightarrow> (\<And>a. a \<in> A \<Longrightarrow> cell_at h' a = cell_at h a)
      \<Longrightarrow> rd h' p = Some (v, A)"
    and read_bound: "rd h p = Some (v, A) \<Longrightarrow> A \<subseteq> {..<length h}"
    and copies: "rd h p = Some (v, A) \<Longrightarrow> \<exists>p' h' A'. copy p h = (Ok p', h') \<and> memory_kept {} h h'
      \<and> rd h' p' = Some (v, A') \<and> A' \<subseteq> {length h..<length h'}"
begin

lemma copyE:
  assumes "rd h p = Some (v, A)"
  obtains p' h' A' where "copy p h = (Ok p', h')" "memory_kept {} h h'"
    "rd h' p' = Some (v, A')" "A' \<subseteq> {length h..<length h'}"
  using copies [OF assms] by blast

text \<open>Blocks outside the reached ones may be written and allocated.\<close>

lemma read_kept:
  assumes "rd h p = Some (v, A)" and "memory_kept X h h'" and "A \<inter> X = {}"
  shows "rd h' p = Some (v, A)"
  using assms(1)
proof (rule read_local)
  fix a assume "a \<in> A"
  with assms read_bound [OF assms(1)] show "cell_at h' a = cell_at h a"
    by (auto simp: memory_kept_def)
qed

text \<open>
  The point of a deep copy: original and copy reach disjoint blocks, so no write through
  one changes what the other reads as.
\<close>

lemma copy_isolated:
  assumes "rd h p = Some (v, A)"
  shows "\<exists>p' h' A'. copy p h = (Ok p', h') \<and> memory_kept {} h h'
    \<and> rd h' p' = Some (v, A') \<and> A \<inter> A' = {}
    \<and> (\<forall>h''. memory_kept A' h' h'' \<longrightarrow> rd h'' p = Some (v, A))
    \<and> (\<forall>h''. memory_kept A h' h'' \<longrightarrow> rd h'' p' = Some (v, A'))"
proof -
  obtain p' h' A' where c: "copy p h = (Ok p', h')" "memory_kept {} h h'"
      "rd h' p' = Some (v, A')" "A' \<subseteq> {length h..<length h'}"
    using assms by (rule copyE)
  have old: "rd h' p = Some (v, A)"
    using assms c(2) by (rule read_kept) simp
  have "A \<inter> A' = {}"
    using read_bound [OF assms] c(4) by fastforce
  with old c show ?thesis
    by (blast intro: read_kept)
qed

end

section \<open>Closure\<close>

subsection \<open>Plain data, pairs, structs\<close>

definition read_plain :: "('c, 'a, 'a) reader" where
  "read_plain h x = Some (x, {})"

lemma deep_copy_plain [deep_copies]: "deep_copy read_plain ret"
  by unfold_locales (auto simp: read_plain_def)

definition read_pair :: "('c, 'p, 'v) reader \<Rightarrow> ('c, 'q, 'u) reader \<Rightarrow> ('c, 'p \<times> 'q, 'v \<times> 'u) reader" where
  "read_pair rd rd' h pq =
     Option.bind (rd h (fst pq)) (\<lambda>(v, A).
       map_option (\<lambda>(u, B). ((v, u), A \<union> B)) (rd' h (snd pq)))"

definition copy_pair :: "('p \<Rightarrow> ('w, 'p) act) \<Rightarrow> ('q \<Rightarrow> ('w, 'q) act) \<Rightarrow> 'p \<times> 'q \<Rightarrow> ('w, 'p \<times> 'q) act" where
  "copy_pair copy copy' pq =
     and_then (copy (fst pq)) (\<lambda>p. and_then (copy' (snd pq)) (\<lambda>q. ret (p, q)))"

lemma read_pair_eq_Some:
  "read_pair rd rd' h pq = Some (vu, C) \<longleftrightarrow>
     (\<exists>v A u B. rd h (fst pq) = Some (v, A) \<and> rd' h (snd pq) = Some (u, B)
        \<and> vu = (v, u) \<and> C = A \<union> B)"
  by (fastforce simp: read_pair_def bind_eq_Some_conv)

lemma deep_copy_pair [deep_copies]:
  assumes "deep_copy rd copy" and "deep_copy rd' copy'"
  shows "deep_copy (read_pair rd rd') (copy_pair copy copy')"
proof
  fix h pq vu C
  assume "read_pair rd rd' h pq = Some (vu, C)"
  then obtain v A u B where r: "rd h (fst pq) = Some (v, A)" "rd' h (snd pq) = Some (u, B)"
      and eq: "vu = (v, u)" "C = A \<union> B"
    by (auto simp: read_pair_eq_Some)
  show "C \<subseteq> {..<length h}"
    using deep_copy.read_bound [OF assms(1) r(1)] deep_copy.read_bound [OF assms(2) r(2)] eq by simp
  show "read_pair rd rd' h' pq = Some (vu, C)" if "\<And>a. a \<in> C \<Longrightarrow> cell_at h' a = cell_at h a" for h'
    using that eq deep_copy.read_local [OF assms(1) r(1)] deep_copy.read_local [OF assms(2) r(2)]
    by (simp add: read_pair_eq_Some)
  obtain p h1 A' where c1: "copy (fst pq) h = (Ok p, h1)" "memory_kept {} h h1"
      "rd h1 p = Some (v, A')" "A' \<subseteq> {length h..<length h1}"
    using deep_copy.copyE [OF assms(1) r(1)] .
  have "rd' h1 (snd pq) = Some (u, B)"
    using assms(2) r(2) c1(2) by (rule deep_copy.read_kept) simp
  then obtain q h2 B' where c2: "copy' (snd pq) h1 = (Ok q, h2)" "memory_kept {} h1 h2"
      "rd' h2 q = Some (u, B')" "B' \<subseteq> {length h1..<length h2}"
    by (rule deep_copy.copyE [OF assms(2)])
  have "rd h2 p = Some (v, A')"
    using assms(1) c1(3) c2(2) by (rule deep_copy.read_kept) simp
  moreover have "memory_kept {} h h2"
    using c1(2) c2(2) by (rule memory_kept_trans) simp
  moreover have "A' \<union> B' \<subseteq> {length h..<length h2}"
    using c1(4) c2(4) memory_kept_length [OF c1(2)] memory_kept_length [OF c2(2)] by fastforce
  ultimately show "\<exists>pq' h' C'. copy_pair copy copy' pq h = (Ok pq', h') \<and> memory_kept {} h h'
      \<and> read_pair rd rd' h' pq' = Some (vu, C') \<and> C' \<subseteq> {length h..<length h'}"
    using c1(1) c2(1,3) eq by (auto simp: copy_pair_def act_simps read_pair_eq_Some)
qed

text \<open>
  A struct whose copy replaces the parts \<open>get\<close> that hold pointers and keeps the others;
  \<open>build\<close> makes the value from the parts' values and the other fields.
\<close>

definition read_struct ::
  "('c, 'p, 'v) reader \<Rightarrow> ('s \<Rightarrow> 'p) \<Rightarrow> ('s \<Rightarrow> 'v \<Rightarrow> 'u) \<Rightarrow> ('c, 's, 'u) reader" where
  "read_struct rd get build h s = map_option (apfst (build s)) (rd h (get s))"

lemma deep_copy_struct:
  assumes "deep_copy rd copy"
    and "\<And>s. copy' s = and_then (copy (get s)) (\<lambda>x. ret (put s x))"
    and "\<And>s x. get (put s x) = x" and "\<And>s x. build (put s x) = build s"
  shows "deep_copy (read_struct rd get build) copy'"
proof
  fix h s v A
  assume "read_struct rd get build h s = Some (v, A)"
  then obtain u where r: "rd h (get s) = Some (u, A)" and v: "v = build s u"
    by (auto simp: read_struct_def)
  show "A \<subseteq> {..<length h}"
    using assms(1) r by (rule deep_copy.read_bound)
  show "read_struct rd get build h' s = Some (v, A)"
    if "\<And>a. a \<in> A \<Longrightarrow> cell_at h' a = cell_at h a" for h'
    using deep_copy.read_local [OF assms(1) r that] v by (simp add: read_struct_def)
  obtain x h' A' where "copy (get s) h = (Ok x, h')" "memory_kept {} h h'"
      "rd h' x = Some (u, A')" "A' \<subseteq> {length h..<length h'}"
    using deep_copy.copyE [OF assms(1) r] .
  then show "\<exists>s' h' A'. copy' s h = (Ok s', h') \<and> memory_kept {} h h'
      \<and> read_struct rd get build h' s' = Some (v, A') \<and> A' \<subseteq> {length h..<length h'}"
    using v by (auto simp: assms(2-4) read_struct_def act_simps)
qed

subsection \<open>Pointers\<close>

text \<open>
  \<open>if in.F != nil { *out = new(T); (*in).DeepCopyInto( *out) }\<close>, which is also the text of
  every \<open>DeepCopy\<close> method; for plain data the copy is the assignment \<open>**out = **in\<close>.
\<close>

definition copy_pointer ::
  "('c \<Rightarrow> 'a option) \<Rightarrow> ('a \<Rightarrow> 'c) \<Rightarrow> ('a \<Rightarrow> ('c memory, 'a) act)
     \<Rightarrow> addr option \<Rightarrow> ('c memory, addr option) act" where
  "copy_pointer dest mk copy p =
     (case p of
        None \<Rightarrow> ret None
      | Some a \<Rightarrow>
          and_then (make_blocks 1) (\<lambda>b.
          and_then (load dest a) (\<lambda>x.
          and_then (copy x) (\<lambda>y.
          and_then (store b (mk y)) (\<lambda>_. ret (Some b))))))"

definition read_block :: "('c \<Rightarrow> 'a option) \<Rightarrow> ('c, 'a, 'v) reader \<Rightarrow> ('c, addr, 'v) reader" where
  "read_block dest rd h a =
     Option.bind (content dest h a) (\<lambda>x. map_option (apsnd (insert a)) (rd h x))"

fun read_pointer ::
  "('c \<Rightarrow> 'a option) \<Rightarrow> ('c, 'a, 'v) reader \<Rightarrow> ('c, addr option, 'v option) reader" where
  "read_pointer dest rd h None = Some (None, {})"
| "read_pointer dest rd h (Some a) = map_option (apfst Some) (read_block dest rd h a)"

lemma read_block_eq_Some:
  "read_block dest rd h a = Some (v, B) \<longleftrightarrow>
     (\<exists>x A. content dest h a = Some x \<and> rd h x = Some (v, A) \<and> B = insert a A)"
  by (auto simp: read_block_def bind_eq_Some_conv)

lemma read_pointer_eq_Some:
  "read_pointer dest rd h p = Some (Some v, A) \<longleftrightarrow>
     (\<exists>a. p = Some a \<and> read_block dest rd h a = Some (v, A))"
  by (cases p) auto

text \<open>Copying one block into one that was allocated before; nothing else is written.\<close>

definition copy_block ::
  "('c \<Rightarrow> 'a option) \<Rightarrow> ('a \<Rightarrow> 'c) \<Rightarrow> ('a \<Rightarrow> ('c memory, 'a) act)
     \<Rightarrow> addr \<Rightarrow> addr \<Rightarrow> ('c memory, unit) act" where
  "copy_block dest mk copy a b =
     and_then (load dest a) (\<lambda>x. and_then (copy x) (\<lambda>y. store b (mk y)))"

lemma copy_pointer_copy_block:
  "copy_pointer dest mk copy (Some a) =
     and_then (make_blocks 1) (\<lambda>b. and_then (copy_block dest mk copy a b) (\<lambda>_. ret (Some b)))"
  by (simp add: copy_pointer_def copy_block_def and_then_assoc)

locale block_copy = deep_copy rd copy
  for dest :: "'c \<Rightarrow> 'a option" and mk :: "'a \<Rightarrow> 'c"
    and rd :: "('c, 'a, 'v) reader" and copy :: "'a \<Rightarrow> ('c memory, 'a) act" +
  assumes dest_mk [simp]: "dest (mk x) = Some x"
begin

lemma read_block_local:
  "read_block dest rd h a = Some (v, A) \<Longrightarrow> (\<And>b. b \<in> A \<Longrightarrow> cell_at h' b = cell_at h b)
     \<Longrightarrow> read_block dest rd h' a = Some (v, A)"
  unfolding read_block_eq_Some using read_local content_cong
  by (metis insert_iff)

lemma read_block_bound: "read_block dest rd h a = Some (v, A) \<Longrightarrow> A \<subseteq> {..<length h}"
  using read_bound content_bound by (fastforce simp: read_block_eq_Some)

lemma read_block_kept:
  assumes "read_block dest rd h a = Some (v, A)" and "memory_kept X h h'" and "A \<inter> X = {}"
  shows "read_block dest rd h' a = Some (v, A)"
  using assms(1)
proof (rule read_block_local)
  fix b assume "b \<in> A"
  with assms read_block_bound [OF assms(1)] show "cell_at h' b = cell_at h b"
    by (auto simp: memory_kept_def)
qed

lemma copy_blockE:
  assumes "read_block dest rd h a = Some (v, A)" and "b < length h" and "b \<notin> A"
  obtains h' A' where "copy_block dest mk copy a b h = (Ok (), h')" "memory_kept {b} h h'"
    "read_block dest rd h' b = Some (v, insert b A')" "A' \<subseteq> {length h..<length h'}"
proof -
  from assms(1) obtain x B where x: "content dest h a = Some x" "rd h x = Some (v, B)"
    by (auto simp: read_block_eq_Some)
  obtain y h1 A' where c: "copy x h = (Ok y, h1)" "memory_kept {} h h1"
      "rd h1 y = Some (v, A')" "A' \<subseteq> {length h..<length h1}"
    using x(2) by (rule copyE)
  have b: "b < length h1" "b \<notin> A'"
    using assms(2) c(4) memory_kept_length [OF c(2)] by auto
  let ?h = "h1[b := Some (mk y)]"
  have "copy_block dest mk copy a b h = (Ok (), ?h)"
    using x(1) c(1) b(1) by (simp add: copy_block_def act_simps load_apply store_apply)
  moreover have "memory_kept {b} h1 ?h"
    by (rule memory_kept_update) simp
  then have "memory_kept {b} h ?h"
    using c(2) by (auto intro: memory_kept_trans)
  moreover have "rd ?h y = Some (v, A')"
    using c(3) \<open>memory_kept {b} h1 ?h\<close> b(2) by (auto intro: read_kept)
  then have "read_block dest rd ?h b = Some (v, insert b A')"
    using b(1) by (simp add: read_block_def)
  moreover have "A' \<subseteq> {length h..<length ?h}"
    using c(4) by simp
  ultimately show thesis by (rule that)
qed

lemma deep_copy_pointer [deep_copies]: "deep_copy (read_pointer dest rd) (copy_pointer dest mk copy)"
proof
  fix h p v A
  assume r: "read_pointer dest rd h p = Some (v, A)"
  show "A \<subseteq> {..<length h}"
    using r by (cases p) (auto dest!: read_block_bound)
  show "read_pointer dest rd h' p = Some (v, A)" if "\<And>a. a \<in> A \<Longrightarrow> cell_at h' a = cell_at h a" for h'
    using r that by (cases p) (auto intro: read_block_local [of h _ _ _ h'])
  show "\<exists>p' h' A'. copy_pointer dest mk copy p h = (Ok p', h') \<and> memory_kept {} h h'
      \<and> read_pointer dest rd h' p' = Some (v, A') \<and> A' \<subseteq> {length h..<length h'}"
  proof (cases p)
    case None
    with r show ?thesis by (auto simp: copy_pointer_def)
  next
    case (Some a)
    with r obtain u where u: "v = Some u" "read_block dest rd h a = Some (u, A)" by auto
    let ?h = "h @ replicate 1 None"
    have "read_block dest rd ?h a = Some (u, A)"
      using u(2) by (rule read_block_kept [where X = "{}"]) simp_all
    moreover have "length h < length ?h" "length h \<notin> A"
      using read_block_bound [OF u(2)] by auto
    ultimately obtain h' A' where c: "copy_block dest mk copy a (length h) ?h = (Ok (), h')"
        "memory_kept {length h} ?h h'" "read_block dest rd h' (length h) = Some (u, insert (length h) A')"
        "A' \<subseteq> {length ?h..<length h'}"
      by (rule copy_blockE)
    have "copy_pointer dest mk copy p h = (Ok (Some (length h)), h')"
      using Some c(1) by (simp add: copy_pointer_copy_block make_blocks_apply and_then_eq_Ok_iff)
    moreover have "memory_kept {} h h'"
      using c(2) by (rule memory_kept_made) auto
    moreover have "insert (length h) A' \<subseteq> {length h..<length h'}"
      using c(4) memory_kept_length [OF c(2)] by auto
    ultimately show ?thesis using u(1) c(3) by fastforce
  qed
qed

end

subsection \<open>Slices\<close>

text \<open>
  A slice is nil or an address and a length. \<open>copy_elems\<close> is the loop
  \<open>for i := range *in { (*in)[i].DeepCopyInto(&( *out)[i]) }\<close>. Nil and empty slices read as
  the empty list.
\<close>

type_synonym slice = "(addr \<times> nat) option"

fun copy_elems ::
  "('c \<Rightarrow> 'a option) \<Rightarrow> ('a \<Rightarrow> 'c) \<Rightarrow> ('a \<Rightarrow> ('c memory, 'a) act)
     \<Rightarrow> addr \<Rightarrow> addr \<Rightarrow> nat \<Rightarrow> ('c memory, unit) act" where
  "copy_elems dest mk copy a b 0 = ret ()"
| "copy_elems dest mk copy a b (Suc n) =
     and_then (copy_block dest mk copy a b) (\<lambda>_. copy_elems dest mk copy (Suc a) (Suc b) n)"

definition copy_slice ::
  "('c \<Rightarrow> 'a option) \<Rightarrow> ('a \<Rightarrow> 'c) \<Rightarrow> ('a \<Rightarrow> ('c memory, 'a) act) \<Rightarrow> slice \<Rightarrow> ('c memory, slice) act" where
  "copy_slice dest mk copy s =
     (case s of
        None \<Rightarrow> ret None
      | Some (a, n) \<Rightarrow>
          and_then (make_blocks n) (\<lambda>b.
          and_then (copy_elems dest mk copy a b n) (\<lambda>_. ret (Some (b, n)))))"

fun read_elems ::
  "('c \<Rightarrow> 'a option) \<Rightarrow> ('c, 'a, 'v) reader \<Rightarrow> 'c memory \<Rightarrow> addr \<Rightarrow> nat \<Rightarrow> ('v list \<times> addr set) option" where
  "read_elems dest rd h a 0 = Some ([], {})"
| "read_elems dest rd h a (Suc n) =
     Option.bind (read_block dest rd h a) (\<lambda>(v, A).
       map_option (\<lambda>(vs, B). (v # vs, A \<union> B)) (read_elems dest rd h (Suc a) n))"

fun read_slice :: "('c \<Rightarrow> 'a option) \<Rightarrow> ('c, 'a, 'v) reader \<Rightarrow> ('c, slice, 'v list) reader" where
  "read_slice dest rd h None = Some ([], {})"
| "read_slice dest rd h (Some (a, n)) = read_elems dest rd h a n"

lemma read_elems_Suc_eq_Some:
  "read_elems dest rd h a (Suc n) = Some (us, C) \<longleftrightarrow>
     (\<exists>v A vs B. read_block dest rd h a = Some (v, A) \<and> read_elems dest rd h (Suc a) n = Some (vs, B)
        \<and> us = v # vs \<and> C = A \<union> B)"
  by (fastforce simp: bind_eq_Some_conv)

declare read_elems.simps(2) [simp del]

context block_copy
begin

lemma read_elems_local:
  assumes "read_elems dest rd h a n = Some (vs, A)"
    and "\<And>b. b \<in> A \<Longrightarrow> cell_at h' b = cell_at h b"
  shows "read_elems dest rd h' a n = Some (vs, A)"
  using assms
proof (induction n arbitrary: a vs A)
  case (Suc n)
  then obtain v B ws C where r: "read_block dest rd h a = Some (v, B)"
      "read_elems dest rd h (Suc a) n = Some (ws, C)" and eq: "vs = v # ws" "A = B \<union> C"
    by (auto simp: read_elems_Suc_eq_Some)
  have "read_block dest rd h' a = Some (v, B)"
    using r(1) Suc.prems(2) eq by (auto intro: read_block_local)
  moreover have "read_elems dest rd h' (Suc a) n = Some (ws, C)"
    using r(2) Suc.prems(2) eq by (auto intro: Suc.IH)
  ultimately show ?case using eq by (auto simp: read_elems_Suc_eq_Some)
qed simp

lemma read_elems_bound: "read_elems dest rd h a n = Some (vs, A) \<Longrightarrow> A \<subseteq> {..<length h}"
  by (induction n arbitrary: a vs A)
    (auto simp: read_elems_Suc_eq_Some dest!: read_block_bound)

lemma read_elems_kept:
  assumes "read_elems dest rd h a n = Some (vs, A)" and "memory_kept X h h'" and "A \<inter> X = {}"
  shows "read_elems dest rd h' a n = Some (vs, A)"
  using assms(1)
proof (rule read_elems_local)
  fix b assume "b \<in> A"
  with assms read_elems_bound [OF assms(1)] show "cell_at h' b = cell_at h b"
    by (auto simp: memory_kept_def)
qed

lemma copy_elems_copies:
  assumes "read_elems dest rd h a n = Some (vs, A)" and "b + n \<le> length h" and "A \<inter> {b..<b + n} = {}"
  shows "\<exists>h' B. copy_elems dest mk copy a b n h = (Ok (), h') \<and> memory_kept {b..<b + n} h h'
    \<and> read_elems dest rd h' b n = Some (vs, B) \<and> B \<subseteq> {b..<b + n} \<union> {length h..<length h'}"
  using assms
proof (induction n arbitrary: a b h vs A)
  case (Suc n)
  then obtain v C ws D where r: "read_block dest rd h a = Some (v, C)"
      "read_elems dest rd h (Suc a) n = Some (ws, D)" and eq: "vs = v # ws" "A = C \<union> D"
    by (auto simp: read_elems_Suc_eq_Some)
  have "b < length h" "b \<notin> C" using Suc.prems(2,3) eq by auto
  with r(1) obtain h1 C' where c: "copy_block dest mk copy a b h = (Ok (), h1)" "memory_kept {b} h h1"
      "read_block dest rd h1 b = Some (v, insert b C')" "C' \<subseteq> {length h..<length h1}"
    by (rule copy_blockE)
  have len: "length h \<le> length h1" using c(2) by (rule memory_kept_length)
  have "read_elems dest rd h1 (Suc a) n = Some (ws, D)"
    using r(2) c(2) by (rule read_elems_kept) (use Suc.prems(3) eq(2) in \<open>auto simp: disjoint_iff\<close>)
  moreover have "Suc b + n \<le> length h1" using Suc.prems(2) len by simp
  moreover have "D \<inter> {Suc b..<Suc b + n} = {}"
    using Suc.prems(3) eq(2) by (simp add: disjoint_iff)
  ultimately obtain h2 B where d: "copy_elems dest mk copy (Suc a) (Suc b) n h1 = (Ok (), h2)"
      "memory_kept {Suc b..<Suc b + n} h1 h2" "read_elems dest rd h2 (Suc b) n = Some (ws, B)"
      "B \<subseteq> {Suc b..<Suc b + n} \<union> {length h1..<length h2}"
    using Suc.IH by blast
  have "insert b C' \<inter> {Suc b..<Suc b + n} = {}"
    using c(4) Suc.prems(2) by fastforce
  with c(3) d(2) have "read_block dest rd h2 b = Some (v, insert b C')"
    by (rule read_block_kept)
  with d(3) eq have "read_elems dest rd h2 b (Suc n) = Some (vs, insert b C' \<union> B)"
    by (auto simp: read_elems_Suc_eq_Some)
  moreover have "copy_elems dest mk copy a b (Suc n) h = (Ok (), h2)"
    using c(1) d(1) by (simp add: act_simps)
  moreover have "memory_kept {b..<b + Suc n} h h2"
    using c(2) d(2) by (rule memory_kept_trans) auto
  moreover have "insert b C' \<union> B \<subseteq> {b..<b + Suc n} \<union> {length h..<length h2}"
    using c(4) d(4) len memory_kept_length [OF d(2)] by fastforce
  ultimately show ?case by blast
qed auto

lemma deep_copy_slice [deep_copies]: "deep_copy (read_slice dest rd) (copy_slice dest mk copy)"
proof
  fix h s vs A
  assume r: "read_slice dest rd h s = Some (vs, A)"
  show "A \<subseteq> {..<length h}"
    using r by (cases s) (auto dest!: read_elems_bound)
  show "read_slice dest rd h' s = Some (vs, A)" if "\<And>a. a \<in> A \<Longrightarrow> cell_at h' a = cell_at h a" for h'
    using r read_elems_local [OF _ that] by (cases s) auto
  show "\<exists>s' h' A'. copy_slice dest mk copy s h = (Ok s', h') \<and> memory_kept {} h h'
      \<and> read_slice dest rd h' s' = Some (vs, A') \<and> A' \<subseteq> {length h..<length h'}"
  proof (cases s)
    case None
    with r show ?thesis by (auto simp: copy_slice_def)
  next
    case (Some an)
    then obtain a n where s: "s = Some (a, n)" by (cases an) simp
    let ?h = "h @ replicate n None" and ?b = "length h"
    have e: "read_elems dest rd h a n = Some (vs, A)" using r s by simp
    then have "read_elems dest rd ?h a n = Some (vs, A)"
      by (rule read_elems_kept [where X = "{}"]) simp_all
    moreover have "A \<inter> {?b..<?b + n} = {}"
      using read_elems_bound [OF e] by fastforce
    ultimately obtain h' B where c: "copy_elems dest mk copy a ?b n ?h = (Ok (), h')"
        "memory_kept {?b..<?b + n} ?h h'" "read_elems dest rd h' ?b n = Some (vs, B)"
        "B \<subseteq> {?b..<?b + n} \<union> {length ?h..<length h'}"
      using copy_elems_copies [of ?h a n vs A ?b] by auto
    have "copy_slice dest mk copy s h = (Ok (Some (?b, n)), h')"
      using s c(1) by (simp add: copy_slice_def make_blocks_apply and_then_eq_Ok_iff)
    moreover have "memory_kept {} h h'"
      using c(2) by (rule memory_kept_made) auto
    moreover have "B \<subseteq> {?b..<length h'}"
      using c(4) memory_kept_length [OF c(2)] by fastforce
    ultimately show ?thesis using c(3) by auto
  qed
qed

end

subsection \<open>Maps\<close>

text \<open>
  A map block holds its entries in the order in which \<open>range\<close> visits them, which Go leaves
  open; keys are distinct. \<open>copy_entries\<close> is the loop
  \<open>for key, val := range *in { ( *out)[key] = val }\<close>. Nil and empty maps read as the empty map.
\<close>

fun copy_entries ::
  "('c \<Rightarrow> ('k \<times> 'v) list option) \<Rightarrow> (('k \<times> 'v) list \<Rightarrow> 'c) \<Rightarrow> addr \<Rightarrow> ('k \<times> 'v) list
     \<Rightarrow> ('c memory, unit) act" where
  "copy_entries dest mk b [] = ret ()"
| "copy_entries dest mk b ((key, val) # kvs) =
     and_then (load dest b) (\<lambda>m.
     and_then (store b (mk (AList.update key val m))) (\<lambda>_. copy_entries dest mk b kvs))"

definition copy_map ::
  "('c \<Rightarrow> ('k \<times> 'v) list option) \<Rightarrow> (('k \<times> 'v) list \<Rightarrow> 'c) \<Rightarrow> addr option
     \<Rightarrow> ('c memory, addr option) act" where
  "copy_map dest mk p =
     (case p of
        None \<Rightarrow> ret None
      | Some a \<Rightarrow>
          and_then (make_blocks 1) (\<lambda>b.
          and_then (store b (mk [])) (\<lambda>_.
          and_then (load dest a) (\<lambda>kvs.
          and_then (copy_entries dest mk b kvs) (\<lambda>_. ret (Some b))))))"

fun read_map :: "('c \<Rightarrow> ('k \<times> 'v) list option) \<Rightarrow> ('c, addr option, 'k \<rightharpoonup> 'v) reader" where
  "read_map dest h None = Some (Map.empty, {})"
| "read_map dest h (Some a) =
     Option.bind (content dest h a) (\<lambda>kvs.
       if distinct (map fst kvs) then Some (map_of kvs, {a}) else None)"

locale map_block =
  fixes dest :: "'c \<Rightarrow> ('k \<times> 'v) list option" and mk :: "('k \<times> 'v) list \<Rightarrow> 'c"
  assumes dest_mk [simp]: "dest (mk x) = Some x"
begin

lemma copy_entries_copies:
  assumes "content dest h b = Some m" and "distinct (map fst m)" and "distinct (map fst kvs)"
  shows "\<exists>h' m'. copy_entries dest mk b kvs h = (Ok (), h') \<and> memory_kept {b} h h'
    \<and> length h' = length h \<and> content dest h' b = Some m' \<and> distinct (map fst m')
    \<and> map_of m' = map_of m ++ map_of kvs"
  using assms
proof (induction kvs arbitrary: h m)
  case (Cons kv kvs)
  obtain key val where kv: "kv = (key, val)" by (cases kv)
  let ?m = "AList.update key val m"
  let ?h = "h[b := Some (mk ?m)]"
  have b: "b < length h" using Cons.prems(1) by (rule content_bound)
  then have "content dest ?h b = Some ?m" by simp
  moreover have "distinct (map fst ?m)" using Cons.prems(2) by (rule distinct_update)
  ultimately obtain h' m' where c: "copy_entries dest mk b kvs ?h = (Ok (), h')" "memory_kept {b} ?h h'"
      "length h' = length ?h" "content dest h' b = Some m'" "distinct (map fst m')"
      "map_of m' = map_of ?m ++ map_of kvs"
    using Cons.IH Cons.prems(3) by fastforce
  have "memory_kept {b} h h'"
    using memory_kept_update [of b "{b}" h] c(2) by (auto intro: memory_kept_trans)
  moreover have "map_of ?m ++ map_of kvs = map_of m ++ map_of (kv # kvs)"
    using Cons.prems(3) kv by (simp add: update_conv' map_add_upd_left dom_map_of_conv_image_fst)
  ultimately show ?case
    using Cons.prems(1) b c kv
    by (auto simp: act_simps load_apply store_apply simp del: map_of.simps map_add_upd)
qed (auto simp: map_add_def)

lemma deep_copy_map [deep_copies]: "deep_copy (read_map dest) (copy_map dest mk)"
proof
  fix h p f A
  assume r: "read_map dest h p = Some (f, A)"
  show "A \<subseteq> {..<length h}"
    using r by (cases p) (auto simp: bind_eq_Some_conv content_bound split: if_splits)
  show "read_map dest h' p = Some (f, A)" if "\<And>a. a \<in> A \<Longrightarrow> cell_at h' a = cell_at h a" for h'
    using r that by (cases p) (auto simp: bind_eq_Some_conv split: if_splits cong: content_cong)
  show "\<exists>p' h' A'. copy_map dest mk p h = (Ok p', h') \<and> memory_kept {} h h'
      \<and> read_map dest h' p' = Some (f, A') \<and> A' \<subseteq> {length h..<length h'}"
  proof (cases p)
    case None
    with r show ?thesis by (auto simp: copy_map_def)
  next
    case (Some a)
    then obtain kvs where kvs: "content dest h a = Some kvs" "distinct (map fst kvs)" "f = map_of kvs"
      using r by (auto simp: bind_eq_Some_conv split: if_splits)
    let ?b = "length h"
    let ?h = "(h @ replicate 1 None)[?b := Some (mk [])]"
    have "memory_kept {?b} (h @ replicate 1 None) ?h"
      by (rule memory_kept_update) simp
    with memory_kept_append have kept: "memory_kept {} h ?h"
      by (rule memory_kept_trans [where X = "{}"]) simp
    have old: "content dest ?h a = Some kvs"
      using kvs(1) content_bound [OF kvs(1)] kept by (auto simp: memory_kept_def content_def)
    have "content dest ?h ?b = Some []" by (subst content_update) simp_all
    then obtain h' m' where c: "copy_entries dest mk ?b kvs ?h = (Ok (), h')" "memory_kept {?b} ?h h'"
        "length h' = length ?h" "content dest h' ?b = Some m'" "distinct (map fst m')"
        "map_of m' = map_of [] ++ map_of kvs"
      using copy_entries_copies [of ?h ?b "[]" kvs] kvs(2) by auto
    have "copy_map dest mk p h = (Ok (Some ?b), h')"
      using Some c(1) old by (simp add: copy_map_def make_blocks_apply store_apply load_apply and_then_eq_Ok_iff)
    moreover have "memory_kept {} h h'"
      using kept c(2) by (rule memory_kept_trans) auto
    moreover have "read_map dest h' (Some ?b) = Some (f, {?b})"
      using c kvs(3) by simp
    ultimately show ?thesis using c(3) by fastforce
  qed
qed

end

end
