(* ===== verification/DeepCopy.thy ===== *)
theory DeepCopy
  imports GoHeap SiteTypes
begin

text \<open>
  The generated deep copies (\<open>api/v1alpha1/zz_generated.deepcopy.go\<close>) on memory with
  pointers. A struct with pointers has an in-memory record \<open>raw_T\<close>, its pointer, map and
  slice fields addresses; plain structs are the records of \<open>SiteTypes\<close>. \<open>T_DeepCopyInto\<close> takes
  the content of \<open>*in\<close> to what \<open>*out\<close> holds at the end (the callers pass distinct structs),
  allocating as the code does; \<open>T_DeepCopy\<close> is the method on pointers. \<open>read_T\<close> says which
  record of \<open>SiteTypes\<close> an in-memory struct stands for, and every copy is a \<open>deep_copy\<close> for it.

  The copies of \<open>ObjectMeta\<close>, \<open>ListMeta\<close> and \<open>Condition\<close> are apimachinery's: they are the
  parameter \<open>lib_copies\<close>, with the contract of a deep copy as its law (\<open>library_copies\<close>).
\<close>

section \<open>Structs in memory\<close>

record raw_DatabaseProvisionSpec =
  rdps_Enabled :: bool
  rdps_MariaDBRef :: "addr option"

record raw_ProvisionSpec =
  rprov_Database :: "addr option"

record raw_InstallSpec =
  rinst_AdminUser :: string
  rinst_AdminEmail :: string
  rinst_Title :: string
  rinst_AdminPasswordSecret :: "addr option"
  rinst_AdminPassword :: "addr option"

record raw_WordpressSpec =
  rwp_Debug :: "addr option"
  rwp_Install :: "addr option"
  rwp_Version :: string

record raw_DatabaseSpec =
  rdbs_Host :: string
  rdbs_Name :: string
  rdbs_UserSecret :: "addr option"
  rdbs_PasswordSecret :: "addr option"
  rdbs_User :: "addr option"
  rdbs_Password :: "addr option"

record raw_IngressSpec =
  risp_Enabled :: bool
  risp_Path :: string
  risp_TLS :: "addr option"
  risp_Annotations :: "addr option"
  risp_IngressClassName :: string

record raw_PersistenceSpec =
  rper_Enabled :: bool
  rper_ExistingClaim :: string
  rper_Size :: string
  rper_StorageClassName :: "addr option"

record raw_SiteSpec =
  rspec_Foo :: "addr option"
  rspec_Domain :: string
  rspec_Ingress :: "addr option"
  rspec_Wordpress :: "addr option"
  rspec_Database :: raw_DatabaseSpec
  rspec_Persistence :: "addr option"
  rspec_NodeSelector :: "addr option"
  rspec_FileBrowser :: "addr option"
  rspec_Provision :: "addr option"
  rspec_UpdateStrategy :: string
  rspec_Nginx :: "addr option"
  rspec_Php :: "addr option"

record raw_SiteStatus =
  rst_Conditions :: slice

text \<open>The metadata types of apimachinery, with the fields of \<open>KubeTypes\<close>.\<close>

record TypeMeta =
  tm_Kind :: string
  tm_APIVersion :: string

record raw_ObjectMeta =
  rom_Name :: string
  rom_Namespace :: string
  rom_UID :: string
  rom_Generation :: int64
  rom_CreationTimestamp :: "nat option"
  rom_DeletionTimestamp :: "addr option"
  rom_Labels :: "addr option"
  rom_Annotations :: "addr option"
  rom_OwnerReferences :: slice

record ListMeta =
  lm_ResourceVersion :: string
  lm_Continue :: string
  lm_RemainingItemCount :: "int64 option"

record raw_ListMeta =
  rlm_ResourceVersion :: string
  rlm_Continue :: string
  rlm_RemainingItemCount :: "addr option"

record raw_Site =
  rsite_TypeMeta :: TypeMeta
  rsite_Meta :: raw_ObjectMeta
  rsite_Spec :: raw_SiteSpec
  rsite_Status :: raw_SiteStatus

text \<open>\<open>SiteList\<close> as a value; a Site comes with its type metadata here.\<close>

record SiteList =
  sl_TypeMeta :: TypeMeta
  sl_ListMeta :: ListMeta
  sl_Items :: "(TypeMeta \<times> Site) list"

record raw_SiteList =
  rsl_TypeMeta :: TypeMeta
  rsl_ListMeta :: raw_ListMeta
  rsl_Items :: slice

section \<open>Blocks\<close>

text \<open>A block of memory holds a value of one of the types that pointers, maps and slices have.\<close>

datatype cell =
    StringCell string
  | BoolCell bool
  | TimeCell nat
  | Int64Cell int64
  | StringMapCell "(string \<times> string) list"
  | OwnerReferenceCell OwnerReference
  | ConditionCell Condition
  | SecretKeyRefCell SecretKeyRef
  | MariaDBClusterRefCell MariaDBClusterRef
  | FileBrowserSpecCell FileBrowserSpec
  | DebugSpecCell DebugSpec
  | NginxSpecCell NginxSpec
  | PhpSpecCell PhpSpec
  | DatabaseProvisionSpecCell raw_DatabaseProvisionSpec
  | ProvisionSpecCell raw_ProvisionSpec
  | InstallSpecCell raw_InstallSpec
  | WordpressSpecCell raw_WordpressSpec
  | DatabaseSpecCell raw_DatabaseSpec
  | IngressSpecCell raw_IngressSpec
  | PersistenceSpecCell raw_PersistenceSpec
  | SiteSpecCell raw_SiteSpec
  | SiteStatusCell raw_SiteStatus
  | SiteCell raw_Site
  | SiteListCell raw_SiteList

definition as_String :: "cell \<Rightarrow> string option" where
  "as_String c = (case c of StringCell x \<Rightarrow> Some x | _ \<Rightarrow> None)"

definition as_Bool :: "cell \<Rightarrow> bool option" where
  "as_Bool c = (case c of BoolCell x \<Rightarrow> Some x | _ \<Rightarrow> None)"

definition as_Time :: "cell \<Rightarrow> nat option" where
  "as_Time c = (case c of TimeCell x \<Rightarrow> Some x | _ \<Rightarrow> None)"

definition as_Int64 :: "cell \<Rightarrow> int64 option" where
  "as_Int64 c = (case c of Int64Cell x \<Rightarrow> Some x | _ \<Rightarrow> None)"

definition as_StringMap :: "cell \<Rightarrow> ((string \<times> string) list) option" where
  "as_StringMap c = (case c of StringMapCell x \<Rightarrow> Some x | _ \<Rightarrow> None)"

definition as_OwnerReference :: "cell \<Rightarrow> OwnerReference option" where
  "as_OwnerReference c = (case c of OwnerReferenceCell x \<Rightarrow> Some x | _ \<Rightarrow> None)"

definition as_Condition :: "cell \<Rightarrow> Condition option" where
  "as_Condition c = (case c of ConditionCell x \<Rightarrow> Some x | _ \<Rightarrow> None)"

definition as_SecretKeyRef :: "cell \<Rightarrow> SecretKeyRef option" where
  "as_SecretKeyRef c = (case c of SecretKeyRefCell x \<Rightarrow> Some x | _ \<Rightarrow> None)"

definition as_MariaDBClusterRef :: "cell \<Rightarrow> MariaDBClusterRef option" where
  "as_MariaDBClusterRef c = (case c of MariaDBClusterRefCell x \<Rightarrow> Some x | _ \<Rightarrow> None)"

definition as_FileBrowserSpec :: "cell \<Rightarrow> FileBrowserSpec option" where
  "as_FileBrowserSpec c = (case c of FileBrowserSpecCell x \<Rightarrow> Some x | _ \<Rightarrow> None)"

definition as_DebugSpec :: "cell \<Rightarrow> DebugSpec option" where
  "as_DebugSpec c = (case c of DebugSpecCell x \<Rightarrow> Some x | _ \<Rightarrow> None)"

definition as_NginxSpec :: "cell \<Rightarrow> NginxSpec option" where
  "as_NginxSpec c = (case c of NginxSpecCell x \<Rightarrow> Some x | _ \<Rightarrow> None)"

definition as_PhpSpec :: "cell \<Rightarrow> PhpSpec option" where
  "as_PhpSpec c = (case c of PhpSpecCell x \<Rightarrow> Some x | _ \<Rightarrow> None)"

definition as_DatabaseProvisionSpec :: "cell \<Rightarrow> raw_DatabaseProvisionSpec option" where
  "as_DatabaseProvisionSpec c = (case c of DatabaseProvisionSpecCell x \<Rightarrow> Some x | _ \<Rightarrow> None)"

definition as_ProvisionSpec :: "cell \<Rightarrow> raw_ProvisionSpec option" where
  "as_ProvisionSpec c = (case c of ProvisionSpecCell x \<Rightarrow> Some x | _ \<Rightarrow> None)"

definition as_InstallSpec :: "cell \<Rightarrow> raw_InstallSpec option" where
  "as_InstallSpec c = (case c of InstallSpecCell x \<Rightarrow> Some x | _ \<Rightarrow> None)"

definition as_WordpressSpec :: "cell \<Rightarrow> raw_WordpressSpec option" where
  "as_WordpressSpec c = (case c of WordpressSpecCell x \<Rightarrow> Some x | _ \<Rightarrow> None)"

definition as_DatabaseSpec :: "cell \<Rightarrow> raw_DatabaseSpec option" where
  "as_DatabaseSpec c = (case c of DatabaseSpecCell x \<Rightarrow> Some x | _ \<Rightarrow> None)"

definition as_IngressSpec :: "cell \<Rightarrow> raw_IngressSpec option" where
  "as_IngressSpec c = (case c of IngressSpecCell x \<Rightarrow> Some x | _ \<Rightarrow> None)"

definition as_PersistenceSpec :: "cell \<Rightarrow> raw_PersistenceSpec option" where
  "as_PersistenceSpec c = (case c of PersistenceSpecCell x \<Rightarrow> Some x | _ \<Rightarrow> None)"

definition as_SiteSpec :: "cell \<Rightarrow> raw_SiteSpec option" where
  "as_SiteSpec c = (case c of SiteSpecCell x \<Rightarrow> Some x | _ \<Rightarrow> None)"

definition as_SiteStatus :: "cell \<Rightarrow> raw_SiteStatus option" where
  "as_SiteStatus c = (case c of SiteStatusCell x \<Rightarrow> Some x | _ \<Rightarrow> None)"

definition as_Site :: "cell \<Rightarrow> raw_Site option" where
  "as_Site c = (case c of SiteCell x \<Rightarrow> Some x | _ \<Rightarrow> None)"

definition as_SiteList :: "cell \<Rightarrow> raw_SiteList option" where
  "as_SiteList c = (case c of SiteListCell x \<Rightarrow> Some x | _ \<Rightarrow> None)"

lemmas as_cell_defs = as_String_def as_Bool_def as_Time_def as_Int64_def
  as_StringMap_def as_OwnerReference_def as_Condition_def as_SecretKeyRef_def
  as_MariaDBClusterRef_def as_FileBrowserSpec_def as_DebugSpec_def as_NginxSpec_def
  as_PhpSpec_def as_DatabaseProvisionSpec_def as_ProvisionSpec_def as_InstallSpec_def
  as_WordpressSpec_def as_DatabaseSpec_def as_IngressSpec_def as_PersistenceSpec_def
  as_SiteSpec_def as_SiteStatus_def as_Site_def as_SiteList_def

type_synonym mem_blocks = "cell memory"

section \<open>Plain structs\<close>

text \<open>\<open>*out = *in\<close> copies a struct without pointers.\<close>

definition SecretKeyRef_DeepCopyInto :: "SecretKeyRef \<Rightarrow> (mem_blocks, SecretKeyRef) act" where
  "SecretKeyRef_DeepCopyInto inp = ret inp"

definition SecretKeyRef_DeepCopy :: "addr option \<Rightarrow> (mem_blocks, addr option) act" where
  "SecretKeyRef_DeepCopy inp =
     copy_pointer as_SecretKeyRef SecretKeyRefCell SecretKeyRef_DeepCopyInto inp"

definition MariaDBClusterRef_DeepCopyInto :: "MariaDBClusterRef \<Rightarrow> (mem_blocks, MariaDBClusterRef) act" where
  "MariaDBClusterRef_DeepCopyInto inp = ret inp"

definition MariaDBClusterRef_DeepCopy :: "addr option \<Rightarrow> (mem_blocks, addr option) act" where
  "MariaDBClusterRef_DeepCopy inp =
     copy_pointer as_MariaDBClusterRef MariaDBClusterRefCell MariaDBClusterRef_DeepCopyInto inp"

definition FileBrowserSpec_DeepCopyInto :: "FileBrowserSpec \<Rightarrow> (mem_blocks, FileBrowserSpec) act" where
  "FileBrowserSpec_DeepCopyInto inp = ret inp"

definition FileBrowserSpec_DeepCopy :: "addr option \<Rightarrow> (mem_blocks, addr option) act" where
  "FileBrowserSpec_DeepCopy inp =
     copy_pointer as_FileBrowserSpec FileBrowserSpecCell FileBrowserSpec_DeepCopyInto inp"

definition DebugSpec_DeepCopyInto :: "DebugSpec \<Rightarrow> (mem_blocks, DebugSpec) act" where
  "DebugSpec_DeepCopyInto inp = ret inp"

definition DebugSpec_DeepCopy :: "addr option \<Rightarrow> (mem_blocks, addr option) act" where
  "DebugSpec_DeepCopy inp =
     copy_pointer as_DebugSpec DebugSpecCell DebugSpec_DeepCopyInto inp"

definition NginxSpec_DeepCopyInto :: "NginxSpec \<Rightarrow> (mem_blocks, NginxSpec) act" where
  "NginxSpec_DeepCopyInto inp = ret inp"

definition NginxSpec_DeepCopy :: "addr option \<Rightarrow> (mem_blocks, addr option) act" where
  "NginxSpec_DeepCopy inp =
     copy_pointer as_NginxSpec NginxSpecCell NginxSpec_DeepCopyInto inp"

definition PhpSpec_DeepCopyInto :: "PhpSpec \<Rightarrow> (mem_blocks, PhpSpec) act" where
  "PhpSpec_DeepCopyInto inp = ret inp"

definition PhpSpec_DeepCopy :: "addr option \<Rightarrow> (mem_blocks, addr option) act" where
  "PhpSpec_DeepCopy inp =
     copy_pointer as_PhpSpec PhpSpecCell PhpSpec_DeepCopyInto inp"

lemmas plain_copy_defs = SecretKeyRef_DeepCopyInto_def MariaDBClusterRef_DeepCopyInto_def
  FileBrowserSpec_DeepCopyInto_def DebugSpec_DeepCopyInto_def NginxSpec_DeepCopyInto_def
  PhpSpec_DeepCopyInto_def

section \<open>Structs with pointers\<close>

text \<open>
  \<open>*out = *in\<close>, then for every pointer and map that is not nil a fresh one with a copy of what
  it points to.
\<close>

definition DatabaseProvisionSpec_DeepCopyInto ::
  "raw_DatabaseProvisionSpec \<Rightarrow> (mem_blocks, raw_DatabaseProvisionSpec) act" where
  "DatabaseProvisionSpec_DeepCopyInto inp =
     (let out = inp in
     and_then (copy_pointer as_MariaDBClusterRef MariaDBClusterRefCell ret
       (rdps_MariaDBRef inp)) (\<lambda>x.
     let out = out\<lparr>rdps_MariaDBRef := x\<rparr> in
     ret out))"

definition DatabaseProvisionSpec_DeepCopy :: "addr option \<Rightarrow> (mem_blocks, addr option) act" where
  "DatabaseProvisionSpec_DeepCopy inp =
     copy_pointer as_DatabaseProvisionSpec DatabaseProvisionSpecCell DatabaseProvisionSpec_DeepCopyInto inp"

definition ProvisionSpec_DeepCopyInto ::
  "raw_ProvisionSpec \<Rightarrow> (mem_blocks, raw_ProvisionSpec) act" where
  "ProvisionSpec_DeepCopyInto inp =
     (let out = inp in
     and_then (copy_pointer as_DatabaseProvisionSpec DatabaseProvisionSpecCell DatabaseProvisionSpec_DeepCopyInto
       (rprov_Database inp)) (\<lambda>x.
     let out = out\<lparr>rprov_Database := x\<rparr> in
     ret out))"

definition ProvisionSpec_DeepCopy :: "addr option \<Rightarrow> (mem_blocks, addr option) act" where
  "ProvisionSpec_DeepCopy inp =
     copy_pointer as_ProvisionSpec ProvisionSpecCell ProvisionSpec_DeepCopyInto inp"

definition InstallSpec_DeepCopyInto ::
  "raw_InstallSpec \<Rightarrow> (mem_blocks, raw_InstallSpec) act" where
  "InstallSpec_DeepCopyInto inp =
     (let out = inp in
     and_then (copy_pointer as_SecretKeyRef SecretKeyRefCell ret
       (rinst_AdminPasswordSecret inp)) (\<lambda>x.
     let out = out\<lparr>rinst_AdminPasswordSecret := x\<rparr> in
     and_then (copy_pointer as_String StringCell ret (rinst_AdminPassword inp)) (\<lambda>x.
     let out = out\<lparr>rinst_AdminPassword := x\<rparr> in
     ret out)))"

definition InstallSpec_DeepCopy :: "addr option \<Rightarrow> (mem_blocks, addr option) act" where
  "InstallSpec_DeepCopy inp =
     copy_pointer as_InstallSpec InstallSpecCell InstallSpec_DeepCopyInto inp"

definition WordpressSpec_DeepCopyInto ::
  "raw_WordpressSpec \<Rightarrow> (mem_blocks, raw_WordpressSpec) act" where
  "WordpressSpec_DeepCopyInto inp =
     (let out = inp in
     and_then (copy_pointer as_DebugSpec DebugSpecCell ret (rwp_Debug inp)) (\<lambda>x.
     let out = out\<lparr>rwp_Debug := x\<rparr> in
     and_then (copy_pointer as_InstallSpec InstallSpecCell InstallSpec_DeepCopyInto
       (rwp_Install inp)) (\<lambda>x.
     let out = out\<lparr>rwp_Install := x\<rparr> in
     ret out)))"

definition WordpressSpec_DeepCopy :: "addr option \<Rightarrow> (mem_blocks, addr option) act" where
  "WordpressSpec_DeepCopy inp =
     copy_pointer as_WordpressSpec WordpressSpecCell WordpressSpec_DeepCopyInto inp"

definition DatabaseSpec_DeepCopyInto ::
  "raw_DatabaseSpec \<Rightarrow> (mem_blocks, raw_DatabaseSpec) act" where
  "DatabaseSpec_DeepCopyInto inp =
     (let out = inp in
     and_then (copy_pointer as_SecretKeyRef SecretKeyRefCell ret
       (rdbs_UserSecret inp)) (\<lambda>x.
     let out = out\<lparr>rdbs_UserSecret := x\<rparr> in
     and_then (copy_pointer as_SecretKeyRef SecretKeyRefCell ret
       (rdbs_PasswordSecret inp)) (\<lambda>x.
     let out = out\<lparr>rdbs_PasswordSecret := x\<rparr> in
     and_then (copy_pointer as_String StringCell ret (rdbs_User inp)) (\<lambda>x.
     let out = out\<lparr>rdbs_User := x\<rparr> in
     and_then (copy_pointer as_String StringCell ret (rdbs_Password inp)) (\<lambda>x.
     let out = out\<lparr>rdbs_Password := x\<rparr> in
     ret out)))))"

definition DatabaseSpec_DeepCopy :: "addr option \<Rightarrow> (mem_blocks, addr option) act" where
  "DatabaseSpec_DeepCopy inp =
     copy_pointer as_DatabaseSpec DatabaseSpecCell DatabaseSpec_DeepCopyInto inp"

definition IngressSpec_DeepCopyInto ::
  "raw_IngressSpec \<Rightarrow> (mem_blocks, raw_IngressSpec) act" where
  "IngressSpec_DeepCopyInto inp =
     (let out = inp in
     and_then (copy_pointer as_Bool BoolCell ret (risp_TLS inp)) (\<lambda>x.
     let out = out\<lparr>risp_TLS := x\<rparr> in
     and_then (copy_map as_StringMap StringMapCell (risp_Annotations inp)) (\<lambda>x.
     let out = out\<lparr>risp_Annotations := x\<rparr> in
     ret out)))"

definition IngressSpec_DeepCopy :: "addr option \<Rightarrow> (mem_blocks, addr option) act" where
  "IngressSpec_DeepCopy inp =
     copy_pointer as_IngressSpec IngressSpecCell IngressSpec_DeepCopyInto inp"

definition PersistenceSpec_DeepCopyInto ::
  "raw_PersistenceSpec \<Rightarrow> (mem_blocks, raw_PersistenceSpec) act" where
  "PersistenceSpec_DeepCopyInto inp =
     (let out = inp in
     and_then (copy_pointer as_String StringCell ret (rper_StorageClassName inp)) (\<lambda>x.
     let out = out\<lparr>rper_StorageClassName := x\<rparr> in
     ret out))"

definition PersistenceSpec_DeepCopy :: "addr option \<Rightarrow> (mem_blocks, addr option) act" where
  "PersistenceSpec_DeepCopy inp =
     copy_pointer as_PersistenceSpec PersistenceSpecCell PersistenceSpec_DeepCopyInto inp"

definition SiteSpec_DeepCopyInto ::
  "raw_SiteSpec \<Rightarrow> (mem_blocks, raw_SiteSpec) act" where
  "SiteSpec_DeepCopyInto inp =
     (let out = inp in
     and_then (copy_pointer as_String StringCell ret (rspec_Foo inp)) (\<lambda>x.
     let out = out\<lparr>rspec_Foo := x\<rparr> in
     and_then (copy_pointer as_IngressSpec IngressSpecCell IngressSpec_DeepCopyInto
       (rspec_Ingress inp)) (\<lambda>x.
     let out = out\<lparr>rspec_Ingress := x\<rparr> in
     and_then (copy_pointer as_WordpressSpec WordpressSpecCell WordpressSpec_DeepCopyInto
       (rspec_Wordpress inp)) (\<lambda>x.
     let out = out\<lparr>rspec_Wordpress := x\<rparr> in
     and_then (DatabaseSpec_DeepCopyInto (rspec_Database inp)) (\<lambda>x.
     let out = out\<lparr>rspec_Database := x\<rparr> in
     and_then (copy_pointer as_PersistenceSpec PersistenceSpecCell PersistenceSpec_DeepCopyInto
       (rspec_Persistence inp)) (\<lambda>x.
     let out = out\<lparr>rspec_Persistence := x\<rparr> in
     and_then (copy_map as_StringMap StringMapCell (rspec_NodeSelector inp)) (\<lambda>x.
     let out = out\<lparr>rspec_NodeSelector := x\<rparr> in
     and_then (copy_pointer as_FileBrowserSpec FileBrowserSpecCell ret
       (rspec_FileBrowser inp)) (\<lambda>x.
     let out = out\<lparr>rspec_FileBrowser := x\<rparr> in
     and_then (copy_pointer as_ProvisionSpec ProvisionSpecCell ProvisionSpec_DeepCopyInto
       (rspec_Provision inp)) (\<lambda>x.
     let out = out\<lparr>rspec_Provision := x\<rparr> in
     and_then (copy_pointer as_NginxSpec NginxSpecCell ret (rspec_Nginx inp)) (\<lambda>x.
     let out = out\<lparr>rspec_Nginx := x\<rparr> in
     and_then (copy_pointer as_PhpSpec PhpSpecCell ret (rspec_Php inp)) (\<lambda>x.
     let out = out\<lparr>rspec_Php := x\<rparr> in
     ret out)))))))))))"

definition SiteSpec_DeepCopy :: "addr option \<Rightarrow> (mem_blocks, addr option) act" where
  "SiteSpec_DeepCopy inp =
     copy_pointer as_SiteSpec SiteSpecCell SiteSpec_DeepCopyInto inp"

section \<open>What the structs in memory stand for\<close>

text \<open>
  The parts that hold pointers, in the order of the code, with the readers of what they point
  to; the other fields are taken over.
\<close>

definition read_DatabaseProvisionSpec ::
  "(cell, raw_DatabaseProvisionSpec, DatabaseProvisionSpec) reader" where
  "read_DatabaseProvisionSpec =
     read_struct
       (read_pointer as_MariaDBClusterRef read_plain)
       (\<lambda>s. rdps_MariaDBRef s)
       (\<lambda>s ref.
         \<lparr>dps_Enabled = rdps_Enabled s, dps_MariaDBRef = ref\<rparr>)"

definition read_ProvisionSpec ::
  "(cell, raw_ProvisionSpec, ProvisionSpec) reader" where
  "read_ProvisionSpec =
     read_struct
       (read_pointer as_DatabaseProvisionSpec read_DatabaseProvisionSpec)
       (\<lambda>s. rprov_Database s)
       (\<lambda>s database.
         \<lparr>prov_Database = database\<rparr>)"

definition read_InstallSpec ::
  "(cell, raw_InstallSpec, InstallSpec) reader" where
  "read_InstallSpec =
     read_struct
       (read_pair (read_pointer as_SecretKeyRef read_plain) (read_pointer as_String read_plain))
       (\<lambda>s. (rinst_AdminPasswordSecret s, rinst_AdminPassword s))
       (\<lambda>s (adminPasswordSecret, adminPassword).
         \<lparr>inst_AdminUser = rinst_AdminUser s, inst_AdminEmail = rinst_AdminEmail s, inst_Title =
            rinst_Title s, inst_AdminPasswordSecret = adminPasswordSecret, inst_AdminPassword =
            adminPassword\<rparr>)"

definition read_WordpressSpec ::
  "(cell, raw_WordpressSpec, WordpressSpec) reader" where
  "read_WordpressSpec =
     read_struct
       (read_pair (read_pointer as_DebugSpec read_plain) (read_pointer as_InstallSpec
        read_InstallSpec))
       (\<lambda>s. (rwp_Debug s, rwp_Install s))
       (\<lambda>s (debug, install).
         \<lparr>wp_Debug = debug, wp_Install = install, wp_Version = rwp_Version s\<rparr>)"

definition read_DatabaseSpec ::
  "(cell, raw_DatabaseSpec, DatabaseSpec) reader" where
  "read_DatabaseSpec =
     read_struct
       (read_pair (read_pointer as_SecretKeyRef read_plain) (read_pair (read_pointer
        as_SecretKeyRef read_plain) (read_pair (read_pointer as_String read_plain) (read_pointer
        as_String read_plain))))
       (\<lambda>s. (rdbs_UserSecret s, rdbs_PasswordSecret s, rdbs_User s, rdbs_Password s))
       (\<lambda>s (userSecret, passwordSecret, user, password).
         \<lparr>dbs_Host = rdbs_Host s, dbs_Name = rdbs_Name s, dbs_UserSecret = userSecret,
            dbs_PasswordSecret = passwordSecret, dbs_User = user, dbs_Password = password\<rparr>)"

definition read_IngressSpec ::
  "(cell, raw_IngressSpec, IngressSpec) reader" where
  "read_IngressSpec =
     read_struct
       (read_pair (read_pointer as_Bool read_plain) (read_map as_StringMap))
       (\<lambda>s. (risp_TLS s, risp_Annotations s))
       (\<lambda>s (tls, annotations).
         \<lparr>isp_Enabled = risp_Enabled s, isp_Path = risp_Path s, isp_TLS = tls, isp_Annotations =
            annotations, isp_IngressClassName = risp_IngressClassName s\<rparr>)"

definition read_PersistenceSpec ::
  "(cell, raw_PersistenceSpec, PersistenceSpec) reader" where
  "read_PersistenceSpec =
     read_struct
       (read_pointer as_String read_plain)
       (\<lambda>s. rper_StorageClassName s)
       (\<lambda>s storageClassName.
         \<lparr>per_Enabled = rper_Enabled s, per_ExistingClaim = rper_ExistingClaim s, per_Size =
            rper_Size s, per_StorageClassName = storageClassName\<rparr>)"

definition read_SiteSpec ::
  "(cell, raw_SiteSpec, SiteSpec) reader" where
  "read_SiteSpec =
     read_struct
       (read_pair (read_pointer as_String read_plain) (read_pair (read_pointer as_IngressSpec
        read_IngressSpec) (read_pair (read_pointer as_WordpressSpec read_WordpressSpec) (read_pair
        read_DatabaseSpec (read_pair (read_pointer as_PersistenceSpec read_PersistenceSpec)
        (read_pair (read_map as_StringMap) (read_pair (read_pointer as_FileBrowserSpec read_plain)
        (read_pair (read_pointer as_ProvisionSpec read_ProvisionSpec) (read_pair (read_pointer
        as_NginxSpec read_plain) (read_pointer as_PhpSpec read_plain))))))))))
       (\<lambda>s. (rspec_Foo s, rspec_Ingress s, rspec_Wordpress s, rspec_Database s,
        rspec_Persistence s, rspec_NodeSelector s, rspec_FileBrowser s, rspec_Provision s,
        rspec_Nginx s, rspec_Php s))
       (\<lambda>s (foo, ingress, wordpress, database, persistence, nodeSelector, fileBrowser, provision,
            nginx, php).
         \<lparr>spec_Foo = foo, spec_Domain = rspec_Domain s, spec_Ingress = ingress, spec_Wordpress =
            wordpress, spec_Database = database, spec_Persistence = persistence, spec_NodeSelector
            = nodeSelector, spec_FileBrowser = fileBrowser, spec_Provision = provision,
            spec_UpdateStrategy = rspec_UpdateStrategy s, spec_Nginx = nginx, spec_Php = php\<rparr>)"

section \<open>The copies are deep\<close>

text \<open>
  Plain structs and the blocks of library types first, then struct by struct from the
  inside out: the parts are copied by the rules in \<open>deep_copies\<close>.
\<close>

interpretation block_String: block_copy as_String StringCell read_plain ret
  by (intro block_copy.intro deep_copy_plain) (unfold_locales, simp add: as_cell_defs)

interpretation block_Bool: block_copy as_Bool BoolCell read_plain ret
  by (intro block_copy.intro deep_copy_plain) (unfold_locales, simp add: as_cell_defs)

interpretation block_Time: block_copy as_Time TimeCell read_plain ret
  by (intro block_copy.intro deep_copy_plain) (unfold_locales, simp add: as_cell_defs)

interpretation block_Int64: block_copy as_Int64 Int64Cell read_plain ret
  by (intro block_copy.intro deep_copy_plain) (unfold_locales, simp add: as_cell_defs)

interpretation block_OwnerReference: block_copy as_OwnerReference OwnerReferenceCell read_plain ret
  by (intro block_copy.intro deep_copy_plain) (unfold_locales, simp add: as_cell_defs)

interpretation block_SecretKeyRef: block_copy as_SecretKeyRef SecretKeyRefCell read_plain ret
  by (intro block_copy.intro deep_copy_plain) (unfold_locales, simp add: as_cell_defs)

interpretation block_MariaDBClusterRef: block_copy as_MariaDBClusterRef MariaDBClusterRefCell read_plain ret
  by (intro block_copy.intro deep_copy_plain) (unfold_locales, simp add: as_cell_defs)

interpretation block_FileBrowserSpec: block_copy as_FileBrowserSpec FileBrowserSpecCell read_plain ret
  by (intro block_copy.intro deep_copy_plain) (unfold_locales, simp add: as_cell_defs)

interpretation block_DebugSpec: block_copy as_DebugSpec DebugSpecCell read_plain ret
  by (intro block_copy.intro deep_copy_plain) (unfold_locales, simp add: as_cell_defs)

interpretation block_NginxSpec: block_copy as_NginxSpec NginxSpecCell read_plain ret
  by (intro block_copy.intro deep_copy_plain) (unfold_locales, simp add: as_cell_defs)

interpretation block_PhpSpec: block_copy as_PhpSpec PhpSpecCell read_plain ret
  by (intro block_copy.intro deep_copy_plain) (unfold_locales, simp add: as_cell_defs)

interpretation map_StringMap: map_block as_StringMap StringMapCell
  by unfold_locales (simp add: as_cell_defs)

lemmas copy_simps = copy_pair_def and_then_assoc Let_def

lemma deep_copy_DatabaseProvisionSpec [deep_copies]: "deep_copy read_DatabaseProvisionSpec DatabaseProvisionSpec_DeepCopyInto"
  unfolding read_DatabaseProvisionSpec_def
  by (rule deep_copy_struct [where
        put = "\<lambda>s x. s\<lparr>rdps_MariaDBRef := x\<rparr>"],
      (rule deep_copies)+)
    (auto simp: DatabaseProvisionSpec_DeepCopyInto_def copy_simps simp del: ret_apply)

interpretation block_DatabaseProvisionSpec: block_copy as_DatabaseProvisionSpec DatabaseProvisionSpecCell
  read_DatabaseProvisionSpec DatabaseProvisionSpec_DeepCopyInto
  by (intro block_copy.intro deep_copy_DatabaseProvisionSpec) (unfold_locales, simp add: as_cell_defs)

lemma deep_copy_ProvisionSpec [deep_copies]: "deep_copy read_ProvisionSpec ProvisionSpec_DeepCopyInto"
  unfolding read_ProvisionSpec_def
  by (rule deep_copy_struct [where
        put = "\<lambda>s x. s\<lparr>rprov_Database := x\<rparr>"],
      (rule deep_copies)+)
    (auto simp: ProvisionSpec_DeepCopyInto_def copy_simps simp del: ret_apply)

interpretation block_ProvisionSpec: block_copy as_ProvisionSpec ProvisionSpecCell
  read_ProvisionSpec ProvisionSpec_DeepCopyInto
  by (intro block_copy.intro deep_copy_ProvisionSpec) (unfold_locales, simp add: as_cell_defs)

lemma deep_copy_InstallSpec [deep_copies]: "deep_copy read_InstallSpec InstallSpec_DeepCopyInto"
  unfolding read_InstallSpec_def
  by (rule deep_copy_struct [where
        put = "\<lambda>s (x1, x2). s\<lparr>rinst_AdminPasswordSecret := x1, rinst_AdminPassword :=
          x2\<rparr>"],
      (rule deep_copies)+)
    (auto simp: InstallSpec_DeepCopyInto_def copy_simps simp del: ret_apply)

interpretation block_InstallSpec: block_copy as_InstallSpec InstallSpecCell
  read_InstallSpec InstallSpec_DeepCopyInto
  by (intro block_copy.intro deep_copy_InstallSpec) (unfold_locales, simp add: as_cell_defs)

lemma deep_copy_WordpressSpec [deep_copies]: "deep_copy read_WordpressSpec WordpressSpec_DeepCopyInto"
  unfolding read_WordpressSpec_def
  by (rule deep_copy_struct [where
        put = "\<lambda>s (x1, x2). s\<lparr>rwp_Debug := x1, rwp_Install := x2\<rparr>"],
      (rule deep_copies)+)
    (auto simp: WordpressSpec_DeepCopyInto_def copy_simps simp del: ret_apply)

interpretation block_WordpressSpec: block_copy as_WordpressSpec WordpressSpecCell
  read_WordpressSpec WordpressSpec_DeepCopyInto
  by (intro block_copy.intro deep_copy_WordpressSpec) (unfold_locales, simp add: as_cell_defs)

lemma deep_copy_DatabaseSpec [deep_copies]: "deep_copy read_DatabaseSpec DatabaseSpec_DeepCopyInto"
  unfolding read_DatabaseSpec_def
  by (rule deep_copy_struct [where
        put = "\<lambda>s (x1, x2, x3, x4). s\<lparr>rdbs_UserSecret := x1, rdbs_PasswordSecret := x2,
          rdbs_User := x3, rdbs_Password := x4\<rparr>"],
      (rule deep_copies)+)
    (auto simp: DatabaseSpec_DeepCopyInto_def copy_simps simp del: ret_apply)

interpretation block_DatabaseSpec: block_copy as_DatabaseSpec DatabaseSpecCell
  read_DatabaseSpec DatabaseSpec_DeepCopyInto
  by (intro block_copy.intro deep_copy_DatabaseSpec) (unfold_locales, simp add: as_cell_defs)

lemma deep_copy_IngressSpec [deep_copies]: "deep_copy read_IngressSpec IngressSpec_DeepCopyInto"
  unfolding read_IngressSpec_def
  by (rule deep_copy_struct [where
        put = "\<lambda>s (x1, x2). s\<lparr>risp_TLS := x1, risp_Annotations := x2\<rparr>"],
      (rule deep_copies)+)
    (auto simp: IngressSpec_DeepCopyInto_def copy_simps simp del: ret_apply)

interpretation block_IngressSpec: block_copy as_IngressSpec IngressSpecCell
  read_IngressSpec IngressSpec_DeepCopyInto
  by (intro block_copy.intro deep_copy_IngressSpec) (unfold_locales, simp add: as_cell_defs)

lemma deep_copy_PersistenceSpec [deep_copies]: "deep_copy read_PersistenceSpec PersistenceSpec_DeepCopyInto"
  unfolding read_PersistenceSpec_def
  by (rule deep_copy_struct [where
        put = "\<lambda>s x. s\<lparr>rper_StorageClassName := x\<rparr>"],
      (rule deep_copies)+)
    (auto simp: PersistenceSpec_DeepCopyInto_def copy_simps simp del: ret_apply)

interpretation block_PersistenceSpec: block_copy as_PersistenceSpec PersistenceSpecCell
  read_PersistenceSpec PersistenceSpec_DeepCopyInto
  by (intro block_copy.intro deep_copy_PersistenceSpec) (unfold_locales, simp add: as_cell_defs)

lemma deep_copy_SiteSpec [deep_copies]: "deep_copy read_SiteSpec SiteSpec_DeepCopyInto"
  unfolding read_SiteSpec_def
  by (rule deep_copy_struct [where
        put = "\<lambda>s (x1, x2, x3, x4, x5, x6, x7, x8, x9, x10). s\<lparr>rspec_Foo := x1,
          rspec_Ingress := x2, rspec_Wordpress := x3, rspec_Database := x4, rspec_Persistence :=
          x5, rspec_NodeSelector := x6, rspec_FileBrowser := x7, rspec_Provision := x8,
          rspec_Nginx := x9, rspec_Php := x10\<rparr>"],
      (rule deep_copies)+)
    (auto simp: SiteSpec_DeepCopyInto_def copy_simps simp del: ret_apply)

interpretation block_SiteSpec: block_copy as_SiteSpec SiteSpecCell
  read_SiteSpec SiteSpec_DeepCopyInto
  by (intro block_copy.intro deep_copy_SiteSpec) (unfold_locales, simp add: as_cell_defs)

section \<open>Site, its status, and lists of Sites\<close>

text \<open>The deep copies of apimachinery's own structs, a parameter.\<close>

record lib_copies =
  lc_ObjectMeta :: "raw_ObjectMeta \<Rightarrow> (mem_blocks, raw_ObjectMeta) act"
  lc_ListMeta :: "raw_ListMeta \<Rightarrow> (mem_blocks, raw_ListMeta) act"
  lc_Condition :: "Condition \<Rightarrow> (mem_blocks, Condition) act"

definition SiteStatus_DeepCopyInto ::
  "lib_copies \<Rightarrow> raw_SiteStatus \<Rightarrow> (mem_blocks, raw_SiteStatus) act" where
  "SiteStatus_DeepCopyInto L inp =
     (let out = inp in
     and_then (copy_slice as_Condition ConditionCell (lc_Condition L) (rst_Conditions inp)) (\<lambda>x.
     let out = out\<lparr>rst_Conditions := x\<rparr> in
     ret out))"

definition SiteStatus_DeepCopy :: "lib_copies \<Rightarrow> addr option \<Rightarrow> (mem_blocks, addr option) act" where
  "SiteStatus_DeepCopy L inp =
     copy_pointer as_SiteStatus SiteStatusCell (SiteStatus_DeepCopyInto L) inp"

definition Site_DeepCopyInto :: "lib_copies \<Rightarrow> raw_Site \<Rightarrow> (mem_blocks, raw_Site) act" where
  "Site_DeepCopyInto L inp =
     (let out = inp in
     let out = out\<lparr>rsite_TypeMeta := rsite_TypeMeta inp\<rparr> in
     and_then (lc_ObjectMeta L (rsite_Meta inp)) (\<lambda>x.
     let out = out\<lparr>rsite_Meta := x\<rparr> in
     and_then (SiteSpec_DeepCopyInto (rsite_Spec inp)) (\<lambda>x.
     let out = out\<lparr>rsite_Spec := x\<rparr> in
     and_then (SiteStatus_DeepCopyInto L (rsite_Status inp)) (\<lambda>x.
     let out = out\<lparr>rsite_Status := x\<rparr> in
     ret out))))"

definition Site_DeepCopy :: "lib_copies \<Rightarrow> addr option \<Rightarrow> (mem_blocks, addr option) act" where
  "Site_DeepCopy L inp = copy_pointer as_Site SiteCell (Site_DeepCopyInto L) inp"

definition SiteList_DeepCopyInto ::
  "lib_copies \<Rightarrow> raw_SiteList \<Rightarrow> (mem_blocks, raw_SiteList) act" where
  "SiteList_DeepCopyInto L inp =
     (let out = inp in
     let out = out\<lparr>rsl_TypeMeta := rsl_TypeMeta inp\<rparr> in
     and_then (lc_ListMeta L (rsl_ListMeta inp)) (\<lambda>x.
     let out = out\<lparr>rsl_ListMeta := x\<rparr> in
     and_then (copy_slice as_Site SiteCell (Site_DeepCopyInto L) (rsl_Items inp)) (\<lambda>x.
     let out = out\<lparr>rsl_Items := x\<rparr> in
     ret out)))"

definition SiteList_DeepCopy :: "lib_copies \<Rightarrow> addr option \<Rightarrow> (mem_blocks, addr option) act" where
  "SiteList_DeepCopy L inp = copy_pointer as_SiteList SiteListCell (SiteList_DeepCopyInto L) inp"

text \<open>
  \<open>runtime.Object\<close> is an interface: a nil pointer inside it would not be a nil interface,
  which is why the methods test the pointer.
\<close>

datatype runtime_Object = SiteObject "addr option" | SiteListObject "addr option"

definition Site_DeepCopyObject ::
  "lib_copies \<Rightarrow> addr option \<Rightarrow> (mem_blocks, runtime_Object option) act" where
  "Site_DeepCopyObject L inp =
     and_then (Site_DeepCopy L inp) (\<lambda>c. if c \<noteq> None then ret (Some (SiteObject c)) else ret None)"

definition SiteList_DeepCopyObject ::
  "lib_copies \<Rightarrow> addr option \<Rightarrow> (mem_blocks, runtime_Object option) act" where
  "SiteList_DeepCopyObject L inp =
     and_then (SiteList_DeepCopy L inp)
       (\<lambda>c. if c \<noteq> None then ret (Some (SiteListObject c)) else ret None)"

text \<open>What they stand for.\<close>

definition read_SiteStatus :: "(cell, raw_SiteStatus, SiteStatus) reader" where
  "read_SiteStatus =
     read_struct (read_slice as_Condition read_plain) rst_Conditions
       (\<lambda>s conditions. \<lparr>st_Conditions = conditions\<rparr>)"

definition read_ObjectMeta :: "(cell, raw_ObjectMeta, ObjectMeta) reader" where
  "read_ObjectMeta =
     read_struct
       (read_pair (read_pointer as_Time read_plain) (read_pair (read_map as_StringMap)
         (read_pair (read_map as_StringMap) (read_slice as_OwnerReference read_plain))))
       (\<lambda>s. (rom_DeletionTimestamp s, rom_Labels s, rom_Annotations s, rom_OwnerReferences s))
       (\<lambda>s (deletion, labels, annotations, owners).
         \<lparr>om_Name = rom_Name s, om_Namespace = rom_Namespace s, om_UID = rom_UID s,
          om_Generation = rom_Generation s, om_CreationTimestamp = rom_CreationTimestamp s,
          om_DeletionTimestamp = deletion, om_Labels = labels, om_Annotations = annotations,
          om_OwnerReferences = owners\<rparr>)"

definition read_ListMeta :: "(cell, raw_ListMeta, ListMeta) reader" where
  "read_ListMeta =
     read_struct (read_pointer as_Int64 read_plain) rlm_RemainingItemCount
       (\<lambda>s remaining. \<lparr>lm_ResourceVersion = rlm_ResourceVersion s, lm_Continue = rlm_Continue s,
          lm_RemainingItemCount = remaining\<rparr>)"

definition read_Site :: "(cell, raw_Site, TypeMeta \<times> Site) reader" where
  "read_Site =
     read_struct (read_pair read_ObjectMeta (read_pair read_SiteSpec read_SiteStatus))
       (\<lambda>s. (rsite_Meta s, rsite_Spec s, rsite_Status s))
       (\<lambda>s (meta, spec, status).
         (rsite_TypeMeta s, \<lparr>site_Meta = meta, site_Spec = spec, site_Status = status\<rparr>))"

definition read_SiteList :: "(cell, raw_SiteList, SiteList) reader" where
  "read_SiteList =
     read_struct (read_pair read_ListMeta (read_slice as_Site read_Site))
       (\<lambda>s. (rsl_ListMeta s, rsl_Items s))
       (\<lambda>s (meta, items).
         \<lparr>sl_TypeMeta = rsl_TypeMeta s, sl_ListMeta = meta, sl_Items = items\<rparr>)"

text \<open>The library's contract, and the copies of the operator's types under it.\<close>

locale library_copies =
  fixes L :: lib_copies
  assumes ObjectMeta_deep: "deep_copy read_ObjectMeta (lc_ObjectMeta L)"
    and ListMeta_deep: "deep_copy read_ListMeta (lc_ListMeta L)"
    and Condition_deep: "deep_copy read_plain (lc_Condition L)"

sublocale library_copies \<subseteq> block_Condition: block_copy as_Condition ConditionCell
  read_plain "lc_Condition L"
  by (intro block_copy.intro Condition_deep) (unfold_locales, simp add: as_cell_defs)

context library_copies
begin

lemma deep_copy_SiteStatus: "deep_copy read_SiteStatus (SiteStatus_DeepCopyInto L)"
  unfolding read_SiteStatus_def
  by (rule deep_copy_struct [where put = "\<lambda>s x. s\<lparr>rst_Conditions := x\<rparr>"],
      rule block_Condition.deep_copy_slice)
    (auto simp: SiteStatus_DeepCopyInto_def copy_simps simp del: ret_apply)

lemma deep_copy_Site: "deep_copy read_Site (Site_DeepCopyInto L)"
  unfolding read_Site_def
  by (rule deep_copy_struct [where
        put = "\<lambda>s (x1, x2, x3). s\<lparr>rsite_Meta := x1, rsite_Spec := x2, rsite_Status := x3\<rparr>"],
      rule deep_copy_pair [OF ObjectMeta_deep deep_copy_pair
        [OF deep_copy_SiteSpec deep_copy_SiteStatus]])
    (auto simp: Site_DeepCopyInto_def copy_simps simp del: ret_apply)

end

sublocale library_copies \<subseteq> block_SiteStatus: block_copy as_SiteStatus SiteStatusCell
  read_SiteStatus "SiteStatus_DeepCopyInto L"
  by (intro block_copy.intro deep_copy_SiteStatus) (unfold_locales, simp add: as_cell_defs)

sublocale library_copies \<subseteq> block_Site: block_copy as_Site SiteCell
  read_Site "Site_DeepCopyInto L"
  by (intro block_copy.intro deep_copy_Site) (unfold_locales, simp add: as_cell_defs)

context library_copies
begin

lemma deep_copy_SiteList: "deep_copy read_SiteList (SiteList_DeepCopyInto L)"
  unfolding read_SiteList_def
  by (rule deep_copy_struct [where put = "\<lambda>s (x1, x2). s\<lparr>rsl_ListMeta := x1, rsl_Items := x2\<rparr>"],
      rule deep_copy_pair [OF ListMeta_deep block_Site.deep_copy_slice])
    (auto simp: SiteList_DeepCopyInto_def copy_simps simp del: ret_apply)

end

sublocale library_copies \<subseteq> block_SiteList: block_copy as_SiteList SiteListCell
  read_SiteList "SiteList_DeepCopyInto L"
  by (intro block_copy.intro deep_copy_SiteList) (unfold_locales, simp add: as_cell_defs)

section \<open>Pointers to the operator's types\<close>

context library_copies
begin

lemma Site_DeepCopy_deep: "deep_copy (read_pointer as_Site read_Site) (Site_DeepCopy L)"
  unfolding Site_DeepCopy_def by (rule block_Site.deep_copy_pointer)

lemma SiteList_DeepCopy_deep:
  "deep_copy (read_pointer as_SiteList read_SiteList) (SiteList_DeepCopy L)"
  unfolding SiteList_DeepCopy_def by (rule block_SiteList.deep_copy_pointer)

end

lemma copy_pointer_nil [simp]: "copy_pointer dest mk copy None = ret None"
  by (simp add: copy_pointer_def)

section \<open>An instance of the library's contract, and a Site in memory\<close>

definition example_ObjectMeta_copy :: "raw_ObjectMeta \<Rightarrow> (mem_blocks, raw_ObjectMeta) act" where
  "example_ObjectMeta_copy inp =
     (let out = inp in
     and_then (copy_pointer as_Time TimeCell ret (rom_DeletionTimestamp inp)) (\<lambda>x.
     let out = out\<lparr>rom_DeletionTimestamp := x\<rparr> in
     and_then (copy_map as_StringMap StringMapCell (rom_Labels inp)) (\<lambda>x.
     let out = out\<lparr>rom_Labels := x\<rparr> in
     and_then (copy_map as_StringMap StringMapCell (rom_Annotations inp)) (\<lambda>x.
     let out = out\<lparr>rom_Annotations := x\<rparr> in
     and_then (copy_slice as_OwnerReference OwnerReferenceCell ret (rom_OwnerReferences inp)) (\<lambda>x.
     let out = out\<lparr>rom_OwnerReferences := x\<rparr> in
     ret out)))))"

definition example_ListMeta_copy :: "raw_ListMeta \<Rightarrow> (mem_blocks, raw_ListMeta) act" where
  "example_ListMeta_copy inp =
     and_then (copy_pointer as_Int64 Int64Cell ret (rlm_RemainingItemCount inp))
       (\<lambda>x. ret (inp\<lparr>rlm_RemainingItemCount := x\<rparr>))"

definition example_copies :: lib_copies where
  "example_copies =
     \<lparr>lc_ObjectMeta = example_ObjectMeta_copy, lc_ListMeta = example_ListMeta_copy,
      lc_Condition = ret\<rparr>"

lemma example_ObjectMeta_deep: "deep_copy read_ObjectMeta example_ObjectMeta_copy"
  unfolding read_ObjectMeta_def
  by (rule deep_copy_struct [where
        put = "\<lambda>s (x1, x2, x3, x4). s\<lparr>rom_DeletionTimestamp := x1, rom_Labels := x2,
          rom_Annotations := x3, rom_OwnerReferences := x4\<rparr>"],
      (rule deep_copies)+)
    (auto simp: example_ObjectMeta_copy_def copy_simps simp del: ret_apply)

lemma example_ListMeta_deep: "deep_copy read_ListMeta example_ListMeta_copy"
  unfolding read_ListMeta_def
  by (rule deep_copy_struct [where put = "\<lambda>s x. s\<lparr>rlm_RemainingItemCount := x\<rparr>"],
      (rule deep_copies)+)
    (auto simp: example_ListMeta_copy_def copy_simps simp del: ret_apply)

interpretation example_copies: library_copies example_copies
  by (rule library_copies.intro)
    (simp_all add: example_copies_def example_ObjectMeta_deep example_ListMeta_deep deep_copy_plain)

text \<open>
  A memory with a Site at 0 that has an Ingress (at 1) with TLS set (2) and an annotation (3), an
  inline user (4) and labels (5), and a list of it at 6.
\<close>

definition example_raw_Site :: raw_Site where
  "example_raw_Site =
     \<lparr>rsite_TypeMeta = \<lparr>tm_Kind = ''Site'', tm_APIVersion = ''site.operator/v1alpha1''\<rparr>,
      rsite_Meta = \<lparr>rom_Name = ''blog'', rom_Namespace = ''default'', rom_UID = ''uid-1'',
        rom_Generation = 1, rom_CreationTimestamp = Some 7, rom_DeletionTimestamp = None,
        rom_Labels = Some 5, rom_Annotations = None, rom_OwnerReferences = None\<rparr>,
      rsite_Spec = \<lparr>rspec_Foo = None, rspec_Domain = ''example.com'', rspec_Ingress = Some 1,
        rspec_Wordpress = None,
        rspec_Database = \<lparr>rdbs_Host = ''localhost'', rdbs_Name = ''test'', rdbs_UserSecret = None,
          rdbs_PasswordSecret = None, rdbs_User = Some 4, rdbs_Password = Some 4\<rparr>,
        rspec_Persistence = None, rspec_NodeSelector = None, rspec_FileBrowser = None,
        rspec_Provision = None, rspec_UpdateStrategy = ''RollingUpdate'', rspec_Nginx = None,
        rspec_Php = None\<rparr>,
      rsite_Status = \<lparr>rst_Conditions = None\<rparr>\<rparr>"

definition example_memory :: mem_blocks where
  "example_memory =
     [Some (SiteCell example_raw_Site),
      Some (IngressSpecCell \<lparr>risp_Enabled = True, risp_Path = ''/'', risp_TLS = Some 2,
        risp_Annotations = Some 3, risp_IngressClassName = ''nginx''\<rparr>),
      Some (BoolCell True),
      Some (StringMapCell [(''k'', ''v'')]),
      Some (StringCell ''u''),
      Some (StringMapCell [(''app'', ''blog'')]),
      Some (SiteListCell \<lparr>rsl_TypeMeta = \<lparr>tm_Kind = ''SiteList'', tm_APIVersion = []\<rparr>,
        rsl_ListMeta = \<lparr>rlm_ResourceVersion = ''1'', rlm_Continue = [],
          rlm_RemainingItemCount = None\<rparr>,
        rsl_Items = Some (0, 1)\<rparr>)]"

definition example_Site_value :: Site where
  "example_Site_value =
     \<lparr>site_Meta = \<lparr>om_Name = ''blog'', om_Namespace = ''default'', om_UID = ''uid-1'',
        om_Generation = 1, om_CreationTimestamp = Some 7, om_DeletionTimestamp = None,
        om_Labels = [''app'' \<mapsto> ''blog''], om_Annotations = Map.empty, om_OwnerReferences = []\<rparr>,
      site_Spec = example_spec\<lparr>spec_Ingress := Some \<lparr>isp_Enabled = True, isp_Path = ''/'',
        isp_TLS = Some True, isp_Annotations = [''k'' \<mapsto> ''v''], isp_IngressClassName = ''nginx''\<rparr>,
        spec_Database := \<lparr>dbs_Host = ''localhost'', dbs_Name = ''test'', dbs_UserSecret = None,
          dbs_PasswordSecret = None, dbs_User = Some ''u'', dbs_Password = Some ''u''\<rparr>\<rparr>,
      site_Status = \<lparr>st_Conditions = []\<rparr>\<rparr>"

lemmas read_defs = read_pair_def read_struct_def read_plain_def read_block_def content_def
  cell_at_def as_cell_defs read_Site_def read_ObjectMeta_def read_SiteSpec_def read_SiteStatus_def
  read_IngressSpec_def read_DatabaseSpec_def read_SiteList_def read_ListMeta_def

lemma example_Site_reads:
  "read_block as_Site read_Site example_memory 0 =
     Some ((\<lparr>tm_Kind = ''Site'', tm_APIVersion = ''site.operator/v1alpha1''\<rparr>, example_Site_value),
       {0, 1, 2, 3, 4, 5})"
  by (simp add: read_defs example_memory_def example_raw_Site_def example_Site_value_def
      example_spec_def) auto

lemma example_SiteList_reads:
  "read_block as_SiteList read_SiteList example_memory 6 =
     Some (\<lparr>sl_TypeMeta = \<lparr>tm_Kind = ''SiteList'', tm_APIVersion = []\<rparr>,
         sl_ListMeta = \<lparr>lm_ResourceVersion = ''1'', lm_Continue = [], lm_RemainingItemCount = None\<rparr>,
         sl_Items = [(\<lparr>tm_Kind = ''Site'', tm_APIVersion = ''site.operator/v1alpha1''\<rparr>,
           example_Site_value)]\<rparr>,
       {0, 1, 2, 3, 4, 5, 6})"
proof -
  have "content as_SiteList example_memory 6 =
      Some \<lparr>rsl_TypeMeta = \<lparr>tm_Kind = ''SiteList'', tm_APIVersion = []\<rparr>,
        rsl_ListMeta = \<lparr>rlm_ResourceVersion = ''1'', rlm_Continue = [],
          rlm_RemainingItemCount = None\<rparr>,
        rsl_Items = Some (0, 1)\<rparr>"
    by (simp add: content_def cell_at_def example_memory_def as_cell_defs)
  then show ?thesis
    by (auto simp: read_block_eq_Some read_SiteList_def read_ListMeta_def read_struct_def
        read_pair_eq_Some read_elems_Suc_eq_Some example_Site_reads)
qed

section \<open>Properties\<close>

text \<open>
  The deep copy of a Site in memory succeeds, writes no block that existed, reads as the
  same Site, and shares no block with the original: not its spec's pointers and maps, not
  its metadata, not its conditions. So writing through the copy never changes the
  original, and writing through the original never changes the copy.
\<close>

lemma Site_DeepCopy_isolated:
  assumes "library_copies L" and "read_block as_Site read_Site h a = Some (v, A)"
  shows "\<exists>b h' B. Site_DeepCopy L (Some a) h = (Ok (Some b), h') \<and> memory_kept {} h h'
    \<and> read_block as_Site read_Site h' b = Some (v, B) \<and> A \<inter> B = {}
    \<and> (\<forall>h''. memory_kept B h' h'' \<longrightarrow> read_block as_Site read_Site h'' a = Some (v, A))
    \<and> (\<forall>h''. memory_kept A h' h'' \<longrightarrow> read_block as_Site read_Site h'' b = Some (v, B))"
proof -
  have "read_pointer as_Site read_Site h (Some a) = Some (Some v, A)"
    using assms(2) by simp
  from deep_copy.copy_isolated [OF library_copies.Site_DeepCopy_deep [OF assms(1)] this]
  show ?thesis
    by (auto simp: read_pointer_eq_Some)
qed

text \<open>
  C40. \<open>DeepCopyObject\<close> of a list of Sites returns an interface that holds a deep copy of the
  list with every Site in it, isolated from the original in the same sense; for a nil
  receiver, of a list or of a Site, it returns the nil interface.
\<close>

theorem SiteList_DeepCopyObject_isolated:
  assumes "library_copies L" and "read_block as_SiteList read_SiteList h a = Some (v, A)"
  shows "(\<exists>b h' B. SiteList_DeepCopyObject L (Some a) h = (Ok (Some (SiteListObject (Some b))), h')
      \<and> memory_kept {} h h'
      \<and> read_block as_SiteList read_SiteList h' b = Some (v, B) \<and> A \<inter> B = {}
      \<and> (\<forall>h''. memory_kept B h' h'' \<longrightarrow> read_block as_SiteList read_SiteList h'' a = Some (v, A))
      \<and> (\<forall>h''. memory_kept A h' h'' \<longrightarrow> read_block as_SiteList read_SiteList h'' b = Some (v, B)))
    \<and> SiteList_DeepCopyObject L None h = (Ok None, h) \<and> Site_DeepCopyObject L None h = (Ok None, h)"
proof -
  have "read_pointer as_SiteList read_SiteList h (Some a) = Some (Some v, A)"
    using assms(2) by simp
  from deep_copy.copy_isolated [OF library_copies.SiteList_DeepCopy_deep [OF assms(1)] this]
  show ?thesis
    by (auto simp: read_pointer_eq_Some SiteList_DeepCopyObject_def Site_DeepCopyObject_def
        SiteList_DeepCopy_def Site_DeepCopy_def act_simps)
qed

theorem SiteList_DeepCopyObject_isolated_witness:
  "\<exists>b h' B v. SiteList_DeepCopyObject example_copies (Some 6) example_memory
      = (Ok (Some (SiteListObject (Some b))), h')
    \<and> read_block as_SiteList read_SiteList h' b = Some (v, B)
    \<and> map snd (sl_Items v) = [example_Site_value]"
  using SiteList_DeepCopyObject_isolated
    [OF example_copies.library_copies_axioms example_SiteList_reads]
  by fastforce

end
