(* ===== verification/Spec2Isabelle.thy ===== *)
theory Spec2Isabelle
  imports MemFleet MainCmd DeepCopy
begin

text \<open>
  A verification development for site-operator, a Kubernetes operator (Go,
  controller-runtime) that turns each \<open>Site\<close> custom resource into a WordPress Deployment
  with its configuration, Service, Ingress, claim, secret and, on request, database objects.

  \<^bold>\<open>The program and its model.\<close> \<open>SiteReconciler.Reconcile\<close>
  (\<open>internal/controller/site_controller.go\<close>) fetches a Site and runs six steps in order:
  \<open>reconcileSecret\<close>, \<open>reconcileDatabaseProvision\<close>, \<open>reconcileDeployment\<close> (two ConfigMaps,
  then the Deployment), \<open>reconcileService\<close>, \<open>reconcileIngress\<close>, \<open>reconcilePVC\<close>; the first error
  ends the run, and a deferred function reports the outcome in the Site's status. Every step
  writes through \<open>controllerutil.CreateOrUpdate\<close> with a callback that sets the fields the
  operator owns. A second entry of the binary (\<open>cmd/main.go\<close>, \<open>cmd/wpcron.go\<close>) requests
  \<open>wp-cron.php\<close> of every Site once and exits.

  \<^item> \<open>Prelude\<close>: outcomes of Go calls (value, error, panic), effectful calls as functions of an
    open world type, the combinators that transcribe \<open>if err != nil\<close>, the invariant calculus
    \<open>keeps\<close>.
  \<^item> \<open>GoStd\<close>, \<open>Sha256\<close>: the standard-library functions the code computes with, executable:
    substring search, decimal, hexadecimal and base-64 rendering, SHA-256 on 32-bit words.
  \<^item> \<open>KubeTypes\<close>, \<open>SiteTypes\<close>: the API objects as records of the fields the code uses, and all
    structs of \<open>api/v1alpha1/site_types.go\<close> with the CRD's validation rule (\<open>spec_valid\<close>).
    Replica counts, ports, ids and generations are machine words.
  \<^item> \<open>KubeClient\<close>: the calls that are not the operator's own code, as the parameter record
    \<open>kube\<close>, and their documented behaviour as locales: \<open>owner_references\<close>, \<open>object_reader\<close>,
    \<open>object_lookup\<close>, \<open>object_store\<close>, \<open>object_removal\<close>, \<open>conflict_retry\<close>, \<open>condition_setter\<close>,
    \<open>entropy\<close>. The contract of a callback is \<open>mutate_callback\<close>; \<open>managed_object\<close> puts a
    callback on a client and shows that a successful call settles the object.
  \<^item> \<open>Helpers\<close> (\<open>helpers.go\<close> and the pure part of \<open>provision.go\<close>), \<open>SiteSecret\<close> (\<open>secret.go\<close>),
    \<open>SiteProvision\<close> (\<open>provision.go\<close>), \<open>PodScripts\<close> and \<open>SiteDeployment\<close> (\<open>deployment.go\<close>),
    \<open>SiteService\<close>, \<open>SiteIngress\<close>, \<open>SitePVC\<close> (the files of those names), \<open>SiteConditions\<close>
    (\<open>status.go\<close>), \<open>SiteController\<close> (\<open>site_controller.go\<close>), \<open>WPCron\<close> (\<open>wpcron.go\<close>),
    \<open>MainCmd\<close> (\<open>main.go\<close>, \<open>SetupWithManager\<close>): the operations of each component by their Go
    names, callbacks as \<open>mutate_...\<close>, the literal that carries the key as \<open>new_...\<close>, what a
    written object must look like as \<open>..._conforms\<close>, and the callback's contract as a
    \<open>sublocale\<close> of \<open>mutate_callback\<close>.
  \<^item> \<open>GoFlags\<close>: Go's \<open>flag\<close> package, from one argument to \<open>FlagSet.Parse\<close>; \<open>MainCmd\<close> puts the
    operator's flags on it (\<open>flag_table\<close>, \<open>parse_flags\<close>), registers the API types
    (\<open>init_scheme\<close>, with \<open>groupversion_info.go\<close>) and composes the process.
  \<^item> \<open>Convergence\<close>: the laws of all clients together (\<open>site_cluster\<close>), each component on its
    client, and the composition of the steps: the abstract state \<open>site_synced\<close> that a
    successful reconcile reaches and that a further one leaves alone.
  \<^item> \<open>StatusReport\<close>: the deferred status update through its retries (\<open>reporting_cluster\<close>).
  \<^item> \<open>Confinement\<close>: what a reconcile can touch, for arbitrary behaviour of the API server.
  \<^item> \<open>Progress\<close>: when a reconcile succeeds (\<open>available_cluster\<close>, \<open>site_ready\<close>), and passes over
    many Sites (\<open>reconcile_all\<close>), which do not disturb one another. Which objects the API
    server takes in place of which stored ones is a parameter, \<open>admission\<close>.
  \<^item> \<open>Executions\<close>: reconciles, crashes between two steps and everything else that happens in
    the cluster as one step relation (\<open>operator_step\<close>), and an invariant of its runs.
  \<^item> \<open>MemCluster\<close>, \<open>MemFleet\<close>: an API server in memory on which every interface is interpreted,
    and runs of the operator on it that serve as concrete inputs. It refuses conflicting
    writes, another selector and changes to what a claim asked for.
  \<^item> \<open>GoHeap\<close>, \<open>DeepCopy\<close>: memory with pointers, and on it every method of
    \<open>zz_generated.deepcopy.go\<close>. Elsewhere values are immutable: what these methods show is
    why the code may treat a copy as one.

  \<^bold>\<open>What the theorems show.\<close> Convergence and rest of \<open>Reconcile\<close> (C1, C2), its progress over any
  number of Sites (C3), its confinement (C4) and the stability of generated credentials in
  every execution (C5); its error and panic paths (C6, C7); that the status in the cluster
  tells what happened (C8) and what its conditions mean (C9 to C11); the secret (C12 to C14);
  provisioning (C15 to C18); claim and Ingress (C19 to C21); that pod, Service, Ingress,
  ConfigMaps, claim, scripts and environment fit together (C22 to C28, C25 in the cluster that
  \<open>reconcileDeployment\<close> leaves); the rendered
  configuration, its agreement with the Ingress on TLS, and its checksum (C29 to C31); the wp-cron run and the time it takes (C32 to
  C35); the process, its command line and its registrations (C36 to C39); the deep copies
  (C40). Three of them state behaviour that is not what the code means to do: C7 (an
  unparsable claim size panics and is not reported in the status), C28 (a generated admin
  password never reaches the install command) and the last clause of C21 (clearing the
  ingress class keeps the old one). C18 also says which Sites share a database user, C1
  that database objects outlive the end of provisioning, and C30 that a TLS flag on a
  disabled Ingress still counts.

  \<^bold>\<open>Assumptions.\<close> A theorem about an effectful operation holds for every \<open>kube\<close>; where it needs
  the library's documented behaviour it has a locale predicate as its hypothesis. The
  convergence laws (\<open>site_cluster\<close>) describe an API server while nobody else writes and reads
  are up to date, and a status update that changes the status of the Site it names only; C3
  adds that it answers, and stores what it admits (\<open>fleet_cluster\<close>, for any \<open>admission\<close>), C8
  what the status subresource stores (\<open>reporting_cluster\<close>). Confinement and the stability of credentials assume no such
  thing: \<open>site_confined\<close> and \<open>secret_custody\<close> say what one call keeps, whatever it answers.
  Conflicts and retries are inside the laws: \<open>conflict_retry\<close> allows any number of refused
  attempts. \<open>timed_client\<close> says that an HTTP request ends at its deadline, \<open>scheme_registry\<close>
  that a registration adds its types, \<open>library_copies\<close> that apimachinery's own copies are
  deep. Server-side defaulting may change fields that are not modelled; of the modelled ones
  only the Ingress class, the claim's storage class and creation time, as \<open>..._stored_as\<close> says.

  \<^bold>\<open>Bounds.\<close> No operation needs fuel: all loops of the code run over lists, and parsing the
  command line consumes an argument per step. \<open>mem_attempts\<close> has the five attempts of
  \<open>retry.DefaultRetry\<close>. SHA-256 is defined for any length.

  \<^bold>\<open>Not modelled.\<close> Logging and contexts; the manager's and the servers' own behaviour; the flags
  of the linked libraries beyond their place among the arguments; RBAC and manifests; tests and
  their helpers. Strings are byte strings; a byte slice in a Secret is such a string. nil and
  empty maps and slices are told apart where the code tests for nil.

  \<^bold>\<open>Plan.\<close> Interleavings of two writers inside one \<open>CreateOrUpdate\<close> (which resource versions
  refuse); wake-ups: which change of which object leads to a reconcile; the helpers of the
  end-to-end tests, if they grow beyond scaffolding.
\<close>

section \<open>Reconcile\<close>

text \<open>
  C1. On a quiescent API server, a \<open>Reconcile\<close> that returns without error has put everything
  the Site asks for in place: the Secret with the required keys, the provisioned database
  objects, both ConfigMaps, the Deployment, the Service, the Ingress and the claim, each
  with the content of the Site, owned by it, and such that its callback has nothing left to
  do. An Ingress or a claim that the Site controls and does not ask for is gone or marked
  for deletion; one that it does not control stays. Database objects are never removed:
  with provisioning off, those that exist are left exactly as they are.
\<close>

theorem Reconcile_converges:
  assumes "site_cluster K view conflict not_found"
    and "cl_Sites (view w) (ns, n) = Some site"
    and "Reconcile K r ns n w = (Ok (), w')"
  shows "site_synced K r site (view w')
    \<and> (\<not> provisionEnabled site \<longrightarrow>
         cl_Databases (view w') = cl_Databases (view w) \<and> cl_Users (view w') = cl_Users (view w)
         \<and> cl_Grants (view w') = cl_Grants (view w))"
  using site_cluster.Reconcile_syncs [OF assms] site_cluster.Reconcile_keeps_databases [OF assms]
  by blast

theorem Reconcile_converges_witness:
  "\<exists>w'. Reconcile mem_kube no_defaults ''default'' ''blog'' (start_world full_site) = (Ok (), w')
    \<and> site_synced mem_kube no_defaults full_site (mem_Cluster w')"
proof -
  obtain w' where run:
    "Reconcile mem_kube no_defaults ''default'' ''blog'' (start_world full_site) = (Ok (), w')"
    using full_reconcile_runs by blast
  have "cl_Sites (mem_Cluster (start_world full_site)) (''default'', ''blog'') = Some full_site"
    by (simp add: object_key_def)
  from Reconcile_converges [OF mem.site_cluster_axioms this run] run show ?thesis by blast
qed

text \<open>
  C2. A reconcile of a synced Site whose removals have completed leaves the cluster as it is,
  whatever it returns: no object of any kind changes, except for the status of this very
  Site, whose other fields stay too.
\<close>

theorem Reconcile_at_rest:
  assumes "site_cluster K view conflict not_found"
    and "cl_Sites (view w) (ns, n) = Some site"
    and "site_synced K r site (view w)" and "removals_done K site (view w)"
  shows "same_but_status (ns, n) (view w) (view (snd (Reconcile K r ns n w)))"
  using assms by (rule site_cluster.Reconcile_rests)

theorem Reconcile_at_rest_witness:
  "\<exists>w. site_synced mem_kube no_defaults full_site (mem_Cluster w)
    \<and> same_but_status (''default'', ''blog'') (mem_Cluster w)
        (mem_Cluster (snd (Reconcile mem_kube no_defaults ''default'' ''blog'' w)))"
proof -
  have key: "object_key (site_Meta full_site) = (''default'', ''blog'')"
    by (simp add: object_key_def)
  have "mem_Cluster (start_world full_site)
      = empty_cluster\<lparr>cl_Sites := [(''default'', ''blog'') \<mapsto> full_site]\<rparr>"
    by (simp add: start_world_def key)
  from full_body_runs [OF this] obtain w where
    body: "reconcile_body mem_kube no_defaults full_site (start_world full_site) = (Ok (), w)"
    and site: "cl_Sites (mem_Cluster w) (''default'', ''blog'') = Some full_site" by auto
  have "site_synced mem_kube no_defaults full_site (mem_Cluster w)"
    using body by (rule mem.body_syncs)
  moreover have "removals_done mem_kube full_site (mem_Cluster w)"
    by (simp add: removals_done_def ingress_enabled_def own_claim_def full_spec_def)
  ultimately show ?thesis
    using Reconcile_at_rest [OF mem.site_cluster_axioms site] by blast
qed

text \<open>
  C3. Progress, for any number of Sites: on an API server that answers, one pass over Sites that
  are ready ends, with no error, whatever the order, and leaves every Site of the pass
  synced at once: no Site undoes what another one asked for. A Site is ready when the
  MariaDB reference resolves, the claim size parses, the object names are not taken by
  another owner, and the server admits each object in the form the Site wants it, given
  what is stored: an invalid field, another selector or a smaller claim make it not ready.
\<close>

theorem reconcile_all_converges:
  assumes "fleet_cluster K view conflict not_found avail A" and "avail w" and "distinct keys"
    and "\<forall>k \<in> set keys. \<exists>s. cl_Sites (view w) k = Some s \<and> site_ready K A r s (view w)"
  shows "\<exists>w'. reconcile_all K r keys w = (Ok (), w')
    \<and> (\<forall>k \<in> set keys. \<forall>s. cl_Sites (view w) k = Some s \<longrightarrow> site_synced K r s (view w'))"
  using fleet_cluster.reconcile_all_syncs [OF assms(1-3)] assms(4) by blast

theorem reconcile_all_converges_witness:
  "\<exists>w'. reconcile_all mem_kube no_defaults [(''default'', ''shop''), (''default'', ''blog'')]
      two_sites_world = (Ok (), w')
    \<and> site_synced mem_kube no_defaults full_site (mem_Cluster w')
    \<and> site_synced mem_kube no_defaults shop_site (mem_Cluster w')"
proof -
  let ?keys = "[(''default'', ''shop''), (''default'', ''blog'')]"
  have sites: "cl_Sites (mem_Cluster two_sites_world) (''default'', ''shop'') = Some shop_site"
    "cl_Sites (mem_Cluster two_sites_world) (''default'', ''blog'') = Some full_site"
    by (simp_all add: two_sites_world_def)
  then have "\<forall>k \<in> set ?keys. \<exists>s. cl_Sites (mem_Cluster two_sites_world) k = Some s
      \<and> site_ready mem_kube mem_admission no_defaults s (mem_Cluster two_sites_world)"
    by (simp add: two_sites_ready)
  with reconcile_all_converges [OF mem_fleet.fleet_cluster_axioms two_sites_avail, of ?keys] sites
  show ?thesis by auto
qed

text \<open>
  C4. Confinement: whatever the API server answers, and however the reconcile ends, it keeps
  every invariant that tolerates reads, writes at the names derived from the requested
  Site's, deletion of that Site's own Ingress and claim, and that Site's status. So
  it touches no object of another Site.
\<close>

theorem Reconcile_confined:
  assumes "site_confined K I ns nm"
  shows "keeps I (Reconcile K r ns nm)"
  using assms by (rule site_confined.keeps_Reconcile)

theorem Reconcile_confined_witness:
  "keeps (\<lambda>w. untouched ''default'' ''blog'' empty_cluster (mem_Cluster w))
     (Reconcile mem_kube no_defaults ''default'' ''blog'')"
  by (rule Reconcile_confined [OF mem_confined.site_confined_axioms])

text \<open>
  C5. Credentials are stable in every execution: reconciles of any Sites with any outcome,
  crashes of the operator between two steps, edits of Sites and every other activity that
  itself leaves Secret entries alone never change or lose an entry of a Secret, so a salt
  or password that was once generated is the one in use for good.
\<close>

theorem credentials_stable:
  assumes "secret_custody K view"
    and "\<And>v v'. env v v' \<Longrightarrow> secrets_kept (cl_Secrets (view v)) (cl_Secrets (view v'))"
    and "operator_runs K r env w w'"
    and "cl_Secrets (view w) k = Some s" and "sec_Data s = Some d" and "d key = Some val"
  shows "\<exists>s' d'. cl_Secrets (view w') k = Some s' \<and> sec_Data s' = Some d' \<and> d' key = Some val"
proof -
  have "secrets_kept (cl_Secrets (view w)) (cl_Secrets (view w'))"
    using assms(1-3) by (rule secret_custody.run_keeps_secrets)
  with assms(4,5) obtain s' d' where "cl_Secrets (view w') k = Some s'" "sec_Data s' = Some d'"
      "d \<subseteq>\<^sub>m d'"
    unfolding secrets_kept_def by blast
  with assms(6) show ?thesis by (auto simp: map_le_def dom_def)
qed

theorem credentials_stable_witness:
  "\<exists>s d. cl_Secrets (mem_Cluster (snd (Reconcile mem_kube no_defaults ''default'' ''blog''
        (custody_world\<lparr>mem_Conflicts := 1\<rparr>)))) (''default'', ''blog-site-secret'') = Some s
    \<and> sec_Data s = Some d \<and> d ''AUTH_KEY'' = Some ''old''"
proof -
  let ?step = "operator_step mem_kube no_defaults sites_edited"
  let ?w = "custody_world\<lparr>mem_Conflicts := 1\<rparr>"
  have "?step custody_world ?w"
    unfolding sites_edited_def
    by (intro environment exI [of _ "cl_Sites (mem_Cluster custody_world)"] exI [of _ 1])
      (simp add: custody_world_def)
  moreover have "?step ?w (snd (Reconcile mem_kube no_defaults ''default'' ''blog'' ?w))"
    by (rule reconciled)
  ultimately have run: "?step\<^sup>*\<^sup>* custody_world (snd (Reconcile mem_kube no_defaults ''default'' ''blog'' ?w))"
    by (meson rtranclp.rtrancl_into_rtrancl rtranclp.rtrancl_refl)
  have env: "secrets_kept (cl_Secrets (mem_Cluster v)) (cl_Secrets (mem_Cluster v'))"
    if "sites_edited v v'" for v v'
    using that by (auto simp: sites_edited_def)
  have "cl_Secrets (mem_Cluster custody_world) (''default'', ''blog-site-secret'') = Some kept_secret"
    "sec_Data kept_secret = Some [''AUTH_KEY'' \<mapsto> ''old'']"
    by (simp_all add: custody_world_def kept_secret_def)
  from credentials_stable [OF mem_custody.secret_custody_axioms env run this] show ?thesis by simp
qed

text \<open>
  C6. The first step that fails ends the reconcile: the steps after it are not run, the status
  is updated with that error, and that error is what \<open>Reconcile\<close> returns, even when the
  status update fails too.
\<close>

theorem Reconcile_first_error:
  assumes "tc_Get (k_Sites K) ns n w = (Ok site, w0)"
    and "reconcile_steps K r site = before @ step # after"
    and "run_steps before w0 = (Ok (), w1)" and "step w1 = (Err e, w2)"
    and "updateSiteStatus K site (Some e) w2 = (s, w3)" and "\<forall>p. s \<noteq> Panic p"
  shows "Reconcile K r ns n w = (Err e, w3)"
proof -
  have "reconcile_body K r site w0 = (Err e, w2)"
    unfolding reconcile_body_steps assms(2) using assms(3,4) by (rule run_steps_stops) simp
  then have "with_status_update K site (reconcile_body K r site) w0 = (Err e, w3)"
    using assms(5,6) by (cases s) (simp_all add: with_status_update_def)
  with assms(1) show ?thesis by (simp add: Reconcile_def act_simps)
qed

theorem Reconcile_first_error_witness:
  "\<exists>w3. Reconcile mem_kube no_defaults ''default'' ''blog'' (start_world unref_site)
     = (Err no_mariadb_ref, w3)"
proof -
  let ?s = unref_site
  obtain w1 where secret: "reconcileSecret mem_kube (site_Meta ?s) ?s (start_world ?s) = (Ok (), w1)"
    and site: "cl_Sites (mem_Cluster w1) = [object_key (site_Meta ?s) \<mapsto> ?s]"
    using unref_secret_runs by blast
  let ?step = "reconcileDatabaseProvision mem_kube (site_Meta ?s) ?s None"
  have "?step w1 = (Err no_mariadb_ref, w1)"
    by (simp add: reconcileDatabaseProvision_def resolveMariaDBRef_def provisionEnabled_def
        unref_site_def)
  moreover obtain w3 where "updateSiteStatus mem_kube ?s (Some no_mariadb_ref) w1 = (Ok (), w3)"
    using mem_updateSiteStatus_Ok [of w1 ?s] site by auto
  moreover have "run_steps [reconcileSecret mem_kube (site_Meta ?s) ?s] (start_world ?s) = (Ok (), w1)"
    using secret by (simp add: act_simps)
  moreover have "\<exists>after. reconcile_steps mem_kube no_defaults ?s
      = [reconcileSecret mem_kube (site_Meta ?s) ?s] @ ?step # after"
    by (simp add: reconcile_steps_def no_defaults_def)
  moreover have "tc_Get (k_Sites mem_kube) ''default'' ''blog'' (start_world ?s) = (Ok ?s, start_world ?s)"
    using start_world_get [of ?s] by simp
  ultimately show ?thesis
    using Reconcile_first_error [of mem_kube "''default''" "''blog''" "start_world ?s" ?s
        "start_world ?s" no_defaults] by fast
qed

text \<open>
  C7. A \<open>spec.persistence.size\<close> that is no quantity makes the claim's callback panic, and a
  panic of the body goes on after a status update that is told of no error.
\<close>

theorem Reconcile_panic_not_reported:
  assumes "k_MustParse K (claim_size p) = Panic msg"
    and "tc_Get (k_Sites K) ns n w = (Ok site, w0)"
    and "reconcile_body K r site w0 = (Panic msg, w1)"
    and "updateSiteStatus K site None w1 = (s, w2)" and "\<forall>q. s \<noteq> Panic q"
  shows "mutate_pvc K owner site (claim_size p) cls pvc v = (Panic msg, v)
    \<and> Reconcile K r ns n w = (Panic msg, w2)"
proof
  show "mutate_pvc K owner site (claim_size p) cls pvc v = (Panic msg, v)"
    using assms(1) by (simp add: mutate_pvc_def Let_def and_then_def on_result_def)
  have "with_status_update K site (reconcile_body K r site) w0 = (Panic msg, w2)"
    using assms(3-5) by (cases s) (simp_all add: with_status_update_def)
  with assms(2) show "Reconcile K r ns n w = (Panic msg, w2)"
    by (simp add: Reconcile_def act_simps)
qed

theorem Reconcile_panic_not_reported_witness:
  "\<exists>w2. Reconcile mem_kube no_defaults ''default'' ''blog'' (start_world bad_size_site)
     = (Panic ''cannot parse lots'', w2)"
proof -
  let ?s = bad_size_site
  obtain p where p: "own_claim ?s = Some p" "claim_size p = ''lots''"
    by (simp add: own_claim_def bad_size_site_def claim_size_def)
  then have parse: "k_MustParse mem_kube (claim_size p) = Panic ''cannot parse lots''"
    by (simp add: mem_MustParse_def)
  obtain w1 where body: "reconcile_body mem_kube no_defaults ?s (start_world ?s)
      = (Panic ''cannot parse lots'', w1)"
    and site: "cl_Sites (mem_Cluster w1) = [object_key (site_Meta ?s) \<mapsto> ?s]"
    using bad_size_body_panics by blast
  obtain w2 where status: "updateSiteStatus mem_kube ?s None w1 = (Ok (), w2)"
    using mem_updateSiteStatus_Ok [of w1 ?s] site by auto
  have get: "tc_Get (k_Sites mem_kube) ''default'' ''blog'' (start_world ?s) = (Ok ?s, start_world ?s)"
    using start_world_get [of ?s] by simp
  from Reconcile_panic_not_reported [OF parse get body status] show ?thesis by blast
qed

section \<open>Status conditions\<close>

text \<open>
  C8. The status tells what happened: when the deferred update succeeds, \<open>Reconcile\<close> returns the
  outcome of its steps, and the Site in the cluster has the three conditions of the verdict
  on that outcome and on the Deployment, through however many conflicts the update had to
  be tried, and for the generation of the Site that was found. The Deployment is the one in
  the cluster, or one that an attempt could not read.
\<close>

theorem Reconcile_reports:
  assumes "reporting_cluster K view conflict not_found"
    and "object_key (site_Meta site) = (ns, n)" and "tc_Get (k_Sites K) ns n w = (Ok site, w0)"
    and "reconcile_body K r site w0 = (b, w1)" and "cl_Sites (view w1) (ns, n) = Some current"
    and "updateSiteStatus K site (reconcileErr_of b) w1 = (Ok (), w')"
  shows "Reconcile K r ns n w = (b, w')
    \<and> (\<exists>z deploy deployErr. cl_Sites (view w') (ns, n) = Some z
        \<and> deployment_read K view (view w1) (ns, n) deploy deployErr
        \<and> shows_verdict (st_Conditions (site_Status z))
            (site_verdict deploy deployErr (reconcileErr_of b)) (om_Generation (site_Meta current)))"
  using reporting_cluster.updateSiteStatus_reports [OF assms(1,6,2,5)] assms(3,4,6)
  by (simp add: reports_def Reconcile_def with_status_update_def act_simps)

theorem Reconcile_reports_witness:
  "\<exists>w' z deploy deployErr.
      Reconcile mem_kube no_defaults ''default'' ''blog'' (start_world full_site) = (Ok (), w')
    \<and> cl_Sites (mem_Cluster w') (''default'', ''blog'') = Some z
    \<and> shows_verdict (st_Conditions (site_Status z)) (site_verdict deploy deployErr None)
        (om_Generation (site_Meta full_site))"
proof -
  let ?w = "start_world full_site"
  have key: "object_key (site_Meta full_site) = (''default'', ''blog'')"
    by (simp add: object_key_def)
  have "mem_Cluster ?w = empty_cluster\<lparr>cl_Sites := [(''default'', ''blog'') \<mapsto> full_site]\<rparr>"
    by (simp add: start_world_def key)
  from full_body_runs [OF this] obtain w1 where
    body: "reconcile_body mem_kube no_defaults full_site ?w = (Ok (), w1)"
    and site: "cl_Sites (mem_Cluster w1) (''default'', ''blog'') = Some full_site" by auto
  obtain w' where
    status: "updateSiteStatus mem_kube full_site (reconcileErr_of (Ok ())) w1 = (Ok (), w')"
    using mem_updateSiteStatus_Ok [of w1 full_site None] site key by auto
  have get: "tc_Get (k_Sites mem_kube) ''default'' ''blog'' ?w = (Ok full_site, ?w)"
    using start_world_get [of full_site] by simp
  from Reconcile_reports [OF mem_reporting.reporting_cluster_axioms key get body site status]
  show ?thesis by fastforce
qed

text \<open>
  C9. One attempt of the status update re-reads the Site and the Deployment and sends the Site
  back with exactly the three conditions of the verdict on what was read, for the
  generation that was read; a Deployment that could not be read counts as missing.
\<close>

theorem status_attempt_shows_verdict:
  assumes "condition_setter (k_SetStatusCondition K)"
    and "tc_Get (k_Sites K) (site_Namespace site) (site_Name site) w = (Ok current, w1)"
    and "tc_Get (k_Deployments K) (site_Namespace current) (site_Name current) w1 = (r, w2)"
    and "r = Ok deploy \<and> deployErr = None
      \<or> r = Err e \<and> deploy = new_deployment (new_meta [] []) \<and> deployErr = Some e"
  shows "\<exists>cs w3. status_attempt K site reconcileErr w =
        k_UpdateSiteStatus K
          (current\<lparr>site_Status := (site_Status current)\<lparr>st_Conditions := cs\<rparr>\<rparr>) w3
      \<and> shows_verdict cs (site_verdict deploy deployErr reconcileErr)
          (om_Generation (site_Meta current))"
proof -
  obtain cs w3 where set: "setSiteConditions K (om_Generation (site_Meta current)) deploy deployErr
      reconcileErr (st_Conditions (site_Status current)) w2 = (cs, w3)" by fastforce
  have "status_attempt K site reconcileErr w = k_UpdateSiteStatus K
      (current\<lparr>site_Status := (site_Status current)\<lparr>st_Conditions := cs\<rparr>\<rparr>) w3"
    using assms(2-4) set by (auto simp: status_attempt_def write_status_def act_simps)
  with setSiteConditions_shows [OF assms(1) set] show ?thesis by blast
qed

theorem status_attempt_shows_verdict_witness:
  "\<exists>cs w3. status_attempt mem_kube example_site (Some no_mariadb_ref) (start_world example_site) =
      k_UpdateSiteStatus mem_kube
        (example_site\<lparr>site_Status := (site_Status example_site)\<lparr>st_Conditions := cs\<rparr>\<rparr>) w3
    \<and> shows_verdict cs (site_verdict (new_deployment (new_meta [] [])) (Some not_found_error)
        (Some no_mariadb_ref)) (om_Generation (site_Meta example_site))"
proof (rule status_attempt_shows_verdict)
  show "condition_setter (k_SetStatusCondition mem_kube)"
    by (simp add: mem_conditions.condition_setter_axioms)
  show "tc_Get (k_Deployments mem_kube) (site_Namespace example_site) (site_Name example_site)
      (start_world example_site) = (Err not_found_error, start_world example_site)"
    by (simp add: mem_get_def)
qed (use start_world_get [of example_site] in simp_all)

text \<open>
  C10. After an update, \<open>Degraded\<close> is true exactly on a reconcile error or a stalled rollout,
  \<open>Progressing\<close> and \<open>Degraded\<close> are never both true, and for a Deployment that wants
  at least one replica \<open>Available\<close> is true exactly when no error is known and a replica is
  available: a site that serves is not reported down during a rollout.
\<close>

theorem setSiteConditions_meaning:
  assumes "condition_setter (k_SetStatusCondition K)"
    and "setSiteConditions K g deploy deployErr reconcileErr cs w = (cs', w')"
  shows "(condition_true cs' conditionDegraded \<longleftrightarrow>
        reconcileErr \<noteq> None
        \<or> deployErr = None \<and> \<not> deploymentRolledOut deploy \<and> deploymentStalled deploy \<noteq> None)
    \<and> \<not> (condition_true cs' conditionProgressing \<and> condition_true cs' conditionDegraded)
    \<and> (sint (desired_replicas deploy) \<ge> 1 \<longrightarrow>
        (condition_true cs' conditionAvailable \<longleftrightarrow>
          reconcileErr = None \<and> deployErr = None
          \<and> sint (dst_AvailableReplicas (dep_Status deploy)) > 0))"
proof -
  let ?v = "site_verdict deploy deployErr reconcileErr"
  from setSiteConditions_shows [OF assms] have
    "condition_true cs' conditionAvailable = v_available ?v"
    "condition_true cs' conditionProgressing = v_progressing ?v"
    "condition_true cs' conditionDegraded = v_degraded ?v"
    by (auto simp: shows_verdict_def dest: shows_condition_true)
  then show ?thesis
    using deploymentRolledOut_serving [of deploy] by (auto simp: site_verdict_def Let_def)
qed

theorem setSiteConditions_meaning_witness:
  "\<exists>cs' w'. setSiteConditions mem_kube 1 (new_deployment (new_meta [] [])) None None []
      (start_world example_site) = (cs', w')
    \<and> \<not> condition_true cs' conditionDegraded \<and> \<not> condition_true cs' conditionAvailable"
proof -
  let ?d = "new_deployment (new_meta [] [])"
  obtain cs' w' where set: "setSiteConditions mem_kube 1 ?d None None [] (start_world example_site)
      = (cs', w')" by fastforce
  have "condition_setter (k_SetStatusCondition mem_kube)"
    by (simp add: mem_conditions.condition_setter_axioms)
  from setSiteConditions_meaning [OF this set] set show ?thesis
    by (auto simp: new_deployment_def desired_replicas_def deploymentStalled_def)
qed

text \<open>
  C11. A condition of any type whose status is the same before and after an update keeps its
  transition time, so the time says when the state was entered.
\<close>

theorem setSiteConditions_keeps_times:
  assumes "condition_setter (k_SetStatusCondition K)"
    and "setSiteConditions K g deploy deployErr reconcileErr cs w = (cs', w')"
    and "condition_of cs t = Some old" and "condition_of cs' t = Some new"
    and "cond_Status new = cond_Status old"
  shows "cond_LastTransitionTime new = cond_LastTransitionTime old"
proof (cases "t \<in> {conditionAvailable, conditionProgressing, conditionDegraded}")
  case False
  note run = assms(2) [unfolded setSiteConditions_verdict Let_def]
  from apply_conditions_other [OF assms(1) run False] assms(3,4) show ?thesis by simp
next
  case True
  let ?v = "site_verdict deploy deployErr reconcileErr"
  note run = assms(2) [unfolded setSiteConditions_verdict Let_def]
  have "(t, cond_Status old) \<in> {(conditionAvailable, conditionStatus (v_available ?v)),
      (conditionProgressing, conditionStatus (v_progressing ?v)),
      (conditionDegraded, conditionStatus (v_degraded ?v))}"
    using True setSiteConditions_shows [OF assms(1,2)] assms(4,5)
    by (auto simp: shows_verdict_def shows_condition_def)
  from apply_conditions_time [OF assms(1) run assms(3) this] assms(4) show ?thesis by simp
qed

definition old_condition :: Condition where
  "old_condition =
     \<lparr>cond_Type = conditionDegraded, cond_Status = ConditionFalse, cond_ObservedGeneration = 1,
      cond_LastTransitionTime = Some 3, cond_Reason = reasonReady, cond_Message = []\<rparr>"

theorem setSiteConditions_keeps_times_witness:
  "\<exists>cs' w' new. setSiteConditions mem_kube 2 (new_deployment (new_meta [] [])) None None
      [old_condition] (start_world example_site) = (cs', w')
    \<and> condition_of cs' conditionDegraded = Some new \<and> cond_LastTransitionTime new = Some 3"
proof -
  let ?d = "new_deployment (new_meta [] [])"
  obtain cs' w' where set: "setSiteConditions mem_kube 2 ?d None None [old_condition]
      (start_world example_site) = (cs', w')" by fastforce
  have setter: "condition_setter (k_SetStatusCondition mem_kube)"
    by (simp add: mem_conditions.condition_setter_axioms)
  have old: "condition_of [old_condition] conditionDegraded = Some old_condition"
    by (simp add: condition_of_def old_condition_def)
  have "shows_verdict cs' (site_verdict ?d None None) 2"
    using setter set by (rule setSiteConditions_shows)
  then obtain new where new: "condition_of cs' conditionDegraded = Some new"
      "cond_Status new = cond_Status old_condition"
    by (auto simp: shows_verdict_def shows_condition_def site_verdict_def Let_def
        deploymentStalled_def new_deployment_def conditionStatus_def old_condition_def)
  from setSiteConditions_keeps_times [OF setter set old new] set new(1) show ?thesis
    by (auto simp: old_condition_def)
qed

section \<open>The Site's secret\<close>

text \<open>
  C12. The Secret's callback never replaces a value that is there, and afterwards the Secret has
  exactly its former keys and the ones the Site requires: salts and passwords are generated
  once.
\<close>

theorem mutate_secret_keeps_keys:
  assumes "mutate_secret K owner site s w = (Ok y, w')"
  shows "\<exists>new. sec_Data y = Some new
    \<and> (case sec_Data s of None \<Rightarrow> Map.empty | Some d \<Rightarrow> d) \<subseteq>\<^sub>m new
    \<and> dom new = dom (case sec_Data s of None \<Rightarrow> Map.empty | Some d \<Rightarrow> d) \<union> required_keys site"
proof -
  let ?old = "case sec_Data s of None \<Rightarrow> Map.empty | Some d \<Rightarrow> d"
  from assms obtain d where "fill_secret_data K site (?old, w) = (d, w')" and y: "sec_Data y = Some d"
    unfolding mutate_secret_Ok by auto
  with fill_secret_data_le [of "(?old, w)" K site] fill_secret_data_dom [of K site "(?old, w)"]
  show ?thesis by auto
qed

theorem mutate_secret_keeps_keys_witness:
  "\<exists>y w' new. mutate_secret mem_kube (site_Meta full_site) full_site
        \<lparr>sec_Meta = new_meta ''default'' ''blog-site-secret'', sec_Data = Some [''AUTH_KEY'' \<mapsto> ''kept'']\<rparr>
        (start_world full_site) = (Ok y, w')
    \<and> sec_Data y = Some new \<and> new ''AUTH_KEY'' = Some ''kept'' \<and> ''FB_PASSWORD'' \<in> dom new"
proof -
  let ?s = "\<lparr>sec_Meta = new_meta ''default'' ''blog-site-secret'',
    sec_Data = Some [''AUTH_KEY'' \<mapsto> ''kept'']\<rparr>"
  have "\<exists>y w'. mutate_secret mem_kube (site_Meta full_site) full_site ?s (start_world full_site) = (Ok y, w')"
    by (auto simp: mutate_secret_def Let_def set_controller_reference_def
        mem_SetControllerReference_new split: prod.splits)
  then obtain y w' where run:
    "mutate_secret mem_kube (site_Meta full_site) full_site ?s (start_world full_site) = (Ok y, w')"
    by blast
  have "''FB_PASSWORD'' \<in> required_keys full_site"
    by (simp add: required_keys_def fileBrowserEnabled_def full_spec_def)
  with mutate_secret_keeps_keys [OF run] run show ?thesis
    by (fastforce simp: map_le_def)
qed

text \<open>
  C13. The keys of the Site's secret that the pod's containers read are exactly the keys the
  reconcile of the Secret generates, for every Site whose own secret references name other
  secrets: no container waits for a key that is never created.
\<close>

theorem pod_reads_required_keys:
  assumes "site_secret_name site \<notin> skr_Name ` user_secret_refs site"
  shows "site_secret_keys site (concat (map ct_Env
      (pod_InitContainers (pt_Spec (ds_Template (buildDeploymentSpec site labels (site_envs site) hash)))
       @ pod_Containers (pt_Spec (ds_Template (buildDeploymentSpec site labels (site_envs site) hash))))))
    = required_keys site"
  using buildWPEnvs_keys [OF assms] buildDatabaseEnvs_keys [OF assms]
  by (auto simp: buildDeploymentSpec_def pod_containers_def buildWPInitContainer_def
      buildPHPFPMContainer_def buildNginxContainer_def buildFileBrowserContainer_def
      site_envs_def site_secret_keys_Cons required_keys_def)

theorem pod_reads_required_keys_witness:
  "site_secret_keys full_site (concat (map ct_Env
      (pod_InitContainers (pt_Spec (ds_Template
         (buildDeploymentSpec full_site (site_labels full_site) (site_envs full_site) ''h'')))
       @ pod_Containers (pt_Spec (ds_Template
         (buildDeploymentSpec full_site (site_labels full_site) (site_envs full_site) ''h''))))))
    = set salts \<union> {''DB_PASSWORD'', ''ADMIN_PASSWORD'', ''FB_PASSWORD''}"
proof -
  have "user_secret_refs full_site = {}"
    by (simp add: user_secret_refs_def full_spec_def)
  then have "site_secret_name full_site \<notin> skr_Name ` user_secret_refs full_site" by simp
  from pod_reads_required_keys [OF this] show ?thesis
    by (simp add: required_keys_def provisionEnabled_def wants_admin_password_def
        fileBrowserEnabled_def full_spec_def dbPasswordKey_def insert_commute)
qed

text \<open>
  C14. The generated file-browser password is at most 32 characters, within bcrypt's 72; a
  generated salt or password from 64 random bytes has 88 characters, and different random
  bytes give different values.
\<close>

theorem random_keys:
  assumes "entropy (k_RandRead K)"
    and "k_RandRead K 64 w = (Some b, w1)" and "k_RandRead K 64 v = (Some c, v1)"
  shows "length (fst (randomShortKey K u)) \<le> 32 \<and> length (fst (randomKey K w)) = 88
    \<and> (fst (randomKey K w) = fst (randomKey K v) \<longleftrightarrow> b = c)"
proof -
  have len: "length b = 64" "length c = 64"
    using assms by (auto dest: entropy.rand_fills)
  then have "base64_EncodeToString b = base64_EncodeToString c \<longleftrightarrow> b = c"
    using base64_EncodeToString_inject [of b c] by auto
  with len show ?thesis
    using length_randomShortKey [OF assms(1)] randomKey_read [OF assms(2)] randomKey_read [OF assms(3)]
    by (simp add: length_base64_EncodeToString)
qed

theorem random_keys_witness:
  "\<exists>b w1. k_RandRead mem_kube 64 (start_world full_site) = (Some b, w1)
    \<and> length (fst (randomShortKey mem_kube (start_world full_site))) \<le> 32
    \<and> length (fst (randomKey mem_kube (start_world full_site))) = 88"
proof -
  obtain b w1 where read: "k_RandRead mem_kube 64 (start_world full_site) = (Some b, w1)"
    by (simp add: mem_RandRead_def)
  have "entropy (k_RandRead mem_kube)" by (simp add: mem_entropy.entropy_axioms)
  from random_keys [OF this read read] read show ?thesis by blast
qed

section \<open>Database provisioning\<close>

text \<open>
  C15. With provisioning on, WordPress and the database agree: the user name, database name
  and password key in the pod's environment are those of the \<open>User\<close>, \<open>Grant\<close> and
  \<open>Database\<close> objects, the password comes from the Site's own secret, and its key is one the
  Secret's reconcile generates.
\<close>

theorem provisioned_credentials_agree:
  assumes "provisionEnabled site"
    and "mutate_database K owner site ref db w = (Ok db', w1)"
    and "mutate_user K owner site ref user w1 = (Ok user', w2)"
    and "mutate_grant K owner site ref grant w2 = (Ok grant', w3)"
  shows "value_env ''DB_NAME'' (db_Name db') \<in> set (site_envs site)
    \<and> value_env ''DB_USER'' (usr_Name user') \<in> set (site_envs site)
    \<and> gr_Database grant' = db_Name db' \<and> gr_Username grant' = usr_Name user'
    \<and> db_MariaDBRef db' = usr_MariaDBRef user' \<and> gr_MariaDBRef grant' = usr_MariaDBRef user'
    \<and> (\<exists>sel. usr_PasswordSecretKeyRef user' = Some sel
        \<and> secret_ref_env ''DB_PASSWORD'' (sks_Name sel) (sks_Key sel) \<in> set (site_envs site)
        \<and> sks_Name sel = site_secret_name site \<and> sks_Key sel \<in> required_keys site)"
proof -
  have "db_Name db' = dbs_Name (spec_Database (site_Spec site))" "db_MariaDBRef db' = ref"
    using assms(2) by (auto simp: mutate_database_def set_controller_reference_Ok)
  moreover have "usr_Name user' = provisionedUsername site" "usr_MariaDBRef user' = ref"
    "usr_PasswordSecretKeyRef user' = Some \<lparr>sks_Name = site_secret_name site, sks_Key = dbPasswordKey\<rparr>"
    using assms(3) by (auto simp: mutate_user_def set_controller_reference_Ok site_secret_name_def)
  moreover have "gr_Database grant' = dbs_Name (spec_Database (site_Spec site))"
    "gr_Username grant' = provisionedUsername site" "gr_MariaDBRef grant' = ref"
    using assms(4) by (auto simp: mutate_grant_def set_controller_reference_Ok)
  ultimately show ?thesis
    using assms(1)
    by (simp add: site_envs_def buildDatabaseEnvs_def Let_def required_keys_def secretEnv_def
        dbUserEnv_def dbPasswordKey_def)
qed

theorem provisioned_credentials_agree_witness:
  "\<exists>(db' :: Database) (user' :: User) (grant' :: Grant) w. mutate_database mem_kube (site_Meta full_site) full_site
      (mariadb_ref \<lparr>mcr_Name = ''mariadb'', mcr_Namespace = ''db''\<rparr>) (new_database full_site) w = (Ok db', w)
    \<and> gr_Database grant' = db_Name db' \<and> gr_Username grant' = usr_Name user'
    \<and> value_env ''DB_USER'' (usr_Name user') \<in> set (site_envs full_site)"
proof -
  let ?o = "site_Meta full_site" and ?w = "start_world full_site"
  let ?ref = "mariadb_ref \<lparr>mcr_Name = ''mariadb'', mcr_Namespace = ''db''\<rparr>"
  have on: "provisionEnabled full_site" by (simp add: provisionEnabled_def full_spec_def)
  obtain db' where 1: "mutate_database mem_kube ?o full_site ?ref (new_database full_site) ?w = (Ok db', ?w)"
    using mem_new_callbacks(1) [of ?o full_site ?ref] by blast
  obtain user' where 2: "mutate_user mem_kube ?o full_site ?ref (new_user full_site) ?w = (Ok user', ?w)"
    using mem_new_callbacks(2) [of ?o full_site ?ref] by blast
  obtain grant' where 3: "mutate_grant mem_kube ?o full_site ?ref (new_grant full_site) ?w = (Ok grant', ?w)"
    using mem_new_callbacks(3) [of ?o full_site ?ref] by blast
  from provisioned_credentials_agree [OF on 1 2 3] 1 show ?thesis
    by (elim conjE) (intro exI conjI; assumption)
qed

text \<open>The three writes of a provisioning Site.\<close>

abbreviation write_database ::
  "'w kube \<Rightarrow> ObjectMeta \<Rightarrow> Site \<Rightarrow> MariaDBClusterRef \<Rightarrow> ('w, unit) act" where
  "write_database K owner site ref \<equiv> k_RetryOnConflict K (tc_CreateOrUpdate (k_Databases K)
     (new_database site) (mutate_database K owner site (mariadb_ref ref)))"

abbreviation write_user ::
  "'w kube \<Rightarrow> ObjectMeta \<Rightarrow> Site \<Rightarrow> MariaDBClusterRef \<Rightarrow> ('w, unit) act" where
  "write_user K owner site ref \<equiv> k_RetryOnConflict K (tc_CreateOrUpdate (k_Users K)
     (new_user site) (mutate_user K owner site (mariadb_ref ref)))"

abbreviation write_grant ::
  "'w kube \<Rightarrow> ObjectMeta \<Rightarrow> Site \<Rightarrow> MariaDBClusterRef \<Rightarrow> ('w, unit) act" where
  "write_grant K owner site ref \<equiv> k_RetryOnConflict K (tc_CreateOrUpdate (k_Grants K)
     (new_grant site) (mutate_grant K owner site (mariadb_ref ref)))"

text \<open>
  C16. The errors of provisioning: none when it is off; the missing cluster reference, before
  anything is written; or the error of the first of the three objects that could not be
  written, wrapped with the name of its kind: the objects before it have been written, and
  those after it are not tried.
\<close>

theorem reconcileDatabaseProvision_errors:
  assumes "reconcileDatabaseProvision K owner site d w = (Err e, w')"
  shows "provisionEnabled site
    \<and> (e = no_mariadb_ref \<and> w' = w \<and> resolveMariaDBRef site d = Err no_mariadb_ref
       \<or> (\<exists>ref e'. resolveMariaDBRef site d = Ok ref
            \<and> (write_database K owner site ref w = (Err e', w')
                 \<and> e = WrapError ''reconciling mariadb Database'' e'
               \<or> (\<exists>w1. write_database K owner site ref w = (Ok (), w1)
                 \<and> (write_user K owner site ref w1 = (Err e', w')
                      \<and> e = WrapError ''reconciling mariadb User'' e'
                    \<or> (\<exists>w2. write_user K owner site ref w1 = (Ok (), w2)
                      \<and> write_grant K owner site ref w2 = (Err e', w')
                      \<and> e = WrapError ''reconciling mariadb Grant'' e'))))))"
proof -
  have on: "provisionEnabled site"
    using assms by (auto simp: reconcileDatabaseProvision_def split: if_splits)
  show ?thesis
  proof (cases "resolveMariaDBRef site d")
    case (Ok ref)
    with assms on show ?thesis
      by (simp add: reconcileDatabaseProvision_def Let_def and_then_eq_Err_iff
          wrap_error_eq_Err_iff wrap_error_eq_Ok_iff) blast
  next
    case (Err err)
    then have "err = no_mariadb_ref"
      by (auto simp: resolveMariaDBRef_def split: option.splits if_splits)
    with Err assms on show ?thesis by (simp add: reconcileDatabaseProvision_def)
  next
    case (Panic p)
    with on show ?thesis
      by (auto simp: resolveMariaDBRef_def provisionEnabled_iff split: option.splits if_splits)
  qed
qed

theorem reconcileDatabaseProvision_errors_witness:
  "\<exists>e w. reconcileDatabaseProvision mem_kube (site_Meta unref_site) unref_site None
      (start_world unref_site) = (Err e, w) \<and> e = no_mariadb_ref \<and> w = start_world unref_site"
proof -
  have run: "reconcileDatabaseProvision mem_kube (site_Meta unref_site) unref_site None
      (start_world unref_site) = (Err no_mariadb_ref, start_world unref_site)"
    by (simp add: reconcileDatabaseProvision_def resolveMariaDBRef_def provisionEnabled_def
        unref_site_def)
  from reconcileDatabaseProvision_errors [OF run] run show ?thesis by blast
qed

section \<open>The claim and the Ingress\<close>

text \<open>
  C19. The callback of a claim that exists leaves its access modes and storage class alone,
  which the API server would refuse to change, and of its requests writes the storage
  size only; a new claim gets \<open>ReadWriteOnce\<close> and the chosen class.
\<close>

theorem mutate_pvc_respects_immutable_fields:
  assumes "mutate_pvc K owner site sz cls pvc w = (Ok y, w')"
  shows "(om_CreationTimestamp (pvc_Meta pvc) \<noteq> None \<longrightarrow>
        pvc_AccessModes y = pvc_AccessModes pvc \<and> pvc_StorageClassName y = pvc_StorageClassName pvc)
    \<and> (om_CreationTimestamp (pvc_Meta pvc) = None \<longrightarrow>
        pvc_AccessModes y = [''ReadWriteOnce'']
        \<and> pvc_StorageClassName y = (if cls = None then pvc_StorageClassName pvc else cls))
    \<and> (\<exists>q requests. k_MustParse K sz = Ok q \<and> pvc_Requests y = Some requests
        \<and> requests ''storage'' = Some q
        \<and> (\<forall>res. res \<noteq> ''storage'' \<longrightarrow> requests res = Option.bind (pvc_Requests pvc) (\<lambda>m. m res)))"
  using assms unfolding mutate_pvc_Ok by (cases "pvc_Requests pvc") auto

theorem mutate_pvc_respects_immutable_fields_witness:
  "\<exists>y w. mutate_pvc mem_kube (site_Meta full_site) full_site ''5Gi'' (Some ''fast'')
        \<lparr>pvc_Meta = (new_meta ''default'' ''blog-data'')\<lparr>om_CreationTimestamp := Some 1\<rparr>,
         pvc_AccessModes = [''ReadWriteMany''], pvc_Requests = None, pvc_StorageClassName = Some ''slow''\<rparr>
        (start_world full_site) = (Ok y, w)
    \<and> pvc_AccessModes y = [''ReadWriteMany''] \<and> pvc_StorageClassName y = Some ''slow''"
proof -
  let ?pvc = "\<lparr>pvc_Meta = (new_meta ''default'' ''blog-data'')\<lparr>om_CreationTimestamp := Some 1\<rparr>,
    pvc_AccessModes = [''ReadWriteMany''], pvc_Requests = None, pvc_StorageClassName = Some ''slow''\<rparr>"
  have "\<exists>y w. mutate_pvc mem_kube (site_Meta full_site) full_site ''5Gi'' (Some ''fast'') ?pvc
      (start_world full_site) = (Ok y, w)"
    unfolding mutate_pvc_Ok by (auto simp: mem_MustParse_def mem_SetControllerReference_new)
  then obtain y w where run: "mutate_pvc mem_kube (site_Meta full_site) full_site ''5Gi'' (Some ''fast'')
      ?pvc (start_world full_site) = (Ok y, w)" by blast
  from mutate_pvc_respects_immutable_fields [OF run] run show ?thesis by auto
qed

text \<open>
  C20. A claim or an Ingress of the expected name that the Site does not control is looked at
  and left alone when the Site asks for none: no delete call is made.
\<close>

theorem foreign_objects_survive:
  assumes "own_claim site = None" and "ingress_enabled site = None"
    and "tc_Get (k_PVCs K) (site_Namespace site) (pvc_name site) w = (Ok pvc, w1)"
    and "\<not> k_IsControlledBy K (pvc_Meta pvc) owner"
    and "tc_Get (k_Ingresses K) (site_Namespace site) (site_Name site @ ''-ingress'') v = (Ok ing, v1)"
    and "\<not> k_IsControlledBy K (ingr_Meta ing) owner"
  shows "reconcilePVC K owner site cls w = (Ok (), w1)
    \<and> reconcileIngress K owner site labels v = (Ok (), v1)"
  using assms
  by (simp add: reconcilePVC_def deleteOwnedPVC_def reconcileIngress_def delete_if_controlled_def
      act_simps)

theorem foreign_objects_survive_witness:
  "\<exists>w. cl_PVCs (mem_Cluster w) (''default'', ''blog-data'') \<noteq> None
    \<and> reconcilePVC mem_kube (site_Meta example_site) example_site [] w = (Ok (), w)"
proof -
  let ?pvc = "new_pvc example_site" and ?ing = "new_ingress example_site"
  let ?w = "(start_world example_site)\<lparr>mem_Cluster := empty_cluster\<lparr>
    cl_PVCs := [(''default'', ''blog-data'') \<mapsto> ?pvc],
    cl_Ingresses := [(''default'', ''blog-ingress'') \<mapsto> ?ing]\<rparr>\<rparr>"
  have unwanted: "own_claim example_site = None" "ingress_enabled example_site = None"
    by (simp_all add: own_claim_def ingress_enabled_def example_spec_def)
  have pvc: "tc_Get (k_PVCs mem_kube) (site_Namespace example_site) (pvc_name example_site) ?w
      = (Ok ?pvc, ?w)"
    by (simp add: mem_get_def pvc_name_def new_pvc_def)
  have ing: "tc_Get (k_Ingresses mem_kube) (site_Namespace example_site)
      (site_Name example_site @ ''-ingress'') ?w = (Ok ?ing, ?w)"
    by (simp add: mem_get_def new_ingress_def)
  have foreign: "\<not> k_IsControlledBy mem_kube (pvc_Meta ?pvc) (site_Meta example_site)"
    "\<not> k_IsControlledBy mem_kube (ingr_Meta ?ing) (site_Meta example_site)"
    by (simp_all add: mem_IsControlledBy_def mem_controller_def new_pvc_def new_ingress_def)
  have "reconcilePVC mem_kube (site_Meta example_site) example_site [] ?w = (Ok (), ?w)"
    using foreign_objects_survive [OF unwanted pvc foreign(1) ing foreign(2)] by blast
  moreover have "cl_PVCs (mem_Cluster ?w) (''default'', ''blog-data'') \<noteq> None" by simp
  ultimately show ?thesis by blast
qed

text \<open>
  C21. The Ingress callback's result in every field it writes: owned by the Site, with its
  labels and annotations; one rule, for the Site's domain, with \<open>spec.ingress.path\<close> to port
  80 of the Site's Service and, when the file browser is on, \<open>/filebrowser\<close> to its port
  8080; TLS for the domain with the secret \<open><name>-tls\<close> exactly when asked for; and the
  class of the Site when it names one. A Site that names none keeps whatever class the
  object had, so clearing the field does not clear the class.
\<close>

theorem mutate_ingress_content:
  assumes "owner_references (k_SetControllerReference K) (k_IsControlledBy K)"
    and "mutate_ingress K owner site spec labels ing w = (Ok y, w')"
  shows "k_IsControlledBy K (ingr_Meta y) owner
    \<and> om_Labels (ingr_Meta y) = labels \<and> om_Annotations (ingr_Meta y) = isp_Annotations spec
    \<and> ingr_Rules y = [\<lparr>rule_Host = spec_Domain (site_Spec site), rule_Paths =
        [\<lparr>path_Path = isp_Path spec, path_PathType = Some ''Prefix'',
          path_BackendService = site_Name site, path_BackendPort = 80\<rparr>]
        @ (if fileBrowserEnabled site
           then [\<lparr>path_Path = ''/filebrowser'', path_PathType = Some ''Prefix'',
                  path_BackendService = site_Name site, path_BackendPort = 8080\<rparr>]
           else [])\<rparr>]
    \<and> ingr_TLS y = (if isp_TLS spec = Some True
        then [\<lparr>tls_Hosts = [spec_Domain (site_Spec site)], tls_SecretName = site_Name site @ ''-tls''\<rparr>]
        else [])
    \<and> ingr_IngressClassName y
        = (if isp_IngressClassName spec = [] then ingr_IngressClassName ing
           else Some (isp_IngressClassName spec))"
proof -
  let ?m = "(ingr_Meta ing)\<lparr>om_Labels := labels, om_Annotations := isp_Annotations spec\<rparr>"
  from assms(2) obtain m where m: "k_SetControllerReference K owner ?m = Ok m"
    and y: "ingr_Meta y = m" "ingr_TLS y = ingress_tls site spec"
      "ingr_Rules y = [\<lparr>rule_Host = spec_Domain (site_Spec site), rule_Paths = ingress_paths site spec\<rparr>]"
      "ingr_IngressClassName y = (if isp_IngressClassName spec \<noteq> [] then Some (isp_IngressClassName spec)
         else ingr_IngressClassName ing)"
    by (auto simp: mutate_ingress_def set_controller_reference_Ok simp del: not_None_eq)
  note refs = owner_references.set_ref_controls [OF assms(1) m]
    owner_references.set_ref_labels [OF assms(1) m]
    owner_references.set_ref_annotations [OF assms(1) m]
  have "ingress_tls site spec = (if isp_TLS spec = Some True
      then [\<lparr>tls_Hosts = [spec_Domain (site_Spec site)], tls_SecretName = site_Name site @ ''-tls''\<rparr>]
      else [])"
    by (simp add: ingress_tls_def split: option.splits)
  with y refs show ?thesis by (simp add: ingress_paths_def ptrPathType_def)
qed

theorem mutate_ingress_content_witness:
  "\<exists>(y :: Ingress) w. mutate_ingress mem_kube (site_Meta full_site) full_site
        \<lparr>isp_Enabled = True, isp_Path = ''/'', isp_TLS = None, isp_Annotations = Map.empty,
         isp_IngressClassName = []\<rparr> (site_labels full_site)
        ((new_ingress full_site)\<lparr>ingr_IngressClassName := Some ''nginx''\<rparr>) (start_world full_site)
      = (Ok y, w)
    \<and> ingr_IngressClassName y = Some ''nginx''"
proof -
  let ?spec = "\<lparr>isp_Enabled = True, isp_Path = ''/'', isp_TLS = None, isp_Annotations = Map.empty,
    isp_IngressClassName = []\<rparr>"
  let ?ing = "(new_ingress full_site)\<lparr>ingr_IngressClassName := Some ''nginx''\<rparr>"
  have refs: "owner_references (k_SetControllerReference mem_kube) (k_IsControlledBy mem_kube)"
    by (simp add: mem_refs.owner_references_axioms)
  obtain y w where run: "mutate_ingress mem_kube (site_Meta full_site) full_site ?spec
      (site_labels full_site) ?ing (start_world full_site) = (Ok y, w)"
    by (auto simp: mutate_ingress_def set_controller_reference_def new_ingress_def
        mem_SetControllerReference_new)
  from mutate_ingress_content [OF refs run] have "ingr_IngressClassName y = Some ''nginx''" by simp
  with run show ?thesis by blast
qed

section \<open>The pod and its wiring\<close>

abbreviation site_pod :: "Site \<Rightarrow> (string \<rightharpoonup> string) \<Rightarrow> EnvVar list \<Rightarrow> string \<Rightarrow> PodSpec" where
  "site_pod site labels envs hash \<equiv>
     pt_Spec (ds_Template (buildDeploymentSpec site labels envs hash))"

abbreviation all_containers :: "PodSpec \<Rightarrow> Container list" where
  "all_containers pod \<equiv> pod_InitContainers pod @ pod_Containers pod"

text \<open>
  C22. The pod is well formed: volume names and container names are distinct, every mount of
  every container names a volume of the pod, no container mounts two things at one path,
  and every container sees the site's files at the same place.
\<close>

theorem pod_well_formed:
  "distinct (map vol_Name (pod_Volumes (site_pod site labels envs hash)))
   \<and> distinct (map ct_Name (all_containers (site_pod site labels envs hash)))
   \<and> vm_Name ` set (concat (map ct_VolumeMounts (all_containers (site_pod site labels envs hash))))
        \<subseteq> vol_Name ` set (pod_Volumes (site_pod site labels envs hash))
   \<and> list_all (\<lambda>c. distinct (map vm_MountPath (ct_VolumeMounts c))
        \<and> mount siteDataVolume siteRoot [] \<in> set (ct_VolumeMounts c))
      (all_containers (site_pod site labels envs hash))"
  by (auto simp: buildDeploymentSpec_def pod_volumes_def pod_containers_def buildWPInitContainer_def
      buildPHPFPMContainer_def buildNginxContainer_def buildFileBrowserContainer_def
      buildSiteDataVolume_def siteDataVolume_def siteRoot_def mount_def Let_def split: option.splits)

text \<open>
  C23. Requests reach the pods: the Service selects the labels the Deployment puts on its pods,
  and selects them by; every target port of the Service is a port of a container, and every
  backend of the Ingress is the Service at one of its ports.
\<close>

theorem traffic_reaches_pods:
  assumes "mutate_deployment K owner site labels envs hash d w = (Ok deploy, w1)"
    and "mutate_service K owner site labels s w1 = (Ok svc, w2)"
    and "mutate_ingress K owner site spec labels i w2 = (Ok ing, w3)"
  shows "ds_Selector (dep_Spec deploy) = Some (svc_Selector svc)
    \<and> pt_Labels (ds_Template (dep_Spec deploy)) = svc_Selector svc
    \<and> sp_TargetPort ` set (svc_Ports svc)
        \<subseteq> set (concat (map ct_Ports (pod_Containers (pt_Spec (ds_Template (dep_Spec deploy))))))
    \<and> (\<lambda>p. (path_BackendService p, path_BackendPort p))
          ` set (concat (map rule_Paths (ingr_Rules ing)))
        \<subseteq> (\<lambda>p. (om_Name (svc_Meta (new_service site)), sp_Port p)) ` set (svc_Ports svc)"
proof -
  have "dep_Spec deploy = buildDeploymentSpec site labels envs hash"
    using assms(1) by (auto simp: mutate_deployment_def set_controller_reference_Ok)
  moreover have "svc_Selector svc = labels" "svc_Ports svc = service_ports site"
    using assms(2) by (auto simp: mutate_service_def set_controller_reference_Ok)
  moreover have "ingr_Rules ing
      = [\<lparr>rule_Host = spec_Domain (site_Spec site), rule_Paths = ingress_paths site spec\<rparr>]"
    using assms(3) by (auto simp: mutate_ingress_def set_controller_reference_Ok simp del: not_None_eq)
  ultimately show ?thesis
    by (simp add: buildDeploymentSpec_def service_ports_def ingress_paths_def pod_containers_def
        buildPHPFPMContainer_def buildNginxContainer_def buildFileBrowserContainer_def new_service_def)
qed

theorem traffic_reaches_pods_witness:
  "\<exists>(deploy :: Deployment) (svc :: Service).
     ds_Selector (dep_Spec deploy) = Some (svc_Selector svc)
     \<and> mutate_service mem_kube (site_Meta full_site) full_site (site_labels full_site)
         (new_service full_site) (start_world full_site) = (Ok svc, start_world full_site)"
proof -
  let ?o = "site_Meta full_site" and ?l = "site_labels full_site" and ?w = "start_world full_site"
  obtain deploy where 1: "mutate_deployment mem_kube ?o full_site ?l (site_envs full_site) ''h''
      (new_deployment (new_meta ''default'' ''blog'')) ?w = (Ok deploy, ?w)"
    using mem_new_callbacks(5) [of ?o full_site ?l] by blast
  obtain svc where 2: "mutate_service mem_kube ?o full_site ?l (new_service full_site) ?w = (Ok svc, ?w)"
    using mem_new_callbacks(6) [of ?o full_site ?l] by blast
  obtain spec where "ingress_enabled full_site = Some spec"
    by (auto simp: ingress_enabled_def full_spec_def)
  obtain ing where 3: "mutate_ingress mem_kube ?o full_site spec ?l (new_ingress full_site) ?w = (Ok ing, ?w)"
    using mem_new_callbacks(7) [of ?o full_site spec ?l] by blast
  from traffic_reaches_pods [OF 1 2 3] 2 show ?thesis by blast
qed

text \<open>
  C24. The pod mounts the claim that is reconciled: the operator's own when it creates one, the
  named one when the Site brings its own, and an empty directory when persistence is off,
  which is exactly when the operator removes its claim or leaves the user's alone.
\<close>

theorem mounted_claim:
  "vol_Source (buildSiteDataVolume site) =
    (case own_claim site of
       Some p \<Rightarrow> PersistentVolumeClaimVolume (om_Name (pvc_Meta (new_pvc site)))
     | None \<Rightarrow>
         (case spec_Persistence (site_Spec site) of
            Some p \<Rightarrow> if per_Enabled p then PersistentVolumeClaimVolume (per_ExistingClaim p) else EmptyDir
          | None \<Rightarrow> EmptyDir))"
  by (simp add: buildSiteDataVolume_def own_claim_def new_pvc_def pvc_name_def Let_def
      split: option.splits)

text \<open>
  What a container finds in a file: the mount at that path, the pod's volume of that name,
  and, if it is a ConfigMap, what the cluster's object of that name holds at the sub-path.
\<close>

definition mounted_file ::
  "(object_key \<rightharpoonup> ConfigMap) \<Rightarrow> string \<Rightarrow> PodSpec \<Rightarrow> string \<Rightarrow> string \<Rightarrow> string option" where
  "mounted_file cms ns pod container path =
     Option.bind (find (\<lambda>c. ct_Name c = container) (all_containers pod)) (\<lambda>c.
     Option.bind (find (\<lambda>m. vm_MountPath m = path) (ct_VolumeMounts c)) (\<lambda>m.
     Option.bind (find (\<lambda>v. vol_Name v = vm_Name m) (pod_Volumes pod)) (\<lambda>v.
     case vol_Source v of
       ConfigMapVolume n \<Rightarrow> Option.bind (cms (ns, n)) (\<lambda>cm. cm_Data cm (vm_SubPath m))
     | _ \<Rightarrow> None)))"

text \<open>
  C25. After \<open>reconcileDeployment\<close> has succeeded, the containers of the Deployment in the cluster
  find the rendered configuration in their files, through mount, volume and the ConfigMap
  in the cluster: nginx its server block in \<open>/etc/nginx/conf.d/default.conf\<close>, php-fpm the
  Site's settings in \<open>/usr/local/etc/php/conf.d/zz-site-operator.ini\<close>.
\<close>

theorem mounted_configuration:
  assumes "site_cluster K view conflict not_found"
    and "reconcileDeployment K (site_Meta site) site (site_labels site) (site_envs site) w = (Ok (), w')"
  shows "\<exists>d. cl_Deployments (view w') (site_Namespace site, site_Name site) = Some d
    \<and> mounted_file (cl_ConfigMaps (view w')) (site_Namespace site) (pt_Spec (ds_Template (dep_Spec d)))
        ''nginx'' ''/etc/nginx/conf.d/default.conf'' = Some (buildNginxConfigContent site)
    \<and> mounted_file (cl_ConfigMaps (view w')) (site_Namespace site) (pt_Spec (ds_Template (dep_Spec d)))
        ''php-fpm'' ''/usr/local/etc/php/conf.d/zz-site-operator.ini'' = Some (buildPHPIniContent site)"
proof -
  from site_cluster.deployment_step [OF assms]
  obtain d n p where stored:
      "cl_Deployments (view w') (site_Namespace site, site_Name site) = Some d"
      "cl_ConfigMaps (view w') (site_Namespace site, site_Name site @ ''-nginx'') = Some n"
      "cl_ConfigMaps (view w') (site_Namespace site, site_Name site @ ''-php'') = Some p"
    and "dep_Spec d = buildDeploymentSpec site (site_labels site) (site_envs site) (site_config_hash site)"
      "cm_Data n ''default.conf'' = Some (buildNginxConfigContent site)"
      "cm_Data p phpIniFileName = Some (buildPHPIniContent site)"
    by (auto simp: config_synced_def deployment_synced_def synced_def settled_def Let_def
        deployment_conforms_def configmap_conforms_def nginx_configmap_name_def php_configmap_name_def)
  then show ?thesis
    by (simp add: mounted_file_def buildDeploymentSpec_def pod_containers_def pod_volumes_def
        buildWPInitContainer_def buildPHPFPMContainer_def buildNginxContainer_def mount_def
        siteDataVolume_def siteRoot_def buildSiteDataVolume_name phpIniFileName_def)
qed

theorem mounted_configuration_witness:
  "\<exists>w' d. reconcileDeployment mem_kube (site_Meta full_site) full_site (site_labels full_site)
      (site_envs full_site) (start_world full_site) = (Ok (), w')
    \<and> cl_Deployments (mem_Cluster w') (''default'', ''blog'') = Some d
    \<and> mounted_file (cl_ConfigMaps (mem_Cluster w')) ''default'' (pt_Spec (ds_Template (dep_Spec d)))
        ''nginx'' ''/etc/nginx/conf.d/default.conf'' = Some (buildNginxConfigContent full_site)"
proof -
  obtain w' where run: "reconcileDeployment mem_kube (site_Meta full_site) full_site
      (site_labels full_site) (site_envs full_site) (start_world full_site) = (Ok (), w')"
    using mem_pods_created [of "start_world full_site" full_site]
    by (fastforce simp: start_world_def empty_cluster_def)
  from mounted_configuration [OF mem.site_cluster_axioms run] run show ?thesis by auto
qed

text \<open>
  C27. The containers' programs find their environment: for a Site that passes validation, every
  variable that the generated \<open>wp-config.php\<close> and the database probe ask for, that the init
  container reads, and that the file browser's program reads is set on its container.
\<close>

theorem scripts_find_variables:
  assumes "spec_valid (site_Spec site)"
  shows "set (getenv_args php_fpm_script) \<subseteq> ev_Name ` set (ct_Env (buildPHPFPMContainer site (site_envs site)))
    \<and> set (script_vars wp_init_script) \<subseteq> ev_Name ` set (ct_Env (buildWPInitContainer site))
    \<and> set (script_vars filebrowser_script) \<subseteq> ev_Name ` set (ct_Env (buildFileBrowserContainer site))"
proof (intro conjI)
  have "set (getenv_args php_fpm_script) \<subseteq> set (map ev_Name (buildWPEnvs site))
      \<union> set (map ev_Name (buildDatabaseEnvs site))"
    unfolding php_fpm_getenv buildWPEnvs_names buildDatabaseEnvs_names_valid [OF assms] wp_names_def
    by simp
  then show "set (getenv_args php_fpm_script)
      \<subseteq> ev_Name ` set (ct_Env (buildPHPFPMContainer site (site_envs site)))"
    by (simp add: buildPHPFPMContainer_def site_envs_def image_Un)
  show "set (script_vars wp_init_script) \<subseteq> ev_Name ` set (ct_Env (buildWPInitContainer site))"
    by (simp add: wp_init_vars buildWPInitContainer_def)
  show "set (script_vars filebrowser_script) \<subseteq> ev_Name ` set (ct_Env (buildFileBrowserContainer site))"
    by (simp add: filebrowser_vars buildFileBrowserContainer_def)
qed

theorem scripts_find_variables_witness:
  "''DB_PASSWORD'' \<in> ev_Name ` set (ct_Env (buildPHPFPMContainer example_site (site_envs example_site)))"
proof -
  have "spec_valid (site_Spec example_site)"
    by (simp add: spec_valid_def has_def example_spec_def)
  from scripts_find_variables [OF this] show ?thesis
    unfolding php_fpm_getenv by blast
qed

text \<open>
  C28. The password of an automated install: one that the Site gives reaches the install command's
  variable; one that the operator generates is exported under the name of its key, which no
  part of the php-fpm program reads, and the variable the command reads stays unset.
\<close>

theorem admin_password_delivery:
  assumes "spec_Wordpress (site_Spec site) = Some wp" and "wp_Install wp = Some install"
  shows "''WP_ADMIN_PASSWORD'' \<in> set (script_vars php_fpm_script)
    \<and> ''ADMIN_PASSWORD'' \<notin> set (script_vars php_fpm_script) \<union> set (getenv_args php_fpm_script)
    \<and> (''WP_ADMIN_PASSWORD'' \<in> ev_Name ` set (site_envs site) \<longleftrightarrow> \<not> wants_admin_password site)
    \<and> (''ADMIN_PASSWORD'' \<in> ev_Name ` set (site_envs site) \<longleftrightarrow> wants_admin_password site)"
proof -
  have wants: "wants_admin_password site = generated_admin_password install"
    using assms by (simp add: wants_admin_password_def generated_admin_password_def)
  have names: "ev_Name ` set (site_envs site) = set wp_names
      \<union> set (map ev_Name (installEnvs site install)) \<union> set (map ev_Name (buildDatabaseEnvs site))"
    using assms buildWPEnvs_names [of site]
    by (simp add: site_envs_def image_Un flip: set_map)
  have "''WP_ADMIN_PASSWORD'' \<notin> set (map ev_Name (buildDatabaseEnvs site))"
    "''ADMIN_PASSWORD'' \<notin> set (map ev_Name (buildDatabaseEnvs site))"
    using buildDatabaseEnvs_names_subset [of site] by auto
  then show ?thesis
    unfolding names wants php_fpm_vars php_fpm_getenv installEnvs_names wp_names_def
    by simp
qed

theorem admin_password_delivery_witness:
  "''WP_ADMIN_PASSWORD'' \<notin> ev_Name ` set (site_envs full_site)"
proof -
  obtain wp install where "spec_Wordpress (site_Spec full_site) = Some wp" "wp_Install wp = Some install"
    and "wants_admin_password full_site"
    by (simp add: full_spec_def wants_admin_password_def)
  with admin_password_delivery show ?thesis by blast
qed

section \<open>HTTPS\<close>

text \<open>
  C30. \<open>spec.ingress.tls\<close> decides everywhere: unless the Site's own nginx configuration says so,
  PHP is told of HTTPS exactly when the flag is set, which is exactly when WordPress's home
  URL is \<open>https\<close>, and the Ingress that the operator keeps for the Site terminates TLS exactly
  then. The flag counts on a disabled Ingress too, for which the operator keeps no object:
  PHP is then told of a TLS that ends elsewhere.
\<close>

theorem https_consistent:
  assumes "\<not> Contains (nginx_extra site) ''fastcgi_param HTTPS on;''"
  shows "(Contains (buildNginxConfigContent site) ''fastcgi_param HTTPS on;'' \<longleftrightarrow>
        (\<exists>i. spec_Ingress (site_Spec site) = Some i \<and> isp_TLS i = Some True))
    \<and> (site_scheme site = ''https'' \<longleftrightarrow>
        Contains (buildNginxConfigContent site) ''fastcgi_param HTTPS on;'')
    \<and> (ingress_enabled site = Some spec
          \<and> mutate_ingress K owner site spec labels ing w = (Ok y, w') \<longrightarrow>
        (ingr_TLS y \<noteq> [] \<longleftrightarrow> Contains (buildNginxConfigContent site) ''fastcgi_param HTTPS on;''))
    \<and> (ingress_enabled site = None \<longrightarrow>
        (Contains (buildNginxConfigContent site) ''fastcgi_param HTTPS on;'' \<longleftrightarrow>
          (\<exists>i. spec_Ingress (site_Spec site) = Some i \<and> isp_TLS i = Some True \<and> \<not> isp_Enabled i)))"
proof -
  have flag: "tls_enabled site \<longleftrightarrow> (\<exists>i. spec_Ingress (site_Spec site) = Some i \<and> isp_TLS i = Some True)"
    by (auto simp: tls_enabled_def boolPtrVal_def split: option.splits)
  have "ingr_TLS y \<noteq> [] \<longleftrightarrow> tls_enabled site"
    if "ingress_enabled site = Some spec" "mutate_ingress K owner site spec labels ing w = (Ok y, w')"
  proof -
    have "spec_Ingress (site_Spec site) = Some spec"
      using that(1) by (simp add: ingress_enabled_def split: option.splits if_splits)
    moreover have "ingr_TLS y = ingress_tls site spec"
      using that(2) by (auto simp: mutate_ingress_def set_controller_reference_Ok simp del: not_None_eq)
    ultimately show ?thesis
      by (simp add: tls_enabled_def ingress_tls_def boolPtrVal_def split: option.splits)
  qed
  moreover have "tls_enabled site \<longleftrightarrow>
      (\<exists>i. spec_Ingress (site_Spec site) = Some i \<and> isp_TLS i = Some True \<and> \<not> isp_Enabled i)"
    if "ingress_enabled site = None"
    using that flag by (auto simp: ingress_enabled_def split: option.splits if_splits)
  ultimately show ?thesis
    unfolding nginx_tells_https [OF assms] site_scheme_https flag [symmetric] by blast
qed

theorem https_consistent_witness:
  "\<exists>spec (y :: Ingress) w. ingress_enabled full_site = Some spec
    \<and> mutate_ingress mem_kube (site_Meta full_site) full_site spec (site_labels full_site)
        (new_ingress full_site) (start_world full_site) = (Ok y, w)
    \<and> ingr_TLS y \<noteq> [] \<and> Contains (buildNginxConfigContent full_site) ''fastcgi_param HTTPS on;''"
proof -
  obtain spec where spec: "ingress_enabled full_site = Some spec"
    by (auto simp: ingress_enabled_def full_spec_def)
  obtain y w where run: "mutate_ingress mem_kube (site_Meta full_site) full_site spec
      (site_labels full_site) (new_ingress full_site) (start_world full_site) = (Ok y, w)"
    using mem_new_callbacks(7) [of "site_Meta full_site" full_site spec "site_labels full_site"] by blast
  have flag: "\<exists>i. spec_Ingress (site_Spec full_site) = Some i \<and> isp_TLS i = Some True"
    by (simp add: full_spec_def)
  have "\<not> Contains (nginx_extra full_site) ''fastcgi_param HTTPS on;''"
    by (simp add: nginx_extra_def full_spec_def)
  from https_consistent [OF this, of spec mem_kube "site_Meta full_site" "site_labels full_site"
      "new_ingress full_site" "start_world full_site" y w] flag spec run
  show ?thesis by blast
qed

end
